(* ===== verification/LS_Prelude.thy ===== *)
theory LS_Prelude
  imports Main "HOL-Library.Word"
begin

text \<open>
  Shared types, automation collections and generic lemmas of the development.

  Rust's \<open>String\<close> is a sequence of UTF-8 bytes, modelled as HOL's \<open>string\<close> (a list of 256
  characters, one per byte); \<open>Vec<u8>\<close> and \<open>Bytes\<close> are lists of 8-bit words. The functions
  \<open>as_bytes\<close> and \<open>of_bytes\<close> go between the two.
\<close>

section \<open>Machine integers, bytes and strings\<close>

type_synonym byte = "8 word"
type_synonym u8 = "8 word"
type_synonym u16 = "16 word"
type_synonym u32 = "32 word"
type_synonym u64 = "64 word"

text \<open>Rewrite rules that run the sequential tasks, and frame rules of their operations.\<close>

named_theorems task_simps "equations that evaluate one operation of a task"
named_theorems frame_simps "fields of a state an operation leaves alone"

definition byte_of_char :: "char \<Rightarrow> byte" where
  "byte_of_char c = word_of_nat (of_char c)"

definition char_of_byte :: "byte \<Rightarrow> char" where
  "char_of_byte b = char_of (unat b)"

definition as_bytes :: "string \<Rightarrow> byte list" where
  "as_bytes s = map byte_of_char s"

definition of_bytes :: "byte list \<Rightarrow> string" where
  "of_bytes bs = map char_of_byte bs"

lemma of_char_less_256: "(of_char c :: nat) < 256"
  by (cases c) (simp add: of_char_def horner_sum_simps)

lemma char_of_byte_of_char [simp]: "char_of_byte (byte_of_char c) = c"
  using of_char_less_256 [of c]
  by (simp add: char_of_byte_def byte_of_char_def unat_of_nat take_bit_nat_eq_self)

lemma byte_of_char_of_byte [simp]: "byte_of_char (char_of_byte b) = b"
proof -
  have "unat b < 256" by (rule order_less_le_trans [OF unsigned_less]) simp
  then show ?thesis by (simp add: byte_of_char_def char_of_byte_def)
qed

lemma as_bytes_of_bytes [simp]: "as_bytes (of_bytes b) = b"
  by (simp add: as_bytes_def of_bytes_def comp_def)

lemma of_bytes_as_bytes [simp]: "of_bytes (as_bytes s) = s"
  by (simp add: of_bytes_def as_bytes_def comp_def)

lemma as_bytes_inject [simp]: "as_bytes s = as_bytes t \<longleftrightarrow> s = t"
  by (metis of_bytes_as_bytes)

lemma length_as_bytes [simp]: "length (as_bytes s) = length s"
  by (simp add: as_bytes_def)

lemma as_bytes_eq_Nil [simp]: "as_bytes s = [] \<longleftrightarrow> s = []"
  by (simp add: as_bytes_def)

section \<open>Splitting at a character\<close>

text \<open>
  \<open>str::split(c)\<close> of the standard library: the pieces between the separators, always at
  least one, empty pieces kept. \<open>join_with\<close> is the \<open>format!\<close> that puts the separators back.
\<close>

fun split_on :: "char \<Rightarrow> string \<Rightarrow> string list" where
  "split_on c [] = [[]]"
| "split_on c (x # xs) =
     (if x = c then [] # split_on c xs
      else (case split_on c xs of [] \<Rightarrow> [[x]] | p # ps \<Rightarrow> (x # p) # ps))"

fun join_with :: "char \<Rightarrow> string list \<Rightarrow> string" where
  "join_with c [] = []"
| "join_with c [p] = p"
| "join_with c (p # q # ps) = p @ c # join_with c (q # ps)"

lemma split_on_nonempty [simp]: "split_on c s \<noteq> []"
  by (induction s) (auto split: list.splits)

lemma split_on_no_sep: "c \<notin> set p \<Longrightarrow> split_on c p = [p]"
  by (induction p) auto

lemma split_on_append:
  "c \<notin> set p \<Longrightarrow> split_on c (p @ c # s) = p # split_on c s"
  by (induction p) auto

lemma split_on_join_with:
  assumes "ps \<noteq> []" and "\<forall>p \<in> set ps. c \<notin> set p"
  shows "split_on c (join_with c ps) = ps"
  using assms
  by (induction ps rule: join_with.induct [of _ c])
    (auto simp: split_on_no_sep split_on_append)

lemma join_with_split_on: "join_with c (split_on c s) = s"
proof (induction s)
  case (Cons x s)
  obtain p ps where split: "split_on c s = p # ps"
    by (cases "split_on c s") auto
  with Cons show ?case by (cases ps) auto
qed simp

lemma split_on_parts_no_sep: "p \<in> set (split_on c s) \<Longrightarrow> c \<notin> set p"
  by (induction s arbitrary: p) (auto split: list.splits if_splits)

section \<open>UTF-8\<close>

text \<open>\<open>String::from_utf8\<close>: the well-formed byte sequences of the Unicode standard.\<close>

definition continuation :: "byte \<Rightarrow> bool" where
  "continuation b \<longleftrightarrow> 0x80 \<le> b \<and> b \<le> 0xBF"

fun valid_utf8 :: "byte list \<Rightarrow> bool" where
  "valid_utf8 [] = True"
| "valid_utf8 (a # bs) =
     (if a \<le> 0x7F then valid_utf8 bs
      else if 0xC2 \<le> a \<and> a \<le> 0xDF then
        (case bs of b # r \<Rightarrow> continuation b \<and> valid_utf8 r | _ \<Rightarrow> False)
      else if 0xE0 \<le> a \<and> a \<le> 0xEF then
        (case bs of
           b # c # r \<Rightarrow>
             continuation b \<and> continuation c \<and> (a = 0xE0 \<longrightarrow> 0xA0 \<le> b) \<and> (a = 0xED \<longrightarrow> b \<le> 0x9F) \<and>
             valid_utf8 r
         | _ \<Rightarrow> False)
      else if 0xF0 \<le> a \<and> a \<le> 0xF4 then
        (case bs of
           b # c # d # r \<Rightarrow>
             continuation b \<and> continuation c \<and> continuation d \<and>
             (a = 0xF0 \<longrightarrow> 0x90 \<le> b) \<and> (a = 0xF4 \<longrightarrow> b \<le> 0x8F) \<and> valid_utf8 r
         | _ \<Rightarrow> False)
      else False)"

definition from_utf8 :: "byte list \<Rightarrow> string option" where
  "from_utf8 b = (if valid_utf8 b then Some (of_bytes b) else None)"

section \<open>Numbers as text\<close>

definition digit_char :: "nat \<Rightarrow> char" where
  "digit_char d = char_of (48 + d)"

fun show_nat :: "nat \<Rightarrow> string" where
  "show_nat n = (if n < 10 then [digit_char n] else show_nat (n div 10) @ [digit_char (n mod 10)])"

declare show_nat.simps [simp del]

definition hex_char :: "nat \<Rightarrow> char" where
  "hex_char d = ''0123456789abcdef'' ! d"

fun show_hex :: "nat \<Rightarrow> string" where
  "show_hex n = (if n < 16 then [hex_char n] else show_hex (n div 16) @ [hex_char (n mod 16)])"

declare show_hex.simps [simp del]

text \<open>\<open>Debug\<close> of a string and of an optional one (characters beyond ASCII are printed as they are).\<close>

definition debug_char :: "char \<Rightarrow> string" where
  "debug_char c =
     (if c = CHR 0x22 \<or> c = CHR 0x5C then [CHR 0x5C, c]
      else if c = CHR 0x0A then [CHR 0x5C, CHR ''n'']
      else if c = CHR 0x0D then [CHR 0x5C, CHR ''r'']
      else if c = CHR 0x09 then [CHR 0x5C, CHR ''t'']
      else if c = CHR 0x00 then [CHR 0x5C, CHR ''0'']
      else if (of_char c :: nat) < 32 \<or> c = CHR 0x7F then
        [CHR 0x5C, CHR ''u'', CHR ''{''] @ show_hex (of_char c) @ ''}''
      else [c])"

fun debug_option :: "string option \<Rightarrow> string" where
  "debug_option None = ''None''"
| "debug_option (Some s) = ''Some('' @ [CHR 0x22] @ concat (map debug_char s) @ [CHR 0x22] @ '')''"

section \<open>Results\<close>

text \<open>
  An \<open>anyhow::Error\<close>: \<open>Msg\<close> carries a message of the source, \<open>Lib\<close> the text of an error that
  a library call returned and the source passes on with \<open>?\<close>, \<open>Wrap\<close> a message of the source
  that ends in the text of another error, \<open>StatusCodeError\<close> is the type of \<open>http/mod.rs\<close>.
\<close>

datatype err = Msg string | Lib string | Wrap string err | StatusCodeError u16 "string option"

fun err_text :: "err \<Rightarrow> string" where
  "err_text (Msg s) = s"
| "err_text (Lib s) = s"
| "err_text (Wrap s e) = s @ err_text e"
| "err_text (StatusCodeError status message) = show_nat (unat status) @ '';'' @ debug_option message"

text \<open>
  The outcome of running a piece of the program: a value, an error value, a panic, or an
  \<open>await\<close> that does not complete in the given environment.
\<close>

datatype 'a res = Ok 'a | Err err | Panic string | Wait

fun rbind :: "'a res \<Rightarrow> ('a \<Rightarrow> 'b res) \<Rightarrow> 'b res" where
  "rbind (Ok x) f = f x"
| "rbind (Err e) f = Err e"
| "rbind (Panic s) f = Panic s"
| "rbind Wait f = Wait"

definition is_ok :: "'a res \<Rightarrow> bool" where
  "is_ok r = (case r of Ok _ \<Rightarrow> True | _ \<Rightarrow> False)"

lemma is_ok_simps [simp]:
  "is_ok (Ok x)" "\<not> is_ok (Err e)" "\<not> is_ok (Panic s)" "\<not> is_ok Wait"
  by (simp_all add: is_ok_def)

lemma is_ok_iff: "is_ok r \<longleftrightarrow> (\<exists>x. r = Ok x)"
  by (cases r) auto

lemma rbind_eq_Ok: "rbind r f = Ok y \<longleftrightarrow> (\<exists>x. r = Ok x \<and> f x = Ok y)"
  by (cases r) auto

lemma rbind_assoc: "rbind (rbind r f) g = rbind r (\<lambda>x. rbind (f x) g)"
  by (cases r) auto

definition res_of_option :: "err \<Rightarrow> 'a option \<Rightarrow> 'a res" where
  "res_of_option e x = (case x of None \<Rightarrow> Err e | Some v \<Rightarrow> Ok v)"

lemma res_of_option_simps [simp]:
  "res_of_option e None = Err e" "res_of_option e (Some v) = Ok v"
  by (simp_all add: res_of_option_def)

lemma res_of_option_eq_Ok [simp]: "res_of_option e x = Ok v \<longleftrightarrow> x = Some v"
  by (cases x) auto

section \<open>Lists cut into blocks\<close>

text \<open>
  The reference for every chunking loop: consecutive blocks of \<open>n\<close> elements, the last one
  shorter when the length is not a multiple of \<open>n\<close>.
\<close>

function blocks :: "nat \<Rightarrow> 'a list \<Rightarrow> 'a list list" where
  "blocks n xs = (if xs = [] then [] else if n = 0 then [xs]
     else take n xs # blocks n (drop n xs))"
  by pat_completeness auto
termination
  by (relation "measure (\<lambda>(n, xs). length xs)") auto

declare blocks.simps [simp del]

lemma blocks_Nil [simp]: "blocks n [] = []"
  by (simp add: blocks.simps)

lemma blocks_eq_Nil [simp]: "blocks n xs = [] \<longleftrightarrow> xs = []"
  by (subst blocks.simps) simp

lemma blocks_step:
  "0 < n \<Longrightarrow> xs \<noteq> [] \<Longrightarrow> blocks n xs = take n xs # blocks n (drop n xs)"
  by (subst blocks.simps) simp

lemma blocks_short: "0 < length xs \<Longrightarrow> length xs \<le> n \<Longrightarrow> blocks n xs = [xs]"
  by (subst blocks.simps) auto

lemma blocks_append_full:
  "0 < n \<Longrightarrow> length b = n \<Longrightarrow> blocks n (b @ xs) = b # blocks n xs"
  by (subst blocks_step) auto

lemma concat_blocks [simp]: "concat (blocks n xs) = xs"
proof (induction n xs rule: blocks.induct)
  case (1 n xs)
  then show ?case by (subst blocks.simps) auto
qed

lemma blocks_bounds: "0 < n \<Longrightarrow> b \<in> set (blocks n xs) \<Longrightarrow> 0 < length b \<and> length b \<le> n"
proof (induction n xs rule: blocks.induct)
  case (1 n xs)
  show ?case
  proof (cases "xs = []")
    case False
    with "1.prems" have "b = take n xs \<or> b \<in> set (blocks n (drop n xs))"
      by (simp add: blocks_step)
    with 1 False show ?thesis by auto
  qed (use "1.prems" in simp)
qed

lemma blocks_butlast_full: "0 < n \<Longrightarrow> b \<in> set (butlast (blocks n xs)) \<Longrightarrow> length b = n"
proof (induction n xs rule: blocks.induct)
  case (1 n xs)
  show ?case
  proof (cases "drop n xs = []")
    case True
    with 1 show ?thesis by (cases "xs = []") (auto simp: blocks_step)
  next
    case False
    then have "xs \<noteq> []" and "n < length xs" by auto
    with "1.prems" False have "b = take n xs \<or> b \<in> set (butlast (blocks n (drop n xs)))"
      by (simp add: blocks_step)
    with 1 \<open>n < length xs\<close> \<open>xs \<noteq> []\<close> show ?thesis by auto
  qed
qed

end
