(* ===== verification/Token_Crypto.thy ===== *)
theory Token_Crypto
  imports LS_Prelude
begin

text \<open>
  The crypto component, \<open>core/src/crypto\<close>: nonces (\<open>nonce.rs\<close>), hashing (\<open>hash.rs\<close>), signed
  tokens (\<open>token.rs\<close>) and certificates (\<open>cert.rs\<close>), with the base64 helpers of
  \<open>core/src/util/base64.rs\<close> and the clock of \<open>core/src/util/time.rs\<close>.

  The primitives of the crates \<open>sha2\<close>, \<open>base64\<close>, \<open>ed25519-dalek\<close>, \<open>rsa\<close>, \<open>pem\<close> and
  \<open>x509-parser\<close> are the fields of the records \<open>crypto_ext\<close> and \<open>x509_ext\<close>, arguments of the
  definitions that call them. Key material and certificates are opaque byte lists.
\<close>

section \<open>The library primitives\<close>

record crypto_ext =
  sha256_digest :: "byte list \<Rightarrow> byte list"
  b64_encode :: "byte list \<Rightarrow> string"
  b64_decode :: "string \<Rightarrow> byte list option"
  ed_verifying_key :: "byte list \<Rightarrow> byte list"
  ed_sign :: "byte list \<Rightarrow> byte list \<Rightarrow> byte list"
  ed_signature_from_slice :: "byte list \<Rightarrow> byte list option"
  ed_verify :: "byte list \<Rightarrow> byte list \<Rightarrow> byte list \<Rightarrow> bool"
  ed_to_public_key_der :: "byte list \<Rightarrow> byte list option"
  ed_to_public_key_pem :: "byte list \<Rightarrow> string option"
  ed_from_public_key_pem :: "string \<Rightarrow> byte list option"
  ed_to_pkcs8_pem :: "byte list \<Rightarrow> string option"
  ed_from_pkcs8_pem :: "string \<Rightarrow> byte list option"
  rsa_signature_try_from :: "byte list \<Rightarrow> byte list option"
  rsa_verify :: "byte list \<Rightarrow> byte list \<Rightarrow> byte list \<Rightarrow> bool"
  rsa_to_public_key_der :: "byte list \<Rightarrow> byte list option"
  rsa_from_public_key_pem :: "string \<Rightarrow> byte list option"

section \<open>Nonces, hashing, base64\<close>

definition sha256 :: "crypto_ext \<Rightarrow> byte list \<Rightarrow> byte list" where
  "sha256 X d = sha256_digest X d"

definition base64_encode :: "crypto_ext \<Rightarrow> byte list \<Rightarrow> string" where
  "base64_encode X d = b64_encode X d"

definition base64_decode :: "crypto_ext \<Rightarrow> string \<Rightarrow> byte list res" where
  "base64_decode X s = res_of_option (Lib ''DecodeError'') (b64_decode X s)"

text \<open>
  \<open>generate_nonce\<close> fills a fresh 32-byte vector from the random generator: the generator is a
  function from the number of bytes asked for to the bytes.
\<close>

definition generate_nonce :: "(nat \<Rightarrow> byte list) \<Rightarrow> byte list" where
  "generate_nonce fill_bytes = fill_bytes 32"

definition validate_nonce :: "byte list \<Rightarrow> bool" where
  "validate_nonce nonce \<longleftrightarrow> length nonce \<ge> 16 \<and> length nonce \<le> 128"

section \<open>Keys\<close>

record signing_token_key =
  sk_inner :: "byte list"

datatype verifying_token_key = Ed25519VerifyingKey "byte list" | RsaPssVerifyingKey "byte list"

definition to_verifying_key :: "crypto_ext \<Rightarrow> signing_token_key \<Rightarrow> verifying_token_key" where
  "to_verifying_key X key = Ed25519VerifyingKey (ed_verifying_key X (sk_inner key))"

fun vk_verify :: "crypto_ext \<Rightarrow> verifying_token_key \<Rightarrow> byte list \<Rightarrow> byte list \<Rightarrow> unit res" where
  "vk_verify X (Ed25519VerifyingKey k) msg signature =
     rbind (res_of_option (Lib ''signature error'') (ed_signature_from_slice X signature))
       (\<lambda>sg. if ed_verify X k msg sg then Ok () else Err (Lib ''signature error''))"
| "vk_verify X (RsaPssVerifyingKey k) msg signature =
     rbind (res_of_option (Lib ''signature error'') (rsa_signature_try_from X signature))
       (\<lambda>sg. if rsa_verify X k msg sg then Ok () else Err (Lib ''signature error''))"

fun vk_to_der :: "crypto_ext \<Rightarrow> verifying_token_key \<Rightarrow> byte list res" where
  "vk_to_der X (Ed25519VerifyingKey k) = res_of_option (Lib ''spki error'') (ed_to_public_key_der X k)"
| "vk_to_der X (RsaPssVerifyingKey k) = res_of_option (Lib ''spki error'') (rsa_to_public_key_der X k)"

fun signature_method :: "verifying_token_key \<Rightarrow> string" where
  "signature_method (Ed25519VerifyingKey _) = ''ed25519''"
| "signature_method (RsaPssVerifyingKey _) = ''rsa-pss''"

definition generate_key :: "byte list \<Rightarrow> signing_token_key" where
  "generate_key rng_key = \<lparr>sk_inner = rng_key\<rparr>"

definition export_private_key :: "crypto_ext \<Rightarrow> signing_token_key \<Rightarrow> string res" where
  "export_private_key X key = res_of_option (Lib ''pkcs8 error'') (ed_to_pkcs8_pem X (sk_inner key))"

definition parse_private_key :: "crypto_ext \<Rightarrow> string \<Rightarrow> signing_token_key res" where
  "parse_private_key X pem =
     rbind (res_of_option (Lib ''pkcs8 error'') (ed_from_pkcs8_pem X pem))
       (\<lambda>k. Ok \<lparr>sk_inner = k\<rparr>)"

definition export_public_key :: "crypto_ext \<Rightarrow> signing_token_key \<Rightarrow> string res" where
  "export_public_key X key =
     res_of_option (Lib ''spki error'') (ed_to_public_key_pem X (ed_verifying_key X (sk_inner key)))"

definition parse_public_key :: "crypto_ext \<Rightarrow> string \<Rightarrow> string \<Rightarrow> verifying_token_key res" where
  "parse_public_key X pem identifier =
     (if identifier = ''ed25519'' then
        rbind (res_of_option (Lib ''spki error'') (ed_from_public_key_pem X pem))
          (\<lambda>k. Ok (Ed25519VerifyingKey k))
      else if identifier = ''rsa-pss'' then
        rbind (res_of_option (Lib ''spki error'') (rsa_from_public_key_pem X pem))
          (\<lambda>k. Ok (RsaPssVerifyingKey k))
      else Err (Msg ''Unsupported key type''))"

section \<open>Tokens\<close>

text \<open>
  A token is \<open>sha256.HASH.SALT.ed25519.SIGNATURE\<close>: the hash of the DER public key followed by
  the salt, the salt itself, and the signature of the hash, each in base64.
\<close>

definition generate_token_nonce :: "crypto_ext \<Rightarrow> signing_token_key \<Rightarrow> byte list \<Rightarrow> string res" where
  "generate_token_nonce X key salt =
     rbind (res_of_option (Lib ''spki error'')
              (ed_to_public_key_der X (ed_verifying_key X (sk_inner key))))
       (\<lambda>public_key.
          let digest = sha256 X (public_key @ salt);
              signature = ed_sign X (sk_inner key) digest
          in Ok (join_with CHR ''.''
                   [''sha256'', base64_encode X digest, base64_encode X salt,
                    ''ed25519'', base64_encode X signature]))"

text \<open>\<open>u64::to_le_bytes\<close> and \<open>u64::from_le_bytes\<close> of the standard library.\<close>

fun to_le_bytes :: "nat \<Rightarrow> u64 \<Rightarrow> byte list" where
  "to_le_bytes 0 x = []"
| "to_le_bytes (Suc n) x = ucast x # to_le_bytes n (drop_bit 8 x)"

fun from_le_bytes :: "byte list \<Rightarrow> u64" where
  "from_le_bytes [] = 0"
| "from_le_bytes (b # bs) = or (ucast b) (push_bit 8 (from_le_bytes bs))"

text \<open>\<open>unix_timestamp_u64\<close>: the clock, an error when it stands before the epoch.\<close>

definition unix_timestamp_u64 :: "int \<Rightarrow> u64 res" where
  "unix_timestamp_u64 clock =
     (if clock < 0 then Err (Lib ''second time provided was later than self'')
      else Ok (word_of_int clock))"

definition generate_token_timestamp :: "crypto_ext \<Rightarrow> int \<Rightarrow> signing_token_key \<Rightarrow> string res" where
  "generate_token_timestamp X clock key =
     rbind (unix_timestamp_u64 clock)
       (\<lambda>t. rbind (generate_token_nonce X key (to_le_bytes 8 t)) (\<lambda>result. Ok result))"

definition extract_signature_identifier :: "string \<Rightarrow> string option" where
  "extract_signature_identifier token =
     (let parts = split_on CHR ''.'' token in
      if 3 < length parts then Some (parts ! 3) else None)"

text \<open>
  \<open>parts[0..5]\<close> is a slice index: with fewer than five parts it panics before the \<open>else\<close> of
  the pattern can run; with more than five the rest is not looked at.
\<close>

definition verify_token_with_result ::
  "crypto_ext \<Rightarrow> verifying_token_key \<Rightarrow> string \<Rightarrow> (byte list \<Rightarrow> unit res) \<Rightarrow> unit res" where
  "verify_token_with_result X public_key token verify_salt =
     (let parts = split_on CHR ''.'' token in
      if length parts < 5 then Panic ''range end index 5 out of range for slice''
      else
        (case take 5 parts of
           [hash_method, hash_base64, salt_base64, sign_method, signature_base64] \<Rightarrow>
             if hash_method \<noteq> ''sha256'' then Err (Msg ''Invalid hash method'')
             else if sign_method \<noteq> signature_method public_key then Err (Msg ''Invalid sign method'')
             else
               rbind (base64_decode X salt_base64) (\<lambda>salt.
               rbind (verify_salt salt) (\<lambda>_.
               rbind (vk_to_der X public_key) (\<lambda>public_key_der.
               let digest = sha256 X (public_key_der @ salt) in
               if base64_encode X digest \<noteq> hash_base64 then Err (Msg ''Hash mismatch'')
               else
                 (case base64_decode X signature_base64 of
                    Ok signature \<Rightarrow>
                      (case vk_verify X public_key digest signature of
                         Ok _ \<Rightarrow> Ok ()
                       | Err _ \<Rightarrow> Err (Msg ''Invalid signature'')
                       | Panic s \<Rightarrow> Panic s
                       | Wait \<Rightarrow> Wait)
                  | _ \<Rightarrow> Err (Msg ''Invalid signature base64 encoding'')))))
         | _ \<Rightarrow> Err (Msg ''Invalid structure'')))"

text \<open>\<open>Result::is_ok\<close>; a panic of the call before it goes on unwinding.\<close>

fun result_is_ok :: "'a res \<Rightarrow> bool res" where
  "result_is_ok (Ok _) = Ok True"
| "result_is_ok (Err _) = Ok False"
| "result_is_ok (Panic s) = Panic s"
| "result_is_ok Wait = Wait"

definition check_nonce_salt :: "byte list \<Rightarrow> byte list \<Rightarrow> unit res" where
  "check_nonce_salt nonce salt = (if salt \<noteq> nonce then Err (Msg ''Invalid nonce'') else Ok ())"

definition verify_token_nonce :: "crypto_ext \<Rightarrow> verifying_token_key \<Rightarrow> string \<Rightarrow> byte list \<Rightarrow> bool res" where
  "verify_token_nonce X public_key token nonce =
     result_is_ok (verify_token_with_result X public_key token (check_nonce_salt nonce))"

text \<open>
  The subtraction \<open>now_seconds - salt\<close> is on \<open>u64\<close>: a salt in the future panics when the build
  checks overflow (a debug build) and wraps around otherwise (a release build).
\<close>

definition check_timestamp_salt :: "bool \<Rightarrow> int \<Rightarrow> byte list \<Rightarrow> unit res" where
  "check_timestamp_salt overflow_checks clock salt =
     (if length salt \<noteq> 8 then Err (Msg ''Invalid salt length'')
      else
        (let t = from_le_bytes salt in
         rbind (unix_timestamp_u64 clock) (\<lambda>now_seconds.
         if overflow_checks \<and> now_seconds < t then Panic ''attempt to subtract with overflow''
         else if now_seconds - t > 60 * 60 then Err (Msg ''Fingerprint timestamp expired'')
         else Ok ())))"

definition verify_token_timestamp ::
  "crypto_ext \<Rightarrow> bool \<Rightarrow> int \<Rightarrow> verifying_token_key \<Rightarrow> string \<Rightarrow> bool res" where
  "verify_token_timestamp X overflow_checks clock public_key token =
     result_is_ok (verify_token_with_result X public_key token
       (check_timestamp_salt overflow_checks clock))"

section \<open>Certificates\<close>

text \<open>
  A parsed certificate carries what the code reads of it: whether its validity period holds
  now, its raw subject public key, and whether it verifies under its own key
  (\<open>verify_signature(None)\<close>).
\<close>

record x509_cert =
  cert_valid_now :: bool
  cert_subject_pki :: "byte list"
  cert_self_signature_ok :: bool

record x509_ext =
  pem_read :: "string \<Rightarrow> byte list option"
  x509_from_der :: "byte list \<Rightarrow> x509_cert option"
  spki_from_der :: "byte list \<Rightarrow> byte list option"
  spki_parsed :: "byte list \<Rightarrow> byte list option"
  pem_encode :: "string \<Rightarrow> byte list \<Rightarrow> string"

definition verify_cert_from_cert :: "x509_ext \<Rightarrow> x509_cert \<Rightarrow> string option \<Rightarrow> unit res" where
  "verify_cert_from_cert X cert public_key =
     (if \<not> cert_valid_now cert then Err (Msg ''Time validity error'')
      else
        rbind
          (case public_key of
             None \<Rightarrow> Ok ()
           | Some pk \<Rightarrow>
               rbind (res_of_option (Lib ''X509Error'') (spki_parsed X (cert_subject_pki cert))) (\<lambda>cert_public_key.
               rbind (res_of_option (Lib ''PEMError'') (pem_read X pk)) (\<lambda>public_key_pem.
               rbind (res_of_option (Lib ''X509Error'') (spki_from_der X public_key_pem)) (\<lambda>public_key_spki.
               rbind (res_of_option (Lib ''X509Error'') (spki_parsed X public_key_spki)) (\<lambda>expected_public_key.
               if cert_public_key \<noteq> expected_public_key then Err (Msg ''Public key mismatch'')
               else Ok ())))))
          (\<lambda>_. if cert_self_signature_ok cert then Ok ()
                else Err (Lib ''signature verification error'')))"

definition verify_cert_from_pem :: "x509_ext \<Rightarrow> string \<Rightarrow> string option \<Rightarrow> unit res" where
  "verify_cert_from_pem X cert public_key =
     rbind (res_of_option (Lib ''PEMError'') (pem_read X cert)) (\<lambda>cert_pem.
     rbind (res_of_option (Lib ''X509Error'') (x509_from_der X cert_pem)) (\<lambda>parsed_cert.
     verify_cert_from_cert X parsed_cert public_key))"

definition verify_cert_from_der :: "x509_ext \<Rightarrow> byte list \<Rightarrow> string option \<Rightarrow> unit res" where
  "verify_cert_from_der X cert public_key =
     rbind (res_of_option (Lib ''X509Error'') (x509_from_der X cert)) (\<lambda>parsed_cert.
     verify_cert_from_cert X parsed_cert public_key)"

definition public_key_from_cert :: "x509_ext \<Rightarrow> x509_cert \<Rightarrow> string res" where
  "public_key_from_cert X cert = Ok (pem_encode X ''PUBLIC KEY'' (cert_subject_pki cert))"

definition public_key_from_cert_pem :: "x509_ext \<Rightarrow> string \<Rightarrow> string res" where
  "public_key_from_cert_pem X cert =
     rbind (res_of_option (Lib ''PEMError'') (pem_read X cert)) (\<lambda>cert_pem.
     rbind (res_of_option (Lib ''X509Error'') (x509_from_der X cert_pem)) (\<lambda>parsed_cert.
     public_key_from_cert X parsed_cert))"

definition public_key_from_cert_der :: "x509_ext \<Rightarrow> byte list \<Rightarrow> string res" where
  "public_key_from_cert_der X cert =
     rbind (res_of_option (Lib ''X509Error'') (x509_from_der X cert)) (\<lambda>parsed_cert.
     public_key_from_cert X parsed_cert)"

end
