(* ===== verification/Base64_Url.thy ===== *)
theory Base64_Url
  imports LS_Prelude
begin

text \<open>
  The interface of the text encodings the program carries bytes in, and the instance it asks
  the \<open>base64\<close> crate for: \<open>URL_SAFE_NO_PAD\<close> (\<open>core/src/util/base64.rs\<close>,
  \<open>server/src/util/base64.rs\<close>), the URL-safe alphabet of RFC 4648 without padding.

  The program's definitions take the encoder and the decoder as arguments and rely on the laws
  of the locale \<open>text_codec\<close> only; the functions here show that the laws can hold, and
  instantiate them in witnesses.
\<close>

section \<open>What the program relies on\<close>

locale text_codec =
  fixes enc :: "byte list \<Rightarrow> string"
    and dec :: "string \<Rightarrow> byte list option"
  assumes dec_enc: "dec (enc d) = Some d"
    and enc_no_dot: "CHR ''.'' \<notin> set (enc d)"
begin

lemma enc_inject: "enc a = enc b \<longleftrightarrow> a = b"
  by (metis dec_enc option.inject)

lemma enc_dec_total: "\<exists>s. dec s = Some d"
  by (blast intro: dec_enc)

text \<open>Dot-separated fields that are encodings or fixed words without a dot can be split again.\<close>

lemma split_fields:
  assumes "fs \<noteq> []" and "\<forall>f \<in> set fs. (\<exists>d. f = enc d) \<or> CHR ''.'' \<notin> set f"
  shows "split_on CHR ''.'' (join_with CHR ''.'' fs) = fs"
  using assms enc_no_dot by (intro split_on_join_with) auto

end

section \<open>The URL-safe alphabet without padding\<close>

definition b64_alphabet :: string where
  "b64_alphabet = ''ABCDEFGHIJKLMNOPQRSTUVWXYZabcdefghijklmnopqrstuvwxyz0123456789-_''"

definition b64_char :: "nat \<Rightarrow> char" where
  "b64_char v = b64_alphabet ! v"

definition b64_value :: "char \<Rightarrow> nat option" where
  "b64_value c =
     (let n = length (takeWhile (\<lambda>x. x \<noteq> c) b64_alphabet) in if n < 64 then Some n else None)"

fun b64_sextets :: "nat list \<Rightarrow> nat list" where
  "b64_sextets [] = []"
| "b64_sextets [a] = [a div 4, (a mod 4) * 16]"
| "b64_sextets [a, b] = [a div 4, (a mod 4) * 16 + b div 16, (b mod 16) * 4]"
| "b64_sextets (a # b # c # bs) =
     [a div 4, (a mod 4) * 16 + b div 16, (b mod 16) * 4 + c div 64, c mod 64] @ b64_sextets bs"

text \<open>Bits left over in the last sextet must be zero, as the crate's default engine requires.\<close>

fun b64_octets :: "nat list \<Rightarrow> nat list option" where
  "b64_octets [] = Some []"
| "b64_octets [_] = None"
| "b64_octets [s, t] = (if t mod 16 = 0 then Some [s * 4 + t div 16] else None)"
| "b64_octets [s, t, u] =
     (if u mod 4 = 0 then Some [s * 4 + t div 16, (t mod 16) * 16 + u div 4] else None)"
| "b64_octets (s # t # u # v # ss) =
     map_option (\<lambda>bs. [s * 4 + t div 16, (t mod 16) * 16 + u div 4, (u mod 4) * 64 + v] @ bs)
       (b64_octets ss)"

fun all_some :: "'a option list \<Rightarrow> 'a list option" where
  "all_some [] = Some []"
| "all_some (None # _) = None"
| "all_some (Some x # xs) = map_option ((#) x) (all_some xs)"

definition url_safe_encode :: "byte list \<Rightarrow> string" where
  "url_safe_encode d = map b64_char (b64_sextets (map unat d))"

definition url_safe_decode :: "string \<Rightarrow> byte list option" where
  "url_safe_decode s =
     (case all_some (map b64_value s) of
        None \<Rightarrow> None
      | Some ss \<Rightarrow> map_option (map word_of_nat) (b64_octets ss))"

lemma all_some_map_Some [simp]: "all_some (map Some xs) = Some xs"
  by (induction xs) auto

lemma b64_sextets_bound: "\<forall>a \<in> set as. a < 256 \<Longrightarrow> s \<in> set (b64_sextets as) \<Longrightarrow> s < 64"
  by (induction as rule: b64_sextets.induct) auto

lemma b64_octets_sextets: "\<forall>a \<in> set as. a < 256 \<Longrightarrow> b64_octets (b64_sextets as) = Some as"
proof (induction as rule: b64_sextets.induct)
  case (4 a b c bs)
  have "(a mod 4 * 16 + b div 16) div 16 = a mod 4" and "(a mod 4 * 16 + b div 16) mod 16 = b div 16"
    using 4 by auto
  moreover have "(b mod 16 * 4 + c div 64) div 4 = b mod 16" and "(b mod 16 * 4 + c div 64) mod 4 = c div 64"
    using 4 by auto
  ultimately show ?case using 4 by simp
next
  case (3 a b)
  have "(a mod 4 * 16 + b div 16) div 16 = a mod 4" and "(a mod 4 * 16 + b div 16) mod 16 = b div 16"
    using 3 by auto
  then show ?case using 3 by simp
qed auto

lemma b64_value_alphabet: "map b64_value b64_alphabet = map Some [0..<64]"
  by code_simp

lemma b64_value_char [simp]:
  assumes "v < 64"
  shows "b64_value (b64_char v) = Some v"
proof -
  have len: "length b64_alphabet = 64" by code_simp
  have "map b64_value b64_alphabet ! v = map Some [0..<64] ! v"
    by (simp only: b64_value_alphabet)
  with assms len show ?thesis by (simp add: b64_char_def)
qed

lemma b64_char_not_dot: "v < 64 \<Longrightarrow> b64_char v \<noteq> CHR ''.''"
proof -
  assume v: "v < 64"
  have "length b64_alphabet = 64" and nodot: "CHR ''.'' \<notin> set b64_alphabet" by code_simp+
  with v have "b64_char v \<in> set b64_alphabet" by (simp add: b64_char_def)
  with nodot show ?thesis by auto
qed

lemma map_b64_value_char: "\<forall>s \<in> set ss. s < 64 \<Longrightarrow> map b64_value (map b64_char ss) = map Some ss"
  by simp

lemma url_safe_decode_encode: "url_safe_decode (url_safe_encode d) = Some d"
proof -
  have bytes: "\<forall>a \<in> set (map unat d). a < 256"
    using unsigned_less [where 'a = nat and 'b = 8] by auto
  then have "\<forall>s \<in> set (b64_sextets (map unat d)). s < 64"
    by (blast intro: b64_sextets_bound)
  then have "all_some (map b64_value (url_safe_encode d)) = Some (b64_sextets (map unat d))"
    unfolding url_safe_encode_def by (subst map_b64_value_char) simp_all
  then show ?thesis
    using b64_octets_sextets [OF bytes] by (simp add: url_safe_decode_def comp_def)
qed

lemma url_safe_encode_no_dot: "CHR ''.'' \<notin> set (url_safe_encode d)"
proof
  assume "CHR ''.'' \<in> set (url_safe_encode d)"
  then obtain v where v: "v \<in> set (b64_sextets (map unat d))" and dot: "CHR ''.'' = b64_char v"
    by (auto simp: url_safe_encode_def)
  have "\<forall>a \<in> set (map unat d). a < 256"
    using unsigned_less [where 'a = nat and 'b = 8] by auto
  then have "v < 64" using v by (rule b64_sextets_bound)
  with dot b64_char_not_dot show False by metis
qed

interpretation url_safe: text_codec url_safe_encode url_safe_decode
  by unfold_locales (rule url_safe_decode_encode, rule url_safe_encode_no_dot)

end
