(* ===== verification/Token_Props.thy ===== *)
theory Token_Props
  imports Token_Crypto Base64_Url
begin

text \<open>
  Correctness of the crypto component: what a token proves, when it is accepted, rejected or
  makes the verifier panic, the one-hour window of timestamp tokens, and what a certificate
  check establishes. The laws of the cryptographic crates are the predicates \<open>base64_ok\<close> and
  \<open>ed25519_ok\<close>; \<open>sample_crypto\<close> satisfies them.
\<close>

section \<open>Laws of the primitives\<close>

definition base64_ok :: "crypto_ext \<Rightarrow> bool" where
  "base64_ok X \<longleftrightarrow> text_codec (b64_encode X) (b64_decode X)"

definition ed25519_ok :: "crypto_ext \<Rightarrow> bool" where
  "ed25519_ok X \<longleftrightarrow>
     (\<forall>sk m. \<exists>sg. ed_signature_from_slice X (ed_sign X sk m) = Some sg \<and>
        ed_verify X (ed_verifying_key X sk) m sg)"

definition sample_crypto :: crypto_ext where
  "sample_crypto = \<lparr>
     sha256_digest = (\<lambda>d. take 32 d),
     b64_encode = url_safe_encode, b64_decode = url_safe_decode,
     ed_verifying_key = (\<lambda>sk. sk),
     ed_sign = (\<lambda>sk m. sk @ m),
     ed_signature_from_slice = Some,
     ed_verify = (\<lambda>k m sg. sg = k @ m),
     ed_to_public_key_der = Some,
     ed_to_public_key_pem = (\<lambda>k. Some (of_bytes k)),
     ed_from_public_key_pem = (\<lambda>s. Some (as_bytes s)),
     ed_to_pkcs8_pem = (\<lambda>k. Some (of_bytes k)),
     ed_from_pkcs8_pem = (\<lambda>s. Some (as_bytes s)),
     rsa_signature_try_from = Some,
     rsa_verify = (\<lambda>k m sg. sg = m @ k),
     rsa_to_public_key_der = Some,
     rsa_from_public_key_pem = (\<lambda>s. Some (as_bytes s))\<rparr>"

lemma sample_crypto_ok: "base64_ok sample_crypto" "ed25519_ok sample_crypto"
  by (simp_all add: base64_ok_def ed25519_ok_def sample_crypto_def url_safe.text_codec_axioms)

section \<open>Evaluation lemmas\<close>

lemma base64_ok_decode [simp]:
  "base64_ok X \<Longrightarrow> base64_decode X (base64_encode X d) = Ok d"
  by (simp add: base64_ok_def base64_decode_def base64_encode_def text_codec.dec_enc)

lemma base64_ok_no_dot:
  "base64_ok X \<Longrightarrow> CHR ''.'' \<notin> set (base64_encode X d)"
  by (simp add: base64_ok_def base64_encode_def text_codec.enc_no_dot)

lemma base64_decode_cases: "base64_decode X s \<noteq> Panic p" "base64_decode X s \<noteq> Wait"
  by (cases "b64_decode X s"; simp add: base64_decode_def)+

lemma vk_to_der_cases: "vk_to_der X k \<noteq> Panic p" "vk_to_der X k \<noteq> Wait"
  by (cases k; cases "ed_to_public_key_der X (case k of Ed25519VerifyingKey b \<Rightarrow> b | RsaPssVerifyingKey b \<Rightarrow> b)";
      cases "rsa_to_public_key_der X (case k of Ed25519VerifyingKey b \<Rightarrow> b | RsaPssVerifyingKey b \<Rightarrow> b)"; simp)+

lemma vk_verify_cases: "vk_verify X k m s \<noteq> Panic p" "vk_verify X k m s \<noteq> Wait"
  by (cases k; cases "ed_signature_from_slice X s"; cases "rsa_signature_try_from X s"; simp)+

lemma base64_decode_result:
  obtains v where "base64_decode X s = Ok v" | "base64_decode X s = Err (Lib ''DecodeError'')"
  by (cases "b64_decode X s") (auto simp: base64_decode_def)

lemma vk_to_der_result:
  obtains der where "vk_to_der X k = Ok der" | "vk_to_der X k = Err (Lib ''spki error'')"
  by (cases k; cases "ed_to_public_key_der X (case k of Ed25519VerifyingKey b \<Rightarrow> b | RsaPssVerifyingKey b \<Rightarrow> b)";
      cases "rsa_to_public_key_der X (case k of Ed25519VerifyingKey b \<Rightarrow> b | RsaPssVerifyingKey b \<Rightarrow> b)") auto

lemma rbind_res_of_option_Ok:
  "rbind (res_of_option e x) f = Ok y \<longleftrightarrow> (\<exists>v. x = Some v \<and> f v = Ok y)"
  by (cases x) auto

lemma length_split_on: "length (split_on c s) = Suc (count_list s c)"
  by (induction s) (auto split: list.splits)

lemma five_parts:
  assumes "\<not> length parts < 5"
  obtains a b c d e rest where "parts = [a, b, c, d, e] @ rest" "take 5 parts = [a, b, c, d, e]"
proof -
  from assms have "5 \<le> length parts" by simp
  then obtain a b c d e rest where "parts = a # b # c # d # e # rest"
    by (auto simp: numeral_eq_Suc Suc_le_length_iff)
  then show thesis by (intro that [of a b c d e rest]) auto
qed

text \<open>The verifier on a token whose five parts are known.\<close>

lemma verify_token_parts:
  assumes "split_on CHR ''.'' token = [hm, h, s, sm, g] @ rest"
  shows "verify_token_with_result X pk token check =
    (if hm \<noteq> ''sha256'' then Err (Msg ''Invalid hash method'')
     else if sm \<noteq> signature_method pk then Err (Msg ''Invalid sign method'')
     else rbind (base64_decode X s) (\<lambda>salt. rbind (check salt) (\<lambda>_.
       rbind (vk_to_der X pk) (\<lambda>der.
       if base64_encode X (sha256 X (der @ salt)) \<noteq> h then Err (Msg ''Hash mismatch'')
       else (case base64_decode X g of
           Ok sg \<Rightarrow> (case vk_verify X pk (sha256 X (der @ salt)) sg of
               Ok _ \<Rightarrow> Ok () | Err _ \<Rightarrow> Err (Msg ''Invalid signature'')
             | Panic p \<Rightarrow> Panic p | Wait \<Rightarrow> Wait)
         | _ \<Rightarrow> Err (Msg ''Invalid signature base64 encoding''))))))"
  unfolding verify_token_with_result_def Let_def by (simp add: assms)

text \<open>A generated token, split into its five parts.\<close>

lemma generated_token_parts:
  assumes "base64_ok X" and gen: "generate_token_nonce X key salt = Ok token"
  obtains der where "ed_to_public_key_der X (ed_verifying_key X (sk_inner key)) = Some der"
    and "split_on CHR ''.'' token =
      [''sha256'', base64_encode X (sha256 X (der @ salt)), base64_encode X salt, ''ed25519'',
       base64_encode X (ed_sign X (sk_inner key) (sha256 X (der @ salt)))]"
proof -
  from gen obtain der where der: "ed_to_public_key_der X (ed_verifying_key X (sk_inner key)) = Some der"
    and token: "token = join_with CHR ''.'' [''sha256'', base64_encode X (sha256 X (der @ salt)),
       base64_encode X salt, ''ed25519'', base64_encode X (ed_sign X (sk_inner key) (sha256 X (der @ salt)))]"
    by (auto simp: generate_token_nonce_def rbind_res_of_option_Ok Let_def)
  have "split_on CHR ''.'' token = [''sha256'', base64_encode X (sha256 X (der @ salt)),
       base64_encode X salt, ''ed25519'', base64_encode X (ed_sign X (sk_inner key) (sha256 X (der @ salt)))]"
    unfolding token using base64_ok_no_dot [OF assms(1)]
    by (intro text_codec.split_fields [OF assms(1) [unfolded base64_ok_def]]) (auto simp: base64_encode_def)
  with der show thesis by (rule that)
qed

text \<open>A generated token verifies exactly when the caller's check of the salt passes.\<close>

lemma verify_generated_token:
  assumes "base64_ok X" and "ed25519_ok X" and "generate_token_nonce X key salt = Ok token"
  shows "verify_token_with_result X (to_verifying_key X key) token check =
    rbind (check salt) (\<lambda>_. Ok ())"
proof -
  from assms(1,3) obtain der where der: "ed_to_public_key_der X (ed_verifying_key X (sk_inner key)) = Some der"
    and parts: "split_on CHR ''.'' token =
      [''sha256'', base64_encode X (sha256 X (der @ salt)), base64_encode X salt, ''ed25519'',
       base64_encode X (ed_sign X (sk_inner key) (sha256 X (der @ salt)))] @ []"
    by (auto elim!: generated_token_parts)
  from assms(2) obtain sg
    where "ed_signature_from_slice X (ed_sign X (sk_inner key) (sha256 X (der @ salt))) = Some sg"
      and "ed_verify X (ed_verifying_key X (sk_inner key)) (sha256 X (der @ salt)) sg"
    by (auto simp: ed25519_ok_def)
  with der assms(1) show ?thesis
    by (simp add: verify_token_parts [OF parts] to_verifying_key_def)
qed

section \<open>Tokens\<close>

lemma sample_generates:
  obtains token where "generate_token_nonce sample_crypto key salt = Ok token"
  by (simp add: generate_token_nonce_def Let_def)
    (simp add: sample_crypto_def)

text \<open>
  C20: a token made for one salt verifies against the maker's public key for exactly that salt:
  accepted for the salt it was made for, rejected (not a panic) for every other nonce. Its signature
  identifier, which says how a public key that comes with it is parsed, is that of the maker's key.
\<close>

theorem token_roundtrip:
  assumes "base64_ok X" and "ed25519_ok X" and "generate_token_nonce X key salt = Ok token"
  shows "verify_token_nonce X (to_verifying_key X key) token nonce = Ok (nonce = salt) \<and>
    extract_signature_identifier token = Some (signature_method (to_verifying_key X key))"
proof -
  obtain h s g where "split_on CHR ''.'' token = [''sha256'', h, s, ''ed25519'', g]"
    using generated_token_parts [OF assms(1,3)] by metis
  then show ?thesis
    using verify_generated_token [OF assms]
    by (simp add: verify_token_nonce_def check_nonce_salt_def extract_signature_identifier_def to_verifying_key_def Let_def)
qed

theorem token_roundtrip_witness:
  "\<exists>token. generate_token_nonce sample_crypto \<lparr>sk_inner = [1, 2]\<rparr> [7] = Ok token \<and>
     verify_token_nonce sample_crypto (to_verifying_key sample_crypto \<lparr>sk_inner = [1, 2]\<rparr>) token [7] = Ok True \<and>
     verify_token_nonce sample_crypto (to_verifying_key sample_crypto \<lparr>sk_inner = [1, 2]\<rparr>) token [8] = Ok False"
proof -
  obtain token where gen: "generate_token_nonce sample_crypto \<lparr>sk_inner = [1, 2]\<rparr> [7] = Ok token"
    by (rule sample_generates)
  with token_roundtrip [OF sample_crypto_ok gen, of "[7]"] token_roundtrip [OF sample_crypto_ok gen, of "[8]"]
  show ?thesis by auto
qed


text \<open>
  C8: what acceptance means. \<open>verify_token_nonce\<close> answers true exactly for a token whose first
  five dot-separated parts are \<open>sha256\<close>, the hash of the key's DER form and the nonce, an encoding
  of that nonce, the key's own signature method, and an encoding of a signature of that hash
  which the key verifies. Parts after the fifth are ignored.
\<close>

theorem verify_token_accepts_iff:
  "verify_token_nonce X pk token nonce = Ok True \<longleftrightarrow>
     (\<exists>h s g rest der sg.
        split_on CHR ''.'' token = [''sha256'', h, s, signature_method pk, g] @ rest \<and>
        base64_decode X s = Ok nonce \<and> vk_to_der X pk = Ok der \<and>
        h = base64_encode X (sha256 X (der @ nonce)) \<and>
        base64_decode X g = Ok sg \<and> vk_verify X pk (sha256 X (der @ nonce)) sg = Ok ())"
  (is "?acc \<longleftrightarrow> ?spec")
proof
  assume acc: ?acc
  then have ok: "verify_token_with_result X pk token (check_nonce_salt nonce) = Ok ()"
    by (cases "verify_token_with_result X pk token (check_nonce_salt nonce)")
      (auto simp: verify_token_nonce_def)
  then have "\<not> length (split_on CHR ''.'' token) < 5"
    by (auto simp: verify_token_with_result_def)
  then obtain hm h s sm g rest where parts: "split_on CHR ''.'' token = [hm, h, s, sm, g] @ rest"
    by (rule five_parts)
  from ok show ?spec
    unfolding verify_token_parts [OF parts] using parts
    by (auto simp: rbind_eq_Ok check_nonce_salt_def split: if_splits res.splits)
next
  assume ?spec
  then obtain h s g rest der sg where
    parts: "split_on CHR ''.'' token = [''sha256'', h, s, signature_method pk, g] @ rest"
    and "base64_decode X s = Ok nonce" "vk_to_der X pk = Ok der"
      "h = base64_encode X (sha256 X (der @ nonce))" "base64_decode X g = Ok sg"
      "vk_verify X pk (sha256 X (der @ nonce)) sg = Ok ()"
    by blast
  then show ?acc
    by (simp add: verify_token_nonce_def verify_token_parts [OF parts] check_nonce_salt_def)
qed

lemma short_token_panics:
  "count_list token CHR ''.'' < 4 \<Longrightarrow>
    verify_token_with_result X pk token check = Panic ''range end index 5 out of range for slice''"
  by (simp add: verify_token_with_result_def length_split_on)

text \<open>What a token of five parts can lead to, besides the verdict of the check of its salt.\<close>

lemma long_token_result:
  assumes "4 \<le> count_list token CHR ''.''"
    and "verify_token_with_result X pk token check = q"
  obtains "q = Ok ()"
    | e where "q = Err e" "e \<noteq> Msg ''Invalid structure''"
    | salt where "check salt = q"
proof -
  from assms(1) have "\<not> length (split_on CHR ''.'' token) < 5" by (simp add: length_split_on)
  then obtain hm h s sm g rest where parts: "split_on CHR ''.'' token = [hm, h, s, sm, g] @ rest"
    by (rule five_parts)
  show thesis
  proof (cases rule: base64_decode_result [of X s])
    case (1 salt)
    show ?thesis
    proof (cases "check salt")
      case (Ok u)
      with 1 assms(2) that(1,2) show ?thesis
        unfolding verify_token_parts [OF parts]
        by (cases rule: vk_to_der_result [of X pk]; cases rule: base64_decode_result [of X g])
          (auto simp: vk_verify_cases split: res.splits if_splits)
    qed (use 1 assms(2) that(2) that(3) [of salt] in
      \<open>auto simp: verify_token_parts [OF parts] split: if_splits\<close>)
  qed (use assms(2) that(2) in \<open>auto simp: verify_token_parts [OF parts] split: if_splits\<close>)
qed

text \<open>
  C37: the malformed tokens. A token with fewer than four dots makes the verifier panic (the
  slice \<open>parts[0..5]\<close> is out of range), whatever the key and the check of the salt; every other token
  is answered with true or false by \<open>verify_token_nonce\<close>. The error \<open>Invalid structure\<close>, meant for the
  former, is never given, neither for a nonce nor for a timestamp.
\<close>

theorem verify_token_panics_iff:
  "((\<exists>p. verify_token_nonce X pk token nonce = Panic p) \<longleftrightarrow> count_list token CHR ''.'' < 4) \<and>
   ((\<exists>b. verify_token_nonce X pk token nonce = Ok b) \<longleftrightarrow> 4 \<le> count_list token CHR ''.'') \<and>
   (count_list token CHR ''.'' < 4 \<longrightarrow>
      verify_token_with_result X pk token check = Panic ''range end index 5 out of range for slice'') \<and>
   verify_token_with_result X pk token (check_nonce_salt nonce) \<noteq> Err (Msg ''Invalid structure'') \<and>
   verify_token_with_result X pk token (check_timestamp_salt overflow_checks clock) \<noteq> Err (Msg ''Invalid structure'')"
  (is "?panics \<and> ?answers \<and> _ \<and> _ \<and> _")
proof -
  have long: "\<exists>b. verify_token_nonce X pk token nonce = Ok b" if l: "4 \<le> count_list token CHR ''.''"
  proof -
    obtain q where q: "verify_token_with_result X pk token (check_nonce_salt nonce) = q" by blast
    with l show ?thesis
      by (cases rule: long_token_result) (use q in \<open>auto simp: verify_token_nonce_def check_nonce_salt_def\<close>)
  qed
  have short: "verify_token_nonce X pk token nonce = Panic ''range end index 5 out of range for slice''"
    if "count_list token CHR ''.'' < 4"
    using short_token_panics [OF that] by (simp add: verify_token_nonce_def)
  have never: "verify_token_with_result X pk token c \<noteq> Err (Msg ''Invalid structure'')"
    if "\<And>salt. c salt \<noteq> Err (Msg ''Invalid structure'')" for c
  proof (cases "count_list token CHR ''.'' < 4")
    case False
    then have "4 \<le> count_list token CHR ''.''" by simp
    then show ?thesis by (rule long_token_result [OF _ refl, where X = X and pk = pk and check = c]) (use that in auto)
  qed (simp add: short_token_panics)
  have nonce: "check_nonce_salt nonce salt \<noteq> Err (Msg ''Invalid structure'')" for salt
    by (simp add: check_nonce_salt_def)
  have timestamp: "check_timestamp_salt overflow_checks clock salt \<noteq> Err (Msg ''Invalid structure'')" for salt
    by (simp add: check_timestamp_salt_def unix_timestamp_u64_def Let_def)
  have "?panics \<and> ?answers"
    using short long by (metis not_less res.distinct(3))
  then show ?thesis using short_token_panics never [OF nonce] never [OF timestamp] by simp
qed

theorem verify_token_panics_iff_witness:
  "verify_token_with_result sample_crypto (to_verifying_key sample_crypto \<lparr>sk_inner = [1]\<rparr>) ''sha256.aa.aa.ed25519'' (\<lambda>_. Ok ()) =
     Panic ''range end index 5 out of range for slice'' \<and>
   (\<exists>b. verify_token_nonce sample_crypto (to_verifying_key sample_crypto \<lparr>sk_inner = [1]\<rparr>) ''....'' [7] = Ok b)"
proof -
  have "count_list ''sha256.aa.aa.ed25519'' CHR ''.'' < 4" and "4 \<le> count_list ''....'' CHR ''.''"
    by simp_all
  with verify_token_panics_iff [of sample_crypto "to_verifying_key sample_crypto \<lparr>sk_inner = [1]\<rparr>" "''sha256.aa.aa.ed25519''"]
    verify_token_panics_iff [of sample_crypto "to_verifying_key sample_crypto \<lparr>sk_inner = [1]\<rparr>" "''....''" "[7]"]
  show ?thesis by blast
qed

section \<open>Timestamp tokens\<close>

lemma from_le_to_le_bytes: "from_le_bytes (to_le_bytes n x) = take_bit (8 * n) x"
proof (induction n arbitrary: x)
  case (Suc n)
  show ?case
    by (rule bit_eqI) (auto simp: Suc bit_simps)
qed simp

lemma from_le_to_le_bytes_8 [simp]: "from_le_bytes (to_le_bytes 8 x) = x"
  by (simp add: from_le_to_le_bytes take_bit_word_eq_self)

lemma length_to_le_bytes [simp]: "length (to_le_bytes n x) = n"
  by (induction n arbitrary: x) auto

text \<open>The \<open>u64\<close> subtraction of two clock values, as the release build computes it.\<close>

lemma word_clock_diff:
  fixes t0 t1 :: int
  assumes "0 \<le> t0" "t0 < 2 ^ 63" "0 \<le> t1" "t1 < 2 ^ 63"
  shows "(word_of_int t1 - word_of_int t0 :: u64) > 3600 \<longleftrightarrow> \<not> (t0 \<le> t1 \<and> t1 - t0 \<le> 3600)"
    and "(word_of_int t1 :: u64) < word_of_int t0 \<longleftrightarrow> t1 < t0"
proof -
  have "uint (word_of_int t1 - word_of_int t0 :: u64) = (t1 - t0) mod 2 ^ 64"
    by (simp add: uint_word_ariths uint_word_of_int mod_simps)
  then have gt: "(word_of_int t1 - word_of_int t0 :: u64) > 3600 \<longleftrightarrow> 3600 < (t1 - t0) mod 2 ^ 64"
    by (simp add: word_less_def)
  show "(word_of_int t1 - word_of_int t0 :: u64) > 3600 \<longleftrightarrow> \<not> (t0 \<le> t1 \<and> t1 - t0 \<le> 3600)"
  proof (cases "t0 \<le> t1")
    case True
    with assms have "(t1 - t0) mod 2 ^ 64 = t1 - t0" by simp
    with True gt show ?thesis by linarith
  next
    case False
    have "(t1 - t0) mod 2 ^ 64 = (t1 - t0 + 2 ^ 64) mod 2 ^ 64" by simp
    also have "\<dots> = t1 - t0 + 2 ^ 64"
      by (rule mod_pos_pos_trivial) (use False assms in simp_all)
    finally have wrapped: "(t1 - t0) mod 2 ^ 64 = t1 - t0 + 2 ^ 64" .
    have "3600 < (t1 - t0) mod 2 ^ 64"
      unfolding wrapped using assms by simp
    with False gt show ?thesis by linarith
  qed
  show "(word_of_int t1 :: u64) < word_of_int t0 \<longleftrightarrow> t1 < t0"
    using assms by (simp add: word_less_def uint_word_of_int)
qed


text \<open>
  C24: the one-hour window. In a release build a token generated at second \<open>t0\<close> and verified with
  the maker's key at second \<open>t1\<close> is accepted exactly when \<open>t0 \<le> t1 \<le> t0 + 3600\<close>: a verifier whose
  clock runs even one second behind the signer's rejects a fresh token (the \<open>u64\<close> difference
  wraps around).
\<close>

theorem timestamp_token_window:
  assumes "base64_ok X" and "ed25519_ok X" and "generate_token_timestamp X t0 key = Ok token"
    and "0 \<le> t0" "t0 < 2 ^ 63" "0 \<le> t1" "t1 < 2 ^ 63"
  shows "verify_token_timestamp X False t1 (to_verifying_key X key) token =
    Ok (t0 \<le> t1 \<and> t1 - t0 \<le> 3600)"
proof -
  have gen: "generate_token_nonce X key (to_le_bytes 8 (word_of_int t0)) = Ok token"
    using assms(3,4) by (auto simp: generate_token_timestamp_def unix_timestamp_u64_def rbind_eq_Ok)
  have "verify_token_timestamp X False t1 (to_verifying_key X key) token =
      result_is_ok (rbind (check_timestamp_salt False t1 (to_le_bytes 8 (word_of_int t0))) (\<lambda>_. Ok ()))"
    using verify_generated_token [OF assms(1,2) gen] by (simp add: verify_token_timestamp_def)
  also have "\<dots> = Ok (t0 \<le> t1 \<and> t1 - t0 \<le> 3600)"
    using assms(4-7) word_clock_diff(1) [of t0 t1]
    by (simp add: check_timestamp_salt_def unix_timestamp_u64_def Let_def)
  finally show ?thesis .
qed

theorem timestamp_token_window_witness:
  "\<exists>token. generate_token_timestamp sample_crypto 5000 \<lparr>sk_inner = [9]\<rparr> = Ok token \<and>
     verify_token_timestamp sample_crypto False 8600 (to_verifying_key sample_crypto \<lparr>sk_inner = [9]\<rparr>) token = Ok True \<and>
     verify_token_timestamp sample_crypto False 8601 (to_verifying_key sample_crypto \<lparr>sk_inner = [9]\<rparr>) token = Ok False \<and>
     verify_token_timestamp sample_crypto False 4999 (to_verifying_key sample_crypto \<lparr>sk_inner = [9]\<rparr>) token = Ok False"
proof -
  obtain token where "generate_token_nonce sample_crypto \<lparr>sk_inner = [9]\<rparr> (to_le_bytes 8 5000) = Ok token"
    by (rule sample_generates)
  then have gen: "generate_token_timestamp sample_crypto 5000 \<lparr>sk_inner = [9]\<rparr> = Ok token"
    by (simp add: generate_token_timestamp_def unix_timestamp_u64_def)
  show ?thesis
    using gen timestamp_token_window [OF sample_crypto_ok gen, of 8600]
      timestamp_token_window [OF sample_crypto_ok gen, of 8601]
      timestamp_token_window [OF sample_crypto_ok gen, of 4999]
    by auto
qed

text \<open>
  C38: a build with overflow checks panics in the subtraction exactly on the tokens of five parts with
  the two method names, whose salt decodes to the eight bytes of a time later than the clock.
  The hash and the signature are not looked at before: anybody can make such a token, and the
  owner of the key makes one whenever the verifier's clock runs behind.
\<close>

theorem timestamp_token_future_panics:
  "verify_token_timestamp X True clock pk token = Panic ''attempt to subtract with overflow'' \<longleftrightarrow>
     (\<exists>h s g rest salt. split_on CHR ''.'' token = [''sha256'', h, s, signature_method pk, g] @ rest \<and>
        base64_decode X s = Ok salt \<and> length salt = 8 \<and> 0 \<le> clock \<and>
        word_of_int clock < from_le_bytes salt)"
  (is "?panics \<longleftrightarrow> ?future")
proof
  assume panics: ?panics
  then have run: "verify_token_with_result X pk token (check_timestamp_salt True clock) =
      Panic ''attempt to subtract with overflow''"
    by (cases "verify_token_with_result X pk token (check_timestamp_salt True clock)")
      (auto simp: verify_token_timestamp_def)
  then have "\<not> length (split_on CHR ''.'' token) < 5"
    by (auto simp: verify_token_with_result_def)
  then obtain hm h s sm g rest where parts: "split_on CHR ''.'' token = [hm, h, s, sm, g] @ rest"
    by (rule five_parts)
  have salt: "length salt = 8 \<and> 0 \<le> clock \<and> word_of_int clock < from_le_bytes salt"
    if "check_timestamp_salt True clock salt = Panic p" for salt p
    using that by (auto simp: check_timestamp_salt_def unix_timestamp_u64_def Let_def split: if_splits)
  from run have "hm = ''sha256'' \<and> sm = signature_method pk"
    unfolding verify_token_parts [OF parts] by (auto split: if_splits)
  moreover obtain v where v: "base64_decode X s = Ok v" "check_timestamp_salt True clock v = Panic ''attempt to subtract with overflow''"
  proof (cases rule: base64_decode_result [of X s])
    case (1 v)
    with calculation run have "rbind (check_timestamp_salt True clock v) (\<lambda>_. rbind (vk_to_der X pk) (\<lambda>der.
        if base64_encode X (sha256 X (der @ v)) \<noteq> h then Err (Msg ''Hash mismatch'')
        else (case base64_decode X g of
            Ok sg \<Rightarrow> (case vk_verify X pk (sha256 X (der @ v)) sg of
                Ok _ \<Rightarrow> Ok () | Err _ \<Rightarrow> Err (Msg ''Invalid signature'') | Panic s \<Rightarrow> Panic s | Wait \<Rightarrow> Wait)
          | _ \<Rightarrow> Err (Msg ''Invalid signature base64 encoding'')))) = Panic ''attempt to subtract with overflow''"
      unfolding verify_token_parts [OF parts] by simp
    then have "check_timestamp_salt True clock v = Panic ''attempt to subtract with overflow''"
      by (cases "check_timestamp_salt True clock v"; cases rule: vk_to_der_result [of X pk];
          cases rule: base64_decode_result [of X g]) (auto simp: vk_verify_cases split: res.splits if_splits)
    with 1 that show thesis by blast
  qed (use calculation run in \<open>simp add: verify_token_parts [OF parts]\<close>)
  ultimately show ?future using parts salt [OF v(2)] by blast
next
  assume ?future
  then obtain h s g rest salt where
    parts: "split_on CHR ''.'' token = [''sha256'', h, s, signature_method pk, g] @ rest"
    and "base64_decode X s = Ok salt" "length salt = 8" "0 \<le> clock" "word_of_int clock < from_le_bytes salt"
    by blast
  then show ?panics
    by (simp add: verify_token_timestamp_def verify_token_parts [OF parts] check_timestamp_salt_def unix_timestamp_u64_def)
qed

text \<open>So does every token the owner of the key makes ahead of the verifier's clock.\<close>

lemma generated_future_token_panics:
  assumes "base64_ok X" and "ed25519_ok X" and "generate_token_timestamp X t0 key = Ok token"
    and "0 \<le> t1" "t1 < t0" "t0 < 2 ^ 63"
  shows "verify_token_timestamp X True t1 (to_verifying_key X key) token =
    Panic ''attempt to subtract with overflow''"
proof -
  have gen: "generate_token_nonce X key (to_le_bytes 8 (word_of_int t0)) = Ok token"
    using assms(3-5) by (auto simp: generate_token_timestamp_def unix_timestamp_u64_def rbind_eq_Ok)
  then show ?thesis
    using verify_generated_token [OF assms(1,2) gen] word_clock_diff(2) [of t0 t1] assms(4-6)
    by (simp add: verify_token_timestamp_def check_timestamp_salt_def unix_timestamp_u64_def Let_def)
qed

section \<open>Certificates\<close>

lemma verify_cert_from_cert_Ok:
  "verify_cert_from_cert X cert pk = Ok () \<longleftrightarrow>
     cert_valid_now cert \<and> cert_self_signature_ok cert \<and>
     (\<forall>pem. pk = Some pem \<longrightarrow>
        (\<exists>k d spki. spki_parsed X (cert_subject_pki cert) = Some k \<and> pem_read X pem = Some d \<and>
           spki_from_der X d = Some spki \<and> spki_parsed X spki = Some k))"
  by (cases pk) (auto simp: verify_cert_from_cert_def rbind_eq_Ok split: if_splits)

text \<open>
  C25: pinning. A certificate passes \<open>verify_cert_from_der\<close> with a pinned key exactly when it
  parses, is within its validity period, verifies under its own key, and its key parses to the
  same key as the pinned PEM; without a pinned key the last condition is dropped. A mismatch is
  reported before the signature is looked at and after the validity period.
\<close>

theorem verify_cert_from_der_iff:
  "(verify_cert_from_der X der pk = Ok () \<longleftrightarrow>
     (\<exists>cert. x509_from_der X der = Some cert \<and> cert_valid_now cert \<and> cert_self_signature_ok cert \<and>
       (case pk of None \<Rightarrow> True
        | Some pem \<Rightarrow> (\<exists>k d spki. spki_parsed X (cert_subject_pki cert) = Some k \<and>
            pem_read X pem = Some d \<and> spki_from_der X d = Some spki \<and> spki_parsed X spki = Some k)))) \<and>
   (verify_cert_from_der X der pk = Err (Msg ''Public key mismatch'') \<longleftrightarrow>
     (\<exists>cert pem k d spki k'. x509_from_der X der = Some cert \<and> cert_valid_now cert \<and> pk = Some pem \<and>
        spki_parsed X (cert_subject_pki cert) = Some k \<and> pem_read X pem = Some d \<and>
        spki_from_der X d = Some spki \<and> spki_parsed X spki = Some k' \<and> k \<noteq> k'))"
proof (cases "x509_from_der X der")
  case (Some cert)
  show ?thesis
  proof (cases pk)
    case None
    with Some show ?thesis by (auto simp: verify_cert_from_der_def verify_cert_from_cert_def)
  next
    case pem: (Some pem)
    have run: "verify_cert_from_der X der pk = verify_cert_from_cert X cert (Some pem)"
      using Some pem by (simp add: verify_cert_from_der_def)
    have "verify_cert_from_cert X cert (Some pem) = Err (Msg ''Public key mismatch'') \<longleftrightarrow>
      cert_valid_now cert \<and> (\<exists>k d spki k'. spki_parsed X (cert_subject_pki cert) = Some k \<and>
        pem_read X pem = Some d \<and> spki_from_der X d = Some spki \<and> spki_parsed X spki = Some k' \<and> k \<noteq> k')"
      by (cases "spki_parsed X (cert_subject_pki cert)"; cases "pem_read X pem")
        (auto simp: verify_cert_from_cert_def res_of_option_def split: option.splits)
    with Some pem show ?thesis
      unfolding run by (simp add: verify_cert_from_cert_Ok)
  qed
qed (simp add: verify_cert_from_der_def)

end
