(* ===== verification/Model_Types.thy ===== *)
theory Model_Types
  imports LS_Prelude
begin

text \<open>
  The data the components exchange, in the order of the code: \<open>core/src/model\<close> (devices and
  files), \<open>core/src/webrtc/signaling.rs\<close> (the messages of the signaling channel) and the head of
  \<open>core/src/webrtc/webrtc.rs\<close> (the messages of a data channel, the configuration and the status
  values). A \<open>HashMap\<close> is an association list in the map's iteration order, a \<open>HashSet\<close> a list,
  a \<open>Uuid\<close> its 128 bits.
\<close>

section \<open>core/src/model\<close>

datatype device_type = Mobile | Desktop | Web | Headless | Server

record file_metadata =
  fm_modified :: "string option"
  fm_accessed :: "string option"

record file_dto =
  fd_id :: string
  fd_file_name :: string
  fd_size :: u64
  fd_file_type :: string
  fd_sha256 :: "string option"
  fd_preview :: "string option"
  fd_metadata :: "file_metadata option"

section \<open>Signaling messages\<close>

type_synonym uuid = "128 word"

record client_info_without_id =
  ciw_alias :: string
  ciw_version :: string
  ciw_device_model :: "string option"
  ciw_device_type :: "device_type option"
  ciw_token :: string

record client_info =
  ci_id :: uuid
  ci_alias :: string
  ci_version :: string
  ci_device_model :: "string option"
  ci_device_type :: "device_type option"
  ci_token :: string

definition client_info_from :: "client_info_without_id \<Rightarrow> uuid \<Rightarrow> client_info" where
  "client_info_from info i =
     \<lparr>ci_id = i, ci_alias = ciw_alias info, ci_version = ciw_version info,
      ci_device_model = ciw_device_model info, ci_device_type = ciw_device_type info,
      ci_token = ciw_token info\<rparr>"

definition client_info_strip :: "client_info \<Rightarrow> client_info_without_id" where
  "client_info_strip info =
     \<lparr>ciw_alias = ci_alias info, ciw_version = ci_version info,
      ciw_device_model = ci_device_model info, ciw_device_type = ci_device_type info,
      ciw_token = ci_token info\<rparr>"

lemma client_info_from_strip [simp]: "client_info_from (client_info_strip c) (ci_id c) = c"
  by (simp add: client_info_from_def client_info_strip_def)

lemma client_info_strip_from [simp]: "client_info_strip (client_info_from c i) = c"
  by (simp add: client_info_from_def client_info_strip_def)

lemma client_info_from_id [simp]: "ci_id (client_info_from c i) = i"
  by (simp add: client_info_from_def)

record ws_server_sdp_message =
  ss_peer :: client_info
  ss_session_id :: string
  ss_sdp :: string

datatype ws_server_message =
    SHello client_info "client_info list"
  | SJoin client_info
  | SUpdate client_info
  | SLeft uuid
  | SOffer ws_server_sdp_message
  | SAnswer ws_server_sdp_message
  | SError u16

record ws_client_sdp_message =
  cs_session_id :: string
  cs_target :: uuid
  cs_sdp :: string

datatype ws_client_message =
    CUpdate client_info_without_id
  | COffer ws_client_sdp_message
  | CAnswer ws_client_sdp_message

section \<open>Data channel messages\<close>

datatype rtc_token_response = TokenOk string | TokenPinRequired string | TokenInvalidSignature

datatype rtc_pin_receiving_response = PinReceivingOk | PinReceivingRequired | PinReceivingTooManyAttempts

datatype rtc_pin_sending_response =
  PinSendingOk "file_dto list" | PinSendingRequired | PinSendingTooManyAttempts

datatype rtc_file_list_response =
    FileListOk "(string \<times> string) list"
  | FileListPair string
  | FileListDeclined
  | FileListInvalidSignature

datatype rtc_pair_response = PairOk string | PairDeclined | PairInvalidSignature

record rtc_send_file_header_request =
  fh_id :: string
  fh_token :: string

record rtc_send_file_response =
  fr_id :: string
  fr_success :: bool
  fr_error :: "string option"

datatype rtc_status =
    SdpExchanged | Connected | PinRequired | TooManyAttempts | Declined | Sending | Finished
  | StatusError string

record rtc_file_error =
  fe_file_id :: string
  fe_error :: string

record pin_config =
  pc_pin :: string
  pc_max_tries :: u8

text \<open>A message of a data channel: a text or a binary one, with its bytes.\<close>

record data_channel_message =
  is_string :: bool
  msg_data :: "byte list"

abbreviation Text :: "string \<Rightarrow> data_channel_message" where
  "Text s \<equiv> \<lparr>is_string = True, msg_data = as_bytes s\<rparr>"

abbreviation Binary :: "byte list \<Rightarrow> data_channel_message" where
  "Binary b \<equiv> \<lparr>is_string = False, msg_data = b\<rparr>"

end
