(* ===== verification/Rtc_World.thy ===== *)
theory Rtc_World
  imports Model_Types "HOL-Library.Sublist"
begin

text \<open>
  How the sequential tasks of \<open>core/src/webrtc/webrtc.rs\<close> run. A task is a function from the
  world it runs in to its outcome and the world it leaves. The world holds, for each channel the
  task reads, what will arrive on it and whether it is closed afterwards, and for each channel it
  writes, what was written so far and whether the other side is still there. An \<open>await\<close> on a
  channel that is empty and open does not complete: the outcome is \<open>Wait\<close>, in the world at that
  point. Channels are FIFO queues; their capacities are not modelled, so a task never waits for
  room in a queue. (That of the incoming messages is the subject of \<open>Rtc_Channel\<close>.)
\<close>

section \<open>The task monad\<close>

type_synonym ('w, 'a) task = "'w \<Rightarrow> 'a res \<times> 'w"

definition return_t :: "'a \<Rightarrow> ('w, 'a) task" where
  "return_t x w = (Ok x, w)"

definition fail_t :: "err \<Rightarrow> ('w, 'a) task" where
  "fail_t e w = (Err e, w)"

definition wait_t :: "('w, 'a) task" where
  "wait_t w = (Wait, w)"

definition lift_t :: "'a res \<Rightarrow> ('w, 'a) task" where
  "lift_t r w = (r, w)"

definition bind_t :: "('w, 'a) task \<Rightarrow> ('a \<Rightarrow> ('w, 'b) task) \<Rightarrow> ('w, 'b) task" where
  "bind_t t f w =
     (case t w of
        (Ok x, w') \<Rightarrow> f x w'
      | (Err e, w') \<Rightarrow> (Err e, w')
      | (Panic s, w') \<Rightarrow> (Panic s, w')
      | (Wait, w') \<Rightarrow> (Wait, w'))"

text \<open>\<open>if let Err(e) = ...\<close>: the error becomes a value; a panic and an open wait do not.\<close>

definition try_t :: "('w, 'a) task \<Rightarrow> ('w, err + 'a) task" where
  "try_t t w =
     (case t w of
        (Ok x, w') \<Rightarrow> (Ok (Inr x), w')
      | (Err e, w') \<Rightarrow> (Ok (Inl e), w')
      | (Panic s, w') \<Rightarrow> (Panic s, w')
      | (Wait, w') \<Rightarrow> (Wait, w'))"

text \<open>\<open>let _ = ...\<close>: the result is dropped.\<close>

definition ignore_t :: "('w, 'a) task \<Rightarrow> ('w, unit) task" where
  "ignore_t t = bind_t (try_t t) (\<lambda>_. return_t ())"

text \<open>\<open>map_err\<close>.\<close>

definition map_err_t :: "(err \<Rightarrow> err) \<Rightarrow> ('w, 'a) task \<Rightarrow> ('w, 'a) task" where
  "map_err_t g t w =
     (case t w of
        (Ok x, w') \<Rightarrow> (Ok x, w')
      | (Err e, w') \<Rightarrow> (Err (g e), w')
      | (Panic s, w') \<Rightarrow> (Panic s, w')
      | (Wait, w') \<Rightarrow> (Wait, w'))"

lemma bind_t_eqs [task_simps]:
  "t w = (Ok x, w') \<Longrightarrow> bind_t t f w = f x w'"
  "t w = (Err e, w') \<Longrightarrow> bind_t t f w = (Err e, w')"
  "t w = (Panic s, w') \<Longrightarrow> bind_t t f w = (Panic s, w')"
  "t w = (Wait, w') \<Longrightarrow> bind_t t f w = (Wait, w')"
  by (simp_all add: bind_t_def)

lemma simple_task_eqs [simp, task_simps]:
  "return_t x w = (Ok x, w)" "fail_t e w = (Err e, w)" "wait_t w = (Wait, w)" "lift_t r w = (r, w)"
  by (simp_all add: return_t_def fail_t_def wait_t_def lift_t_def)

lemma try_t_eqs [task_simps]:
  "t w = (Ok x, w') \<Longrightarrow> try_t t w = (Ok (Inr x), w')"
  "t w = (Err e, w') \<Longrightarrow> try_t t w = (Ok (Inl e), w')"
  by (simp_all add: try_t_def)

lemma ignore_t_eqs [task_simps]:
  "t w = (Ok x, w') \<Longrightarrow> ignore_t t w = (Ok (), w')"
  "t w = (Err e, w') \<Longrightarrow> ignore_t t w = (Ok (), w')"
  by (simp_all add: ignore_t_def try_t_def bind_t_def)

lemma map_err_t_eqs [task_simps]:
  "t w = (Ok x, w') \<Longrightarrow> map_err_t g t w = (Ok x, w')"
  "t w = (Err e, w') \<Longrightarrow> map_err_t g t w = (Err (g e), w')"
  by (simp_all add: map_err_t_def)

lemma bind_t_Ok_iff:
  "bind_t t f w = (Ok y, w'') \<longleftrightarrow> (\<exists>x w'. t w = (Ok x, w') \<and> f x w' = (Ok y, w''))"
  by (auto simp: bind_t_def split: prod.splits res.splits)

lemma bind_t_assoc: "bind_t (bind_t t f) g = bind_t t (\<lambda>x. bind_t (f x) g)"
  by (rule ext) (auto simp: bind_t_def split: prod.splits res.splits)

lemma bind_t_return [simp]: "bind_t (return_t x) f = f x"
  by (rule ext) (simp add: bind_t_def)

text \<open>
  Reasoning about every world a task can leave: \<open>leaves R t\<close> says that \<open>t\<close> relates the world it
  starts in to the one it stops in by \<open>R\<close>, whatever its outcome. A reflexive and transitive \<open>R\<close>
  is kept by every combinator.
\<close>

definition leaves :: "('w \<Rightarrow> 'w \<Rightarrow> bool) \<Rightarrow> ('w, 'a) task \<Rightarrow> bool" where
  "leaves R t \<longleftrightarrow> (\<forall>w. R w (snd (t w)))"

lemma leavesD: "leaves R t \<Longrightarrow> t w = (r, w') \<Longrightarrow> R w w'"
  by (metis leaves_def snd_conv)

lemma leaves_simple:
  assumes "reflp R"
  shows "leaves R (return_t x)" "leaves R (fail_t e)" "leaves R wait_t" "leaves R (lift_t r)"
    "leaves R (Pair q)"
  using assms by (simp_all add: leaves_def reflpD)

lemma leaves_bind:
  assumes "transp R" and "leaves R t" and "\<And>x. leaves R (f x)"
  shows "leaves R (bind_t t f)"
  unfolding leaves_def
proof
  fix w
  obtain r w1 where t: "t w = (r, w1)" by (cases "t w")
  with assms(2) have 1: "R w w1" by (rule leavesD)
  show "R w (snd (bind_t t f w))"
  proof (cases r)
    case (Ok x)
    with t have "bind_t t f w = f x w1" by (simp add: bind_t_def)
    moreover have "R w1 (snd (f x w1))" using assms(3) by (simp add: leaves_def)
    ultimately show ?thesis using 1 assms(1) by (metis transpD)
  qed (use t 1 in \<open>simp_all add: bind_t_def\<close>)
qed

lemma leaves_try: "leaves R t \<Longrightarrow> leaves R (try_t t)"
  by (auto simp: leaves_def try_t_def split: prod.splits res.splits) (metis snd_conv)+

lemma leaves_map_err: "leaves R t \<Longrightarrow> leaves R (map_err_t g t)"
  by (auto simp: leaves_def map_err_t_def split: prod.splits res.splits) (metis snd_conv)+

lemma leaves_ignore: "reflp R \<Longrightarrow> transp R \<Longrightarrow> leaves R t \<Longrightarrow> leaves R (ignore_t t)"
  unfolding ignore_t_def by (intro leaves_bind leaves_try leaves_simple)

section \<open>The world of a transfer\<close>

text \<open>What the application does with one request for a PIN.\<close>

datatype pin_reply = PinRequestRefused | PinDropped | PinGiven string

record world =
  w_in :: "data_channel_message list"
  w_in_closed :: bool
  w_sends :: "string option list"
  w_out :: "data_channel_message list"
  w_buffered :: "nat list"
  w_status :: "rtc_status list"
  w_status_left :: "nat option"
  w_status_full :: bool
  w_pins :: "pin_reply list"
  w_errors :: "rtc_file_error list"

text \<open>
  \<open>w_in\<close> and \<open>w_in_closed\<close> are the stream behind \<open>receive_rx\<close>; \<open>w_sends\<close> the results of the next
  sends on the data channel (\<open>None\<close> succeeds, \<open>Some\<close> fails with that text, past its end all
  succeed); \<open>w_out\<close> what was sent; \<open>w_buffered\<close> the values \<open>buffered_amount\<close> will report (0 past
  its end); \<open>w_status\<close> what was put on \<open>status_tx\<close>, whose receiver goes away after \<open>w_status_left\<close>
  more values (\<open>None\<close>: never) and is full for \<open>try_send\<close> when \<open>w_status_full\<close>; \<open>w_pins\<close> the
  answers to the PIN requests; \<open>w_errors\<close> what was put on \<open>error_tx\<close>.
\<close>

definition recv :: "('z world_scheme, data_channel_message option) task" where
  "recv w =
     (case w_in w of
        m # ms \<Rightarrow> (Ok (Some m), w\<lparr>w_in := ms\<rparr>)
      | [] \<Rightarrow> (if w_in_closed w then Ok None else Wait, w))"

definition send_message :: "data_channel_message \<Rightarrow> ('z world_scheme, unit) task" where
  "send_message m w =
     (case w_sends w of
        [] \<Rightarrow> (Ok (), w\<lparr>w_out := w_out w @ [m]\<rparr>)
      | None # rs \<Rightarrow> (Ok (), w\<lparr>w_sends := rs, w_out := w_out w @ [m]\<rparr>)
      | Some e # rs \<Rightarrow> (Err (Lib e), w\<lparr>w_sends := rs\<rparr>))"

definition send_text :: "string \<Rightarrow> ('z world_scheme, unit) task" where
  "send_text s = send_message (Text s)"

definition send_binary :: "byte list \<Rightarrow> ('z world_scheme, unit) task" where
  "send_binary b = send_message (Binary b)"

definition send_status :: "rtc_status \<Rightarrow> ('z world_scheme, unit) task" where
  "send_status s w =
     (case w_status_left w of
        None \<Rightarrow> (Ok (), w\<lparr>w_status := w_status w @ [s]\<rparr>)
      | Some 0 \<Rightarrow> (Err (Lib ''channel closed''), w)
      | Some (Suc n) \<Rightarrow> (Ok (), w\<lparr>w_status := w_status w @ [s], w_status_left := Some n\<rparr>))"

definition try_send_status :: "rtc_status \<Rightarrow> ('z world_scheme, unit) task" where
  "try_send_status s w =
     (if w_status_full w then (Err (Lib ''no available capacity''), w) else send_status s w)"

text \<open>\<open>let _ = error_tx.send(...).await\<close>: whether anybody still listens makes no difference.\<close>

definition send_error :: "string \<Rightarrow> string \<Rightarrow> ('z world_scheme, unit) task" where
  "send_error file_id e w =
     (Ok (), w\<lparr>w_errors := w_errors w @ [\<lparr>fe_file_id = file_id, fe_error = e\<rparr>]\<rparr>)"

text \<open>\<open>wait_buffer_empty\<close>: poll \<open>buffered_amount\<close> until it reads zero.\<close>

fun drop_until_zero :: "nat list \<Rightarrow> nat list" where
  "drop_until_zero [] = []"
| "drop_until_zero (n # ns) = (if n \<noteq> 0 then drop_until_zero ns else ns)"

definition wait_buffer_empty :: "('z world_scheme, unit) task" where
  "wait_buffer_empty w = (Ok (), w\<lparr>w_buffered := drop_until_zero (w_buffered w)\<rparr>)"

text \<open>
  The common case: a data channel that accepts every send and a status channel that is listened to.
\<close>

definition healthy :: "'z world_scheme \<Rightarrow> bool" where
  "healthy w \<longleftrightarrow> w_sends w = [] \<and> w_status_left w = None"

lemma recv_eqs [task_simps]:
  "w_in w = m # ms \<Longrightarrow> recv w = (Ok (Some m), w\<lparr>w_in := ms\<rparr>)"
  "w_in w = [] \<Longrightarrow> w_in_closed w \<Longrightarrow> recv w = (Ok None, w)"
  "w_in w = [] \<Longrightarrow> \<not> w_in_closed w \<Longrightarrow> recv w = (Wait, w)"
  by (simp_all add: recv_def)

lemma send_eqs [task_simps]:
  "w_sends w = [] \<Longrightarrow> send_message m w = (Ok (), w\<lparr>w_out := w_out w @ [m]\<rparr>)"
  "w_sends w = [] \<Longrightarrow> send_text s w = (Ok (), w\<lparr>w_out := w_out w @ [Text s]\<rparr>)"
  "w_sends w = [] \<Longrightarrow> send_binary b w = (Ok (), w\<lparr>w_out := w_out w @ [Binary b]\<rparr>)"
  "w_status_left w = None \<Longrightarrow> send_status st w = (Ok (), w\<lparr>w_status := w_status w @ [st]\<rparr>)"
  by (simp_all add: send_message_def send_text_def send_binary_def send_status_def)

text \<open>What a task has written stays written: its outputs only grow.\<close>

definition grows :: "'z world_scheme \<Rightarrow> 'z world_scheme \<Rightarrow> bool" where
  "grows w w' \<longleftrightarrow> prefix (w_out w) (w_out w') \<and> prefix (w_status w) (w_status w') \<and>
     prefix (w_errors w) (w_errors w')"

lemma grows_order: "reflp grows" "transp grows"
  by (auto simp: grows_def reflp_def transp_def intro: prefix_order.order_trans)

lemma leaves_grows_ops:
  "leaves grows recv" "leaves grows (send_message m)" "leaves grows (send_text s)"
  "leaves grows (send_binary b)" "leaves grows (send_status st)" "leaves grows (try_send_status st)"
  "leaves grows (send_error f e)" "leaves grows wait_buffer_empty"
  by (auto simp: leaves_def grows_def recv_def send_message_def send_text_def send_binary_def
      send_status_def try_send_status_def send_error_def wait_buffer_empty_def
      split: list.splits option.splits nat.splits)

lemmas leaves_grows [intro] =
  leaves_grows_ops leaves_simple [OF grows_order(1)] leaves_bind [OF grows_order(2)]
  leaves_try leaves_map_err leaves_ignore [OF grows_order]

end
