(* ===== verification/Rtc_Chunks.thy ===== *)
theory Rtc_Chunks
  imports Rtc_World
begin

text \<open>
  Strings and files on a data channel, the end of \<open>core/src/webrtc/webrtc.rs\<close>: a payload is cut
  into binary messages of at most \<open>CHUNK_SIZE\<close> bytes (\<open>process_in_chunks\<close>,
  \<open>send_string_in_chunks\<close>), a text message ends it (\<open>send_delimiter\<close>), and the other side puts the
  pieces together again (\<open>receive_string_from_chunks\<close>). Also \<open>buffer_receiver\<close> of
  \<open>app/rust/src/util/bytes.rs\<close>, which regroups a stream of pieces for the application.
\<close>

section \<open>The operations\<close>

definition CHUNK_SIZE :: nat where
  "CHUNK_SIZE = 16 * 1024"

lemma CHUNK_SIZE_pos [simp]: "0 < CHUNK_SIZE"
  by (simp add: CHUNK_SIZE_def)

text \<open>The inner loop: hand full chunks to the callback while the buffer holds one.\<close>

function drain_full ::
  "('t \<Rightarrow> byte list \<Rightarrow> ('w, 't) task) \<Rightarrow> 't \<Rightarrow> byte list \<Rightarrow> ('w, 't \<times> byte list) task" where
  "drain_full callback dc buffer =
     (if length buffer \<ge> CHUNK_SIZE
      then bind_t (callback dc (take CHUNK_SIZE buffer))
             (\<lambda>dc'. drain_full callback dc' (drop CHUNK_SIZE buffer))
      else return_t (dc, buffer))"
  by pat_completeness auto
termination
  by (relation "measure (\<lambda>(_, _, buffer). length buffer)") (auto simp: CHUNK_SIZE_def)

declare drain_full.simps [simp del]

text \<open>
  The outer loop over what arrives on \<open>rx\<close>; \<open>closed\<close> says whether \<open>rx\<close> is closed after these
  pieces (otherwise the task goes on waiting for more).
\<close>

fun chunk_loop ::
  "('t \<Rightarrow> byte list \<Rightarrow> ('w, 't) task) \<Rightarrow> bool \<Rightarrow> 't \<Rightarrow> byte list \<Rightarrow> byte list list \<Rightarrow> ('w, unit) task" where
  "chunk_loop callback closed dc buffer [] =
     (if closed then
        (if buffer \<noteq> [] then bind_t (callback dc buffer) (\<lambda>_. return_t ()) else return_t ())
      else wait_t)"
| "chunk_loop callback closed dc buffer (data # rx) =
     bind_t (drain_full callback dc (buffer @ data))
       (\<lambda>(dc', buffer'). chunk_loop callback closed dc' buffer' rx)"

definition process_in_chunks ::
  "'t \<Rightarrow> byte list list \<Rightarrow> bool \<Rightarrow> ('t \<Rightarrow> byte list \<Rightarrow> ('w, 't) task) \<Rightarrow> ('w, unit) task" where
  "process_in_chunks dc rx closed callback = chunk_loop callback closed dc [] rx"

definition send_string_in_chunks ::
  "'t \<Rightarrow> string \<Rightarrow> ('t \<Rightarrow> byte list \<Rightarrow> ('w, 't) task) \<Rightarrow> ('w, unit) task" where
  "send_string_in_chunks dc s callback = process_in_chunks dc [as_bytes s] True callback"

text \<open>The callback every caller passes: \<open>data_channel.send(&chunk)\<close>.\<close>

definition send_chunk :: "unit \<Rightarrow> byte list \<Rightarrow> ('z world_scheme, unit) task" where
  "send_chunk dc chunk = bind_t (send_binary chunk) (\<lambda>_. return_t dc)"

definition send_delimiter :: "('z world_scheme, unit) task" where
  "send_delimiter = bind_t (send_text ''0'') (\<lambda>_. return_t ())"

definition is_delimiter :: "data_channel_message \<Rightarrow> bool" where
  "is_delimiter m \<longleftrightarrow> is_string m \<and> length (msg_data m) \<le> 1"

text \<open>
  The receiving loop over the queued messages: the payload and the messages after the text
  message that ends it, or \<open>None\<close> and the payload so far when the queue runs out first.
\<close>

fun collect_chunks :: "data_channel_message list \<Rightarrow> byte list \<Rightarrow> byte list \<times> data_channel_message list option" where
  "collect_chunks [] buffer = (buffer, None)"
| "collect_chunks (m # ms) buffer =
     (if is_string m then (buffer, Some ms) else collect_chunks ms (buffer @ msg_data m))"

definition receive_string_from_chunks :: "('z world_scheme, byte list) task" where
  "receive_string_from_chunks w =
     (case collect_chunks (w_in w) [] of
        (buffer, Some ms) \<Rightarrow> (Ok buffer, w\<lparr>w_in := ms\<rparr>)
      | (buffer, None) \<Rightarrow> (if w_in_closed w then Ok buffer else Wait, w\<lparr>w_in := []\<rparr>))"

section \<open>The chunking loop against its reference\<close>

text \<open>A callback that always succeeds and only adds to a log.\<close>

definition logs :: "('t \<Rightarrow> byte list \<Rightarrow> ('w, 't) task) \<Rightarrow> ('w \<Rightarrow> bool) \<Rightarrow> 't \<Rightarrow> (byte list \<Rightarrow> 'w \<Rightarrow> 'w) \<Rightarrow> bool" where
  "logs callback P dc add \<longleftrightarrow>
     (\<forall>b w. P w \<longrightarrow> callback dc b w = (Ok dc, add b w) \<and> P (add b w))"

lemma logs_fold: "logs cb P dc add \<Longrightarrow> P w \<Longrightarrow> P (fold add bs w)"
  by (induction bs arbitrary: w) (auto simp: logs_def)

definition full_part :: "byte list \<Rightarrow> byte list" where
  "full_part buffer = take (length buffer - length buffer mod CHUNK_SIZE) buffer"

definition rest_part :: "byte list \<Rightarrow> byte list" where
  "rest_part buffer = drop (length buffer - length buffer mod CHUNK_SIZE) buffer"

lemma full_rest [simp]: "full_part b @ rest_part b = b"
  by (simp add: full_part_def rest_part_def)

lemma length_rest_part: "length (rest_part b) = length b mod CHUNK_SIZE"
  by (simp add: rest_part_def)

lemma short_parts: "length b < CHUNK_SIZE \<Longrightarrow> full_part b = [] \<and> rest_part b = b"
  by (simp add: full_part_def rest_part_def)

lemma long_parts:
  assumes "CHUNK_SIZE \<le> length b"
  shows "full_part b = take CHUNK_SIZE b @ full_part (drop CHUNK_SIZE b)"
    and "rest_part b = rest_part (drop CHUNK_SIZE b)"
proof -
  have m: "(length b - CHUNK_SIZE) mod CHUNK_SIZE = length b mod CHUNK_SIZE"
    using assms by (simp add: le_mod_geq)
  have le: "length b mod CHUNK_SIZE \<le> length b - CHUNK_SIZE"
    using assms by (simp add: le_mod_geq)
  let ?k = "length b - CHUNK_SIZE - length b mod CHUNK_SIZE"
  have cut: "length b - length b mod CHUNK_SIZE = CHUNK_SIZE + ?k"
    using assms le by linarith
  have "full_part b = take (CHUNK_SIZE + ?k) b" by (simp only: full_part_def cut)
  also have "\<dots> = take CHUNK_SIZE b @ take ?k (drop CHUNK_SIZE b)" by (rule take_add)
  finally show "full_part b = take CHUNK_SIZE b @ full_part (drop CHUNK_SIZE b)"
    by (simp only: full_part_def length_drop m)
  have "rest_part b = drop (?k + CHUNK_SIZE) b" by (simp only: rest_part_def cut add.commute)
  then show "rest_part b = rest_part (drop CHUNK_SIZE b)"
    by (simp only: rest_part_def length_drop m drop_drop)
qed

lemma blocks_append_full_part:
  "blocks CHUNK_SIZE (b @ x) = blocks CHUNK_SIZE (full_part b) @ blocks CHUNK_SIZE (rest_part b @ x)"
proof (induction "length b" arbitrary: b rule: less_induct)
  case less
  show ?case
  proof (cases "length b < CHUNK_SIZE")
    case True
    then show ?thesis by (simp add: short_parts)
  next
    case False
    then have "take CHUNK_SIZE b @ drop CHUNK_SIZE b @ x = b @ x" and "length (take CHUNK_SIZE b) = CHUNK_SIZE"
      by simp_all
    then have "blocks CHUNK_SIZE (b @ x) = take CHUNK_SIZE b # blocks CHUNK_SIZE (drop CHUNK_SIZE b @ x)"
      by (metis blocks_append_full CHUNK_SIZE_pos)
    moreover have "length (drop CHUNK_SIZE b) < length b"
      using False by (simp add: CHUNK_SIZE_def)
    then have "blocks CHUNK_SIZE (drop CHUNK_SIZE b @ x) =
        blocks CHUNK_SIZE (full_part (drop CHUNK_SIZE b)) @ blocks CHUNK_SIZE (rest_part (drop CHUNK_SIZE b) @ x)"
      by (rule less)
    moreover have "blocks CHUNK_SIZE (full_part b) =
        take CHUNK_SIZE b # blocks CHUNK_SIZE (full_part (drop CHUNK_SIZE b))"
      using False by (simp add: long_parts(1) [of b] blocks_append_full)
    ultimately show ?thesis
      using False by (simp add: long_parts(2) [of b])
  qed
qed

lemma drain_full_logs:
  assumes "logs cb P dc add" and "P w"
  shows "drain_full cb dc buffer w =
    (Ok (dc, rest_part buffer), fold add (blocks CHUNK_SIZE (full_part buffer)) w)"
  using assms(2)
proof (induction "length buffer" arbitrary: buffer w rule: less_induct)
  case less
  show ?case
  proof (cases "CHUNK_SIZE \<le> length buffer")
    case True
    have step: "cb dc (take CHUNK_SIZE buffer) w = (Ok dc, add (take CHUNK_SIZE buffer) w)"
      and P: "P (add (take CHUNK_SIZE buffer) w)"
      using assms(1) less.prems by (auto simp: logs_def)
    have "length (drop CHUNK_SIZE buffer) < length buffer"
      using True by (simp add: CHUNK_SIZE_def)
    from less.hyps [OF this P] True step show ?thesis
      by (subst drain_full.simps) (simp add: bind_t_eqs long_parts [of buffer] blocks_append_full)
  qed (simp add: drain_full.simps short_parts)
qed

lemma chunk_loop_logs:
  assumes "logs cb P dc add" and "P w"
  shows "length buffer < CHUNK_SIZE \<Longrightarrow> chunk_loop cb True dc buffer rx w =
    (Ok (), fold add (blocks CHUNK_SIZE (buffer @ concat rx)) w)"
  using assms(2)
proof (induction rx arbitrary: buffer w)
  case Nil
  then have "cb dc buffer w = (Ok dc, add buffer w)"
    using assms(1) by (simp add: logs_def)
  with Nil show ?case
    by (cases "buffer = []") (simp_all add: bind_t_eqs blocks_short)
next
  case (Cons d rx)
  let ?b = "buffer @ d"
  have drain: "drain_full cb dc ?b w = (Ok (dc, rest_part ?b), fold add (blocks CHUNK_SIZE (full_part ?b)) w)"
    using assms(1) Cons.prems(2) by (rule drain_full_logs)
  have "length (rest_part ?b) < CHUNK_SIZE"
    by (simp add: length_rest_part)
  moreover have "P (fold add (blocks CHUNK_SIZE (full_part ?b)) w)"
    using assms(1) Cons.prems(2) by (rule logs_fold)
  ultimately have "chunk_loop cb True dc (rest_part ?b) rx (fold add (blocks CHUNK_SIZE (full_part ?b)) w) =
      (Ok (), fold add (blocks CHUNK_SIZE (rest_part ?b @ concat rx)) (fold add (blocks CHUNK_SIZE (full_part ?b)) w))"
    by (rule Cons.IH)
  with drain show ?case
    using blocks_append_full_part [of ?b "concat rx"] by (simp add: bind_t_eqs)
qed

text \<open>The data channel's callback on a channel that accepts every send.\<close>

lemma send_chunk_logs:
  "logs send_chunk (\<lambda>w. w_sends w = []) () (\<lambda>b w. w\<lparr>w_out := w_out w @ [Binary b]\<rparr>)"
  by (simp add: logs_def send_chunk_def task_simps)

lemma fold_append_out:
  "fold (\<lambda>b w. w\<lparr>w_out := w_out w @ [Binary b]\<rparr>) bs w = w\<lparr>w_out := w_out w @ map Binary bs\<rparr>"
  by (induction bs arbitrary: w) simp_all

lemma process_in_chunks_sends [task_simps]:
  assumes "w_sends w = []"
  shows "process_in_chunks () rx True send_chunk w =
    (Ok (), w\<lparr>w_out := w_out w @ map Binary (blocks CHUNK_SIZE (concat rx))\<rparr>)"
  using chunk_loop_logs [OF send_chunk_logs assms, of "[]" rx]
  by (simp add: process_in_chunks_def fold_append_out)

lemma send_string_in_chunks_sends [task_simps]:
  assumes "w_sends w = []"
  shows "send_string_in_chunks () s send_chunk w =
    (Ok (), w\<lparr>w_out := w_out w @ map Binary (blocks CHUNK_SIZE (as_bytes s))\<rparr>)"
  using process_in_chunks_sends [OF assms] by (simp add: send_string_in_chunks_def)

lemma send_delimiter_sends [task_simps]:
  "w_sends w = [] \<Longrightarrow> send_delimiter w = (Ok (), w\<lparr>w_out := w_out w @ [Text ''0'']\<rparr>)"
  by (simp add: send_delimiter_def task_simps)

section \<open>The transport of a payload, over any way of cutting it\<close>

text \<open>
  The receiving side does not depend on where the sending side cuts: any cut whose pieces
  concatenate to the payload is put together again.
\<close>

locale chunker =
  fixes cut :: "byte list \<Rightarrow> byte list list"
  assumes concat_cut: "concat (cut b) = b"
begin

lemma collect_cut:
  "collect_chunks (map Binary (cut b) @ ms) buffer = collect_chunks ms (buffer @ b)"
proof -
  have "collect_chunks (map Binary bs @ ms) buffer = collect_chunks ms (buffer @ concat bs)" for bs
    by (induction bs arbitrary: buffer) simp_all
  then show ?thesis by (simp add: concat_cut)
qed

lemma receive_cut:
  assumes "w_in w = map Binary (cut b) @ m # ms" and "is_string m"
  shows "receive_string_from_chunks w = (Ok b, w\<lparr>w_in := ms\<rparr>)"
  using assms collect_cut [of b "m # ms" "[]"] by (simp add: receive_string_from_chunks_def)

end

text \<open>The program's own cut, and the degenerate one of a payload in a single message.\<close>

interpretation blocks_cut: chunker "blocks CHUNK_SIZE"
  by unfold_locales simp

lemmas receive_blocks [task_simps] = blocks_cut.receive_cut

lemma leaves_grows_receive_string [intro]: "leaves grows receive_string_from_chunks"
  by (auto simp: leaves_def grows_def receive_string_from_chunks_def
      split: prod.splits option.splits)

lemma leaves_drain_full:
  assumes "reflp R" and "transp R" and "\<And>dc b. leaves R (cb dc b)"
  shows "leaves R (drain_full cb dc buffer)"
proof (induction "length buffer" arbitrary: dc buffer rule: less_induct)
  case less
  show ?case
  proof (cases "CHUNK_SIZE \<le> length buffer")
    case True
    then have "length (drop CHUNK_SIZE buffer) < length buffer" by (simp add: CHUNK_SIZE_def)
    then have "leaves R (drain_full cb dc' (drop CHUNK_SIZE buffer))" for dc' by (rule less)
    with True assms show ?thesis by (subst drain_full.simps) (auto intro: leaves_bind)
  qed (use assms in \<open>auto simp: drain_full.simps intro: leaves_simple\<close>)
qed

lemma leaves_process_in_chunks:
  assumes "reflp R" and "transp R" and "\<And>dc b. leaves R (cb dc b)"
  shows "leaves R (process_in_chunks dc rx closed cb)"
proof -
  have "leaves R (chunk_loop cb closed dc buffer rx)" for buffer
  proof (induction rx arbitrary: dc buffer)
    case Nil
    with assms show ?case by (auto intro: leaves_bind leaves_simple)
  next
    case (Cons d rx)
    with assms show ?case by (auto intro!: leaves_bind leaves_drain_full)
  qed
  then show ?thesis by (simp add: process_in_chunks_def)
qed

lemma leaves_grows_send_chunk [intro]: "leaves grows (send_chunk dc b)"
  unfolding send_chunk_def by auto

lemmas leaves_grows_chunks [intro] =
  leaves_process_in_chunks [OF grows_order leaves_grows_send_chunk]

lemma leaves_grows_send_string [intro]: "leaves grows (send_string_in_chunks dc s send_chunk)"
  unfolding send_string_in_chunks_def by auto

lemma leaves_grows_delimiter [intro]: "leaves grows send_delimiter"
  unfolding send_delimiter_def by auto

section \<open>The application's buffer\<close>

text \<open>
  \<open>buffer_receiver\<close>: the pieces that arrive are collected and handed on whenever at least
  \<open>BUFFER_SIZE\<close> bytes are there, the rest at the end. The list is what the new channel carries
  when its reader stays; the spawned task stops silently when the reader is gone.
\<close>

definition BUFFER_SIZE :: nat where
  "BUFFER_SIZE = 1024 * 1024"

fun buffer_loop :: "byte list \<Rightarrow> byte list list \<Rightarrow> byte list list" where
  "buffer_loop buffer [] = (if buffer \<noteq> [] then [buffer] else [])"
| "buffer_loop buffer (data # rx) =
     (if length (buffer @ data) \<ge> BUFFER_SIZE then (buffer @ data) # buffer_loop [] rx
      else buffer_loop (buffer @ data) rx)"

definition buffer_receiver :: "byte list list \<Rightarrow> byte list list" where
  "buffer_receiver rx_input = buffer_loop [] rx_input"

lemma concat_buffer_loop: "concat (buffer_loop buffer rx) = buffer @ concat rx"
  by (induction buffer rx rule: buffer_loop.induct) auto

lemma buffer_loop_full: "b \<in> set (butlast (buffer_loop buffer rx)) \<Longrightarrow> BUFFER_SIZE \<le> length b"
  by (induction buffer rx rule: buffer_loop.induct) (auto split: if_splits)

lemma buffer_loop_nonempty: "b \<in> set (buffer_loop buffer rx) \<Longrightarrow> b \<noteq> []"
  by (induction buffer rx rule: buffer_loop.induct) (auto simp: BUFFER_SIZE_def split: if_splits)

end
