(* ===== verification/Rtc_Pin.thy ===== *)
theory Rtc_Pin
  imports Rtc_Chunks Token_Crypto
begin

text \<open>
  The exchanges both tasks of \<open>core/src/webrtc/webrtc.rs\<close> share: the nonce
  (\<open>receive_nonce\<close>), proving a PIN to the peer (\<open>handle_pin\<close>), asking the peer for one
  (\<open>verify_pin\<close>), and the encoding of session descriptions (\<open>encode_sdp\<close>, \<open>decode_sdp\<close>).

  \<open>serde_json::to_string\<close> and \<open>serde_json::from_slice\<close> at each message type, and zlib, are the
  fields of \<open>rtc_ext\<close>. \<open>to_string\<close> does not fail on these types. The five seconds after which
  \<open>verify_pin\<close> gives up telling the peer of too many attempts are not modelled.
\<close>

section \<open>The libraries\<close>

record rtc_ext =
  rx_crypto :: crypto_ext
  ser_nonce :: "string \<Rightarrow> string"
  de_nonce :: "byte list \<Rightarrow> string option"
  ser_token_request :: "string \<Rightarrow> string"
  de_token_request :: "byte list \<Rightarrow> string option"
  ser_token_response :: "rtc_token_response \<Rightarrow> string"
  de_token_response :: "byte list \<Rightarrow> rtc_token_response option"
  ser_pin :: "string \<Rightarrow> string"
  de_pin :: "byte list \<Rightarrow> string option"
  ser_pin_receiving :: "rtc_pin_receiving_response \<Rightarrow> string"
  de_pin_receiving :: "byte list \<Rightarrow> rtc_pin_receiving_response option"
  ser_pin_sending :: "rtc_pin_sending_response \<Rightarrow> string"
  de_pin_sending :: "byte list \<Rightarrow> rtc_pin_sending_response option"
  ser_file_list :: "rtc_file_list_response \<Rightarrow> string"
  de_file_list :: "byte list \<Rightarrow> rtc_file_list_response option"
  ser_pair :: "rtc_pair_response \<Rightarrow> string"
  ser_header :: "rtc_send_file_header_request \<Rightarrow> string"
  de_header :: "byte list \<Rightarrow> rtc_send_file_header_request option"
  ser_file_response :: "rtc_send_file_response \<Rightarrow> string"
  zlib_compress :: "byte list \<Rightarrow> byte list"
  zlib_decompress :: "byte list \<Rightarrow> byte list option"

text \<open>\<open>serde_json::from_slice\<close> followed by \<open>?\<close>.\<close>

definition parse_json :: "(byte list \<Rightarrow> 'a option) \<Rightarrow> byte list \<Rightarrow> ('w, 'a) task" where
  "parse_json de b = lift_t (res_of_option (Lib ''serde_json error'') (de b))"

lemma parse_json_eqs [task_simps]:
  "de b = Some x \<Longrightarrow> parse_json de b w = (Ok x, w)"
  "de b = None \<Longrightarrow> parse_json de b w = (Err (Lib ''serde_json error''), w)"
  by (simp_all add: parse_json_def)

section \<open>Nonces\<close>

text \<open>A text message is expected; anything else ends the task with an error.\<close>

definition receive_nonce :: "rtc_ext \<Rightarrow> ('z world_scheme, byte list) task" where
  "receive_nonce X =
     bind_t recv (\<lambda>received.
       case received of
         Some m \<Rightarrow>
           if \<not> is_string m then fail_t (Msg ''Expected string message'')
           else
             bind_t (parse_json (de_nonce X) (msg_data m)) (\<lambda>nonce.
             bind_t (map_err_t (Wrap ''Failed to decode remote nonce: '')
                       (lift_t (base64_decode (rx_crypto X) nonce))) (\<lambda>remote_nonce.
             if \<not> validate_nonce remote_nonce then fail_t (Msg ''Invalid remote nonce'')
             else return_t remote_nonce))
       | None \<Rightarrow> fail_t (Msg ''Failed to receive nonce''))"

section \<open>Proving a PIN\<close>

datatype 'a challenge_pin_result =
  ChallengeOk 'a | ChallengePinRequired | ChallengeTooManyAttempts | ChallengeParseError err

definition next_pin_reply :: "('z world_scheme, pin_reply) task" where
  "next_pin_reply w =
     (case w_pins w of
        r # rs \<Rightarrow> (Ok r, w\<lparr>w_pins := rs\<rparr>)
      | [] \<Rightarrow> (Wait, w))"

text \<open>The response to a PIN: one text message, or a payload in chunks.\<close>

definition receive_pin_response :: "bool \<Rightarrow> ('z world_scheme, byte list) task" where
  "receive_pin_response receive_in_chunks =
     (if receive_in_chunks then receive_string_from_chunks
      else
        bind_t recv (\<lambda>received.
          case received of
            None \<Rightarrow> fail_t (Msg ''Failed to receive initial message'')
          | Some init_status \<Rightarrow>
              if \<not> is_string init_status then fail_t (Msg ''Expected string message'')
              else return_t (msg_data init_status)))"

text \<open>
  One turn of the loop asks the application for a PIN, sends it and reads the verdict. Every
  turn uses up one of the application's answers, which bounds the loop: the list is \<open>w_pins\<close>.
\<close>

fun handle_pin_loop ::
  "rtc_ext \<Rightarrow> bool \<Rightarrow> (byte list \<Rightarrow> 'a challenge_pin_result) \<Rightarrow> pin_reply list \<Rightarrow> ('z world_scheme, 'a) task" where
  "handle_pin_loop X receive_in_chunks parse_response [] =
     bind_t (send_status PinRequired) (\<lambda>_. bind_t next_pin_reply (\<lambda>_. wait_t))"
| "handle_pin_loop X receive_in_chunks parse_response (_ # rs) =
     bind_t (send_status PinRequired) (\<lambda>_.
     bind_t next_pin_reply (\<lambda>reply.
       case reply of
         PinRequestRefused \<Rightarrow> fail_t (Msg ''Failed to send PIN request'')
       | PinDropped \<Rightarrow> fail_t (Msg ''PIN required but not provided'')
       | PinGiven pin \<Rightarrow>
           bind_t (send_text (ser_pin X pin)) (\<lambda>_.
           bind_t (receive_pin_response receive_in_chunks) (\<lambda>bytes.
             case parse_response bytes of
               ChallengeOk result \<Rightarrow> return_t result
             | ChallengePinRequired \<Rightarrow> handle_pin_loop X receive_in_chunks parse_response rs
             | ChallengeTooManyAttempts \<Rightarrow>
                 bind_t (send_status TooManyAttempts) (\<lambda>_. fail_t (Msg ''Too many requests''))
             | ChallengeParseError e \<Rightarrow> fail_t e))))"

definition handle_pin ::
  "rtc_ext \<Rightarrow> bool \<Rightarrow> (byte list \<Rightarrow> 'a challenge_pin_result) \<Rightarrow> ('z world_scheme, 'a) task" where
  "handle_pin X receive_in_chunks parse_response w =
     handle_pin_loop X receive_in_chunks parse_response (w_pins w) w"

section \<open>Asking for a PIN\<close>

datatype verify_pin_result = VerifyPinRequired | VerifyTooManyAttempts

text \<open>
  One turn of the loop: done when the last PIN is right, an error when the tries are used up,
  otherwise ask (except before the first try when the peer already knows) and go on with \<open>next\<close>.
\<close>

definition verify_pin_turn ::
  "pin_config \<Rightarrow> (verify_pin_result \<Rightarrow> ('z world_scheme, unit) task) \<Rightarrow> bool \<Rightarrow> string \<Rightarrow> u8 \<Rightarrow>
   ('z world_scheme, unit) task \<Rightarrow> ('z world_scheme, unit) task" where
  "verify_pin_turn cfg send_result send_initial_notice remote_pin pin_try next =
     (if remote_pin = pc_pin cfg then return_t ()
      else if pin_try \<ge> pc_max_tries cfg then
        bind_t (ignore_t (bind_t (ignore_t (send_result VerifyTooManyAttempts)) (\<lambda>_. wait_buffer_empty))) (\<lambda>_.
        bind_t (send_status TooManyAttempts) (\<lambda>_.
        fail_t (Msg ''Too many requests'')))
      else
        bind_t (if send_initial_notice \<or> pin_try > 0 then send_result VerifyPinRequired else return_t ())
          (\<lambda>_. next))"

text \<open>
  \<open>pin_try\<close> is a \<open>u8\<close>; its addition cannot overflow, since it is below \<open>max_tries\<close> there. Each
  turn takes one message of \<open>receive_rx\<close>, which bounds the loop: the list is \<open>w_in\<close>.
\<close>

fun verify_pin_loop ::
  "rtc_ext \<Rightarrow> pin_config \<Rightarrow> (verify_pin_result \<Rightarrow> ('z world_scheme, unit) task) \<Rightarrow> bool \<Rightarrow> string \<Rightarrow> u8 \<Rightarrow>
   data_channel_message list \<Rightarrow> ('z world_scheme, unit) task" where
  "verify_pin_loop X cfg send_result notice remote_pin pin_try [] =
     verify_pin_turn cfg send_result notice remote_pin pin_try
       (bind_t recv (\<lambda>_. fail_t (Msg ''Failed to receive pin'')))"
| "verify_pin_loop X cfg send_result notice remote_pin pin_try (_ # ms) =
     verify_pin_turn cfg send_result notice remote_pin pin_try
       (bind_t recv (\<lambda>received.
          case received of
            Some m \<Rightarrow>
              bind_t (parse_json (de_pin X) (msg_data m)) (\<lambda>pin.
              verify_pin_loop X cfg send_result False pin (pin_try + 1) ms)
          | None \<Rightarrow> fail_t (Msg ''Failed to receive pin'')))"

definition verify_pin ::
  "rtc_ext \<Rightarrow> pin_config \<Rightarrow> bool \<Rightarrow> (verify_pin_result \<Rightarrow> ('z world_scheme, unit) task) \<Rightarrow>
   ('z world_scheme, unit) task" where
  "verify_pin X cfg send_initial_notice send_result =
     bind_t (send_status PinRequired) (\<lambda>_ w.
       verify_pin_loop X cfg send_result send_initial_notice '''' 0 (w_in w) w)"

section \<open>Session descriptions\<close>

text \<open>\<open>read_to_string\<close> fails on corrupt data and on data that is no UTF-8.\<close>

definition encode_sdp :: "rtc_ext \<Rightarrow> string \<Rightarrow> string" where
  "encode_sdp X s = base64_encode (rx_crypto X) (zlib_compress X (as_bytes s))"

definition decode_sdp :: "rtc_ext \<Rightarrow> string \<Rightarrow> string res" where
  "decode_sdp X s =
     (case base64_decode (rx_crypto X) s of
        Ok decoded_data \<Rightarrow>
          (case Option.bind (zlib_decompress X decoded_data) from_utf8 of
             Some result \<Rightarrow> Ok result
           | None \<Rightarrow> Err (Wrap ''Failed to decompress SDP: '' (Lib ''zlib error'')))
      | Err e \<Rightarrow> Err (Wrap ''Base64 decode of SDP failed: '' e)
      | Panic p \<Rightarrow> Panic p
      | Wait \<Rightarrow> Wait)"

end
