(* ===== verification/Rtc_Sender.thy ===== *)
theory Rtc_Sender
  imports Rtc_Pin
begin

text \<open>
  The sending peer: \<open>send_offer\<close> of \<open>core/src/webrtc/webrtc.rs\<close>. The spawned \<open>send_task\<close> is cut
  at the comments of the code: nonce exchange, token exchange, the two PIN challenges, the file
  list, the answer to it (with the pairing request that may come in between), and the files.
\<close>

section \<open>The sender's world\<close>

text \<open>
  A file the application wants to send: its id, the pieces that come through \<open>binary_rx\<close>, and
  whether that channel is closed after them.
\<close>

record rtc_file =
  rf_file_id :: string
  rf_binary :: "byte list list"
  rf_closed :: bool

record sender_world = world +
  sw_selected_open :: bool
  sw_selected :: "string list option"
  sw_pair_open :: bool
  sw_pair_answer :: "bool option option"
  sw_files :: "rtc_file list"
  sw_files_closed :: bool

text \<open>
  \<open>sw_selected_open\<close>: somebody waits for \<open>selected_files_tx\<close>, whose value becomes \<open>sw_selected\<close>;
  \<open>sw_pair_open\<close>: somebody waits for \<open>pair_tx\<close>, and answers \<open>sw_pair_answer\<close> (\<open>Some None\<close> drops the
  question, \<open>None\<close> has not answered); \<open>sw_files\<close> comes through \<open>sending_rx\<close>, which is closed
  afterwards if \<open>sw_files_closed\<close>.
\<close>

definition publish_selected :: "string list \<Rightarrow> ('z sender_world_scheme, bool) task" where
  "publish_selected ids w =
     (if sw_selected_open w then (Ok True, w\<lparr>sw_selected := Some ids\<rparr>) else (Ok False, w))"

definition ask_pair :: "('z sender_world_scheme, bool) task" where
  "ask_pair w =
     (if \<not> sw_pair_open w then (Err (Msg ''Failed to send pair response''), w)
      else
        (case sw_pair_answer w of
           Some (Some b) \<Rightarrow> (Ok b, w)
         | Some None \<Rightarrow> (Err (Lib ''channel closed''), w)
         | None \<Rightarrow> (Wait, w)))"

section \<open>The phases of send_task\<close>

text \<open>The final nonce is \<open>sender_nonce || receiver_nonce\<close>.\<close>

definition sender_nonce :: "rtc_ext \<Rightarrow> byte list \<Rightarrow> ('z sender_world_scheme, byte list) task" where
  "sender_nonce X local_nonce =
     bind_t (map_err_t (Wrap ''Failed to send nonce: '')
               (send_text (ser_nonce X (base64_encode (rx_crypto X) local_nonce)))) (\<lambda>_.
     bind_t (receive_nonce X) (\<lambda>remote_nonce.
     return_t (local_nonce @ remote_nonce)))"

definition receive_token_response :: "rtc_ext \<Rightarrow> ('z sender_world_scheme, rtc_token_response) task" where
  "receive_token_response X =
     bind_t recv (\<lambda>received.
       case received of
         Some m \<Rightarrow>
           if \<not> is_string m then fail_t (Msg ''Expected string message'')
           else parse_json (de_token_response X) (msg_data m)
       | None \<Rightarrow> fail_t (Msg ''Failed to receive token response''))"

definition check_expected_key ::
  "rtc_ext \<Rightarrow> verifying_token_key option \<Rightarrow> string \<Rightarrow> byte list \<Rightarrow> ('w, unit) task" where
  "check_expected_key X expecting_public_key token nonce =
     (case expecting_public_key of
        None \<Rightarrow> return_t ()
      | Some key \<Rightarrow>
          bind_t (lift_t (verify_token_nonce (rx_crypto X) key token nonce)) (\<lambda>valid.
          if \<not> valid then fail_t (Msg ''Invalid token signature or nonce'') else return_t ()))"

definition sender_token ::
  "rtc_ext \<Rightarrow> signing_token_key \<Rightarrow> verifying_token_key option \<Rightarrow> byte list \<Rightarrow>
   ('z sender_world_scheme, rtc_token_response \<times> string) task" where
  "sender_token X signing_key expecting_public_key nonce =
     bind_t (map_err_t (Wrap ''Failed to generate token: '')
               (lift_t (generate_token_nonce (rx_crypto X) signing_key nonce))) (\<lambda>local_token.
     bind_t (map_err_t (Wrap ''Failed to send token: '')
               (send_text (ser_token_request X local_token))) (\<lambda>_.
     bind_t (receive_token_response X) (\<lambda>token_response.
       case token_response of
         TokenOk token \<Rightarrow>
           bind_t (check_expected_key X expecting_public_key token nonce)
             (\<lambda>_. return_t (token_response, token))
       | TokenPinRequired token \<Rightarrow>
           bind_t (check_expected_key X expecting_public_key token nonce)
             (\<lambda>_. return_t (token_response, token))
       | TokenInvalidSignature \<Rightarrow>
           fail_t (Msg ''Invalid token signature from receiving peer''))))"

definition challenge_receiving :: "rtc_ext \<Rightarrow> byte list \<Rightarrow> unit challenge_pin_result" where
  "challenge_receiving X b =
     (case de_pin_receiving X b of
        None \<Rightarrow> ChallengeParseError (Msg ''Failed to parse pin response'')
      | Some PinReceivingOk \<Rightarrow> ChallengeOk ()
      | Some PinReceivingRequired \<Rightarrow> ChallengePinRequired
      | Some PinReceivingTooManyAttempts \<Rightarrow> ChallengeTooManyAttempts)"

definition pin_sending_of :: "verify_pin_result \<Rightarrow> rtc_pin_sending_response" where
  "pin_sending_of result =
     (case result of
        VerifyPinRequired \<Rightarrow> PinSendingRequired
      | VerifyTooManyAttempts \<Rightarrow> PinSendingTooManyAttempts)"

definition sender_send_result :: "rtc_ext \<Rightarrow> verify_pin_result \<Rightarrow> ('z sender_world_scheme, unit) task" where
  "sender_send_result X result =
     bind_t (send_string_in_chunks () (ser_pin_sending X (pin_sending_of result)) send_chunk) (\<lambda>_.
     bind_t send_delimiter (\<lambda>_.
     return_t ()))"

definition sender_pins ::
  "rtc_ext \<Rightarrow> rtc_token_response \<Rightarrow> pin_config option \<Rightarrow> ('z sender_world_scheme, unit) task" where
  "sender_pins X token_response pin =
     bind_t (case token_response of
               TokenPinRequired _ \<Rightarrow> handle_pin X False (challenge_receiving X)
             | _ \<Rightarrow> return_t ()) (\<lambda>_.
     case pin of
       Some cfg \<Rightarrow> verify_pin X cfg True (sender_send_result X)
     | None \<Rightarrow> return_t ())"

definition sender_file_list :: "rtc_ext \<Rightarrow> file_dto list \<Rightarrow> ('z sender_world_scheme, unit) task" where
  "sender_file_list X files =
     bind_t (try_t (send_string_in_chunks () (ser_pin_sending X (PinSendingOk files)) send_chunk)) (\<lambda>result.
     case result of
       Inl e \<Rightarrow>
         bind_t (ignore_t (try_send_status (StatusError (err_text (Wrap ''Failed to send file list message: '' e)))))
           (\<lambda>_. fail_t e)
     | Inr _ \<Rightarrow>
         bind_t (try_t send_delimiter) (\<lambda>result.
         case result of
           Inl e \<Rightarrow>
             bind_t (ignore_t (try_send_status (StatusError (err_text (Wrap ''Failed to send file list message: '' e)))))
               (\<lambda>_. fail_t e)
         | Inr _ \<Rightarrow> return_t ()))"

definition receive_file_list_response :: "rtc_ext \<Rightarrow> ('z world_scheme, rtc_file_list_response) task" where
  "receive_file_list_response X =
     bind_t receive_string_from_chunks (\<lambda>bytes.
     map_err_t (Wrap ''Failed to deserialize file list response: '') (parse_json (de_file_list X) bytes))"

text \<open>
  The answer to a pairing request: the public key the peer sends must verify the token it showed
  before; then the user decides, and the file list response follows.
\<close>

definition sender_pair ::
  "rtc_ext \<Rightarrow> string \<Rightarrow> byte list \<Rightarrow> string \<Rightarrow> ('z sender_world_scheme, rtc_file_list_response) task" where
  "sender_pair X remote_token nonce public_key =
     bind_t (lift_t (res_of_option (Msg ''Failed to extract signature identifier'')
               (extract_signature_identifier remote_token))) (\<lambda>signature_identifier.
     bind_t (lift_t (parse_public_key (rx_crypto X) public_key signature_identifier)) (\<lambda>parsed_key.
     bind_t (lift_t (verify_token_nonce (rx_crypto X) parsed_key remote_token nonce)) (\<lambda>valid.
     if \<not> valid then
       bind_t wait_buffer_empty (\<lambda>_.
       bind_t (send_text (ser_pair X PairInvalidSignature)) (\<lambda>_.
       fail_t (Msg ''Invalid token signature or nonce'')))
     else
       bind_t ask_pair (\<lambda>pair_user_response.
       bind_t (if pair_user_response then send_text (ser_pair X (PairOk public_key))
               else send_text (ser_pair X PairDeclined)) (\<lambda>_.
       receive_file_list_response X)))))"

text \<open>The agreed files with their tokens; \<open>None\<close> when the task is over (declined).\<close>

definition sender_file_map ::
  "rtc_ext \<Rightarrow> string \<Rightarrow> byte list \<Rightarrow> ('z sender_world_scheme, (string \<times> string) list option) task" where
  "sender_file_map X remote_token nonce =
     bind_t (receive_file_list_response X) (\<lambda>file_list_res.
     case file_list_res of
       FileListOk files \<Rightarrow> return_t (Some files)
     | FileListPair public_key \<Rightarrow>
         bind_t (sender_pair X remote_token nonce public_key) (\<lambda>file_list_res.
         case file_list_res of
           FileListOk files \<Rightarrow> return_t (Some files)
         | FileListDeclined \<Rightarrow> bind_t (ignore_t (send_status Declined)) (\<lambda>_. return_t None)
         | FileListInvalidSignature \<Rightarrow>
             bind_t (ignore_t (send_status (StatusError ''Invalid signature (not expected)'')))
               (\<lambda>_. fail_t (Msg ''Invalid signature (not expected)''))
         | FileListPair _ \<Rightarrow>
             bind_t (ignore_t (send_status (StatusError ''Unexpected pair response'')))
               (\<lambda>_. fail_t (Msg ''Unexpected pair response'')))
     | FileListDeclined \<Rightarrow> bind_t (ignore_t (send_status Declined)) (\<lambda>_. return_t None)
     | FileListInvalidSignature \<Rightarrow>
         bind_t (ignore_t (send_status (StatusError ''Invalid signature (not expected)'')))
           (\<lambda>_. fail_t (Msg ''Invalid signature (not expected)'')))"

text \<open>
  One file: without a token for it, or when a send fails, the error goes to the application and
  the loop goes on with the next file.
\<close>

definition send_file ::
  "rtc_ext \<Rightarrow> (string \<times> string) list \<Rightarrow> rtc_file \<Rightarrow> ('z sender_world_scheme, unit) task" where
  "send_file X file_map message =
     (case map_of file_map (rf_file_id message) of
        None \<Rightarrow> send_error (rf_file_id message) ''Failed to get file token''
      | Some file_token \<Rightarrow>
          bind_t (try_t (send_text (ser_header X \<lparr>fh_id = rf_file_id message, fh_token = file_token\<rparr>))) (\<lambda>result.
          case result of
            Inl e \<Rightarrow> send_error (rf_file_id message) (err_text e)
          | Inr _ \<Rightarrow>
              bind_t (try_t (process_in_chunks () (rf_binary message) (rf_closed message) send_chunk)) (\<lambda>result.
              case result of
                Inl e \<Rightarrow> send_error (rf_file_id message) (err_text e)
              | Inr _ \<Rightarrow> return_t ())))"

text \<open>\<open>while let Some(message) = sending_rx.recv().await\<close>.\<close>

fun send_files_loop ::
  "rtc_ext \<Rightarrow> (string \<times> string) list \<Rightarrow> bool \<Rightarrow> rtc_file list \<Rightarrow> ('z sender_world_scheme, unit) task" where
  "send_files_loop X file_map closed [] = (if closed then return_t () else wait_t)"
| "send_files_loop X file_map closed (message # sending_rx) =
     bind_t (send_file X file_map message) (\<lambda>_. send_files_loop X file_map closed sending_rx)"

text \<open>
  After the files: wait for the buffer, send the delimiter, wait for one message (whatever it
  is) or the end of the channel. When nobody takes the selection, the status on line 494 is
  built but never awaited, so it is never sent.
\<close>

definition sender_files ::
  "rtc_ext \<Rightarrow> (string \<times> string) list \<Rightarrow> ('z sender_world_scheme, unit) task" where
  "sender_files X file_map =
     bind_t (publish_selected (map fst file_map)) (\<lambda>published.
     if \<not> published then fail_t (Msg ''Could not publish selection'')
     else
       bind_t (\<lambda>w. send_files_loop X file_map (sw_files_closed w) (sw_files w) w) (\<lambda>_.
       bind_t wait_buffer_empty (\<lambda>_.
       bind_t send_delimiter (\<lambda>_.
       bind_t recv (\<lambda>_.
       return_t ())))))"

text \<open>
  The task from the opened data channel on (\<open>connected_rx\<close> has fired); \<open>local_nonce\<close> is what
  \<open>generate_nonce\<close> drew.
\<close>

definition send_task ::
  "rtc_ext \<Rightarrow> byte list \<Rightarrow> signing_token_key \<Rightarrow> verifying_token_key option \<Rightarrow> pin_config option \<Rightarrow>
   file_dto list \<Rightarrow> ('z sender_world_scheme, unit) task" where
  "send_task X local_nonce signing_key expecting_public_key pin files =
     bind_t wait_buffer_empty (\<lambda>_.
     bind_t (sender_nonce X local_nonce) (\<lambda>nonce.
     bind_t (sender_token X signing_key expecting_public_key nonce) (\<lambda>(token_response, remote_token).
     bind_t (sender_pins X token_response pin) (\<lambda>_.
     bind_t (send_status Connected) (\<lambda>_.
     bind_t (sender_file_list X files) (\<lambda>_.
     bind_t (sender_file_map X remote_token nonce) (\<lambda>agreed.
     case agreed of
       None \<Rightarrow> return_t ()
     | Some file_map \<Rightarrow> sender_files X file_map)))))))"

end
