(* ===== verification/Rtc_Receiver.thy ===== *)
theory Rtc_Receiver
  imports Rtc_Sender
begin

text \<open>
  The receiving peer: \<open>accept_offer\<close> of \<open>core/src/webrtc/webrtc.rs\<close>, its spawned
  \<open>receive_task\<close> cut at the comments of the code. What \<open>accept_offer\<close> does around it is in
  \<open>Rtc_Offer\<close>.
\<close>

section \<open>The receiver's world\<close>

text \<open>What the user answers to the list of files.\<close>

datatype selection_reply = SelectionPending | SelectionDropped | SelectionDeclined | SelectionFiles "string list"

record receiver_world = world +
  rw_files_open :: bool
  rw_files :: "file_dto list option"
  rw_selection :: selection_reply
  rw_receiving_open :: bool
  rw_received :: "(string \<times> byte list list) list"
  rw_writes :: "bool list"
  rw_results :: "rtc_send_file_response list"
  rw_results_closed :: bool

text \<open>
  \<open>rw_files_open\<close>: somebody waits for \<open>files_tx\<close>, whose value becomes \<open>rw_files\<close>;
  \<open>rw_selection\<close>: what comes through \<open>selected_files_rx\<close>; \<open>rw_received\<close>: the files put on
  \<open>receiving_tx\<close> in order, each with the pieces put on its \<open>binary_tx\<close>; \<open>rw_receiving_open\<close>:
  somebody takes them; \<open>rw_writes\<close>: whether the next \<open>binary_tx.send\<close> finds its receiver (past its
  end all do); \<open>rw_results\<close>: what the application reports on \<open>user_error_rx\<close>.
\<close>

text \<open>\<open>RTCFileState\<close>: the file being received. Its size is recorded and never read.\<close>

record rtc_file_state =
  fs_file_id :: string
  fs_size :: u64

definition publish_files :: "file_dto list \<Rightarrow> ('z receiver_world_scheme, unit) task" where
  "publish_files files w =
     (if rw_files_open w then (Ok (), w\<lparr>rw_files := Some files\<rparr>)
      else (Err (Msg ''Failed to send file list''), w))"

text \<open>\<open>receiving_tx.send(RTCFile \<dots>)\<close>: with nobody there the file and its channel are dropped.\<close>

definition publish_receiving :: "string \<Rightarrow> ('z receiver_world_scheme, unit) task" where
  "publish_receiving file_id w =
     (Ok (), if rw_receiving_open w then w\<lparr>rw_received := rw_received w @ [(file_id, [])]\<rparr> else w)"

definition add_piece :: "byte list \<Rightarrow> (string \<times> byte list list) list \<Rightarrow> (string \<times> byte list list) list" where
  "add_piece b fs =
     (case rev fs of
        [] \<Rightarrow> []
      | (i, ps) # rest \<Rightarrow> rev ((i, ps @ [b]) # rest))"

definition write_piece :: "byte list \<Rightarrow> ('z receiver_world_scheme, unit) task" where
  "write_piece b w =
     (if \<not> rw_receiving_open w then (Err (Lib ''channel closed''), w)
      else
        (case rw_writes w of
           False # rs \<Rightarrow> (Err (Lib ''channel closed''), w\<lparr>rw_writes := rs\<rparr>)
         | True # rs \<Rightarrow> (Ok (), w\<lparr>rw_writes := rs, rw_received := add_piece b (rw_received w)\<rparr>)
         | [] \<Rightarrow> (Ok (), w\<lparr>rw_received := add_piece b (rw_received w)\<rparr>)))"

definition next_result :: "('z receiver_world_scheme, rtc_send_file_response option) task" where
  "next_result w =
     (case rw_results w of
        r # rs \<Rightarrow> (Ok (Some r), w\<lparr>rw_results := rs\<rparr>)
      | [] \<Rightarrow> (if rw_results_closed w then Ok None else Wait, w))"

section \<open>The phases of receive_task\<close>

definition receiver_nonce :: "rtc_ext \<Rightarrow> byte list \<Rightarrow> ('z receiver_world_scheme, byte list) task" where
  "receiver_nonce X local_nonce =
     bind_t (receive_nonce X) (\<lambda>remote_nonce.
     bind_t (map_err_t (Wrap ''Failed to send nonce: '')
               (send_text (ser_nonce X (base64_encode (rx_crypto X) local_nonce)))) (\<lambda>_.
     return_t (remote_nonce @ local_nonce)))"

definition receive_token :: "rtc_ext \<Rightarrow> ('z receiver_world_scheme, string) task" where
  "receive_token X =
     bind_t recv (\<lambda>received.
       case received of
         Some m \<Rightarrow>
           if \<not> is_string m then fail_t (Msg ''Expected string message'')
           else parse_json (de_token_request X) (msg_data m)
       | None \<Rightarrow> fail_t (Msg ''Failed to receive token''))"

definition receiver_check_key ::
  "rtc_ext \<Rightarrow> verifying_token_key option \<Rightarrow> string \<Rightarrow> byte list \<Rightarrow> ('z receiver_world_scheme, unit) task" where
  "receiver_check_key X expecting_public_key remote_token nonce =
     (case expecting_public_key of
        None \<Rightarrow> return_t ()
      | Some key \<Rightarrow>
          bind_t (lift_t (verify_token_nonce (rx_crypto X) key remote_token nonce)) (\<lambda>valid.
          if \<not> valid then
            bind_t (send_text (ser_token_response X TokenInvalidSignature)) (\<lambda>_.
            bind_t wait_buffer_empty (\<lambda>_.
            fail_t (Msg ''Invalid token signature or nonce'')))
          else return_t ()))"

definition receiver_token ::
  "rtc_ext \<Rightarrow> signing_token_key \<Rightarrow> verifying_token_key option \<Rightarrow> pin_config option \<Rightarrow> byte list \<Rightarrow>
   ('z receiver_world_scheme, unit) task" where
  "receiver_token X signing_key expecting_public_key pin nonce =
     bind_t (receive_token X) (\<lambda>remote_token.
     bind_t (receiver_check_key X expecting_public_key remote_token nonce) (\<lambda>_.
     bind_t (map_err_t (Wrap ''Failed to generate token: '')
               (lift_t (generate_token_nonce (rx_crypto X) signing_key nonce))) (\<lambda>local_token.
     map_err_t (Wrap ''Failed to send token: '')
       (send_text (ser_token_response X
         (case pin of Some _ \<Rightarrow> TokenPinRequired local_token | None \<Rightarrow> TokenOk local_token))))))"

definition pin_receiving_of :: "verify_pin_result \<Rightarrow> rtc_pin_receiving_response" where
  "pin_receiving_of result =
     (case result of
        VerifyPinRequired \<Rightarrow> PinReceivingRequired
      | VerifyTooManyAttempts \<Rightarrow> PinReceivingTooManyAttempts)"

definition receiver_send_result :: "rtc_ext \<Rightarrow> verify_pin_result \<Rightarrow> ('z receiver_world_scheme, unit) task" where
  "receiver_send_result X result =
     bind_t (send_text (ser_pin_receiving X (pin_receiving_of result))) (\<lambda>_. return_t ())"

definition receiver_verify_pin :: "rtc_ext \<Rightarrow> pin_config option \<Rightarrow> ('z receiver_world_scheme, unit) task" where
  "receiver_verify_pin X pin =
     (case pin of
        None \<Rightarrow> return_t ()
      | Some cfg \<Rightarrow>
          bind_t (verify_pin X cfg False (receiver_send_result X)) (\<lambda>_.
          send_text (ser_pin_receiving X PinReceivingOk)))"

definition challenge_sending :: "rtc_ext \<Rightarrow> byte list \<Rightarrow> file_dto list challenge_pin_result" where
  "challenge_sending X b =
     (case de_pin_sending X b of
        None \<Rightarrow> ChallengeParseError (Msg ''Failed to parse pin response'')
      | Some (PinSendingOk files) \<Rightarrow> ChallengeOk files
      | Some PinSendingRequired \<Rightarrow> ChallengePinRequired
      | Some PinSendingTooManyAttempts \<Rightarrow> ChallengeTooManyAttempts)"

definition receiver_file_list :: "rtc_ext \<Rightarrow> ('z receiver_world_scheme, file_dto list) task" where
  "receiver_file_list X =
     bind_t receive_string_from_chunks (\<lambda>bytes.
     bind_t (map_err_t (Wrap ''Failed to deserialize file list response: '')
               (parse_json (de_pin_sending X) bytes)) (\<lambda>pin_response.
     case pin_response of
       PinSendingOk files \<Rightarrow> return_t files
     | PinSendingRequired \<Rightarrow> handle_pin X True (challenge_sending X)
     | PinSendingTooManyAttempts \<Rightarrow>
         bind_t (ignore_t (send_status (StatusError ''Unexpected TooManyAttempts response'')))
           (\<lambda>_. fail_t (Msg ''Unexpected TooManyAttempts response''))))"

text \<open>
  The user's selection and its tokens: a fresh UUID per file, \<open>new_token i\<close> for the i-th.
  \<open>None\<close> when the task is over (the selection was dropped or declined).
\<close>

definition make_file_tokens :: "(nat \<Rightarrow> string) \<Rightarrow> string list \<Rightarrow> (string \<times> string) list" where
  "make_file_tokens new_token selected_files =
     map (\<lambda>(i, file_id). (file_id, new_token i)) (enumerate 0 selected_files)"

definition receiver_selection ::
  "rtc_ext \<Rightarrow> (nat \<Rightarrow> string) \<Rightarrow> file_dto list \<Rightarrow> ('z receiver_world_scheme, (string \<times> string) list option) task" where
  "receiver_selection X new_token file_list =
     bind_t (publish_files file_list) (\<lambda>_ w.
       case rw_selection w of
         SelectionPending \<Rightarrow> (Wait, w)
       | SelectionDropped \<Rightarrow> (Ok None, w)
       | SelectionDeclined \<Rightarrow>
           bind_t (send_string_in_chunks () (ser_file_list X FileListDeclined) send_chunk) (\<lambda>_.
           bind_t send_delimiter (\<lambda>_.
           return_t None)) w
       | SelectionFiles selected_files \<Rightarrow>
           bind_t (send_string_in_chunks ()
             (ser_file_list X (FileListOk (make_file_tokens new_token selected_files))) send_chunk) (\<lambda>_.
           bind_t send_delimiter (\<lambda>_.
           return_t (Some (make_file_tokens new_token selected_files)))) w)"

section \<open>Receiving the files\<close>

text \<open>The report to the sender about the file that just ended.\<close>

definition finish_file :: "rtc_ext \<Rightarrow> string \<Rightarrow> ('z receiver_world_scheme, unit) task" where
  "finish_file X last_file_id =
     bind_t next_result (\<lambda>result.
       let e =
         (case result of
            Some r \<Rightarrow> if fr_success r then None
                       else Some (case fr_error r of None \<Rightarrow> ''Unknown error'' | Some e \<Rightarrow> e)
          | None \<Rightarrow> Some ''Failed to receive file result'')
       in send_text (ser_file_response X \<lparr>fr_id = last_file_id, fr_success = (e = None), fr_error = e\<rparr>))"

datatype file_step = Continue "rtc_file_state option" | Break

text \<open>A header: which file comes next, if its token and its entry in the file list are right.\<close>

definition start_file ::
  "rtc_ext \<Rightarrow> file_dto list \<Rightarrow> (string \<times> string) list \<Rightarrow> data_channel_message \<Rightarrow>
   ('z receiver_world_scheme, file_step) task" where
  "start_file X file_list file_tokens m =
     bind_t (parse_json (de_header X) (msg_data m)) (\<lambda>header.
     case map_of file_tokens (fh_id header) of
       None \<Rightarrow> bind_t (send_error (fh_id header) ''File not found'') (\<lambda>_. return_t (Continue None))
     | Some entry \<Rightarrow>
         if fh_token header \<noteq> entry then
           bind_t (send_error (fh_id header) ''Invalid token'') (\<lambda>_. return_t (Continue None))
         else
           (case find (\<lambda>f. fd_id f = fh_id header) file_list of
              None \<Rightarrow>
                bind_t (send_error (fh_id header) ''Expected size to be available'')
                  (\<lambda>_. return_t (Continue None))
            | Some file \<Rightarrow>
                bind_t (publish_receiving (fh_id header)) (\<lambda>_.
                return_t (Continue (Some \<lparr>fs_file_id = fh_id header, fs_size = fd_size file\<rparr>)))))"

text \<open>
  One message: a text ends the file that was being received, if any, and then is the delimiter
  (only recognised after a file) or the next header; a binary is a piece of the current file.
\<close>

definition file_message ::
  "rtc_ext \<Rightarrow> file_dto list \<Rightarrow> (string \<times> string) list \<Rightarrow> rtc_file_state option \<Rightarrow>
   data_channel_message \<Rightarrow> ('z receiver_world_scheme, file_step) task" where
  "file_message X file_list file_tokens file_state m =
     (if is_string m then
        (case file_state of
           Some s \<Rightarrow>
             bind_t (finish_file X (fs_file_id s)) (\<lambda>_.
             if is_delimiter m then bind_t wait_buffer_empty (\<lambda>_. return_t Break)
             else start_file X file_list file_tokens m)
         | None \<Rightarrow> start_file X file_list file_tokens m)
      else
        (case file_state of
           Some s \<Rightarrow> bind_t (write_piece (msg_data m)) (\<lambda>_. return_t (Continue (Some s)))
         | None \<Rightarrow>
             bind_t (send_error ''unknown'' ''Received binary data without a header'')
               (\<lambda>_. return_t (Continue None))))"

text \<open>\<open>while let Some(msg) = receive_rx.recv().await\<close>; the list is \<open>w_in\<close>.\<close>

fun receive_files_loop ::
  "rtc_ext \<Rightarrow> file_dto list \<Rightarrow> (string \<times> string) list \<Rightarrow> rtc_file_state option \<Rightarrow>
   data_channel_message list \<Rightarrow> ('z receiver_world_scheme, unit) task" where
  "receive_files_loop X file_list file_tokens file_state [] = bind_t recv (\<lambda>_. return_t ())"
| "receive_files_loop X file_list file_tokens file_state (_ # ms) =
     bind_t recv (\<lambda>received.
     case received of
       None \<Rightarrow> return_t ()
     | Some m \<Rightarrow>
         bind_t (file_message X file_list file_tokens file_state m) (\<lambda>step.
         case step of
           Break \<Rightarrow> return_t ()
         | Continue file_state' \<Rightarrow> receive_files_loop X file_list file_tokens file_state' ms))"

definition receiver_files ::
  "rtc_ext \<Rightarrow> file_dto list \<Rightarrow> (string \<times> string) list \<Rightarrow> ('z receiver_world_scheme, unit) task" where
  "receiver_files X file_list file_tokens w =
     receive_files_loop X file_list file_tokens None (w_in w) w"

text \<open>The task from the opened data channel on; \<open>local_nonce\<close> is what \<open>generate_nonce\<close> drew.\<close>

definition receive_task ::
  "rtc_ext \<Rightarrow> byte list \<Rightarrow> (nat \<Rightarrow> string) \<Rightarrow> signing_token_key \<Rightarrow> verifying_token_key option \<Rightarrow>
   pin_config option \<Rightarrow> ('z receiver_world_scheme, unit) task" where
  "receive_task X local_nonce new_token signing_key expecting_public_key pin =
     bind_t (receiver_nonce X local_nonce) (\<lambda>nonce.
     bind_t (receiver_token X signing_key expecting_public_key pin nonce) (\<lambda>_.
     bind_t (receiver_verify_pin X pin) (\<lambda>_.
     bind_t (receiver_file_list X) (\<lambda>file_list.
     bind_t (send_status Connected) (\<lambda>_.
     bind_t (receiver_selection X new_token file_list) (\<lambda>selected.
     case selected of
       None \<Rightarrow> return_t ()
     | Some file_tokens \<Rightarrow> receiver_files X file_list file_tokens))))))"

end
