(* ===== verification/Json_Text.thy ===== *)
theory Json_Text
  imports LS_Prelude
begin

text \<open>
  JSON values and their compact text, in the style of \<open>serde_json\<close> (control characters are always
  written as four hex digits, where \<open>serde_json\<close> has short forms for some; the texts are compact, so
  no white space is read between tokens). The program only calls
  \<open>serde_json::to_string\<close> and \<open>from_str\<close> / \<open>from_slice\<close>; its definitions take these functions as
  arguments. The printer and parser here instantiate them in witnesses and show that the laws
  they are assumed to satisfy can hold. All numbers of the messages are unsigned.
\<close>

datatype json =
  JNull | JBool bool | JNum nat | JStr string | JArr "json list" | JObj "(string \<times> json) list"

section \<open>Numbers\<close>

definition is_digit :: "char \<Rightarrow> bool" where
  "is_digit c \<longleftrightarrow> 48 \<le> (of_char c :: nat) \<and> (of_char c :: nat) \<le> 57"

definition digit_value :: "char \<Rightarrow> nat" where
  "digit_value c = of_char c - 48"

definition read_nat :: "string \<Rightarrow> nat" where
  "read_nat s = foldl (\<lambda>a c. 10 * a + digit_value c) 0 s"

lemma of_char_digit: "d < 10 \<Longrightarrow> (of_char (digit_char d) :: nat) = 48 + d"
  by (simp add: digit_char_def)

lemma digit_char_props [simp]:
  assumes "d < 10"
  shows "is_digit (digit_char d)" and "digit_value (digit_char d) = d"
  using of_char_digit [OF assms] assms by (simp_all add: is_digit_def digit_value_def)

lemma show_nat_digits: "c \<in> set (show_nat n) \<Longrightarrow> is_digit c"
proof (induction n rule: show_nat.induct)
  case (1 n)
  then show ?case
    by (cases "n < 10") (auto simp: show_nat.simps [of n])
qed

lemma show_nat_nonempty [simp]: "show_nat n \<noteq> []"
  by (subst show_nat.simps) simp

lemma read_show_nat [simp]: "read_nat (show_nat n) = n"
proof (induction n rule: show_nat.induct)
  case (1 n)
  then show ?case
    by (cases "n < 10") (auto simp: show_nat.simps [of n] read_nat_def)
qed

section \<open>Strings\<close>

definition quote :: char where "quote = CHR 0x22"
definition backslash :: char where "backslash = CHR 0x5C"

definition hex_value :: "char \<Rightarrow> nat" where
  "hex_value c = length (takeWhile (\<lambda>x. x \<noteq> c) ''0123456789abcdef'')"

text \<open>Quotes, backslashes and control characters are escaped.\<close>

definition escape :: "char \<Rightarrow> string" where
  "escape c =
     (if c = quote \<or> c = backslash then [backslash, c]
      else if (of_char c :: nat) < 32 then
        [backslash, CHR ''u'', CHR ''0'', CHR ''0'', hex_char (of_char c div 16), hex_char (of_char c mod 16)]
      else [c])"

definition show_str :: "string \<Rightarrow> string" where
  "show_str s = quote # concat (map escape s) @ [quote]"

text \<open>The short escapes, read but not written.\<close>

definition unescape :: "char \<Rightarrow> char" where
  "unescape e =
     (if e = CHR ''n'' then CHR 0x0A else if e = CHR ''t'' then CHR 0x09 else if e = CHR ''r'' then CHR 0x0D
      else if e = CHR ''b'' then CHR 0x08 else if e = CHR ''f'' then CHR 0x0C else e)"

lemma unescape_special [simp]: "unescape quote = quote" "unescape backslash = backslash"
  by (simp_all add: unescape_def quote_def backslash_def)

fun read_str :: "string \<Rightarrow> (string \<times> string) option" where
  "read_str [] = None"
| "read_str (c # cs) =
     (if c = quote then Some ([], cs)
      else if c = backslash then
        (case cs of
           [] \<Rightarrow> None
         | e # r \<Rightarrow>
             if e = CHR ''u'' then
               (case r of
                  _ # _ # h # l # r' \<Rightarrow>
                    map_option (\<lambda>(s, t). (char_of (16 * hex_value h + hex_value l) # s, t)) (read_str r')
                | _ \<Rightarrow> None)
             else map_option (\<lambda>(s, t). (unescape e # s, t)) (read_str r))
      else map_option (\<lambda>(s, t). (c # s, t)) (read_str cs))"

lemma hex_value_char: "d < 16 \<Longrightarrow> hex_value (hex_char d) = d"
proof -
  have "map (hex_value \<circ> hex_char) [0..<16] = [0..<16]" by code_simp
  then have "(map (hex_value \<circ> hex_char) [0..<16]) ! d = [0..<16] ! d" by simp
  moreover assume "d < 16"
  ultimately show ?thesis by simp
qed

lemma escape_no_quote: "quote \<noteq> backslash" "CHR ''u'' \<noteq> quote" "CHR ''u'' \<noteq> backslash"
  by (simp_all add: quote_def backslash_def)

lemma read_escape: "read_str (escape c @ t) = map_option (\<lambda>(s, r). (c # s, r)) (read_str t)"
proof -
  consider (special) "c = quote \<or> c = backslash" | (control) "c \<noteq> quote" "c \<noteq> backslash" "(of_char c :: nat) < 32"
    | (plain) "c \<noteq> quote" "c \<noteq> backslash" "\<not> (of_char c :: nat) < 32" by blast
  then show ?thesis
  proof cases
    case control
    then have "(of_char c div 16 :: nat) < 16" and "(of_char c mod 16 :: nat) < 16" by auto
    then have "16 * hex_value (hex_char (of_char c div 16)) + hex_value (hex_char (of_char c mod 16)) = of_char c"
      by (simp add: hex_value_char)
    with control escape_no_quote show ?thesis by (simp add: escape_def)
  qed (use escape_no_quote in \<open>auto simp: escape_def\<close>)
qed

lemma read_show_str: "read_str (concat (map escape s) @ quote # t) = Some (s, t)"
  by (induction s) (simp_all add: read_escape)

section \<open>Values\<close>

fun show_json :: "json \<Rightarrow> string" and show_items :: "json list \<Rightarrow> string"
  and show_fields :: "(string \<times> json) list \<Rightarrow> string" where
  "show_json JNull = ''null''"
| "show_json (JBool b) = (if b then ''true'' else ''false'')"
| "show_json (JNum n) = show_nat n"
| "show_json (JStr s) = show_str s"
| "show_json (JArr js) = CHR ''['' # show_items js"
| "show_json (JObj fs) = CHR ''{'' # show_fields fs"
| "show_items [] = '']''"
| "show_items (j # js) = show_json j @ (if js = [] then '']'' else CHR '','' # show_items js)"
| "show_fields [] = ''}''"
| "show_fields (f # fs) = show_str (fst f) @ CHR '':'' # show_json (snd f) @
     (if fs = [] then ''}'' else CHR '','' # show_fields fs)"

fun read_json :: "nat \<Rightarrow> string \<Rightarrow> (json \<times> string) option"
  and read_items :: "nat \<Rightarrow> string \<Rightarrow> (json list \<times> string) option"
  and read_fields :: "nat \<Rightarrow> string \<Rightarrow> ((string \<times> json) list \<times> string) option" where
  "read_json 0 s = None"
| "read_json (Suc n) s =
     (if take 4 s = ''null'' then Some (JNull, drop 4 s)
      else if take 4 s = ''true'' then Some (JBool True, drop 4 s)
      else if take 5 s = ''false'' then Some (JBool False, drop 5 s)
      else
        (case s of
           [] \<Rightarrow> None
         | c # cs \<Rightarrow>
             if is_digit c then Some (JNum (read_nat (takeWhile is_digit s)), dropWhile is_digit s)
             else if c = quote then map_option (\<lambda>(t, r). (JStr t, r)) (read_str cs)
             else if c = CHR ''['' then map_option (\<lambda>(js, r). (JArr js, r)) (read_items n cs)
             else if c = CHR ''{'' then map_option (\<lambda>(fs, r). (JObj fs, r)) (read_fields n cs)
             else None))"
| "read_items 0 s = None"
| "read_items (Suc n) s =
     (if take 1 s = '']'' then Some ([], drop 1 s)
      else
        (case read_json n s of
           None \<Rightarrow> None
         | Some (j, r) \<Rightarrow>
             if take 1 r = '']'' then Some ([j], drop 1 r)
             else if take 1 r = '','' then map_option (\<lambda>(js, t). (j # js, t)) (read_items n (drop 1 r))
             else None))"
| "read_fields 0 s = None"
| "read_fields (Suc n) s =
     (if take 1 s = ''}'' then Some ([], drop 1 s)
      else if take 1 s = [quote] then
        (case read_str (drop 1 s) of
           None \<Rightarrow> None
         | Some (k, r) \<Rightarrow>
             if take 1 r = '':'' then
               (case read_json n (drop 1 r) of
                  None \<Rightarrow> None
                | Some (j, t) \<Rightarrow>
                    if take 1 t = ''}'' then Some ([(k, j)], drop 1 t)
                    else if take 1 t = '','' then
                      map_option (\<lambda>(fs, u). ((k, j) # fs, u)) (read_fields n (drop 1 t))
                    else None)
             else None)
      else None)"

definition print_json :: "json \<Rightarrow> string" where
  "print_json j = show_json j"

definition parse_json_text :: "string \<Rightarrow> json option" where
  "parse_json_text s =
     (case read_json (Suc (2 * length s)) s of Some (j, []) \<Rightarrow> Some j | _ \<Rightarrow> None)"

text \<open>How much fuel a value needs: at most twice the length of its text.\<close>

fun need :: "json \<Rightarrow> nat" and need_items :: "json list \<Rightarrow> nat" and need_fields :: "(string \<times> json) list \<Rightarrow> nat" where
  "need (JArr js) = Suc (need_items js)"
| "need (JObj fs) = Suc (need_fields fs)"
| "need _ = 1"
| "need_items [] = 1"
| "need_items (j # js) = Suc (need j + need_items js)"
| "need_fields [] = 1"
| "need_fields (f # fs) = Suc (need (snd f) + need_fields fs)"

section \<open>Round trip\<close>

definition no_digit :: "string \<Rightarrow> bool" where
  "no_digit s \<longleftrightarrow> (case s of [] \<Rightarrow> True | c # _ \<Rightarrow> \<not> is_digit c)"

lemma no_digit_simps [simp]: "no_digit []" "no_digit (c # s) \<longleftrightarrow> \<not> is_digit c"
  by (simp_all add: no_digit_def)

lemma show_nat_prefix:
  assumes "no_digit r"
  shows "takeWhile is_digit (show_nat n @ r) = show_nat n" and "dropWhile is_digit (show_nat n @ r) = r"
proof -
  have all: "\<forall>c \<in> set (show_nat n). is_digit c" using show_nat_digits by blast
  have "takeWhile is_digit r = []" and "dropWhile is_digit r = r"
    using assms by (cases r; simp)+
  with all show "takeWhile is_digit (show_nat n @ r) = show_nat n" and "dropWhile is_digit (show_nat n @ r) = r"
    by (simp_all add: takeWhile_append dropWhile_append)
qed

lemma not_digit: "\<not> is_digit CHR '',''" "\<not> is_digit CHR '']''" "\<not> is_digit CHR ''}''"
  "\<not> is_digit CHR ''n''" "\<not> is_digit CHR ''t''" "\<not> is_digit CHR ''f''"
  "\<not> is_digit CHR ''[''" "\<not> is_digit CHR ''{''" "\<not> is_digit quote"
  by (simp_all add: is_digit_def quote_def)

lemma read_json_digit:
  assumes "is_digit c"
  shows "read_json (Suc n) (c # cs) =
    Some (JNum (read_nat (takeWhile is_digit (c # cs))), dropWhile is_digit (c # cs))"
proof -
  from assms have "c \<noteq> CHR ''n''" "c \<noteq> CHR ''t''" "c \<noteq> CHR ''f''" using not_digit by auto
  with assms show ?thesis by simp
qed

lemma read_json_num:
  assumes "no_digit r"
  shows "read_json (Suc n) (show_nat k @ r) = Some (JNum k, r)"
proof -
  obtain c cs where c: "show_nat k @ r = c # cs" "c \<in> set (show_nat k)"
    by (cases "show_nat k") auto
  then have "is_digit c" using show_nat_digits by blast
  then show ?thesis
    using read_json_digit [of c n cs] show_nat_prefix [OF assms, of k] c(1) by simp
qed

lemma show_json_start:
  "take 1 (show_json j @ r) \<noteq> '']''"
proof (cases j)
  case (JNum n)
  obtain c cs where "show_nat n = c # cs" by (cases "show_nat n") auto
  with JNum show_nat_digits [of c n] not_digit show ?thesis by auto
qed (simp_all add: show_str_def quote_def)

lemma quote_chars: "quote \<noteq> CHR ''n''" "quote \<noteq> CHR ''t''" "quote \<noteq> CHR ''f''" "quote \<noteq> CHR ''[''"
  "quote \<noteq> CHR ''{''" "quote \<noteq> CHR ''}''"
  by (simp_all add: quote_def)

lemma read_show:
  "need j \<le> n \<Longrightarrow> no_digit r \<Longrightarrow> read_json n (show_json j @ r) = Some (j, r)"
  "need_items js \<le> n \<Longrightarrow> read_items n (show_items js @ r) = Some (js, r)"
  "need_fields fs \<le> n \<Longrightarrow> read_fields n (show_fields fs @ r) = Some (fs, r)"
proof (induction j and js and fs arbitrary: n r and n r and n r
    rule: show_json_show_items_show_fields.induct)
  case (3 k)
  then show ?case by (cases n) (simp_all add: read_json_num del: read_json.simps(2))
next
  case (4 s)
  then show ?case
    using quote_chars not_digit by (cases n) (auto simp: show_str_def read_show_str)
next
  case (5 js)
  then show ?case using not_digit quote_chars by (cases n) auto
next
  case (6 fs)
  then show ?case using not_digit quote_chars by (cases n) auto
next
  case (7)
  then show ?case by (cases n) simp_all
next
  case (8 j js)
  then obtain m where m: "n = Suc m" "need j \<le> m" "need_items js \<le> m" by (cases n) auto
  let ?tail = "if js = [] then '']'' else CHR '','' # show_items js"
  have "no_digit (?tail @ r)" using not_digit by simp
  with 8(1) m have "read_json m (show_json j @ ?tail @ r) = Some (j, ?tail @ r)" by simp
  then show ?case
    using m 8(2) show_json_start [of j "?tail @ r"] by (cases "js = []") simp_all
next
  case 9
  then show ?case by (cases n) simp_all
next
  case (10 f fs)
  then obtain m where m: "n = Suc m" "need (snd f) \<le> m" "need_fields fs \<le> m" by (cases n) auto
  let ?tail = "if fs = [] then ''}'' else CHR '','' # show_fields fs"
  have "no_digit (?tail @ r)" using not_digit by simp
  with 10(1) m have "read_json m (show_json (snd f) @ ?tail @ r) = Some (snd f, ?tail @ r)" by simp
  then show ?case
    using m 10(2) quote_chars
    by (cases "fs = []") (simp_all add: show_str_def read_show_str)
qed (case_tac [!] n, simp_all)

lemma need_bound:
  "need j \<le> 2 * length (show_json j)"
  "need_items js \<le> 2 * length (show_items js)"
  "need_fields fs \<le> 2 * length (show_fields fs)"
proof (induction j and js and fs rule: show_json_show_items_show_fields.induct)
  case (3 n)
  have "Suc 0 \<le> length (show_nat n)" by (simp add: Suc_le_eq)
  then show ?case by simp
qed (auto simp: show_str_def)

theorem parse_print_json: "parse_json_text (print_json j) = Some j"
proof -
  have "need j \<le> Suc (2 * length (show_json j))" using need_bound(1) [of j] by simp
  from read_show(1) [OF this, of "[]"] show ?thesis
    by (simp add: parse_json_text_def print_json_def)
qed

lemma print_object_length: "1 < length (print_json (JObj fs))"
  by (cases fs) (auto simp: print_json_def show_str_def)

end
