(* ===== verification/Dto.thy ===== *)
theory Dto
  imports Model_Types Json_Text "HOL-Library.AList"
begin

text \<open>
  The wire format of the types of \<open>core/src/model\<close>, \<open>core/src/http/dto.rs\<close>,
  \<open>core/src/webrtc/signaling.rs\<close> and \<open>core/src/webrtc/webrtc.rs\<close>: the JSON value that
  \<open>derive(Serialize)\<close> and \<open>derive(Deserialize)\<close> give each of them under the attributes the code
  puts on it (\<open>rename_all\<close>, \<open>rename\<close>, \<open>tag\<close>, \<open>skip_serializing_if\<close>, \<open>default\<close>). Reading follows
  serde: unknown fields are ignored, a field given twice is an error, a missing \<open>Option\<close> is \<open>None\<close>,
  and a struct may also be given as the array of its fields.

  The lemmas are one round trip per type; the locale \<open>wire_codec\<close> turns each into the round trip
  of its text.
\<close>

section \<open>Reading\<close>

text \<open>Binding of \<open>option\<close>, and reading of a list element by element.\<close>

fun read_all :: "('a \<Rightarrow> 'b option) \<Rightarrow> 'a list \<Rightarrow> 'b list option" where
  "read_all f [] = Some []"
| "read_all f (x # xs) =
     Option.bind (f x) (\<lambda>y. Option.bind (read_all f xs) (\<lambda>ys. Some (y # ys)))"

lemma read_all_map: "(\<And>x. x \<in> set xs \<Longrightarrow> f (g x) = Some x) \<Longrightarrow> read_all f (map g xs) = Some xs"
  by (induction xs) simp_all

text \<open>
  The fields of a struct: looked up by name in an object that gives none of them twice, or by
  position in an array, where only the fields after the first \<open>req\<close> (those with \<open>default\<close>) may be
  left out.
\<close>

definition struct_fields :: "string list \<Rightarrow> nat \<Rightarrow> json \<Rightarrow> (string \<Rightarrow> json option) option" where
  "struct_fields names req j =
     (case j of
        JObj fs \<Rightarrow>
          if distinct (map fst (List.filter (\<lambda>f. fst f \<in> set names) fs)) then Some (map_of fs) else None
      | JArr js \<Rightarrow>
          if req \<le> length js \<and> length js \<le> length names then Some (map_of (zip names js)) else None
      | _ \<Rightarrow> None)"

definition need_field :: "(string \<Rightarrow> json option) \<Rightarrow> string \<Rightarrow> (json \<Rightarrow> 'a option) \<Rightarrow> 'a option" where
  "need_field fs k rd = Option.bind (fs k) rd"

definition opt_field :: "(string \<Rightarrow> json option) \<Rightarrow> string \<Rightarrow> (json \<Rightarrow> 'a option) \<Rightarrow> 'a option option" where
  "opt_field fs k rd =
     (case fs k of
        None \<Rightarrow> Some None
      | Some j \<Rightarrow> if j = JNull then Some None else map_option Some (rd j))"

definition default_field :: "(string \<Rightarrow> json option) \<Rightarrow> string \<Rightarrow> 'a \<Rightarrow> (json \<Rightarrow> 'a option) \<Rightarrow> 'a option" where
  "default_field fs k d rd = (case fs k of None \<Rightarrow> Some d | Some j \<Rightarrow> rd j)"

text \<open>An optional field is left out when it is \<open>None\<close>.\<close>

definition opt_entry :: "string \<Rightarrow> ('a \<Rightarrow> json) \<Rightarrow> 'a option \<Rightarrow> (string \<times> json) list" where
  "opt_entry k wr x = (case x of None \<Rightarrow> [] | Some v \<Rightarrow> [(k, wr v)])"

fun str_of :: "json \<Rightarrow> string option" where
  "str_of (JStr s) = Some s"
| "str_of _ = None"

fun bool_of :: "json \<Rightarrow> bool option" where
  "bool_of (JBool b) = Some b"
| "bool_of _ = None"

fun word_of :: "json \<Rightarrow> 'a::len word option" where
  "word_of (JNum n) = (if n < 2 ^ LENGTH('a) then Some (of_nat n) else None)"
| "word_of _ = None"

fun list_of :: "(json \<Rightarrow> 'a option) \<Rightarrow> json \<Rightarrow> 'a list option" where
  "list_of rd (JArr js) = read_all rd js"
| "list_of rd _ = None"

text \<open>A \<open>HashMap\<close> is filled entry by entry; a later entry replaces an earlier one.\<close>

fun map_of_json :: "(json \<Rightarrow> 'a option) \<Rightarrow> json \<Rightarrow> (string \<times> 'a) list option" where
  "map_of_json rd (JObj fs) =
     map_option (\<lambda>vs. fold (\<lambda>(k, v). AList.update k v) (zip (map fst fs) vs) [])
       (read_all rd (map snd fs))"
| "map_of_json rd _ = None"

definition map_to_json :: "('a \<Rightarrow> json) \<Rightarrow> (string \<times> 'a) list \<Rightarrow> json" where
  "map_to_json wr m = JObj (map (\<lambda>(k, v). (k, wr v)) m)"

text \<open>
  An internally tagged enum: the tag is taken out of the object, the other fields are those of the
  variant.
\<close>

definition tagged_fields :: "string \<Rightarrow> json \<Rightarrow> (string \<times> json) option" where
  "tagged_fields tag j =
     (case j of
        JObj fs \<Rightarrow>
          (case List.filter (\<lambda>f. fst f = tag) fs of
             [(_, JStr t)] \<Rightarrow> Some (t, JObj (List.filter (\<lambda>f. fst f \<noteq> tag) fs))
           | _ \<Rightarrow> None)
      | JArr (JStr t # js) \<Rightarrow> Some (t, JArr js)
      | _ \<Rightarrow> None)"

lemmas read_defs = struct_fields_def need_field_def opt_field_def default_field_def opt_entry_def
  tagged_fields_def

lemma word_of_unat [simp]: "word_of (JNum (unat w)) = Some w"
  by (simp add: unsigned_less)

declare word_of.simps(1) [simp del]

lemma update_new: "k \<notin> fst ` set m \<Longrightarrow> AList.update k v m = m @ [(k, v)]"
  by (induction m) auto

lemma fold_update_distinct:
  "distinct (map fst (m @ l)) \<Longrightarrow> fold (\<lambda>(k, v). AList.update k v) l m = m @ l"
proof (induction l arbitrary: m)
  case (Cons p l)
  obtain k v where p: "p = (k, v)" by (cases p)
  with Cons.prems have "k \<notin> fst ` set m" by auto
  then have "AList.update k v m = m @ [(k, v)]" by (rule update_new)
  with Cons p show ?case by simp
qed simp

lemma map_json_roundtrip:
  assumes "\<And>v. rd (wr v) = Some v" and "distinct (map fst m)"
  shows "map_of_json rd (map_to_json wr m) = Some m"
proof -
  have "map snd (map (\<lambda>(k, v). (k, wr v)) m) = map wr (map snd m)"
    by (simp add: case_prod_unfold)
  moreover have "read_all rd (map wr (map snd m)) = Some (map snd m)"
    by (rule read_all_map) (rule assms(1))
  moreover have "map fst (map (\<lambda>(k, v). (k, wr v)) m) = map fst m"
    by (simp add: case_prod_unfold)
  ultimately show ?thesis
    using fold_update_distinct [of "[]" m] assms(2)
    by (simp add: map_to_json_def zip_map_fst_snd del: map_map)
qed

section \<open>The round trip of the text\<close>

locale wire_codec =
  fixes enc :: "'a \<Rightarrow> json" and dec :: "json \<Rightarrow> 'a option"
  assumes dec_enc: "dec (enc x) = Some x"
begin

lemma text_roundtrip: "Option.bind (parse_json_text (print_json (enc x))) dec = Some x"
  by (simp add: parse_print_json dec_enc)

lemma bytes_roundtrip:
  "Option.bind (parse_json_text (of_bytes (as_bytes (print_json (enc x))))) dec = Some x"
  by (simp add: parse_print_json dec_enc)

lemma enc_inject: "enc x = enc y \<longleftrightarrow> x = y"
  by (metis dec_enc option.inject)

end

section \<open>core/src/model\<close>

fun device_type_to_json :: "device_type \<Rightarrow> json" where
  "device_type_to_json Mobile = JStr ''MOBILE''"
| "device_type_to_json Desktop = JStr ''DESKTOP''"
| "device_type_to_json Web = JStr ''WEB''"
| "device_type_to_json Headless = JStr ''HEADLESS''"
| "device_type_to_json Server = JStr ''SERVER''"

definition device_type_of_json :: "json \<Rightarrow> device_type option" where
  "device_type_of_json j =
     Option.bind (str_of j) (\<lambda>s.
       if s = ''MOBILE'' then Some Mobile
       else if s = ''DESKTOP'' then Some Desktop
       else if s = ''WEB'' then Some Web
       else if s = ''HEADLESS'' then Some Headless
       else if s = ''SERVER'' then Some Server
       else None)"

definition file_metadata_to_json :: "file_metadata \<Rightarrow> json" where
  "file_metadata_to_json m =
     JObj (opt_entry ''modified'' JStr (fm_modified m) @ opt_entry ''accessed'' JStr (fm_accessed m))"

definition file_metadata_of_json :: "json \<Rightarrow> file_metadata option" where
  "file_metadata_of_json j =
     Option.bind (struct_fields [''modified'', ''accessed''] 2 j) (\<lambda>fs.
     Option.bind (opt_field fs ''modified'' str_of) (\<lambda>m.
     Option.bind (opt_field fs ''accessed'' str_of) (\<lambda>a.
     Some \<lparr>fm_modified = m, fm_accessed = a\<rparr>)))"

definition file_dto_to_json :: "file_dto \<Rightarrow> json" where
  "file_dto_to_json f =
     JObj ([(''id'', JStr (fd_id f)), (''fileName'', JStr (fd_file_name f)),
            (''size'', JNum (unat (fd_size f))), (''fileType'', JStr (fd_file_type f))] @
           opt_entry ''sha256'' JStr (fd_sha256 f) @ opt_entry ''preview'' JStr (fd_preview f) @
           opt_entry ''metadata'' file_metadata_to_json (fd_metadata f))"

definition file_dto_of_json :: "json \<Rightarrow> file_dto option" where
  "file_dto_of_json j =
     Option.bind (struct_fields [''id'', ''fileName'', ''size'', ''fileType'', ''sha256'', ''preview'', ''metadata''] 7 j) (\<lambda>fs.
     Option.bind (need_field fs ''id'' str_of) (\<lambda>i.
     Option.bind (need_field fs ''fileName'' str_of) (\<lambda>n.
     Option.bind (need_field fs ''size'' word_of) (\<lambda>s.
     Option.bind (need_field fs ''fileType'' str_of) (\<lambda>t.
     Option.bind (opt_field fs ''sha256'' str_of) (\<lambda>h.
     Option.bind (opt_field fs ''preview'' str_of) (\<lambda>p.
     Option.bind (opt_field fs ''metadata'' file_metadata_of_json) (\<lambda>m.
     Some \<lparr>fd_id = i, fd_file_name = n, fd_size = s, fd_file_type = t, fd_sha256 = h,
           fd_preview = p, fd_metadata = m\<rparr>))))))))"

interpretation device_type_wire: wire_codec device_type_to_json device_type_of_json
proof
  show "device_type_of_json (device_type_to_json x) = Some x" for x
    by (cases x) (simp_all add: device_type_of_json_def)
qed

interpretation file_metadata_wire: wire_codec file_metadata_to_json file_metadata_of_json
proof
  show "file_metadata_of_json (file_metadata_to_json x) = Some x" for x
    by (cases x; cases "fm_modified x"; cases "fm_accessed x")
      (simp_all add: file_metadata_to_json_def file_metadata_of_json_def read_defs)
qed

lemma file_metadata_object: "file_metadata_to_json m \<noteq> JNull"
  by (simp add: file_metadata_to_json_def)

interpretation file_dto_wire: wire_codec file_dto_to_json file_dto_of_json
proof
  show "file_dto_of_json (file_dto_to_json x) = Some x" for x
    using file_metadata_object
    by (cases x; cases "fd_sha256 x"; cases "fd_preview x"; cases "fd_metadata x")
      (simp_all add: file_dto_to_json_def file_dto_of_json_def read_defs file_metadata_wire.dec_enc)
qed

section \<open>core/src/http/dto.rs\<close>

record nonce_request = nq_nonce :: string
record nonce_response = nr_nonce :: string
record error_response = er_message :: string

datatype protocol_type = Http | Https

fun protocol_as_str :: "protocol_type \<Rightarrow> string" where
  "protocol_as_str Http = ''http''"
| "protocol_as_str Https = ''https''"

record register_dto =
  rd_alias :: string
  rd_version :: string
  rd_device_model :: "string option"
  rd_device_type :: "device_type option"
  rd_token :: string
  rd_port :: u16
  rd_protocol :: protocol_type
  rd_has_web_interface :: bool

record register_response_dto =
  rr_alias :: string
  rr_version :: string
  rr_device_model :: "string option"
  rr_device_type :: "device_type option"
  rr_token :: string
  rr_has_web_interface :: bool

record prepare_upload_request_dto =
  pq_info :: register_dto
  pq_files :: "(string \<times> file_dto) list"

record prepare_upload_response_dto =
  pr_session_id :: string
  pr_files :: "(string \<times> string) list"

definition nonce_request_to_json :: "nonce_request \<Rightarrow> json" where
  "nonce_request_to_json r = JObj [(''nonce'', JStr (nq_nonce r))]"

definition nonce_request_of_json :: "json \<Rightarrow> nonce_request option" where
  "nonce_request_of_json j =
     Option.bind (struct_fields [''nonce''] 1 j) (\<lambda>fs.
     Option.bind (need_field fs ''nonce'' str_of) (\<lambda>n. Some \<lparr>nq_nonce = n\<rparr>))"

definition nonce_response_to_json :: "nonce_response \<Rightarrow> json" where
  "nonce_response_to_json r = JObj [(''nonce'', JStr (nr_nonce r))]"

definition nonce_response_of_json :: "json \<Rightarrow> nonce_response option" where
  "nonce_response_of_json j =
     Option.bind (struct_fields [''nonce''] 1 j) (\<lambda>fs.
     Option.bind (need_field fs ''nonce'' str_of) (\<lambda>n. Some \<lparr>nr_nonce = n\<rparr>))"

definition error_response_to_json :: "error_response \<Rightarrow> json" where
  "error_response_to_json r = JObj [(''message'', JStr (er_message r))]"

definition error_response_of_json :: "json \<Rightarrow> error_response option" where
  "error_response_of_json j =
     Option.bind (struct_fields [''message''] 1 j) (\<lambda>fs.
     Option.bind (need_field fs ''message'' str_of) (\<lambda>n. Some \<lparr>er_message = n\<rparr>))"

fun protocol_type_to_json :: "protocol_type \<Rightarrow> json" where
  "protocol_type_to_json Http = JStr ''HTTP''"
| "protocol_type_to_json Https = JStr ''HTTPS''"

definition protocol_type_of_json :: "json \<Rightarrow> protocol_type option" where
  "protocol_type_of_json j =
     Option.bind (str_of j) (\<lambda>s.
       if s = ''HTTP'' then Some Http else if s = ''HTTPS'' then Some Https else None)"

text \<open>\<open>skip_serializing_if = "is_default"\<close> leaves a \<open>false\<close> out.\<close>

definition is_default :: "bool \<Rightarrow> bool" where
  "is_default b \<longleftrightarrow> b = False"

definition default_entry :: "string \<Rightarrow> bool \<Rightarrow> (string \<times> json) list" where
  "default_entry k b = (if is_default b then [] else [(k, JBool b)])"

definition register_dto_to_json :: "register_dto \<Rightarrow> json" where
  "register_dto_to_json r =
     JObj ([(''alias'', JStr (rd_alias r)), (''version'', JStr (rd_version r))] @
           opt_entry ''deviceModel'' JStr (rd_device_model r) @
           opt_entry ''deviceType'' device_type_to_json (rd_device_type r) @
           [(''token'', JStr (rd_token r)), (''port'', JNum (unat (rd_port r))),
            (''protocol'', protocol_type_to_json (rd_protocol r))] @
           default_entry ''hasWebInterface'' (rd_has_web_interface r))"

definition register_dto_of_json :: "json \<Rightarrow> register_dto option" where
  "register_dto_of_json j =
     Option.bind (struct_fields [''alias'', ''version'', ''deviceModel'', ''deviceType'', ''token'', ''port'', ''protocol'', ''hasWebInterface''] 7 j) (\<lambda>fs.
     Option.bind (need_field fs ''alias'' str_of) (\<lambda>a.
     Option.bind (need_field fs ''version'' str_of) (\<lambda>v.
     Option.bind (opt_field fs ''deviceModel'' str_of) (\<lambda>m.
     Option.bind (opt_field fs ''deviceType'' device_type_of_json) (\<lambda>t.
     Option.bind (need_field fs ''token'' str_of) (\<lambda>tok.
     Option.bind (need_field fs ''port'' word_of) (\<lambda>p.
     Option.bind (need_field fs ''protocol'' protocol_type_of_json) (\<lambda>pr.
     Option.bind (default_field fs ''hasWebInterface'' False bool_of) (\<lambda>w.
     Some \<lparr>rd_alias = a, rd_version = v, rd_device_model = m, rd_device_type = t, rd_token = tok,
           rd_port = p, rd_protocol = pr, rd_has_web_interface = w\<rparr>)))))))))"

definition register_response_dto_to_json :: "register_response_dto \<Rightarrow> json" where
  "register_response_dto_to_json r =
     JObj ([(''alias'', JStr (rr_alias r)), (''version'', JStr (rr_version r))] @
           opt_entry ''deviceModel'' JStr (rr_device_model r) @
           opt_entry ''deviceType'' device_type_to_json (rr_device_type r) @
           [(''token'', JStr (rr_token r))] @
           default_entry ''hasWebInterface'' (rr_has_web_interface r))"

definition register_response_dto_of_json :: "json \<Rightarrow> register_response_dto option" where
  "register_response_dto_of_json j =
     Option.bind (struct_fields [''alias'', ''version'', ''deviceModel'', ''deviceType'', ''token'', ''hasWebInterface''] 5 j) (\<lambda>fs.
     Option.bind (need_field fs ''alias'' str_of) (\<lambda>a.
     Option.bind (need_field fs ''version'' str_of) (\<lambda>v.
     Option.bind (opt_field fs ''deviceModel'' str_of) (\<lambda>m.
     Option.bind (opt_field fs ''deviceType'' device_type_of_json) (\<lambda>t.
     Option.bind (need_field fs ''token'' str_of) (\<lambda>tok.
     Option.bind (default_field fs ''hasWebInterface'' False bool_of) (\<lambda>w.
     Some \<lparr>rr_alias = a, rr_version = v, rr_device_model = m, rr_device_type = t, rr_token = tok,
           rr_has_web_interface = w\<rparr>)))))))"

definition prepare_upload_request_to_json :: "prepare_upload_request_dto \<Rightarrow> json" where
  "prepare_upload_request_to_json r =
     JObj [(''info'', register_dto_to_json (pq_info r)),
           (''files'', map_to_json file_dto_to_json (pq_files r))]"

definition prepare_upload_request_of_json :: "json \<Rightarrow> prepare_upload_request_dto option" where
  "prepare_upload_request_of_json j =
     Option.bind (struct_fields [''info'', ''files''] 2 j) (\<lambda>fs.
     Option.bind (need_field fs ''info'' register_dto_of_json) (\<lambda>i.
     Option.bind (need_field fs ''files'' (map_of_json file_dto_of_json)) (\<lambda>m.
     Some \<lparr>pq_info = i, pq_files = m\<rparr>)))"

definition prepare_upload_response_to_json :: "prepare_upload_response_dto \<Rightarrow> json" where
  "prepare_upload_response_to_json r =
     JObj [(''sessionId'', JStr (pr_session_id r)), (''files'', map_to_json JStr (pr_files r))]"

definition prepare_upload_response_of_json :: "json \<Rightarrow> prepare_upload_response_dto option" where
  "prepare_upload_response_of_json j =
     Option.bind (struct_fields [''sessionId'', ''files''] 2 j) (\<lambda>fs.
     Option.bind (need_field fs ''sessionId'' str_of) (\<lambda>i.
     Option.bind (need_field fs ''files'' (map_of_json str_of)) (\<lambda>m.
     Some \<lparr>pr_session_id = i, pr_files = m\<rparr>)))"

interpretation nonce_request_wire: wire_codec nonce_request_to_json nonce_request_of_json
  by unfold_locales (simp add: nonce_request_to_json_def nonce_request_of_json_def read_defs)

interpretation nonce_response_wire: wire_codec nonce_response_to_json nonce_response_of_json
  by unfold_locales (simp add: nonce_response_to_json_def nonce_response_of_json_def read_defs)

interpretation error_response_wire: wire_codec error_response_to_json error_response_of_json
  by unfold_locales (simp add: error_response_to_json_def error_response_of_json_def read_defs)

interpretation protocol_type_wire: wire_codec protocol_type_to_json protocol_type_of_json
proof
  show "protocol_type_of_json (protocol_type_to_json x) = Some x" for x
    by (cases x) (simp_all add: protocol_type_of_json_def)
qed

lemma device_type_not_null: "device_type_to_json t \<noteq> JNull"
  by (cases t) simp_all

lemmas default_defs = default_entry_def is_default_def

interpretation register_dto_wire: wire_codec register_dto_to_json register_dto_of_json
proof
  show "register_dto_of_json (register_dto_to_json x) = Some x" for x
    by (cases x; cases "rd_device_model x"; cases "rd_device_type x"; cases "rd_has_web_interface x")
      (simp_all add: register_dto_to_json_def register_dto_of_json_def read_defs default_defs
        device_type_not_null device_type_wire.dec_enc protocol_type_wire.dec_enc)
qed

interpretation register_response_wire: wire_codec register_response_dto_to_json register_response_dto_of_json
proof
  show "register_response_dto_of_json (register_response_dto_to_json x) = Some x" for x
    by (cases x; cases "rr_device_model x"; cases "rr_device_type x"; cases "rr_has_web_interface x")
      (simp_all add: register_response_dto_to_json_def register_response_dto_of_json_def read_defs
        default_defs device_type_not_null device_type_wire.dec_enc)
qed

lemma prepare_upload_request_roundtrip:
  "distinct (map fst (pq_files r)) \<Longrightarrow>
    prepare_upload_request_of_json (prepare_upload_request_to_json r) = Some r"
  by (simp add: prepare_upload_request_to_json_def prepare_upload_request_of_json_def read_defs
      register_dto_wire.dec_enc map_json_roundtrip file_dto_wire.dec_enc)

lemma prepare_upload_response_roundtrip:
  "distinct (map fst (pr_files r)) \<Longrightarrow>
    prepare_upload_response_of_json (prepare_upload_response_to_json r) = Some r"
  by (simp add: prepare_upload_response_to_json_def prepare_upload_response_of_json_def read_defs
      map_json_roundtrip)

end
