(* ===== verification/Wire_Messages.thy ===== *)
theory Wire_Messages
  imports Dto Rtc_Pin
begin

text \<open>
  The wire format of the signaling messages (\<open>core/src/webrtc/signaling.rs\<close>) and of the data
  channel messages (\<open>core/src/webrtc/webrtc.rs\<close>), the laws \<open>serde_ok\<close> the transfer relies on, and
  \<open>wire_ext\<close>: the \<open>rtc_ext\<close> whose \<open>to_string\<close> and \<open>from_slice\<close> are these formats. The text of a
  \<open>Uuid\<close> is an argument (\<open>us\<close>, \<open>ur\<close>).
\<close>

section \<open>Signaling messages\<close>

definition client_info_without_id_to_json :: "client_info_without_id \<Rightarrow> json" where
  "client_info_without_id_to_json c =
     JObj ([(''alias'', JStr (ciw_alias c)), (''version'', JStr (ciw_version c))] @
           opt_entry ''deviceModel'' JStr (ciw_device_model c) @
           opt_entry ''deviceType'' device_type_to_json (ciw_device_type c) @
           [(''token'', JStr (ciw_token c))])"

definition client_info_without_id_of_json :: "json \<Rightarrow> client_info_without_id option" where
  "client_info_without_id_of_json j =
     Option.bind (struct_fields [''alias'', ''version'', ''deviceModel'', ''deviceType'', ''token''] 5 j) (\<lambda>fs.
     Option.bind (need_field fs ''alias'' str_of) (\<lambda>a.
     Option.bind (need_field fs ''version'' str_of) (\<lambda>v.
     Option.bind (opt_field fs ''deviceModel'' str_of) (\<lambda>m.
     Option.bind (opt_field fs ''deviceType'' device_type_of_json) (\<lambda>t.
     Option.bind (need_field fs ''token'' str_of) (\<lambda>tok.
     Some \<lparr>ciw_alias = a, ciw_version = v, ciw_device_model = m, ciw_device_type = t,
           ciw_token = tok\<rparr>))))))"

definition client_info_to_json :: "(uuid \<Rightarrow> string) \<Rightarrow> client_info \<Rightarrow> json" where
  "client_info_to_json us c =
     JObj ([(''id'', JStr (us (ci_id c))), (''alias'', JStr (ci_alias c)), (''version'', JStr (ci_version c))] @
           opt_entry ''deviceModel'' JStr (ci_device_model c) @
           opt_entry ''deviceType'' device_type_to_json (ci_device_type c) @
           [(''token'', JStr (ci_token c))])"

definition client_info_of_json :: "(string \<Rightarrow> uuid option) \<Rightarrow> json \<Rightarrow> client_info option" where
  "client_info_of_json ur j =
     Option.bind (struct_fields [''id'', ''alias'', ''version'', ''deviceModel'', ''deviceType'', ''token''] 6 j) (\<lambda>fs.
     Option.bind (need_field fs ''id'' (\<lambda>j. Option.bind (str_of j) ur)) (\<lambda>i.
     Option.bind (need_field fs ''alias'' str_of) (\<lambda>a.
     Option.bind (need_field fs ''version'' str_of) (\<lambda>v.
     Option.bind (opt_field fs ''deviceModel'' str_of) (\<lambda>m.
     Option.bind (opt_field fs ''deviceType'' device_type_of_json) (\<lambda>t.
     Option.bind (need_field fs ''token'' str_of) (\<lambda>tok.
     Some \<lparr>ci_id = i, ci_alias = a, ci_version = v, ci_device_model = m, ci_device_type = t,
           ci_token = tok\<rparr>)))))))"

definition ws_server_sdp_fields :: "(uuid \<Rightarrow> string) \<Rightarrow> ws_server_sdp_message \<Rightarrow> (string \<times> json) list" where
  "ws_server_sdp_fields us m =
     [(''peer'', client_info_to_json us (ss_peer m)), (''sessionId'', JStr (ss_session_id m)),
      (''sdp'', JStr (ss_sdp m))]"

definition ws_server_sdp_of_json :: "(string \<Rightarrow> uuid option) \<Rightarrow> json \<Rightarrow> ws_server_sdp_message option" where
  "ws_server_sdp_of_json ur j =
     Option.bind (struct_fields [''peer'', ''sessionId'', ''sdp''] 3 j) (\<lambda>fs.
     Option.bind (need_field fs ''peer'' (client_info_of_json ur)) (\<lambda>p.
     Option.bind (need_field fs ''sessionId'' str_of) (\<lambda>i.
     Option.bind (need_field fs ''sdp'' str_of) (\<lambda>s.
     Some \<lparr>ss_peer = p, ss_session_id = i, ss_sdp = s\<rparr>))))"

definition ws_client_sdp_fields :: "(uuid \<Rightarrow> string) \<Rightarrow> ws_client_sdp_message \<Rightarrow> (string \<times> json) list" where
  "ws_client_sdp_fields us m =
     [(''sessionId'', JStr (cs_session_id m)), (''target'', JStr (us (cs_target m))), (''sdp'', JStr (cs_sdp m))]"

definition ws_client_sdp_of_json :: "(string \<Rightarrow> uuid option) \<Rightarrow> json \<Rightarrow> ws_client_sdp_message option" where
  "ws_client_sdp_of_json ur j =
     Option.bind (struct_fields [''sessionId'', ''target'', ''sdp''] 3 j) (\<lambda>fs.
     Option.bind (need_field fs ''sessionId'' str_of) (\<lambda>i.
     Option.bind (need_field fs ''target'' (\<lambda>j. Option.bind (str_of j) ur)) (\<lambda>t.
     Option.bind (need_field fs ''sdp'' str_of) (\<lambda>s.
     Some \<lparr>cs_session_id = i, cs_target = t, cs_sdp = s\<rparr>))))"

text \<open>\<open>tag = "type"\<close>: the name of the variant, then the fields of the variant.\<close>

fun ws_server_message_to_json :: "(uuid \<Rightarrow> string) \<Rightarrow> ws_server_message \<Rightarrow> json" where
  "ws_server_message_to_json us (SHello client peers) =
     JObj [(''type'', JStr ''HELLO''), (''client'', client_info_to_json us client),
           (''peers'', JArr (map (client_info_to_json us) peers))]"
| "ws_server_message_to_json us (SJoin peer) =
     JObj [(''type'', JStr ''JOIN''), (''peer'', client_info_to_json us peer)]"
| "ws_server_message_to_json us (SUpdate peer) =
     JObj [(''type'', JStr ''UPDATE''), (''peer'', client_info_to_json us peer)]"
| "ws_server_message_to_json us (SLeft i) = JObj [(''type'', JStr ''LEFT''), (''peerId'', JStr (us i))]"
| "ws_server_message_to_json us (SOffer m) = JObj ((''type'', JStr ''OFFER'') # ws_server_sdp_fields us m)"
| "ws_server_message_to_json us (SAnswer m) = JObj ((''type'', JStr ''ANSWER'') # ws_server_sdp_fields us m)"
| "ws_server_message_to_json us (SError code) = JObj [(''type'', JStr ''ERROR''), (''code'', JNum (unat code))]"

definition ws_server_message_of_json :: "(string \<Rightarrow> uuid option) \<Rightarrow> json \<Rightarrow> ws_server_message option" where
  "ws_server_message_of_json ur j =
     Option.bind (tagged_fields ''type'' j) (\<lambda>(t, body).
       if t = ''HELLO'' then
         Option.bind (struct_fields [''client'', ''peers''] 2 body) (\<lambda>fs.
         Option.bind (need_field fs ''client'' (client_info_of_json ur)) (\<lambda>c.
         Option.bind (need_field fs ''peers'' (list_of (client_info_of_json ur))) (\<lambda>ps. Some (SHello c ps))))
       else if t = ''JOIN'' then
         Option.bind (struct_fields [''peer''] 1 body) (\<lambda>fs.
         Option.bind (need_field fs ''peer'' (client_info_of_json ur)) (\<lambda>c. Some (SJoin c)))
       else if t = ''UPDATE'' then
         Option.bind (struct_fields [''peer''] 1 body) (\<lambda>fs.
         Option.bind (need_field fs ''peer'' (client_info_of_json ur)) (\<lambda>c. Some (SUpdate c)))
       else if t = ''LEFT'' then
         Option.bind (struct_fields [''peerId''] 1 body) (\<lambda>fs.
         Option.bind (need_field fs ''peerId'' (\<lambda>j. Option.bind (str_of j) ur)) (\<lambda>i. Some (SLeft i)))
       else if t = ''OFFER'' then map_option SOffer (ws_server_sdp_of_json ur body)
       else if t = ''ANSWER'' then map_option SAnswer (ws_server_sdp_of_json ur body)
       else if t = ''ERROR'' then
         Option.bind (struct_fields [''code''] 1 body) (\<lambda>fs.
         Option.bind (need_field fs ''code'' word_of) (\<lambda>c. Some (SError c)))
       else None)"

fun ws_client_message_to_json :: "(uuid \<Rightarrow> string) \<Rightarrow> ws_client_message \<Rightarrow> json" where
  "ws_client_message_to_json us (CUpdate info) =
     JObj [(''type'', JStr ''UPDATE''), (''info'', client_info_without_id_to_json info)]"
| "ws_client_message_to_json us (COffer m) = JObj ((''type'', JStr ''OFFER'') # ws_client_sdp_fields us m)"
| "ws_client_message_to_json us (CAnswer m) = JObj ((''type'', JStr ''ANSWER'') # ws_client_sdp_fields us m)"

definition ws_client_message_of_json :: "(string \<Rightarrow> uuid option) \<Rightarrow> json \<Rightarrow> ws_client_message option" where
  "ws_client_message_of_json ur j =
     Option.bind (tagged_fields ''type'' j) (\<lambda>(t, body).
       if t = ''UPDATE'' then
         Option.bind (struct_fields [''info''] 1 body) (\<lambda>fs.
         Option.bind (need_field fs ''info'' client_info_without_id_of_json) (\<lambda>c. Some (CUpdate c)))
       else if t = ''OFFER'' then map_option COffer (ws_client_sdp_of_json ur body)
       else if t = ''ANSWER'' then map_option CAnswer (ws_client_sdp_of_json ur body)
       else None)"

interpretation client_info_without_id_wire:
  wire_codec client_info_without_id_to_json client_info_without_id_of_json
proof
  show "client_info_without_id_of_json (client_info_without_id_to_json x) = Some x" for x
    by (cases x; cases "ciw_device_model x"; cases "ciw_device_type x")
      (simp_all add: client_info_without_id_to_json_def client_info_without_id_of_json_def read_defs
        device_type_not_null device_type_wire.dec_enc)
qed

lemma client_info_roundtrip:
  assumes "\<forall>i. ur (us i) = Some i"
  shows "client_info_of_json ur (client_info_to_json us x) = Some x"
  using assms
  by (cases x; cases "ci_device_model x"; cases "ci_device_type x")
    (simp_all add: client_info_to_json_def client_info_of_json_def read_defs
      device_type_not_null device_type_wire.dec_enc)

lemma ws_server_message_json_roundtrip:
  assumes "\<forall>i. ur (us i) = Some i"
  shows "ws_server_message_of_json ur (ws_server_message_to_json us m) = Some m"
proof (cases m)
  case (SHello c ps)
  then show ?thesis
    using client_info_roundtrip [OF assms]
    by (simp add: ws_server_message_of_json_def read_defs read_all_map)
qed (simp_all add: assms client_info_roundtrip [OF assms] ws_server_message_of_json_def read_defs
      ws_server_sdp_fields_def ws_server_sdp_of_json_def)

lemma ws_client_message_json_roundtrip:
  assumes "\<forall>i. ur (us i) = Some i"
  shows "ws_client_message_of_json ur (ws_client_message_to_json us m) = Some m"
  using assms
  by (cases m) (simp_all add: client_info_without_id_wire.dec_enc ws_client_message_of_json_def read_defs
      ws_client_sdp_fields_def ws_client_sdp_of_json_def)

text \<open>The text a connection carries: \<open>serde_json::to_string\<close> and \<open>serde_json::from_str\<close>.\<close>

definition encode_ws_server :: "(uuid \<Rightarrow> string) \<Rightarrow> ws_server_message \<Rightarrow> string" where
  "encode_ws_server us m = print_json (ws_server_message_to_json us m)"

definition decode_ws_server :: "(string \<Rightarrow> uuid option) \<Rightarrow> string \<Rightarrow> ws_server_message option" where
  "decode_ws_server ur s = Option.bind (parse_json_text s) (ws_server_message_of_json ur)"

definition encode_ws_client :: "(uuid \<Rightarrow> string) \<Rightarrow> ws_client_message \<Rightarrow> string" where
  "encode_ws_client us m = print_json (ws_client_message_to_json us m)"

definition decode_ws_client :: "(string \<Rightarrow> uuid option) \<Rightarrow> string \<Rightarrow> ws_client_message option" where
  "decode_ws_client ur s = Option.bind (parse_json_text s) (ws_client_message_of_json ur)"

section \<open>Data channel messages\<close>

text \<open>The structs with one or two required string fields.\<close>

definition rtc_nonce_to_json :: "string \<Rightarrow> json" where
  "rtc_nonce_to_json n = JObj [(''nonce'', JStr n)]"

definition rtc_nonce_of_json :: "json \<Rightarrow> string option" where
  "rtc_nonce_of_json j = Option.bind (struct_fields [''nonce''] 1 j) (\<lambda>fs. need_field fs ''nonce'' str_of)"

definition rtc_token_request_to_json :: "string \<Rightarrow> json" where
  "rtc_token_request_to_json n = JObj [(''token'', JStr n)]"

definition rtc_token_request_of_json :: "json \<Rightarrow> string option" where
  "rtc_token_request_of_json j =
     Option.bind (struct_fields [''token''] 1 j) (\<lambda>fs. need_field fs ''token'' str_of)"

definition rtc_pin_to_json :: "string \<Rightarrow> json" where
  "rtc_pin_to_json n = JObj [(''pin'', JStr n)]"

definition rtc_pin_of_json :: "json \<Rightarrow> string option" where
  "rtc_pin_of_json j = Option.bind (struct_fields [''pin''] 1 j) (\<lambda>fs. need_field fs ''pin'' str_of)"

definition rtc_header_to_json :: "rtc_send_file_header_request \<Rightarrow> json" where
  "rtc_header_to_json h = JObj [(''id'', JStr (fh_id h)), (''token'', JStr (fh_token h))]"

definition rtc_header_of_json :: "json \<Rightarrow> rtc_send_file_header_request option" where
  "rtc_header_of_json j =
     Option.bind (struct_fields [''id'', ''token''] 2 j) (\<lambda>fs.
     Option.bind (need_field fs ''id'' str_of) (\<lambda>i.
     Option.bind (need_field fs ''token'' str_of) (\<lambda>t. Some \<lparr>fh_id = i, fh_token = t\<rparr>)))"

definition rtc_file_response_to_json :: "rtc_send_file_response \<Rightarrow> json" where
  "rtc_file_response_to_json r =
     JObj ([(''id'', JStr (fr_id r)), (''success'', JBool (fr_success r))] @
           opt_entry ''error'' JStr (fr_error r))"

text \<open>The enums, with \<open>tag = "status"\<close>.\<close>

fun rtc_token_response_to_json :: "rtc_token_response \<Rightarrow> json" where
  "rtc_token_response_to_json (TokenOk t) = JObj [(''status'', JStr ''OK''), (''token'', JStr t)]"
| "rtc_token_response_to_json (TokenPinRequired t) =
     JObj [(''status'', JStr ''PIN_REQUIRED''), (''token'', JStr t)]"
| "rtc_token_response_to_json TokenInvalidSignature = JObj [(''status'', JStr ''INVALID_SIGNATURE'')]"

definition rtc_token_response_of_json :: "json \<Rightarrow> rtc_token_response option" where
  "rtc_token_response_of_json j =
     Option.bind (tagged_fields ''status'' j) (\<lambda>(s, body).
       if s = ''OK'' then map_option TokenOk (rtc_token_request_of_json body)
       else if s = ''PIN_REQUIRED'' then map_option TokenPinRequired (rtc_token_request_of_json body)
       else if s = ''INVALID_SIGNATURE'' then Some TokenInvalidSignature
       else None)"

fun rtc_pin_receiving_to_json :: "rtc_pin_receiving_response \<Rightarrow> json" where
  "rtc_pin_receiving_to_json PinReceivingOk = JObj [(''status'', JStr ''OK'')]"
| "rtc_pin_receiving_to_json PinReceivingRequired = JObj [(''status'', JStr ''PIN_REQUIRED'')]"
| "rtc_pin_receiving_to_json PinReceivingTooManyAttempts = JObj [(''status'', JStr ''TOO_MANY_ATTEMPTS'')]"

definition rtc_pin_receiving_of_json :: "json \<Rightarrow> rtc_pin_receiving_response option" where
  "rtc_pin_receiving_of_json j =
     Option.bind (tagged_fields ''status'' j) (\<lambda>(s, body).
       if s = ''OK'' then Some PinReceivingOk
       else if s = ''PIN_REQUIRED'' then Some PinReceivingRequired
       else if s = ''TOO_MANY_ATTEMPTS'' then Some PinReceivingTooManyAttempts
       else None)"

fun rtc_pin_sending_to_json :: "rtc_pin_sending_response \<Rightarrow> json" where
  "rtc_pin_sending_to_json (PinSendingOk files) =
     JObj [(''status'', JStr ''OK''), (''files'', JArr (map file_dto_to_json files))]"
| "rtc_pin_sending_to_json PinSendingRequired = JObj [(''status'', JStr ''PIN_REQUIRED'')]"
| "rtc_pin_sending_to_json PinSendingTooManyAttempts = JObj [(''status'', JStr ''TOO_MANY_ATTEMPTS'')]"

definition rtc_pin_sending_of_json :: "json \<Rightarrow> rtc_pin_sending_response option" where
  "rtc_pin_sending_of_json j =
     Option.bind (tagged_fields ''status'' j) (\<lambda>(s, body).
       if s = ''OK'' then
         Option.bind (struct_fields [''files''] 1 body) (\<lambda>fs.
           map_option PinSendingOk (need_field fs ''files'' (list_of file_dto_of_json)))
       else if s = ''PIN_REQUIRED'' then Some PinSendingRequired
       else if s = ''TOO_MANY_ATTEMPTS'' then Some PinSendingTooManyAttempts
       else None)"

fun rtc_file_list_to_json :: "rtc_file_list_response \<Rightarrow> json" where
  "rtc_file_list_to_json (FileListOk files) =
     JObj [(''status'', JStr ''OK''), (''files'', map_to_json JStr files)]"
| "rtc_file_list_to_json (FileListPair k) = JObj [(''status'', JStr ''PAIR''), (''publicKey'', JStr k)]"
| "rtc_file_list_to_json FileListDeclined = JObj [(''status'', JStr ''DECLINED'')]"
| "rtc_file_list_to_json FileListInvalidSignature = JObj [(''status'', JStr ''INVALID_SIGNATURE'')]"

definition rtc_file_list_of_json :: "json \<Rightarrow> rtc_file_list_response option" where
  "rtc_file_list_of_json j =
     Option.bind (tagged_fields ''status'' j) (\<lambda>(s, body).
       if s = ''OK'' then
         Option.bind (struct_fields [''files''] 1 body) (\<lambda>fs.
           map_option FileListOk (need_field fs ''files'' (map_of_json str_of)))
       else if s = ''PAIR'' then
         Option.bind (struct_fields [''publicKey''] 1 body) (\<lambda>fs.
           map_option FileListPair (need_field fs ''publicKey'' str_of))
       else if s = ''DECLINED'' then Some FileListDeclined
       else if s = ''INVALID_SIGNATURE'' then Some FileListInvalidSignature
       else None)"

fun rtc_pair_to_json :: "rtc_pair_response \<Rightarrow> json" where
  "rtc_pair_to_json (PairOk k) = JObj [(''status'', JStr ''OK''), (''publicKey'', JStr k)]"
| "rtc_pair_to_json PairDeclined = JObj [(''status'', JStr ''PAIR_DECLINED'')]"
| "rtc_pair_to_json PairInvalidSignature = JObj [(''status'', JStr ''INVALID_SIGNATURE'')]"

lemmas rtc_wire_defs =
  rtc_nonce_to_json_def rtc_nonce_of_json_def rtc_token_request_to_json_def
  rtc_token_request_of_json_def rtc_pin_to_json_def rtc_pin_of_json_def rtc_header_to_json_def
  rtc_header_of_json_def rtc_token_response_of_json_def rtc_pin_receiving_of_json_def
  rtc_pin_sending_of_json_def rtc_file_list_of_json_def read_defs

interpretation rtc_nonce_wire: wire_codec rtc_nonce_to_json rtc_nonce_of_json
  by unfold_locales (simp add: rtc_wire_defs)

interpretation rtc_token_request_wire: wire_codec rtc_token_request_to_json rtc_token_request_of_json
  by unfold_locales (simp add: rtc_wire_defs)

interpretation rtc_pin_wire: wire_codec rtc_pin_to_json rtc_pin_of_json
  by unfold_locales (simp add: rtc_wire_defs)

interpretation rtc_header_wire: wire_codec rtc_header_to_json rtc_header_of_json
  by unfold_locales (simp add: rtc_wire_defs)

interpretation rtc_token_response_wire: wire_codec rtc_token_response_to_json rtc_token_response_of_json
proof
  show "rtc_token_response_of_json (rtc_token_response_to_json x) = Some x" for x
    by (cases x) (simp_all add: rtc_wire_defs)
qed

interpretation rtc_pin_receiving_wire: wire_codec rtc_pin_receiving_to_json rtc_pin_receiving_of_json
proof
  show "rtc_pin_receiving_of_json (rtc_pin_receiving_to_json x) = Some x" for x
    by (cases x) (simp_all add: rtc_wire_defs)
qed

interpretation rtc_pin_sending_wire: wire_codec rtc_pin_sending_to_json rtc_pin_sending_of_json
proof
  show "rtc_pin_sending_of_json (rtc_pin_sending_to_json x) = Some x" for x
    by (cases x) (simp_all add: rtc_wire_defs read_all_map file_dto_wire.dec_enc)
qed

lemma rtc_file_list_roundtrip:
  assumes "\<And>m. x = FileListOk m \<Longrightarrow> distinct (map fst m)"
  shows "rtc_file_list_of_json (rtc_file_list_to_json x) = Some x"
proof (cases x)
  case (FileListOk m)
  with assms have "map_of_json str_of (map_to_json JStr m) = Some m"
    by (intro map_json_roundtrip) simp_all
  with FileListOk show ?thesis by (simp add: rtc_wire_defs)
qed (simp_all add: rtc_wire_defs)

section \<open>What the transfer relies on\<close>

text \<open>
  Writing a message and reading it back gives the message. A \<open>HashMap\<close> comes back with the same
  bindings, in an order of its own. A header is longer than the one byte of the delimiter.
\<close>

definition serde_ok :: "rtc_ext \<Rightarrow> bool" where
  "serde_ok X \<longleftrightarrow>
     (\<forall>m. de_nonce X (as_bytes (ser_nonce X m)) = Some m) \<and>
     (\<forall>m. de_token_request X (as_bytes (ser_token_request X m)) = Some m) \<and>
     (\<forall>m. de_token_response X (as_bytes (ser_token_response X m)) = Some m) \<and>
     (\<forall>m. de_pin X (as_bytes (ser_pin X m)) = Some m) \<and>
     (\<forall>m. de_pin_receiving X (as_bytes (ser_pin_receiving X m)) = Some m) \<and>
     (\<forall>m. de_pin_sending X (as_bytes (ser_pin_sending X m)) = Some m) \<and>
     (\<forall>l. distinct (map fst l) \<longrightarrow>
        (\<exists>l'. de_file_list X (as_bytes (ser_file_list X (FileListOk l))) = Some (FileListOk l') \<and>
              distinct (map fst l') \<and> map_of l' = map_of l)) \<and>
     (\<forall>k. de_file_list X (as_bytes (ser_file_list X (FileListPair k))) = Some (FileListPair k)) \<and>
     de_file_list X (as_bytes (ser_file_list X FileListDeclined)) = Some FileListDeclined \<and>
     de_file_list X (as_bytes (ser_file_list X FileListInvalidSignature)) = Some FileListInvalidSignature \<and>
     (\<forall>m. de_header X (as_bytes (ser_header X m)) = Some m) \<and>
     (\<forall>m. 1 < length (ser_header X m)) \<and>
     de_header X (as_bytes ''0'') = None"

lemma serde_okD [task_simps]:
  assumes "serde_ok X"
  shows "de_nonce X (as_bytes (ser_nonce X n)) = Some n"
    and "de_token_request X (as_bytes (ser_token_request X n)) = Some n"
    and "de_token_response X (as_bytes (ser_token_response X t)) = Some t"
    and "de_pin X (as_bytes (ser_pin X n)) = Some n"
    and "de_pin_receiving X (as_bytes (ser_pin_receiving X r)) = Some r"
    and "de_pin_sending X (as_bytes (ser_pin_sending X s)) = Some s"
    and "de_file_list X (as_bytes (ser_file_list X (FileListPair k))) = Some (FileListPair k)"
    and "de_file_list X (as_bytes (ser_file_list X FileListDeclined)) = Some FileListDeclined"
    and "de_file_list X (as_bytes (ser_file_list X FileListInvalidSignature)) = Some FileListInvalidSignature"
    and "de_header X (as_bytes (ser_header X h)) = Some h"
    and "\<not> length (ser_header X h) \<le> 1"
    and "de_header X (as_bytes ''0'') = None"
  using assms by (auto simp: serde_ok_def not_le)

lemma serde_ok_file_list:
  assumes "serde_ok X" and "distinct (map fst l)"
  obtains l' where "de_file_list X (as_bytes (ser_file_list X (FileListOk l))) = Some (FileListOk l')"
    and "distinct (map fst l')" and "map_of l' = map_of l"
  using assms by (auto simp: serde_ok_def)

definition wire_de :: "(json \<Rightarrow> 'a option) \<Rightarrow> byte list \<Rightarrow> 'a option" where
  "wire_de dec b = Option.bind (parse_json_text (of_bytes b)) dec"

definition wire_ext ::
  "crypto_ext \<Rightarrow> (byte list \<Rightarrow> byte list) \<Rightarrow> (byte list \<Rightarrow> byte list option) \<Rightarrow> rtc_ext" where
  "wire_ext crypto compress decompress =
     \<lparr>rx_crypto = crypto,
      ser_nonce = print_json \<circ> rtc_nonce_to_json, de_nonce = wire_de rtc_nonce_of_json,
      ser_token_request = print_json \<circ> rtc_token_request_to_json,
      de_token_request = wire_de rtc_token_request_of_json,
      ser_token_response = print_json \<circ> rtc_token_response_to_json,
      de_token_response = wire_de rtc_token_response_of_json,
      ser_pin = print_json \<circ> rtc_pin_to_json, de_pin = wire_de rtc_pin_of_json,
      ser_pin_receiving = print_json \<circ> rtc_pin_receiving_to_json,
      de_pin_receiving = wire_de rtc_pin_receiving_of_json,
      ser_pin_sending = print_json \<circ> rtc_pin_sending_to_json,
      de_pin_sending = wire_de rtc_pin_sending_of_json,
      ser_file_list = print_json \<circ> rtc_file_list_to_json,
      de_file_list = wire_de rtc_file_list_of_json,
      ser_pair = print_json \<circ> rtc_pair_to_json,
      ser_header = print_json \<circ> rtc_header_to_json, de_header = wire_de rtc_header_of_json,
      ser_file_response = print_json \<circ> rtc_file_response_to_json,
      zlib_compress = compress, zlib_decompress = decompress\<rparr>"

lemma wire_de_print: "dec (enc m) = Some m \<Longrightarrow> wire_de dec (as_bytes (print_json (enc m))) = Some m"
  by (simp add: wire_de_def parse_print_json)

lemma parse_zero: "parse_json_text ''0'' = Some (JNum 0)"
  by code_simp

lemma wire_ext_ok: "serde_ok (wire_ext crypto compress decompress)"
proof -
  have hash_map: "\<exists>l'. wire_de rtc_file_list_of_json
        (as_bytes (print_json (rtc_file_list_to_json (FileListOk l)))) = Some (FileListOk l') \<and>
      distinct (map fst l') \<and> map_of l' = map_of l" if "distinct (map fst l)" for l
    using wire_de_print [of rtc_file_list_of_json rtc_file_list_to_json "FileListOk l"]
      rtc_file_list_roundtrip [of "FileListOk l"] that by auto
  have lists: "wire_de rtc_file_list_of_json (as_bytes (print_json (rtc_file_list_to_json x))) = Some x"
    if "\<forall>m. x \<noteq> FileListOk m" for x
    using that by (intro wire_de_print rtc_file_list_roundtrip) simp
  have list_pair: "wire_de rtc_file_list_of_json
      (as_bytes (print_json (JObj [(''status'', JStr ''PAIR''), (''publicKey'', JStr k)]))) = Some (FileListPair k)"
    for k using lists [of "FileListPair k"] by simp
  have list_rest: "wire_de rtc_file_list_of_json
      (as_bytes (print_json (JObj [(''status'', JStr ''DECLINED'')]))) = Some FileListDeclined"
    "wire_de rtc_file_list_of_json
      (as_bytes (print_json (JObj [(''status'', JStr ''INVALID_SIGNATURE'')]))) = Some FileListInvalidSignature"
    using lists [of FileListDeclined] lists [of FileListInvalidSignature] by simp_all
  have "wire_de rtc_header_of_json (as_bytes ''0'') = None"
    by (simp add: wire_de_def parse_zero rtc_header_of_json_def struct_fields_def del: as_bytes_def)
  moreover have "1 < length (print_json (rtc_header_to_json h))" for h
    unfolding rtc_header_to_json_def by (rule print_object_length)
  ultimately show ?thesis
    using hash_map list_pair list_rest
    by (simp add: serde_ok_def wire_ext_def wire_de_print rtc_nonce_wire.dec_enc
        rtc_token_request_wire.dec_enc rtc_token_response_wire.dec_enc rtc_pin_wire.dec_enc
        rtc_pin_receiving_wire.dec_enc rtc_pin_sending_wire.dec_enc rtc_header_wire.dec_enc)
qed

end
