(* ===== verification/Rtc_Typing.thy ===== *)
theory Rtc_Typing
  imports Rtc_Receiver Token_Props Wire_Messages
begin

text \<open>
  The types of the messages on the data channel: whatever the other side sends and wherever a
  channel fails, each task writes only the messages of its role, and binary messages that hold at
  least one byte and at most \<open>CHUNK_SIZE\<close>.
\<close>

section \<open>Typed output\<close>

text \<open>Every message that was added satisfies \<open>P\<close>.\<close>

definition emits :: "(data_channel_message \<Rightarrow> bool) \<Rightarrow> 'z world_scheme \<Rightarrow> 'z world_scheme \<Rightarrow> bool" where
  "emits P w w' \<longleftrightarrow> (\<exists>sent. w_out w' = w_out w @ sent \<and> list_all P sent)"

lemma emits_order: "reflp (emits P)" "transp (emits P)"
  by (force simp: emits_def reflp_def transp_def)+

lemma emits_same: "w_out w' = w_out w \<Longrightarrow> emits P w w'"
  by (simp add: emits_def)

lemma leaves_emits_silent:
  "leaves (emits P) recv" "leaves (emits P) (send_status st)" "leaves (emits P) (try_send_status st)"
  "leaves (emits P) (send_error f e)" "leaves (emits P) wait_buffer_empty" "leaves (emits P) (parse_json de b)"
  "leaves (emits P) receive_string_from_chunks" "leaves (emits P) next_pin_reply"
  by (auto simp: leaves_def recv_def send_status_def try_send_status_def send_error_def wait_buffer_empty_def
      parse_json_def receive_string_from_chunks_def next_pin_reply_def
      intro!: emits_same split: list.splits option.splits nat.splits prod.splits)

lemma leaves_emits_send:
  "P (Text s) \<Longrightarrow> leaves (emits P) (send_text s)"
  "P (Binary b) \<Longrightarrow> leaves (emits P) (send_binary b)"
  by (auto simp: leaves_def emits_def send_text_def send_binary_def send_message_def
      split: list.splits option.splits)

lemma leaves_reads:
  assumes "\<And>x. leaves R (f x)"
  shows "leaves R (\<lambda>w. f (g w) w)"
  using assms by (simp add: leaves_def)

lemmas leaves_emits =
  leaves_emits_silent leaves_emits_send leaves_simple [OF emits_order(1)] leaves_bind [OF emits_order(2)]
  leaves_try leaves_map_err leaves_ignore [OF emits_order]

section \<open>Blocks\<close>

text \<open>What \<open>process_in_chunks\<close> hands to its callback, also when the callback fails.\<close>

definition block :: "byte list \<Rightarrow> bool" where
  "block b \<longleftrightarrow> b \<noteq> [] \<and> length b \<le> CHUNK_SIZE"

lemma drain_full_blocks:
  assumes R: "reflp R" "transp R" and cb: "\<And>dc b. block b \<Longrightarrow> leaves R (cb dc b)"
  shows "drain_full cb dc buffer w = (r, w') \<Longrightarrow>
    R w w' \<and> (\<forall>dc' b. r = Ok (dc', b) \<longrightarrow> length b < CHUNK_SIZE)"
proof (induction "length buffer" arbitrary: dc buffer w rule: less_induct)
  case less
  show ?case
  proof (cases "CHUNK_SIZE \<le> length buffer")
    case True
    then have shorter: "length (drop CHUNK_SIZE buffer) < length buffer" and "block (take CHUNK_SIZE buffer)"
      by (auto simp: CHUNK_SIZE_def block_def)
    then have first: "cb dc (take CHUNK_SIZE buffer) w = (q, v) \<Longrightarrow> R w v" for q v
      using leavesD [OF cb] by blast
    from less.prems True have run: "bind_t (cb dc (take CHUNK_SIZE buffer))
        (\<lambda>dc'. drain_full cb dc' (drop CHUNK_SIZE buffer)) w = (r, w')"
      by (subst (asm) drain_full.simps) simp
    obtain q v where q: "cb dc (take CHUNK_SIZE buffer) w = (q, v)"
      by fastforce
    show ?thesis
    proof (cases q)
      case (Ok dc')
      with run q have "drain_full cb dc' (drop CHUNK_SIZE buffer) v = (r, w')"
        by (simp add: bind_t_def)
      from less.hyps [OF shorter this] first [OF q] show ?thesis
        using R(2) by (blast dest: transpD)
    qed (use run q first [OF q] in \<open>auto simp: bind_t_def\<close>)
  next
    case False
    with less.prems R(1) show ?thesis
      by (subst (asm) drain_full.simps) (auto simp: return_t_def reflpD)
  qed
qed

lemma leaves_blocks:
  assumes R: "reflp R" "transp R" and cb: "\<And>dc b. block b \<Longrightarrow> leaves R (cb dc b)"
  shows "leaves R (process_in_chunks dc rx closed cb)"
proof -
  have "length buffer < CHUNK_SIZE \<Longrightarrow> chunk_loop cb closed dc buffer rx w = (r, w') \<Longrightarrow> R w w'" for buffer w r w'
  proof (induction rx arbitrary: dc buffer w)
    case Nil
    have "leaves R (chunk_loop cb closed dc buffer [])"
      using Nil.prems(1) R cb [of buffer] by (auto simp: block_def intro!: leaves_bind leaves_simple)
    then show ?case using Nil.prems(2) by (rule leavesD)
  next
    case (Cons d rx)
    obtain q v where q: "drain_full cb dc (buffer @ d) w = (q, v)"
      by fastforce
    have b: "R w v \<and> (\<forall>dc' b. q = Ok (dc', b) \<longrightarrow> length b < CHUNK_SIZE)"
      by (rule drain_full_blocks [OF R cb q])
    show ?case
    proof (cases q)
      case (Ok x)
      with Cons.prems(2) q obtain dc' b' where "x = (dc', b')" "chunk_loop cb closed dc' b' rx v = (r, w')"
        by (cases x) (auto simp: bind_t_def)
      with Cons.IH [of b' dc' v] b Ok R(2) show ?thesis
        by (blast dest: transpD)
    qed (use Cons.prems(2) q b in \<open>auto simp: bind_t_def\<close>)
  qed
  from this [of "[]"] show ?thesis
    by (simp add: leaves_def process_in_chunks_def CHUNK_SIZE_def) (metis prod.collapse)
qed

section \<open>The parts the tasks share\<close>

definition typed :: "string set \<Rightarrow> data_channel_message \<Rightarrow> bool" where
  "typed S m \<longleftrightarrow> (if is_string m then m \<in> Text ` S else block (msg_data m))"

lemma leaves_text: "s \<in> S \<Longrightarrow> leaves (emits (typed S)) (send_text s)"
  by (rule leaves_emits_send) (simp add: typed_def)

lemma leaves_chunks: "leaves (emits (typed S)) (process_in_chunks dc rx closed send_chunk)"
  by (rule leaves_blocks [OF emits_order])
    (auto simp: send_chunk_def typed_def intro!: leaves_bind [OF emits_order(2)] leaves_emits_send
      leaves_simple [OF emits_order(1)])

lemma leaves_string: "leaves (emits (typed S)) (send_string_in_chunks dc s send_chunk)"
  unfolding send_string_in_chunks_def by (rule leaves_chunks)

lemma leaves_delimiter: "''0'' \<in> S \<Longrightarrow> leaves (emits (typed S)) send_delimiter"
  unfolding send_delimiter_def by (intro leaves_emits leaves_text)

lemma leaves_receive_nonce: "leaves (emits P) (receive_nonce X)"
  unfolding receive_nonce_def by (auto intro!: leaves_emits split: option.splits)

lemma leaves_pin_response: "leaves (emits P) (receive_pin_response c)"
  unfolding receive_pin_response_def by (auto intro!: leaves_emits split: option.splits)

lemmas leaves_typed = leaves_text leaves_chunks leaves_string leaves_delimiter leaves_receive_nonce
  leaves_pin_response leaves_emits_silent leaves_simple [OF emits_order(1)] leaves_bind [OF emits_order(2)]
  leaves_try leaves_map_err leaves_ignore [OF emits_order]

lemma leaves_handle_pin:
  assumes "\<And>pin. ser_pin X pin \<in> S"
  shows "leaves (emits (typed S)) (handle_pin X c parse)"
proof -
  have "leaves (emits (typed S)) (handle_pin_loop X c parse rs)" for rs
  proof (induction rs)
    case (Cons r rs)
    with assms show ?case
      by (auto intro!: leaves_typed split: pin_reply.splits challenge_pin_result.splits)
  qed (auto intro!: leaves_typed)
  then have "leaves (emits (typed S)) (\<lambda>w. handle_pin_loop X c parse (w_pins w) w)"
    by (rule leaves_reads [of _ "\<lambda>rs. handle_pin_loop X c parse rs" w_pins])
  then show ?thesis
    by (simp add: handle_pin_def [abs_def])
qed

lemma leaves_verify_pin_turn:
  "(\<And>r. leaves (emits P) (send_result r)) \<Longrightarrow> leaves (emits P) next \<Longrightarrow>
   leaves (emits P) (verify_pin_turn cfg send_result notice pin pin_try next)"
  unfolding verify_pin_turn_def by (auto intro!: leaves_emits)

lemma leaves_verify_pin:
  assumes "\<And>r. leaves (emits P) (send_result r)"
  shows "leaves (emits P) (verify_pin X cfg notice send_result)"
proof -
  have "leaves (emits P) (verify_pin_loop X cfg send_result notice pin pin_try ms)" for notice pin pin_try ms
    by (induction ms arbitrary: notice pin pin_try)
      (auto intro!: leaves_verify_pin_turn assms leaves_emits split: option.splits)
  then have "leaves (emits P) (\<lambda>w. verify_pin_loop X cfg send_result notice '''' 0 (w_in w) w)"
    by (rule leaves_reads [of _ "\<lambda>ms. verify_pin_loop X cfg send_result notice '''' 0 ms" w_in])
  then show ?thesis
    unfolding verify_pin_def by (auto intro!: leaves_emits)
qed

section \<open>The two roles\<close>

definition sender_texts :: "rtc_ext \<Rightarrow> string set" where
  "sender_texts X = {''0''} \<union> range (ser_nonce X) \<union> range (ser_token_request X) \<union> range (ser_pin X) \<union>
     range (ser_pair X) \<union> range (ser_header X)"

definition receiver_texts :: "rtc_ext \<Rightarrow> string set" where
  "receiver_texts X = {''0''} \<union> range (ser_nonce X) \<union> range (ser_token_response X) \<union>
     range (ser_pin_receiving X) \<union> range (ser_pin X) \<union> range (ser_file_response X)"

lemma texts [simp]:
  "''0'' \<in> sender_texts X" "ser_nonce X t \<in> sender_texts X" "ser_token_request X t \<in> sender_texts X"
  "ser_pin X t \<in> sender_texts X" "ser_pair X p \<in> sender_texts X" "ser_header X h \<in> sender_texts X"
  "''0'' \<in> receiver_texts X" "ser_nonce X t \<in> receiver_texts X" "ser_token_response X q \<in> receiver_texts X"
  "ser_pin_receiving X v \<in> receiver_texts X" "ser_pin X t \<in> receiver_texts X"
  "ser_file_response X f \<in> receiver_texts X"
  by (auto simp: sender_texts_def receiver_texts_def)

abbreviation sends :: "rtc_ext \<Rightarrow> 'z world_scheme \<Rightarrow> 'z world_scheme \<Rightarrow> bool" where
  "sends X \<equiv> emits (typed (sender_texts X))"

abbreviation answers_with :: "rtc_ext \<Rightarrow> 'z world_scheme \<Rightarrow> 'z world_scheme \<Rightarrow> bool" where
  "answers_with X \<equiv> emits (typed (receiver_texts X))"

lemma leaves_sender_channels:
  "leaves (emits P) (publish_selected ids)" "leaves (emits P) ask_pair"
  by (auto simp: leaves_def publish_selected_def ask_pair_def intro!: emits_same split: option.splits)

lemma leaves_check_key: "leaves (emits P) (check_expected_key X key token nonce)"
  unfolding check_expected_key_def by (auto intro!: leaves_emits split: option.splits)

lemma leaves_sender_nonce: "leaves (sends X) (sender_nonce X n)"
  unfolding sender_nonce_def by (auto intro!: leaves_typed)

lemma leaves_sender_token: "leaves (sends X) (sender_token X sk key nonce)"
  unfolding sender_token_def receive_token_response_def
  by (auto intro!: leaves_typed leaves_check_key split: option.splits rtc_token_response.splits)

lemma leaves_sender_pins: "leaves (sends X) (sender_pins X response pin)"
  unfolding sender_pins_def sender_send_result_def
  by (auto intro!: leaves_typed leaves_handle_pin leaves_verify_pin
      split: option.splits rtc_token_response.splits)

lemma leaves_sender_file_list: "leaves (sends X) (sender_file_list X files)"
  unfolding sender_file_list_def by (auto intro!: leaves_typed split: sum.splits)

lemma leaves_file_list_response: "leaves (emits P) (receive_file_list_response X)"
  unfolding receive_file_list_response_def by (auto intro!: leaves_emits)

lemma leaves_sender_pair: "leaves (sends X) (sender_pair X token nonce key)"
  unfolding sender_pair_def
  by (auto intro!: leaves_typed leaves_sender_channels leaves_file_list_response)

lemma leaves_sender_file_map: "leaves (sends X) (sender_file_map X token nonce)"
  unfolding sender_file_map_def
  by (auto intro!: leaves_typed leaves_file_list_response leaves_sender_pair
      split: rtc_file_list_response.splits)

lemma leaves_send_files: "leaves (sends X) (send_files_loop X file_map closed files)"
  by (induction files) (auto simp: send_file_def intro!: leaves_typed split: option.splits sum.splits)

lemma leaves_sender_files: "leaves (sends X) (sender_files X file_map)"
proof -
  have "leaves (sends X) (\<lambda>w. send_files_loop X file_map (sw_files_closed w) (sw_files w) w)"
    by (simp add: leaves_def leaves_send_files [unfolded leaves_def, THEN spec])
  then show ?thesis
    unfolding sender_files_def by (auto intro!: leaves_typed leaves_sender_channels)
qed

lemma leaves_send_task: "leaves (sends X) (send_task X n sk key pin files)"
  unfolding send_task_def
  by (auto intro!: leaves_typed leaves_sender_nonce leaves_sender_token leaves_sender_pins
      leaves_sender_file_list leaves_sender_file_map leaves_sender_files split: option.splits prod.splits)

lemma leaves_receiver_channels:
  "leaves (emits P) (publish_files files)" "leaves (emits P) (publish_receiving f)"
  "leaves (emits P) (write_piece b)" "leaves (emits P) next_result"
  by (auto simp: leaves_def publish_files_def publish_receiving_def write_piece_def next_result_def
      intro!: emits_same split: list.splits bool.splits)

lemma leaves_receiver_nonce: "leaves (answers_with X) (receiver_nonce X n)"
  unfolding receiver_nonce_def by (auto intro!: leaves_typed)

lemma leaves_receiver_token: "leaves (answers_with X) (receiver_token X sk key pin nonce)"
  unfolding receiver_token_def receive_token_def receiver_check_key_def
  by (auto intro!: leaves_typed split: option.splits)

lemma leaves_receiver_verify_pin: "leaves (answers_with X) (receiver_verify_pin X pin)"
  unfolding receiver_verify_pin_def receiver_send_result_def
  by (auto intro!: leaves_typed leaves_verify_pin split: option.splits)

lemma leaves_receiver_file_list: "leaves (answers_with X) (receiver_file_list X)"
  unfolding receiver_file_list_def
  by (auto intro!: leaves_typed leaves_handle_pin split: rtc_pin_sending_response.splits)

lemma leaves_receiver_selection: "leaves (answers_with X) (receiver_selection X new_token files)"
proof -
  have reply: "leaves (answers_with X) (bind_t (send_string_in_chunks () t send_chunk)
      (\<lambda>_. bind_t send_delimiter (\<lambda>_. return_t r)))" for t and r :: "(string \<times> string) list option"
    by (auto intro!: leaves_typed)
  show ?thesis
    unfolding receiver_selection_def
    by (intro leaves_bind [OF emits_order(2)] leaves_receiver_channels)
      (simp add: leaves_def reply [unfolded leaves_def, THEN spec] reflpD [OF emits_order(1)]
        split: selection_reply.splits)
qed

lemma leaves_start_file: "leaves (answers_with X) (start_file X files tokens m)"
  unfolding start_file_def
  by (auto intro!: leaves_typed leaves_receiver_channels split: option.splits)

lemma leaves_file_message: "leaves (answers_with X) (file_message X files tokens state m)"
  unfolding file_message_def finish_file_def Let_def
  by (auto intro!: leaves_typed leaves_receiver_channels leaves_start_file split: option.splits)

lemma leaves_receiver_files: "leaves (answers_with X) (receiver_files X files tokens)"
proof -
  have "leaves (answers_with X) (receive_files_loop X files tokens state ms)" for state ms
    by (induction ms arbitrary: state)
      (auto intro!: leaves_typed leaves_file_message split: option.splits file_step.splits)
  then have "leaves (answers_with X) (\<lambda>w. receive_files_loop X files tokens None (w_in w) w)"
    by (rule leaves_reads [of _ "receive_files_loop X files tokens None" w_in])
  then show ?thesis
    by (simp add: receiver_files_def [abs_def])
qed

lemma leaves_receive_task: "leaves (answers_with X) (receive_task X n new_token sk key pin)"
  unfolding receive_task_def
  by (auto intro!: leaves_typed leaves_receiver_nonce leaves_receiver_token leaves_receiver_verify_pin
      leaves_receiver_file_list leaves_receiver_selection leaves_receiver_files split: option.splits)

section \<open>The property\<close>

text \<open>
  C17: The messages of a data channel are well typed. Whatever world a task runs in, all it writes
  are texts of its own role (the delimiter, a nonce, a token, a PIN or its verdict, a pairing
  answer, a file header or a file response) and binary messages of one to \<open>CHUNK_SIZE\<close> bytes.
\<close>
theorem messages_typed:
  "(\<exists>sent. w_out (snd (send_task X local_nonce sk key pin files w)) = w_out w @ sent \<and>
      list_all (typed (sender_texts X)) sent) \<and>
   (\<exists>sent. w_out (snd (receive_task X local_nonce new_token sk key pin v)) = w_out v @ sent \<and>
      list_all (typed (receiver_texts X)) sent)"
  using leaves_send_task [unfolded leaves_def emits_def, THEN spec]
    leaves_receive_task [unfolded leaves_def emits_def, THEN spec]
  by blast

end
