(* ===== verification/Rtc_Pin_Props.thy ===== *)
theory Rtc_Pin_Props
  imports Rtc_Receiver Token_Props Wire_Messages
begin

text \<open>
  Correctness of the transport of payloads and of the PIN challenge: what \<open>process_in_chunks\<close>
  sends and that the other side reads it back; and that \<open>verify_pin\<close> lets nobody through without the
  right PIN and never looks at more than \<open>max_tries\<close> answers.
\<close>

section \<open>Payloads\<close>

text \<open>
  On a channel that accepts every send, \<open>process_in_chunks\<close> sends the concatenation of what it
  is given as binary messages cut into consecutive blocks: none is empty, none exceeds
  \<open>CHUNK_SIZE\<close>, and all but the last have exactly that size, however the input was cut.
\<close>

theorem process_in_chunks_cuts_blocks:
  assumes "w_sends w = []"
  shows "process_in_chunks () rx True send_chunk w =
      (Ok (), w\<lparr>w_out := w_out w @ map Binary (blocks CHUNK_SIZE (concat rx))\<rparr>) \<and>
    concat (blocks CHUNK_SIZE (concat rx)) = concat rx \<and>
    (\<forall>b \<in> set (blocks CHUNK_SIZE (concat rx)). 0 < length b \<and> length b \<le> CHUNK_SIZE) \<and>
    (\<forall>b \<in> set (butlast (blocks CHUNK_SIZE (concat rx))). length b = CHUNK_SIZE)"
  using assms blocks_bounds [OF CHUNK_SIZE_pos] blocks_butlast_full [OF CHUNK_SIZE_pos]
  by (auto simp: process_in_chunks_sends)

definition sample_world :: world where
  "sample_world = \<lparr>w_in = [], w_in_closed = False, w_sends = [], w_out = [], w_buffered = [3, 1],
     w_status = [], w_status_left = None, w_status_full = False, w_pins = [], w_errors = []\<rparr>"

theorem process_in_chunks_cuts_blocks_witness:
  "process_in_chunks () [[1, 2], [3]] True send_chunk sample_world =
     (Ok (), sample_world\<lparr>w_out := [Binary [1, 2, 3]]\<rparr>)"
  using process_in_chunks_cuts_blocks [of sample_world "[[1, 2], [3]]"]
  by (simp add: sample_world_def blocks_short CHUNK_SIZE_def)

text \<open>
  A string sent in chunks and closed with the delimiter is what the other side reads, and the
  messages after the delimiter are left for the next read.
\<close>

theorem string_transport:
  assumes "w_sends w = []" and "w_out w = []"
    and "bind_t (send_string_in_chunks () s send_chunk) (\<lambda>_. send_delimiter) w = (r, w')"
    and "w_in v = w_out w' @ rest"
  shows "r = Ok () \<and> receive_string_from_chunks v = (Ok (as_bytes s), v\<lparr>w_in := rest\<rparr>)"
proof -
  from assms(1-3) have "r = Ok ()"
    and "w_out w' = map Binary (blocks CHUNK_SIZE (as_bytes s)) @ [Text ''0'']"
    by (auto simp: bind_t_def task_simps)
  with assms(4) show ?thesis by (simp add: receive_blocks)
qed

theorem string_transport_witness:
  "receive_string_from_chunks (sample_world\<lparr>w_in := [Binary (as_bytes ''hello''), Text ''0'', Text ''x'']\<rparr>) =
     (Ok (as_bytes ''hello''), sample_world\<lparr>w_in := [Text ''x'']\<rparr>)"
proof -
  have b: "blocks CHUNK_SIZE (as_bytes ''hello'') = [as_bytes ''hello'']"
    by (rule blocks_short) (simp_all add: CHUNK_SIZE_def)
  obtain r w' where run: "bind_t (send_string_in_chunks () ''hello'' send_chunk) (\<lambda>_. send_delimiter) sample_world = (r, w')"
    by fastforce
  then have "w_out w' = [Binary (as_bytes ''hello''), Text ''0'']"
    by (auto simp: bind_t_def task_simps b sample_world_def)
  then show ?thesis
    using string_transport [OF _ _ run, of "sample_world\<lparr>w_in := [Binary (as_bytes ''hello''), Text ''0'', Text ''x'']\<rparr>" "[Text ''x'']"]
    by (simp add: sample_world_def)
qed

text \<open>
  \<open>buffer_receiver\<close> hands the application the same bytes in the same order, in pieces that are
  never empty and, but for the last, of at least \<open>BUFFER_SIZE\<close> bytes.
\<close>

theorem buffer_receiver_regroups:
  "concat (buffer_receiver rx) = concat rx \<and>
   (\<forall>b \<in> set (buffer_receiver rx). b \<noteq> []) \<and>
   (\<forall>b \<in> set (butlast (buffer_receiver rx)). BUFFER_SIZE \<le> length b)"
  unfolding buffer_receiver_def
  by (auto simp: concat_buffer_loop dest: buffer_loop_full buffer_loop_nonempty)

theorem buffer_receiver_regroups_witness:
  "concat (buffer_receiver [[1], [], [2, 3]]) = [1, 2, 3]"
  using buffer_receiver_regroups [of "[[1], [], [2, 3]]"] by simp

section \<open>The PIN gate\<close>

text \<open>A way of telling the peer the verdict that leaves the incoming messages alone.\<close>

definition keeps_in :: "('a \<Rightarrow> ('z world_scheme, unit) task) \<Rightarrow> bool" where
  "keeps_in f \<longleftrightarrow> (\<forall>x. leaves (\<lambda>w w'. w_in w' = w_in w) (f x))"

lemma same_in_order: "reflp (\<lambda>w w'. w_in w' = w_in w)" "transp (\<lambda>w w'. w_in w' = w_in w)"
  by (auto simp: reflp_def transp_def)

lemma leaves_in_ops:
  "leaves (\<lambda>w w'. w_in w' = w_in w) (send_message m)"
  "leaves (\<lambda>w w'. w_in w' = w_in w) (send_text s)"
  "leaves (\<lambda>w w'. w_in w' = w_in w) (send_binary b)"
  "leaves (\<lambda>w w'. w_in w' = w_in w) (send_status st)"
  "leaves (\<lambda>w w'. w_in w' = w_in w) wait_buffer_empty"
  by (auto simp: leaves_def send_message_def send_text_def send_binary_def send_status_def
      wait_buffer_empty_def split: list.splits option.splits nat.splits)

lemmas leaves_in [intro] =
  leaves_in_ops leaves_simple [OF same_in_order(1)] leaves_bind [OF same_in_order(2)]
  leaves_ignore [OF same_in_order]

lemma leaves_in_chunks [intro]:
  "leaves (\<lambda>w w'. w_in w' = w_in w) (send_string_in_chunks dc s send_chunk)"
  unfolding send_string_in_chunks_def
  by (rule leaves_process_in_chunks [OF same_in_order]) (auto simp: send_chunk_def)

lemma keeps_in_results:
  "keeps_in (receiver_send_result X)" "keeps_in (sender_send_result X)"
  by (auto simp: keeps_in_def receiver_send_result_def sender_send_result_def send_delimiter_def)

text \<open>One turn: it stops, or it asks and goes on in a world with the same incoming messages.\<close>

lemma verify_pin_turn_cases:
  assumes sr: "keeps_in sr" and turn: "verify_pin_turn cfg sr notice rp t next w = (r, w')"
  obtains (passed) "rp = pc_pin cfg" "r = Ok ()" "w_in w' = w_in w"
    | (stopped) "rp \<noteq> pc_pin cfg" "r \<noteq> Ok ()" "w_in w' = w_in w"
    | (asked) v where "rp \<noteq> pc_pin cfg" "t < pc_max_tries cfg" "w_in v = w_in w" "next v = (r, w')"
proof -
  have keep: "leaves (\<lambda>w w'. w_in w' = w_in w) (sr x)" for x
    using sr by (simp add: keeps_in_def)
  show thesis
  proof (cases "rp = pc_pin cfg")
    case True
    with turn passed show ?thesis by (simp add: verify_pin_turn_def)
  next
    case wrong: False
    show ?thesis
    proof (cases "t \<ge> pc_max_tries cfg")
      case True
      let ?stop = "bind_t (ignore_t (bind_t (ignore_t (sr VerifyTooManyAttempts)) (\<lambda>_. wait_buffer_empty))) (\<lambda>_.
        bind_t (send_status TooManyAttempts) (\<lambda>_. fail_t (Msg ''Too many requests'')))"
      from turn wrong True have e: "?stop w = (r, w')" by (simp add: verify_pin_turn_def)
      have "leaves (\<lambda>w w'. w_in w' = w_in w) ?stop" by (intro leaves_in keep)
      then have "w_in w' = w_in w" using e by (rule leavesD)
      moreover have "r \<noteq> Ok ()" using e by (auto simp: bind_t_Ok_iff)
      ultimately show ?thesis using wrong stopped by blast
    next
      case False
      let ?ask = "if notice \<or> t > 0 then sr VerifyPinRequired else return_t ()"
      have e: "bind_t ?ask (\<lambda>_. next) w = (r, w')"
        using turn wrong False by (simp add: verify_pin_turn_def)
      obtain q v where q: "?ask w = (q, v)" by fastforce
      have "leaves (\<lambda>w w'. w_in w' = w_in w) ?ask" using keep by (auto intro!: leaves_in)
      then have v: "w_in v = w_in w" using q by (rule leavesD)
      show ?thesis
      proof (cases q)
        case (Ok u)
        with e q have "next v = (r, w')" by (simp add: bind_t_def)
        with wrong False v asked show ?thesis by auto
      qed (use e q v wrong stopped in \<open>auto simp: bind_t_def\<close>)
    qed
  qed
qed

text \<open>
  The counter is a \<open>u8\<close> increased only below \<open>max_tries\<close>, so its addition never overflows.
\<close>

lemma pin_try_no_overflow: "t < (n :: u8) \<Longrightarrow> unat (t + 1) = Suc (unat t)"
  using unsigned_less [of n, where 'a = nat]
  by (simp add: word_less_nat_alt unat_word_ariths)

lemma verify_pin_loop_bounded:
  assumes "keeps_in sr"
  shows "verify_pin_loop X cfg sr notice rp t ms w = (r, w') \<Longrightarrow> w_in w = ms \<Longrightarrow> t \<le> pc_max_tries cfg \<Longrightarrow>
    \<exists>k. k \<le> length ms \<and> unat t + k \<le> unat (pc_max_tries cfg) \<and> w_in w' = drop k ms \<and>
      (r = Ok () \<longrightarrow>
         (if k = 0 then rp = pc_pin cfg else de_pin X (msg_data (ms ! (k - 1))) = Some (pc_pin cfg)))"
proof (induction ms arbitrary: notice rp t w)
  case Nil
  have base: "unat t + 0 \<le> unat (pc_max_tries cfg)" using Nil.prems(3) by (simp add: word_le_nat_alt)
  from Nil.prems(1) have "verify_pin_turn cfg sr notice rp t (bind_t recv (\<lambda>_. fail_t (Msg ''Failed to receive pin''))) w = (r, w')"
    by simp
  with assms show ?case
  proof (cases rule: verify_pin_turn_cases)
    case (asked v)
    with Nil.prems(2) have "w_in w' = [] \<and> r \<noteq> Ok ()"
      by (cases "w_in_closed v") (auto simp: bind_t_def recv_def)
    with base show ?thesis by auto
  qed (use Nil.prems(2) base in auto)
next
  case (Cons m ms)
  have base: "unat t + 0 \<le> unat (pc_max_tries cfg)" using Cons.prems(3) by (simp add: word_le_nat_alt)
  let ?next = "bind_t recv (\<lambda>received. case received of
      Some m \<Rightarrow> bind_t (parse_json (de_pin X) (msg_data m)) (\<lambda>pin. verify_pin_loop X cfg sr False pin (t + 1) ms)
    | None \<Rightarrow> fail_t (Msg ''Failed to receive pin''))"
  from Cons.prems(1) have "verify_pin_turn cfg sr notice rp t ?next w = (r, w')" by simp
  with assms show ?case
  proof (cases rule: verify_pin_turn_cases)
    case (asked v)
    let ?v = "v\<lparr>w_in := ms\<rparr>"
    have t: "unat (t + 1) = Suc (unat t)" using asked(2) by (rule pin_try_no_overflow)
    have le: "t + 1 \<le> pc_max_tries cfg"
      using asked(2) t by (simp add: word_le_nat_alt word_less_nat_alt)
    from asked(3,4) Cons.prems(2) have run:
      "bind_t (parse_json (de_pin X) (msg_data m)) (\<lambda>pin. verify_pin_loop X cfg sr False pin (t + 1) ms) ?v = (r, w')"
      by (simp add: bind_t_def recv_def)
    show ?thesis
    proof (cases "de_pin X (msg_data m)")
      case None
      with run have "w_in w' = drop 1 (m # ms) \<and> r \<noteq> Ok ()" by (auto simp: bind_t_def parse_json_def)
      moreover have "unat t + 1 \<le> unat (pc_max_tries cfg)" using le t by (simp add: word_le_nat_alt)
      ultimately show ?thesis by (intro exI [of _ 1]) auto
    next
      case (Some pin)
      with run have "verify_pin_loop X cfg sr False pin (t + 1) ms ?v = (r, w')"
        by (simp add: bind_t_def parse_json_def)
      from Cons.IH [OF this _ le] obtain k where
        "k \<le> length ms" "unat (t + 1) + k \<le> unat (pc_max_tries cfg)" "w_in w' = drop k ms"
        "r = Ok () \<longrightarrow>
           (if k = 0 then pin = pc_pin cfg else de_pin X (msg_data (ms ! (k - 1))) = Some (pc_pin cfg))"
        by auto
      with t Some show ?thesis
        by (intro exI [of _ "Suc k"]) (auto simp: nth_Cons' split: if_splits)
    qed
  qed (use Cons.prems(2) base in auto)
qed

definition receiver_sample :: "data_channel_message list \<Rightarrow> receiver_world" where
  "receiver_sample ms = \<lparr>w_in = ms, w_in_closed = False, w_sends = [], w_out = [], w_buffered = [3, 1],
     w_status = [], w_status_left = None, w_status_full = False, w_pins = [], w_errors = [],
     rw_files_open = True, rw_files = None, rw_selection = SelectionFiles [''a''],
     rw_receiving_open = True, rw_received = [], rw_writes = [],
     rw_results = [\<lparr>fr_id = ''a'', fr_success = True, fr_error = None\<rparr>], rw_results_closed = False\<rparr>"

lemma receiver_sample_in [simp]: "w_in (receiver_sample ms) = ms"
  by (simp add: receiver_sample_def)

lemma verify_pin_takes:
  assumes "keeps_in sr" and "verify_pin X cfg notice sr w = (r, w')"
  shows "\<exists>k. k \<le> length (w_in w) \<and> k \<le> unat (pc_max_tries cfg) \<and> w_in w' = drop k (w_in w) \<and>
    (r = Ok () \<longrightarrow>
       (if k = 0 then pc_pin cfg = ''''
        else de_pin X (msg_data (w_in w ! (k - 1))) = Some (pc_pin cfg)))"
proof -
  obtain q v where q: "send_status PinRequired w = (q, v)" by fastforce
  then have v: "w_in v = w_in w"
    using leavesD [OF leaves_in_ops(4)] by blast
  show ?thesis
  proof (cases q)
    case (Ok u)
    with assms(2) q have "verify_pin_loop X cfg sr notice '''' 0 (w_in v) v = (r, w')"
      by (simp add: verify_pin_def bind_t_def)
    from verify_pin_loop_bounded [OF assms(1) this] obtain k where
      "k \<le> length (w_in v)" "k \<le> unat (pc_max_tries cfg)" "w_in w' = drop k (w_in v)"
      "r = Ok () \<longrightarrow>
         (if k = 0 then '''' = pc_pin cfg else de_pin X (msg_data (w_in v ! (k - 1))) = Some (pc_pin cfg))"
      by auto
    with v show ?thesis by (intro exI [of _ k]) (simp split: if_splits)
  qed (use assms(2) q v in \<open>auto simp: verify_pin_def bind_t_def intro!: exI [of _ 0]\<close>)
qed

text \<open>
  C23: the PIN gate. However a run of \<open>verify_pin\<close> ends, it has taken at most \<open>max_tries\<close> messages
  off the channel; and when it lets the peer through, the last message it took carried the
  configured PIN (or it took none and the configured PIN is the empty string).
\<close>

theorem verify_pin_bounded:
  assumes "keeps_in sr" and "verify_pin X cfg notice sr w = (r, w')"
  shows "\<exists>k. k \<le> length (w_in w) \<and> k \<le> unat (pc_max_tries cfg) \<and> w_in w' = drop k (w_in w) \<and>
    (r = Ok () \<longrightarrow>
       (if k = 0 then pc_pin cfg = ''''
        else de_pin X (msg_data (w_in w ! (k - 1))) = Some (pc_pin cfg)))"
  using assms by (rule verify_pin_takes)

definition sample_rtc :: rtc_ext where
  "sample_rtc = wire_ext sample_crypto (\<lambda>b. b) Some"

lemma sample_rtc_ok [simp]: "serde_ok sample_rtc" "rx_crypto sample_rtc = sample_crypto"
  by (simp add: sample_rtc_def wire_ext_ok) (simp add: sample_rtc_def wire_ext_def)

theorem verify_pin_bounded_witness:
  "\<exists>k \<le> 1. w_in (snd (verify_pin sample_rtc \<lparr>pc_pin = ''1'', pc_max_tries = 1\<rparr> False
       (receiver_send_result sample_rtc) (receiver_sample [Text ''x'', Text ''y'']))) =
     drop k [Text ''x'', Text ''y'']"
proof -
  obtain r w' where run: "verify_pin sample_rtc \<lparr>pc_pin = ''1'', pc_max_tries = 1\<rparr> False
       (receiver_send_result sample_rtc) (receiver_sample [Text ''x'', Text ''y'']) = (r, w')"
    by fastforce
  from verify_pin_bounded [OF keeps_in_results(1) this] show ?thesis
    unfolding run snd_conv receiver_sample_in by auto
qed

end
