(* ===== verification/Rtc_Pin_Dialogue.thy ===== *)
theory Rtc_Pin_Dialogue
  imports Rtc_Pin_Props
begin

text \<open>
  The PIN challenge on working channels: what \<open>verify_pin\<close> answers for every sequence of guesses,
  and the messages with which the receiver answers them.
\<close>

section \<open>verify_pin on a working channel\<close>

text \<open>A verdict callback that always gets through, takes nothing from the channel and reports no status.\<close>

definition gets_through :: "('a \<Rightarrow> ('z world_scheme, unit) task) \<Rightarrow> bool" where
  "gets_through f \<longleftrightarrow>
     (\<forall>x w. healthy w \<longrightarrow>
        (\<exists>w'. f x w = (Ok (), w') \<and> healthy w' \<and> w_in w' = w_in w \<and> w_in_closed w' = w_in_closed w \<and>
           w_status w' = w_status w))"

lemma gets_throughE:
  assumes "gets_through f" and "healthy w"
  obtains w' where "f x w = (Ok (), w')" "healthy w'" "w_in w' = w_in w" "w_in_closed w' = w_in_closed w"
    "w_status w' = w_status w"
  using assms unfolding gets_through_def by blast

lemma gets_through_results:
  "gets_through (receiver_send_result X)" "gets_through (sender_send_result X)"
  by (auto simp: gets_through_def healthy_def receiver_send_result_def sender_send_result_def
      bind_t_def task_simps)

text \<open>The verdict on a sequence of guesses: \<open>n\<close> is the number of tries that are left.\<close>

fun pin_verdict :: "string \<Rightarrow> bool \<Rightarrow> nat \<Rightarrow> string \<Rightarrow> string list \<Rightarrow> unit res" where
  "pin_verdict p closed n rp gs =
     (if rp = p then Ok ()
      else
        (case n of
           0 \<Rightarrow> Err (Msg ''Too many requests'')
         | Suc n' \<Rightarrow>
             (case gs of
                [] \<Rightarrow> if closed then Err (Msg ''Failed to receive pin'') else Wait
              | g # gs' \<Rightarrow> pin_verdict p closed n' g gs')))"

declare pin_verdict.simps [simp del]

lemma pin_verdict_eq:
  "pin_verdict p closed n rp gs =
     (if p \<in> set (rp # take n gs) then Ok ()
      else if n \<le> length gs then Err (Msg ''Too many requests'')
      else if closed then Err (Msg ''Failed to receive pin'') else Wait)"
proof (induction p closed n rp gs rule: pin_verdict.induct)
  case (1 p closed n rp gs)
  then show ?case by (subst pin_verdict.simps) (auto split: nat.splits list.splits)
qed

definition next_verdict :: "string \<Rightarrow> bool \<Rightarrow> nat \<Rightarrow> string list \<Rightarrow> unit res" where
  "next_verdict p closed n gs =
     (case gs of
        [] \<Rightarrow> if closed then Err (Msg ''Failed to receive pin'') else Wait
      | g # gs' \<Rightarrow> pin_verdict p closed n g gs')"

lemma pin_verdict_cases:
  "pin_verdict p closed n p gs = Ok ()"
  "rp \<noteq> p \<Longrightarrow> pin_verdict p closed 0 rp gs = Err (Msg ''Too many requests'')"
  "rp \<noteq> p \<Longrightarrow> pin_verdict p closed (Suc m) rp gs = next_verdict p closed m gs"
  by (simp_all add: pin_verdict.simps next_verdict_def)

text \<open>A run from \<open>w\<close> that has the given verdict and reports \<open>TooManyAttempts\<close> with that error only.\<close>

definition judged :: "'z world_scheme \<Rightarrow> unit res \<Rightarrow> unit res \<times> 'z world_scheme \<Rightarrow> bool" where
  "judged w verdict run \<longleftrightarrow> fst run = verdict \<and>
     w_status (snd run) = w_status w @ (if verdict = Err (Msg ''Too many requests'') then [TooManyAttempts] else [])"

lemma verify_pin_turn_verdict:
  assumes sr: "gets_through sr" and w: "healthy w" and t: "t \<le> pc_max_tries cfg"
    and nxt: "\<And>v. healthy v \<Longrightarrow> w_in v = w_in w \<Longrightarrow> w_in_closed v = w_in_closed w \<Longrightarrow> w_status v = w_status w \<Longrightarrow>
        t < pc_max_tries cfg \<Longrightarrow>
        judged w (next_verdict (pc_pin cfg) (w_in_closed w) (unat (pc_max_tries cfg) - Suc (unat t)) gs) (nxt v)"
  shows "judged w (pin_verdict (pc_pin cfg) (w_in_closed w) (unat (pc_max_tries cfg) - unat t) rp gs)
    (verify_pin_turn cfg sr notice rp t nxt w)"
proof (cases "rp = pc_pin cfg")
  case wrong: False
  show ?thesis
  proof (cases "t \<ge> pc_max_tries cfg")
    case True
    with t have "unat (pc_max_tries cfg) - unat t = 0" by (simp add: word_le_nat_alt)
    moreover obtain v where "sr VerifyTooManyAttempts w = (Ok (), v)" "healthy v" "w_status v = w_status w"
      using gets_throughE [OF sr w] by metis
    ultimately show ?thesis
      using wrong True
      by (simp add: judged_def verify_pin_turn_def pin_verdict_cases bind_t_def ignore_t_def
          try_t_def wait_buffer_empty_def healthy_def send_status_def)
  next
    case False
    then have lt: "t < pc_max_tries cfg" by simp
    then have n: "unat (pc_max_tries cfg) - unat t = Suc (unat (pc_max_tries cfg) - Suc (unat t))"
      by (simp add: word_less_nat_alt)
    obtain v where v: "sr VerifyPinRequired w = (Ok (), v)" "healthy v" "w_in v = w_in w" "w_in_closed v = w_in_closed w"
      "w_status v = w_status w"
      using gets_throughE [OF sr w] by metis
    have "verify_pin_turn cfg sr notice rp t nxt w = nxt (if notice \<or> t > 0 then v else w)"
      using wrong False v(1) by (simp add: verify_pin_turn_def bind_t_def)
    moreover have "judged w (next_verdict (pc_pin cfg) (w_in_closed w) (unat (pc_max_tries cfg) - Suc (unat t)) gs)
        (nxt (if notice \<or> t > 0 then v else w))"
      using nxt [of v] nxt [of w] v w lt by simp
    ultimately show ?thesis unfolding n using wrong by (simp add: pin_verdict_cases)
  qed
qed (simp add: judged_def verify_pin_turn_def pin_verdict_cases)

lemma verify_pin_loop_verdict:
  assumes sr: "gets_through sr"
  shows "healthy w \<Longrightarrow> w_in w = ms \<Longrightarrow> t \<le> pc_max_tries cfg \<Longrightarrow>
    map (\<lambda>m. de_pin X (msg_data m)) ms = map Some gs \<Longrightarrow>
    judged w (pin_verdict (pc_pin cfg) (w_in_closed w) (unat (pc_max_tries cfg) - unat t) rp gs)
      (verify_pin_loop X cfg sr notice rp t ms w)"
proof (induction ms arbitrary: notice rp t w gs)
  case Nil
  then show ?case
    unfolding verify_pin_loop.simps
    by (intro verify_pin_turn_verdict [OF sr]) (auto simp: judged_def bind_t_def recv_def next_verdict_def)
next
  case (Cons m ms)
  then obtain g gs' where gs: "gs = g # gs'" and g: "de_pin X (msg_data m) = Some g"
    and gs': "map (\<lambda>m. de_pin X (msg_data m)) ms = map Some gs'" by (cases gs) auto
  let ?nxt = "bind_t recv (\<lambda>received. case received of
      Some m \<Rightarrow> bind_t (parse_json (de_pin X) (msg_data m)) (\<lambda>pin. verify_pin_loop X cfg sr False pin (t + 1) ms)
    | None \<Rightarrow> fail_t (Msg ''Failed to receive pin''))"
  have "judged w (next_verdict (pc_pin cfg) (w_in_closed w) (unat (pc_max_tries cfg) - Suc (unat t)) gs) (?nxt v)"
    if v: "healthy v" "w_in v = w_in w" "w_in_closed v = w_in_closed w" "w_status v = w_status w"
      and lt: "t < pc_max_tries cfg" for v
  proof -
    have t1: "unat (t + 1) = Suc (unat t)" using lt by (rule pin_try_no_overflow)
    moreover have "t + 1 \<le> pc_max_tries cfg" using lt t1 by (simp add: word_le_nat_alt word_less_nat_alt)
    moreover have "?nxt v = verify_pin_loop X cfg sr False g (t + 1) ms (v\<lparr>w_in := ms\<rparr>)"
      using v(2) Cons.prems(2) g by (simp add: bind_t_def recv_def parse_json_def)
    moreover have "healthy (v\<lparr>w_in := ms\<rparr>)" using v(1) by (simp add: healthy_def)
    ultimately show ?thesis
      using Cons.IH [of "v\<lparr>w_in := ms\<rparr>" "t + 1" gs' g False] gs' v(3,4) by (simp add: gs next_verdict_def judged_def)
  qed
  then show ?case
    unfolding verify_pin_loop.simps
    by (intro verify_pin_turn_verdict [OF sr Cons.prems(1,3)])
qed

text \<open>
  C2: on a working channel on which the peer sends the guesses \<open>gs\<close>, \<open>verify_pin\<close> lets the peer through
  exactly when the configured PIN is among the first \<open>max_tries\<close> guesses (or is the empty string, which
  needs no guess). Otherwise it ends with \<open>Too many requests\<close> if the peer has made that many guesses, and
  if it has not, waits for more, or fails when the channel is closed. It reports \<open>PinRequired\<close> first,
  and \<open>TooManyAttempts\<close> exactly when it ends with that error.
\<close>

theorem verify_pin_decides:
  assumes "gets_through sr" and "healthy w"
    and "map (\<lambda>m. de_pin X (msg_data m)) (w_in w) = map Some gs"
    and "verify_pin X cfg notice sr w = (r, w')"
  shows "r = (if pc_pin cfg \<in> set ('''' # take (unat (pc_max_tries cfg)) gs) then Ok ()
        else if unat (pc_max_tries cfg) \<le> length gs then Err (Msg ''Too many requests'')
        else if w_in_closed w then Err (Msg ''Failed to receive pin'') else Wait) \<and>
    w_status w' = w_status w @ PinRequired #
      (if r = Err (Msg ''Too many requests'') then [TooManyAttempts] else [])"
proof -
  let ?v = "w\<lparr>w_status := w_status w @ [PinRequired]\<rparr>"
  have "verify_pin_loop X cfg sr notice '''' 0 (w_in w) ?v = (r, w')"
    using assms(2,4) by (simp add: verify_pin_def healthy_def bind_t_def task_simps)
  moreover have "judged ?v (pin_verdict (pc_pin cfg) (w_in_closed ?v) (unat (pc_max_tries cfg) - unat (0 :: u8)) '''' gs)
      (verify_pin_loop X cfg sr notice '''' 0 (w_in w) ?v)"
    using assms(2,3) by (intro verify_pin_loop_verdict [OF assms(1)]) (simp_all add: healthy_def)
  ultimately show ?thesis by (simp add: judged_def pin_verdict_eq)
qed

theorem verify_pin_decides_witness:
  "fst (verify_pin sample_rtc \<lparr>pc_pin = ''7'', pc_max_tries = 3\<rparr> False (receiver_send_result sample_rtc)
     (receiver_sample (map (Text \<circ> ser_pin sample_rtc) [''1'', ''7'', ''3'']))) = Ok () \<and>
   fst (verify_pin sample_rtc \<lparr>pc_pin = ''7'', pc_max_tries = 3\<rparr> False (receiver_send_result sample_rtc)
     (receiver_sample (map (Text \<circ> ser_pin sample_rtc) [''1'', ''2'', ''3'', ''7'']))) = Err (Msg ''Too many requests'') \<and>
   fst (verify_pin sample_rtc \<lparr>pc_pin = ''7'', pc_max_tries = 3\<rparr> False (receiver_send_result sample_rtc)
     (receiver_sample (map (Text \<circ> ser_pin sample_rtc) [''1'']))) = Wait"
proof -
  have decides: "fst (verify_pin sample_rtc \<lparr>pc_pin = ''7'', pc_max_tries = 3\<rparr> False (receiver_send_result sample_rtc)
      (receiver_sample (map (Text \<circ> ser_pin sample_rtc) gs))) =
    (if ''7'' \<in> set ('''' # take 3 gs) then Ok ()
     else if 3 \<le> length gs then Err (Msg ''Too many requests'') else Wait)" for gs
    using verify_pin_decides [OF gets_through_results(1), of "receiver_sample (map (Text \<circ> ser_pin sample_rtc) gs)"
        sample_rtc gs "\<lparr>pc_pin = ''7'', pc_max_tries = 3\<rparr>" False sample_rtc]
    by (simp add: healthy_def receiver_sample_def serde_okD prod_eq_iff)
  show ?thesis unfolding decides by simp
qed


section \<open>Both sides of the challenge\<close>

lemma receiver_send_result_sends [task_simps]:
  "w_sends w = [] \<Longrightarrow> receiver_send_result X res w =
    (Ok (), w\<lparr>w_out := w_out w @ [Text (ser_pin_receiving X (pin_receiving_of res))]\<rparr>)"
  by (simp add: receiver_send_result_def bind_t_def task_simps)

lemma challenge_receiving_eqs [task_simps]:
  assumes "serde_ok X"
  shows "challenge_receiving X (as_bytes (ser_pin_receiving X PinReceivingOk)) = ChallengeOk ()"
    and "challenge_receiving X (as_bytes (ser_pin_receiving X PinReceivingRequired)) = ChallengePinRequired"
  using serde_okD(5) [OF assms] by (simp_all add: challenge_receiving_def)

lemma verify_pin_loop_passes:
  "verify_pin_loop X cfg sr notice (pc_pin cfg) t ms w = (Ok (), w)"
  by (cases ms) (simp_all add: verify_pin_turn_def)

definition sender_sample :: "data_channel_message list \<Rightarrow> pin_reply list \<Rightarrow> sender_world" where
  "sender_sample ms pins = \<lparr>w_in = ms, w_in_closed = False, w_sends = [], w_out = [], w_buffered = [2, 1],
     w_status = [], w_status_left = None, w_status_full = False, w_pins = pins, w_errors = [],
     sw_selected_open = True, sw_selected = None, sw_pair_open = True, sw_pair_answer = Some (Some True),
     sw_files = [\<lparr>rf_file_id = ''a'', rf_binary = [[1, 2], [3]], rf_closed = True\<rparr>], sw_files_closed = True\<rparr>"

end
