(* ===== verification/Rtc_Gates.thy ===== *)
theory Rtc_Gates
  imports Rtc_Pin_Dialogue
begin

text \<open>
  Safety of a transfer against an arbitrary peer: the worlds here are arbitrary, so the other side
  may send anything, in any order, and the channels may fail at any point. What a task discloses
  or delivers is bounded by what the peer has proved.
\<close>

section \<open>Running a sequence of phases\<close>

lemma bind_t_cases [consumes 1, case_names stop go]:
  assumes "bind_t t f w = (r, w')"
  obtains (stop) q where "t w = (q, w')" "\<forall>x. q \<noteq> Ok x" "\<forall>x. r \<noteq> Ok x"
    | (go) x v where "t w = (Ok x, v)" "f x v = (r, w')"
proof (cases "t w")
  case (Pair q v)
  with assms stop go show thesis by (cases q) (auto simp: bind_t_def)
qed

text \<open>Phases that read but do not write.\<close>

definition same_out :: "'z world_scheme \<Rightarrow> 'z world_scheme \<Rightarrow> bool" where
  "same_out w w' \<longleftrightarrow> w_out w' = w_out w"

lemma same_out_order: "reflp same_out" "transp same_out"
  by (auto simp: same_out_def reflp_def transp_def)

lemma leaves_same_out_ops:
  "leaves same_out recv" "leaves same_out wait_buffer_empty" "leaves same_out (send_status st)"
  "leaves same_out (parse_json de b)" "leaves same_out receive_string_from_chunks"
  by (auto simp: leaves_def same_out_def recv_def wait_buffer_empty_def send_status_def parse_json_def
      receive_string_from_chunks_def split: list.splits option.splits nat.splits prod.splits)

lemmas leaves_same_out [intro] =
  leaves_same_out_ops leaves_simple [OF same_out_order(1)] leaves_bind [OF same_out_order(2)]
  leaves_map_err leaves_ignore [OF same_out_order]

lemma leaves_same_out_receive_nonce [intro]: "leaves same_out (receive_nonce X)"
  unfolding receive_nonce_def by (auto intro!: leaves_same_out split: option.splits)

lemma leaves_same_out_token_response [intro]: "leaves same_out (receive_token_response X)"
  unfolding receive_token_response_def by (auto intro!: leaves_same_out split: option.splits)

lemma leaves_same_out_check_key [intro]: "leaves same_out (check_expected_key X key token nonce)"
  unfolding check_expected_key_def by (auto intro!: leaves_same_out split: option.splits)

lemma same_outD: "leaves same_out t \<Longrightarrow> t w = (r, w') \<Longrightarrow> w_out w' = w_out w"
  using leavesD [of same_out t w r w'] by (simp add: same_out_def)

lemma send_text_out: "send_text s w = (r, w') \<Longrightarrow> w_in w' = w_in w \<and>
    (if \<exists>u. r = Ok u then w_out w' = w_out w @ [Text s] else w_out w' = w_out w)"
  by (auto simp: send_text_def send_message_def split: list.splits option.splits)

lemma map_err_send_text_out: "map_err_t g (send_text s) w = (r, w') \<Longrightarrow> w_in w' = w_in w \<and>
    (if \<exists>u. r = Ok u then w_out w' = w_out w @ [Text s] else w_out w' = w_out w)"
  by (auto simp: map_err_t_def split: prod.splits res.splits dest!: send_text_out)

lemma receive_nonce_OkD:
  assumes "receive_nonce X w = (Ok nonce, w')"
  obtains m ms enc where "w_in w = m # ms" "w_in w' = ms" "is_string m"
    and "de_nonce X (msg_data m) = Some enc" "base64_decode (rx_crypto X) enc = Ok nonce"
    and "validate_nonce nonce"
  using assms
  by (auto simp: receive_nonce_def bind_t_Ok_iff recv_def parse_json_def map_err_t_def
      split: list.splits if_splits option.splits prod.splits res.splits)

section \<open>The sender's gate\<close>

text \<open>
  What the peer has proved when it holds the private key of the expected public key: its first
  message carries a nonce and its second a token that verifies under both nonces.
\<close>

definition proved_key ::
  "rtc_ext \<Rightarrow> byte list \<Rightarrow> verifying_token_key \<Rightarrow> data_channel_message list \<Rightarrow> bool" where
  "proved_key X local_nonce key ms \<longleftrightarrow>
     (\<exists>m1 m2 rest enc remote_nonce token response.
        ms = m1 # m2 # rest \<and>
        de_nonce X (msg_data m1) = Some enc \<and>
        base64_decode (rx_crypto X) enc = Ok remote_nonce \<and> validate_nonce remote_nonce \<and>
        de_token_response X (msg_data m2) = Some response \<and>
        response \<in> {TokenOk token, TokenPinRequired token} \<and>
        verify_token_nonce (rx_crypto X) key token (local_nonce @ remote_nonce) = Ok True)"

lemma sender_nonce_out:
  assumes "sender_nonce X local_nonce w = (r, w')"
  obtains "w_out w' = w_out w" "\<forall>n. r \<noteq> Ok n"
    | "w_out w' = w_out w @ [Text (ser_nonce X (base64_encode (rx_crypto X) local_nonce))]"
  using assms unfolding sender_nonce_def
proof (cases rule: bind_t_cases)
  case (go u v)
  then have v: "w_out v = w_out w @ [Text (ser_nonce X (base64_encode (rx_crypto X) local_nonce))]"
    using map_err_send_text_out by fastforce
  from go(2) have "w_out w' = w_out v"
    by (rule same_outD [rotated]) (auto intro!: leaves_same_out)
  with v that(2) show thesis by simp
qed (use that(1) in \<open>auto dest: map_err_send_text_out split: if_splits\<close>)

lemma sender_nonce_OkD:
  assumes "sender_nonce X local_nonce w = (Ok nonce, w')"
  obtains m ms enc remote_nonce where "w_in w = m # ms" "w_in w' = ms"
    and "de_nonce X (msg_data m) = Some enc" "base64_decode (rx_crypto X) enc = Ok remote_nonce"
    and "validate_nonce remote_nonce" "nonce = local_nonce @ remote_nonce"
proof -
  from assms obtain v rn
    where v: "map_err_t (Wrap ''Failed to send nonce: '')
        (send_text (ser_nonce X (base64_encode (rx_crypto X) local_nonce))) w = (Ok (), v)"
      and rn: "receive_nonce X v = (Ok rn, w')" and n: "nonce = local_nonce @ rn"
    by (auto simp: sender_nonce_def bind_t_Ok_iff)
  from v have "w_in v = w_in w" using map_err_send_text_out by blast
  with rn n that show thesis by (metis receive_nonce_OkD)
qed

lemma sender_token_out:
  assumes "sender_token X sk key nonce w = (r, w')"
  obtains "w_out w' = w_out w"
  | token where "generate_token_nonce (rx_crypto X) sk nonce = Ok token"
      "w_out w' = w_out w @ [Text (ser_token_request X token)]"
proof -
  note run = assms [unfolded sender_token_def]
  have same: "leaves same_out (map_err_t (Wrap ''Failed to generate token: '')
      (lift_t (generate_token_nonce (rx_crypto X) sk nonce) :: ('z sender_world_scheme, string) task))"
    by (auto intro!: leaves_same_out)
  from run show thesis
  proof (cases rule: bind_t_cases)
    case (go token v)
    then have v: "w_out v = w_out w" and token: "generate_token_nonce (rx_crypto X) sk nonce = Ok token"
      using same by (auto dest: same_outD simp: map_err_t_def split: res.splits)
    from go(2) show ?thesis
    proof (cases rule: bind_t_cases)
      case (go u x)
      then have "w_out x = w_out w @ [Text (ser_token_request X token)]"
        using v map_err_send_text_out by fastforce
      moreover from go(2) have "w_out w' = w_out x"
        by (rule same_outD [rotated]) (auto intro!: leaves_same_out split: rtc_token_response.splits)
      ultimately show ?thesis using token that(2) by simp
    qed (use v that(1) in \<open>auto dest: map_err_send_text_out split: if_splits\<close>)
  qed (use same that(1) in \<open>auto dest: same_outD\<close>)
qed

lemma sender_token_takes:
  assumes "sender_token X sk key nonce w = (Ok p, w')"
  shows "\<exists>m. w_in w = m # w_in w'"
proof -
  from assms obtain v x y token given where
      v: "map_err_t (Wrap ''Failed to generate token: '') (lift_t (generate_token_nonce (rx_crypto X) sk nonce)) w = (Ok token, v)"
      and x: "map_err_t (Wrap ''Failed to send token: '') (send_text (ser_token_request X token)) v = (Ok (), x)"
      and y: "receive_token_response X x = (Ok given, y)"
      and rest: "(case given of
         TokenOk token \<Rightarrow> bind_t (check_expected_key X key token nonce) (\<lambda>_. return_t (given, token))
       | TokenPinRequired token \<Rightarrow> bind_t (check_expected_key X key token nonce) (\<lambda>_. return_t (given, token))
       | TokenInvalidSignature \<Rightarrow> fail_t (Msg ''Invalid token signature from receiving peer'')) y = (Ok p, w')"
    by (auto simp: sender_token_def bind_t_Ok_iff simp del: rtc_token_response.case)
  have "w_in y' = w_in y" if "check_expected_key X key token nonce y = (Ok (), y')" for token y'
    using that by (auto simp: check_expected_key_def bind_t_Ok_iff split: option.splits if_splits)
  with rest have "w_in w' = w_in y" by (cases given) (auto simp: bind_t_Ok_iff)
  moreover from v have "w_in v = w_in w" by (auto simp: map_err_t_def split: res.splits)
  moreover from x have "w_in x = w_in v" using map_err_send_text_out by blast
  moreover from y obtain m where "w_in x = m # w_in y"
    by (auto simp: receive_token_response_def bind_t_Ok_iff recv_def parse_json_def
        split: list.splits if_splits option.splits)
  ultimately show ?thesis by metis
qed

lemma sender_token_OkD:
  assumes "sender_token X sk (Some key) nonce w = (Ok (response, token), w')"
  obtains m ms where "w_in w = m # ms" "de_token_response X (msg_data m) = Some response"
    and "response \<in> {TokenOk token, TokenPinRequired token}"
    and "verify_token_nonce (rx_crypto X) key token nonce = Ok True"
proof -
  from assms obtain v x y token0 given where
      v: "map_err_t (Wrap ''Failed to generate token: '') (lift_t (generate_token_nonce (rx_crypto X) sk nonce)) w = (Ok token0, v)"
      and x: "map_err_t (Wrap ''Failed to send token: '') (send_text (ser_token_request X token0)) v = (Ok (), x)"
      and y: "receive_token_response X x = (Ok given, y)"
      and rest: "(case given of
         TokenOk token \<Rightarrow> bind_t (check_expected_key X (Some key) token nonce) (\<lambda>_. return_t (given, token))
       | TokenPinRequired token \<Rightarrow> bind_t (check_expected_key X (Some key) token nonce) (\<lambda>_. return_t (given, token))
       | TokenInvalidSignature \<Rightarrow> fail_t (Msg ''Invalid token signature from receiving peer'')) y =
        (Ok (response, token), w')"
    by (auto simp: sender_token_def bind_t_Ok_iff simp del: rtc_token_response.case)
  from rest have given: "given = response" and c: "response \<in> {TokenOk token, TokenPinRequired token}"
    "check_expected_key X (Some key) token nonce y = (Ok (), w')"
    by (cases given; auto simp: bind_t_Ok_iff)+
  from v have "w_in v = w_in w" by (auto simp: map_err_t_def split: res.splits)
  moreover from x have "w_in x = w_in v" using map_err_send_text_out by blast
  moreover from y given obtain m ms where "w_in x = m # ms" "de_token_response X (msg_data m) = Some response"
    by (auto simp: receive_token_response_def bind_t_Ok_iff recv_def parse_json_def
        split: list.splits if_splits option.splits)
  moreover from c(2) have "verify_token_nonce (rx_crypto X) key token nonce = Ok True"
    by (auto simp: check_expected_key_def bind_t_Ok_iff split: if_splits)
  ultimately show thesis using c(1) that by metis
qed

section \<open>What a phase leaves alone\<close>

text \<open>
  A part \<open>f\<close> of the sender's world that neither messages nor the buffer of the channel touch is kept
  by the nonce and the token exchange; one that statuses, errors and the selection do not touch either
  is kept by every phase but the answer to the peer's challenge.
\<close>

definition keeps :: "('w \<Rightarrow> 'b) \<Rightarrow> 'w \<Rightarrow> 'w \<Rightarrow> bool" where
  "keeps f w w' \<longleftrightarrow> f w' = f w"

lemma keeps_order: "reflp (keeps f)" "transp (keeps f)"
  by (auto simp: keeps_def reflp_def transp_def)

locale sender_field =
  fixes f :: "'z sender_world_scheme \<Rightarrow> 'b"
  assumes field: "f (w\<lparr>w_in := i\<rparr>) = f w" "f (w\<lparr>w_out := l\<rparr>) = f w" "f (w\<lparr>w_sends := ss\<rparr>) = f w"
    "f (w\<lparr>w_buffered := ns\<rparr>) = f w"
begin

lemma keeps_ops:
  "leaves (keeps f) recv" "leaves (keeps f) (send_message m)" "leaves (keeps f) (send_text s)"
  "leaves (keeps f) (send_binary b)" "leaves (keeps f) wait_buffer_empty"
  "leaves (keeps f) (parse_json de bs)" "leaves (keeps f) receive_string_from_chunks"
  by (auto simp: leaves_def keeps_def recv_def send_message_def send_text_def send_binary_def
      wait_buffer_empty_def parse_json_def receive_string_from_chunks_def field
      split: list.splits option.splits prod.splits)

lemmas keeps_rules =
  keeps_ops leaves_simple [OF keeps_order(1)] leaves_bind [OF keeps_order(2)]
  leaves_map_err leaves_try leaves_ignore [OF keeps_order]

lemma keeps_exchange:
  "leaves (keeps f) (sender_nonce X n)" "leaves (keeps f) (sender_token X sk key nonce)"
  unfolding sender_nonce_def receive_nonce_def sender_token_def receive_token_response_def check_expected_key_def
  by (auto intro!: keeps_rules split: option.splits rtc_token_response.splits)

lemma keeps_chunks:
  "leaves (keeps f) (process_in_chunks dc rx closed send_chunk)"
  "leaves (keeps f) (send_string_in_chunks dc s send_chunk)" "leaves (keeps f) send_delimiter"
proof -
  show "leaves (keeps f) (process_in_chunks dc rx closed send_chunk)" for rx closed dc
    by (rule leaves_process_in_chunks [OF keeps_order]) (auto intro!: keeps_rules simp: send_chunk_def)
  then show "leaves (keeps f) (send_string_in_chunks dc s send_chunk)"
    by (simp add: send_string_in_chunks_def)
qed (auto intro!: keeps_rules simp: send_delimiter_def)

end

locale sender_input = sender_field +
  assumes input: "f (w\<lparr>w_status := sts\<rparr>) = f w" "f (w\<lparr>w_status_left := k\<rparr>) = f w" "f (w\<lparr>w_errors := es\<rparr>) = f w"
    "f (w\<lparr>sw_selected := sel\<rparr>) = f w"
begin

lemma keeps_reports:
  "leaves (keeps f) (send_status st)" "leaves (keeps f) (try_send_status st)" "leaves (keeps f) (send_error i e)"
  "leaves (keeps f) (publish_selected ids)" "leaves (keeps f) ask_pair"
  by (auto simp: leaves_def keeps_def send_status_def try_send_status_def send_error_def publish_selected_def
      ask_pair_def field input split: option.splits nat.splits)

lemmas keeps_all = keeps_rules keeps_reports keeps_chunks

lemma keeps_verify_pin: "leaves (keeps f) (verify_pin X cfg notice (sender_send_result X))"
proof -
  have "leaves (keeps f) (verify_pin_loop X cfg (sender_send_result X) n rp t ms)" for n rp t ms
    by (induction ms arbitrary: n rp t)
      (auto intro!: keeps_all simp: verify_pin_turn_def sender_send_result_def split: option.splits)
  then have "leaves (keeps f) (\<lambda>w. verify_pin_loop X cfg (sender_send_result X) notice '''' 0 (w_in w) w)"
    by (simp add: leaves_def)
  then show ?thesis unfolding verify_pin_def by (auto intro!: keeps_all)
qed

lemma keeps_file_list: "leaves (keeps f) (sender_file_list X files)"
  unfolding sender_file_list_def by (auto intro!: keeps_all split: sum.splits)

lemma keeps_file_map: "leaves (keeps f) (sender_file_map X remote_token nonce)"
  unfolding sender_file_map_def sender_pair_def receive_file_list_response_def
  by (auto intro!: keeps_all split: rtc_file_list_response.splits)

lemma keeps_files: "leaves (keeps f) (sender_files X file_map)"
proof -
  have one: "leaves (keeps f) (send_file X file_map m)" for m
    unfolding send_file_def by (auto intro!: keeps_all split: option.splits sum.splits)
  have "leaves (keeps f) (send_files_loop X file_map closed ms)" for closed ms
    by (induction ms) (auto intro!: keeps_all one)
  then have "leaves (keeps f) (\<lambda>w. send_files_loop X file_map (sw_files_closed w) (sw_files w) w)"
    by (simp add: leaves_def)
  then show ?thesis unfolding sender_files_def by (auto intro!: keeps_all)
qed

lemmas keeps_phases = keeps_all keeps_exchange keeps_verify_pin keeps_file_list keeps_file_map keeps_files

end

interpretation statuses: sender_field w_status
  by unfold_locales simp_all

interpretation pins: sender_input w_pins
  by unfold_locales simp_all

lemma keepsD: "leaves (keeps f) t \<Longrightarrow> t w = (r, w') \<Longrightarrow> f w' = f w"
  using leavesD [of "keeps f" t w r w'] by (simp add: keeps_def)

section \<open>Before the key is proved\<close>

text \<open>
  C4: a sender that expects a public key sends its nonce and its own token, in this order, and
  nothing else, reports no status and does not end well, unless the first message it receives carries
  a nonce and the second a token that verifies under that key for the two nonces of this session.
\<close>

theorem sender_waits_for_key:
  assumes "send_task X local_nonce sk (Some key) pin files w = (r, w')"
    and "\<not> proved_key X local_nonce key (w_in w)"
  shows "w_status w' = w_status w \<and> r \<noteq> Ok () \<and>
    (\<exists>own remote_nonce token. w_out w' = w_out w @ own \<and>
       prefix own [Text (ser_nonce X (base64_encode (rx_crypto X) local_nonce)), Text (ser_token_request X token)] \<and>
       (2 \<le> length own \<longrightarrow> generate_token_nonce (rx_crypto X) sk (local_nonce @ remote_nonce) = Ok token))"
proof -
  let ?v = "snd (wait_buffer_empty w)" and ?n = "Text (ser_nonce X (base64_encode (rx_crypto X) local_nonce))"
  have v: "w_in ?v = w_in w" "w_out ?v = w_out w" "w_status ?v = w_status w" by (simp_all add: wait_buffer_empty_def)
  from assms(1) have "bind_t (sender_nonce X local_nonce) (\<lambda>nonce.
      bind_t (sender_token X sk (Some key) nonce) (\<lambda>(token_response, remote_token).
      bind_t (sender_pins X token_response pin) (\<lambda>_.
      bind_t (send_status Connected) (\<lambda>_.
      bind_t (sender_file_list X files) (\<lambda>_.
      bind_t (sender_file_map X remote_token nonce) (\<lambda>agreed.
      case agreed of None \<Rightarrow> return_t () | Some file_map \<Rightarrow> sender_files X file_map)))))) ?v = (r, w')"
    by (simp add: send_task_def bind_t_def wait_buffer_empty_def)
  then show ?thesis
  proof (cases rule: bind_t_cases)
    case (stop q)
    then have "w_status w' = w_status w" using v(3) keepsD [OF statuses.keeps_exchange(1)] by fastforce
    moreover obtain own where "w_out w' = w_out w @ own" "own = [] \<or> own = [?n]"
      using stop(1) by (cases rule: sender_nonce_out) (use v(2) in auto)
    ultimately show ?thesis using stop(3) by (intro conjI exI [of _ own]) auto
  next
    case (go nonce x)
    from go(1) have "w_out x = w_out w @ [?n]"
      by (cases rule: sender_nonce_out) (use v(2) in auto)
    then have x: "w_out x = w_out w @ [?n]" "w_status x = w_status w"
      using v(3) keepsD [OF statuses.keeps_exchange(1) go(1)] by simp_all
    from go(1) v obtain m ms enc rn where n: "w_in w = m # ms" "w_in x = ms"
      "de_nonce X (msg_data m) = Some enc" "base64_decode (rx_crypto X) enc = Ok rn"
      "validate_nonce rn" "nonce = local_nonce @ rn"
      by (metis sender_nonce_OkD)
    from go(2) show ?thesis
    proof (cases rule: bind_t_cases)
      case (stop q)
      have st: "w_status w' = w_status w" using x(2) keepsD [OF statuses.keeps_exchange(2) stop(1)] by simp
      from stop(1) show ?thesis
      proof (cases rule: sender_token_out)
        case 1
        with st stop(3) x(1) show ?thesis by (intro conjI exI [of _ "[?n]"]) auto
      next
        case (2 token)
        with st stop(3) x(1) n(6) show ?thesis
          by (intro conjI exI [of _ "[?n, Text (ser_token_request X token)]"] exI [of _ rn] exI [of _ token]) auto
      qed
    next
      case (go p y)
      obtain response token where p: "p = (response, token)" by (cases p)
      with go(1) obtain m2 rest where "w_in x = m2 # rest" "de_token_response X (msg_data m2) = Some response"
        "response \<in> {TokenOk token, TokenPinRequired token}"
        "verify_token_nonce (rx_crypto X) key token nonce = Ok True"
        using sender_token_OkD by (metis (no_types))
      with n have "proved_key X local_nonce key (w_in w)" by (auto simp: proved_key_def)
      with assms(2) show ?thesis by simp
    qed
  qed
qed


section \<open>Before the connection is reported\<close>

text \<open>
  Until \<open>RTCStatus::Connected\<close> is reported a task takes messages from the front of its channel and
  reports other statuses only.
\<close>

definition early :: "'z world_scheme \<Rightarrow> 'z world_scheme \<Rightarrow> bool" where
  "early w w' \<longleftrightarrow> suffix (w_in w') (w_in w) \<and>
     (Connected \<in> set (w_status w') \<longrightarrow> Connected \<in> set (w_status w))"

lemma early_order: "reflp early" "transp early"
  by (auto simp: early_def reflp_def transp_def intro: suffix_order.order_trans)

lemma suffix_drop_until: "suffix (case ms of [] \<Rightarrow> [] | m # rs \<Rightarrow> rs) ms"
  by (cases ms) (simp_all add: suffix_ConsI)

lemma collect_chunks_suffix: "collect_chunks ms b = (b', Some ms') \<Longrightarrow> suffix ms' ms"
  by (induction ms b rule: collect_chunks.induct) (auto split: if_splits intro: suffix_ConsI)

lemma leaves_early_ops:
  "leaves early recv" "leaves early (send_message m)" "leaves early (send_text s)"
  "leaves early (send_binary b)" "leaves early wait_buffer_empty" "leaves early (parse_json de bs)"
  "st \<noteq> Connected \<Longrightarrow> leaves early (send_status st)" "leaves early receive_string_from_chunks"
  "leaves early next_pin_reply"
  by (auto simp: leaves_def early_def recv_def send_message_def send_text_def send_binary_def
      wait_buffer_empty_def parse_json_def send_status_def receive_string_from_chunks_def next_pin_reply_def
      intro: suffix_ConsI dest: collect_chunks_suffix
      split: list.splits option.splits nat.splits prod.splits)

lemmas leaves_early [intro] =
  leaves_early_ops leaves_simple [OF early_order(1)] leaves_bind [OF early_order(2)]
  leaves_map_err leaves_try leaves_ignore [OF early_order]

lemma leaves_early_send_string [intro]: "leaves early (send_string_in_chunks dc s send_chunk)"
  unfolding send_string_in_chunks_def
  by (rule leaves_process_in_chunks [OF early_order]) (auto simp: send_chunk_def)

lemma leaves_early_delimiter [intro]: "leaves early send_delimiter"
  by (auto simp: send_delimiter_def)

lemma leaves_early_receive_nonce [intro]: "leaves early (receive_nonce X)"
  unfolding receive_nonce_def by (auto intro!: leaves_early split: option.splits)

lemma leaves_early_check_key [intro]: "leaves early (check_expected_key X key token nonce)"
  unfolding check_expected_key_def by (auto intro!: leaves_early split: option.splits)

lemma leaves_early_handle_pin_loop: "leaves early (handle_pin_loop X chunks parse rs)"
  by (induction rs)
    (auto intro!: leaves_early simp: receive_pin_response_def
      split: pin_reply.splits challenge_pin_result.splits option.splits)

lemma leaves_early_handle_pin [intro]: "leaves early (handle_pin X chunks parse)"
  by (simp add: leaves_def handle_pin_def leaves_early_handle_pin_loop [unfolded leaves_def, rule_format])

lemma leaves_early_verify_pin_loop:
  assumes "\<And>x. leaves early (sr x)"
  shows "leaves early (verify_pin_loop X cfg sr n rp t ms)"
proof -
  have turn: "leaves early (verify_pin_turn cfg sr n rp t nxt)" if "leaves early nxt" for n rp t nxt
    unfolding verify_pin_turn_def using that assms by (auto intro!: leaves_early)
  show ?thesis
    by (induction ms arbitrary: n rp t) (auto intro!: leaves_early turn split: option.splits)
qed

lemma leaves_early_verify_pin [intro]:
  assumes "\<And>x. leaves early (sr x)"
  shows "leaves early (verify_pin X cfg notice sr)"
proof -
  have "leaves early (\<lambda>w. verify_pin_loop X cfg sr notice '''' 0 (w_in w) w)"
    by (simp add: leaves_def leaves_early_verify_pin_loop [OF assms, unfolded leaves_def, rule_format])
  then show ?thesis unfolding verify_pin_def by (auto intro!: leaves_early)
qed

lemma leaves_early_sender [intro]:
  "leaves early (sender_nonce X n)" "leaves early (sender_token X sk key nonce)"
  "leaves early (sender_send_result X res)"
  unfolding sender_nonce_def sender_token_def receive_token_response_def sender_send_result_def
  by (auto intro!: leaves_early split: option.splits rtc_token_response.splits)

lemma leaves_early_receiver [intro]:
  "leaves early (receiver_nonce X n)" "leaves early (receiver_token X sk key pin nonce)"
  "leaves early (receiver_send_result X res)"
  unfolding receiver_nonce_def receiver_token_def receive_token_def receiver_check_key_def
    receiver_send_result_def
  by (auto intro!: leaves_early split: option.splits)

text \<open>Passing \<open>verify_pin\<close> means that the PIN was among the messages that were waiting.\<close>

lemma verify_pin_passed:
  assumes "keeps_in sr" and "verify_pin X cfg notice sr w = (Ok (), w')" and "pc_pin cfg \<noteq> ''''"
  shows "\<exists>m \<in> set (w_in w). de_pin X (msg_data m) = Some (pc_pin cfg)"
proof -
  from verify_pin_takes [OF assms(1,2)] obtain k where "k \<le> length (w_in w)" "0 < k"
    "de_pin X (msg_data (w_in w ! (k - 1))) = Some (pc_pin cfg)"
    using assms(3) by (auto split: if_splits)
  moreover from this have "k - 1 < length (w_in w)" by simp
  ultimately show ?thesis by (meson nth_mem)
qed

lemma earlyD: "leaves early t \<Longrightarrow> t w = (r, w') \<Longrightarrow> early w w'"
  by (rule leavesD)

lemma early_in: "early w w' \<Longrightarrow> m \<in> set (w_in w') \<Longrightarrow> m \<in> set (w_in w)"
  by (auto simp: early_def suffix_def)

lemma early_trans: "early w v \<Longrightarrow> early v u \<Longrightarrow> early w u"
  using early_order(2) by (rule transpD)

text \<open>A task that has reported \<open>Connected\<close> has passed each of its early phases.\<close>

lemma passed_phase:
  assumes "bind_t t f w = (r, w')" and "leaves early t"
    and "Connected \<notin> set (w_status w)" and "Connected \<in> set (w_status w')"
  obtains x v where "t w = (Ok x, v)" "f x v = (r, w')" "early w v" "Connected \<notin> set (w_status v)"
  using assms(1)
proof (cases rule: bind_t_cases)
  case (stop q)
  with assms(2-4) show thesis by (auto dest!: earlyD simp: early_def)
next
  case (go x v)
  with assms(2) have "early w v" by (blast intro: earlyD)
  with go assms(3) that show thesis by (auto simp: early_def)
qed

lemma leaves_early_sender_pins [intro]: "leaves early (sender_pins X response pin)"
  unfolding sender_pins_def by (auto intro!: leaves_early split: rtc_token_response.splits option.splits)

text \<open>An answered challenge has used up one message for every PIN it was given.\<close>

lemma handle_pin_takes:
  assumes "handle_pin X False parse w = (Ok x, w')"
  shows "\<exists>d. d \<le> length (w_in w) \<and> w_in w' = drop d (w_in w) \<and> length (w_pins w) = d + length (w_pins w')"
proof -
  have loop: "\<exists>d. d \<le> length (w_in v) \<and> w_in v' = drop d (w_in v) \<and> length rs = d + length (w_pins v')"
    if "handle_pin_loop X False parse rs v = (Ok x, v')" "w_pins v = rs" for rs v v'
    using that
  proof (induction rs arbitrary: v)
    case (Cons q rs)
    from Cons.prems(1) obtain a where a: "send_status PinRequired v = (Ok (), a)"
      and rest: "bind_t next_pin_reply (\<lambda>reply. case reply of
         PinRequestRefused \<Rightarrow> fail_t (Msg ''Failed to send PIN request'')
       | PinDropped \<Rightarrow> fail_t (Msg ''PIN required but not provided'')
       | PinGiven pin \<Rightarrow>
           bind_t (send_text (ser_pin X pin)) (\<lambda>_.
           bind_t (receive_pin_response False) (\<lambda>bytes.
             case parse bytes of
               ChallengeOk result \<Rightarrow> return_t result
             | ChallengePinRequired \<Rightarrow> handle_pin_loop X False parse rs
             | ChallengeTooManyAttempts \<Rightarrow>
                 bind_t (send_status TooManyAttempts) (\<lambda>_. fail_t (Msg ''Too many requests''))
             | ChallengeParseError e \<Rightarrow> fail_t e))) a = (Ok x, v')"
      by (auto simp: bind_t_Ok_iff simp del: pin_reply.case)
    from a have keep: "w_in a = w_in v" "w_pins a = q # rs"
      using Cons.prems(2) by (auto simp: send_status_def split: option.splits nat.splits)
    then have step: "next_pin_reply a = (Ok q, a\<lparr>w_pins := rs\<rparr>)" by (simp add: next_pin_reply_def)
    from rest obtain pin b bytes c where q: "q = PinGiven pin"
      and b: "send_text (ser_pin X pin) (a\<lparr>w_pins := rs\<rparr>) = (Ok (), b)"
      and c: "receive_pin_response False b = (Ok bytes, c)"
      and e: "(case parse bytes of
               ChallengeOk result \<Rightarrow> return_t result
             | ChallengePinRequired \<Rightarrow> handle_pin_loop X False parse rs
             | ChallengeTooManyAttempts \<Rightarrow>
                 bind_t (send_status TooManyAttempts) (\<lambda>_. fail_t (Msg ''Too many requests''))
             | ChallengeParseError e \<Rightarrow> fail_t e) c = (Ok x, v')"
      unfolding bind_t_eqs(1) [where t = next_pin_reply, OF step]
      by (cases q) (auto simp: bind_t_Ok_iff simp del: challenge_pin_result.case)
    from b have "w_in b = w_in v" "w_pins b = rs"
      using keep by (auto simp: send_text_def send_message_def split: list.splits option.splits)
    moreover from c obtain m where "w_in b = m # w_in c" "w_pins c = w_pins b"
      by (auto simp: receive_pin_response_def bind_t_Ok_iff recv_def split: list.splits if_splits option.splits)
    ultimately have c': "w_in v = m # w_in c" "w_pins c = rs" by simp_all
    from e consider "v' = c" | "handle_pin_loop X False parse rs c = (Ok x, v')"
      by (cases "parse bytes") (auto simp: bind_t_Ok_iff)
    then show ?case
    proof cases
      case 1
      with c' show ?thesis by (intro exI [of _ 1]) simp
    next
      case 2
      from Cons.IH [OF this c'(2)] obtain d where "d \<le> length (w_in c)" "w_in v' = drop d (w_in c)"
        "length rs = d + length (w_pins v')" by blast
      with c'(1) show ?thesis by (intro exI [of _ "Suc d"]) simp
    qed
  qed (auto simp: bind_t_Ok_iff)
  from loop [OF _ refl] assms show ?thesis by (simp add: handle_pin_def)
qed

lemma sender_pins_takes:
  assumes "sender_pins X response (Some cfg) w = (Ok (), w')" and "pc_pin cfg \<noteq> ''''"
  shows "\<exists>d k. length (w_pins w) = d + length (w_pins w') \<and> 0 < k \<and> k \<le> unat (pc_max_tries cfg) \<and>
    d + k \<le> length (w_in w) \<and> de_pin X (msg_data (w_in w ! (d + k - 1))) = Some (pc_pin cfg)"
proof -
  from assms(1) obtain v where v: "(case response of
      TokenPinRequired _ \<Rightarrow> handle_pin X False (challenge_receiving X) | _ \<Rightarrow> return_t ()) w = (Ok (), v)"
    and p: "verify_pin X cfg True (sender_send_result X) v = (Ok (), w')"
    by (auto simp: sender_pins_def bind_t_Ok_iff simp del: rtc_token_response.case)
  from v obtain d where d: "d \<le> length (w_in w)" "w_in v = drop d (w_in w)" "length (w_pins w) = d + length (w_pins v)"
    using handle_pin_takes by (cases response) fastforce+
  from verify_pin_takes [OF keeps_in_results(2) p] assms(2) obtain k where k: "0 < k" "k \<le> length (w_in v)"
    "k \<le> unat (pc_max_tries cfg)" "de_pin X (msg_data (w_in v ! (k - 1))) = Some (pc_pin cfg)"
    by (auto split: if_splits)
  moreover have "w_pins w' = w_pins v" using keepsD [OF pins.keeps_verify_pin p] .
  moreover have "w_in v ! (k - 1) = w_in w ! (d + k - 1)" using k(1,2) d(1,2) by (simp add: nth_drop)
  ultimately show ?thesis using d by (intro exI [of _ d] exI [of _ k]) auto
qed

text \<open>
  C21: a sender that asks for a PIN reports \<open>Connected\<close> only if one of the peer's first \<open>max_tries\<close>
  guesses was that PIN. The guesses are the messages after the nonce, the token and one verdict for
  every PIN the sender itself has given in answer to the peer's challenge.
\<close>

theorem sender_connects_with_pin:
  assumes "send_task X local_nonce sk key (Some cfg) files w = (r, w')"
    and "pc_pin cfg \<noteq> ''''" and "Connected \<notin> set (w_status w)" and "Connected \<in> set (w_status w')"
    and "given = length (w_pins w) - length (w_pins w')"
  shows "\<exists>k. 0 < k \<and> k \<le> unat (pc_max_tries cfg) \<and> 2 + given + k \<le> length (w_in w) \<and>
    de_pin X (msg_data (w_in w ! (1 + given + k))) = Some (pc_pin cfg)"
proof -
  let ?later = "\<lambda>nonce p. bind_t (send_status Connected) (\<lambda>_.
       bind_t (sender_file_list X files) (\<lambda>_.
       bind_t (sender_file_map X (snd p) nonce) (\<lambda>agreed.
       case agreed of None \<Rightarrow> return_t () | Some file_map \<Rightarrow> sender_files X file_map)))"
  from assms(1) obtain u v1 where t: "wait_buffer_empty w = (Ok u, v1)" and 1: "Connected \<notin> set (w_status v1)"
    and t1: "bind_t (sender_nonce X local_nonce) (\<lambda>nonce.
       bind_t (sender_token X sk key nonce) (\<lambda>p.
       bind_t (sender_pins X (fst p) (Some cfg)) (\<lambda>_. ?later nonce p))) v1 = (r, w')"
    unfolding send_task_def case_prod_beta by (rule passed_phase) (use assms(3,4) in auto)
  from t1 obtain nonce v2 where n: "sender_nonce X local_nonce v1 = (Ok nonce, v2)" and 2: "Connected \<notin> set (w_status v2)"
    and t2: "bind_t (sender_token X sk key nonce) (\<lambda>p.
       bind_t (sender_pins X (fst p) (Some cfg)) (\<lambda>_. ?later nonce p)) v2 = (r, w')"
    by (rule passed_phase) (use 1 assms(4) in auto)
  from t2 obtain p v3 where p: "sender_token X sk key nonce v2 = (Ok p, v3)" and 3: "Connected \<notin> set (w_status v3)"
    and t3: "bind_t (sender_pins X (fst p) (Some cfg)) (\<lambda>_. ?later nonce p) v3 = (r, w')"
    by (rule passed_phase) (use 2 assms(4) in auto)
  from t3 obtain v4 where q: "sender_pins X (fst p) (Some cfg) v3 = (Ok (), v4)" and t4: "?later nonce p v4 = (r, w')"
    by (rule passed_phase) (use 3 assms(4) in auto)
  have "leaves (keeps w_pins) (?later nonce p)" by (intro pins.keeps_phases) (auto intro: pins.keeps_phases split: option.splits)
  then have later: "w_pins w' = w_pins v4" using t4 by (rule keepsD)
  have "w_in v1 = w_in w" using t by (auto simp: wait_buffer_empty_def)
  moreover obtain m where "w_in v1 = m # w_in v2" using n by (metis sender_nonce_OkD)
  moreover obtain m' where "w_in v2 = m' # w_in v3" using p sender_token_takes by blast
  ultimately have ins: "w_in w = m # m' # w_in v3" by simp
  have "w_pins v3 = w_pins w"
    using keepsD [OF pins.keeps_phases(5) t] keepsD [OF pins.keeps_exchange(1) n] keepsD [OF pins.keeps_exchange(2) p] by simp
  moreover obtain d k where "length (w_pins v3) = d + length (w_pins v4)" "0 < k" "k \<le> unat (pc_max_tries cfg)"
    "d + k \<le> length (w_in v3)" "de_pin X (msg_data (w_in v3 ! (d + k - 1))) = Some (pc_pin cfg)"
    using sender_pins_takes [OF q assms(2)] by blast
  moreover from this have "given = d" using assms(5) later calculation(1) by simp
  ultimately show ?thesis using ins by (intro exI [of _ k]) (auto simp: nth_Cons' split: if_splits)
qed

end
