(* ===== verification/Rtc_Run.thy ===== *)
theory Rtc_Run
  imports Rtc_Gates
begin

text \<open>
  What each phase of a transfer does on working channels: the messages it writes, and how it goes
  on when the message it needs is there or is still to come.
\<close>

section \<open>The messages\<close>

definition nonce_message :: "rtc_ext \<Rightarrow> byte list \<Rightarrow> data_channel_message" where
  "nonce_message X n = Text (ser_nonce X (base64_encode (rx_crypto X) n))"

definition file_list_messages :: "rtc_ext \<Rightarrow> file_dto list \<Rightarrow> data_channel_message list" where
  "file_list_messages X files =
     map Binary (blocks CHUNK_SIZE (as_bytes (ser_pin_sending X (PinSendingOk files)))) @ [Text ''0'']"

definition selection_messages :: "rtc_ext \<Rightarrow> (string \<times> string) list \<Rightarrow> data_channel_message list" where
  "selection_messages X tokens =
     map Binary (blocks CHUNK_SIZE (as_bytes (ser_file_list X (FileListOk tokens)))) @ [Text ''0'']"

definition file_pieces :: "rtc_file \<Rightarrow> byte list list" where
  "file_pieces f = blocks CHUNK_SIZE (concat (rf_binary f))"

definition file_messages :: "rtc_ext \<Rightarrow> (string \<rightharpoonup> string) \<Rightarrow> rtc_file \<Rightarrow> data_channel_message list" where
  "file_messages X tokens f =
     Text (ser_header X \<lparr>fh_id = rf_file_id f, fh_token = the (tokens (rf_file_id f))\<rparr>) #
     map Binary (file_pieces f)"

definition file_result :: "string \<Rightarrow> rtc_send_file_response \<Rightarrow> rtc_send_file_response" where
  "file_result file_id r =
     (if fr_success r then \<lparr>fr_id = file_id, fr_success = True, fr_error = None\<rparr>
      else \<lparr>fr_id = file_id, fr_success = False,
            fr_error = Some (case fr_error r of None \<Rightarrow> ''Unknown error'' | Some e \<Rightarrow> e)\<rparr>)"

definition result_messages :: "rtc_ext \<Rightarrow> string list \<Rightarrow> rtc_send_file_response list \<Rightarrow> data_channel_message list" where
  "result_messages X ids rs = map (\<lambda>(i, r). Text (ser_file_response X (file_result i r))) (zip ids rs)"

section \<open>Nonces and tokens\<close>

lemma receive_nonce_runs:
  assumes "serde_ok X" and "base64_ok (rx_crypto X)" and "validate_nonce n"
  shows "w_in w = nonce_message X n # ms \<Longrightarrow> receive_nonce X w = (Ok n, w\<lparr>w_in := ms\<rparr>)"
  using assms by (simp add: receive_nonce_def nonce_message_def bind_t_def recv_def parse_json_def
      serde_okD map_err_t_def)

lemma receive_nonce_waits:
  "w_in w = [] \<Longrightarrow> \<not> w_in_closed w \<Longrightarrow> receive_nonce X w = (Wait, w)"
  by (simp add: receive_nonce_def bind_t_def recv_def)

lemma sender_nonce_runs:
  assumes "serde_ok X" and "base64_ok (rx_crypto X)" and "validate_nonce n" and "w_sends w = []"
    and "w_in w = nonce_message X n # ms"
  shows "sender_nonce X ln w = (Ok (ln @ n), w\<lparr>w_out := w_out w @ [nonce_message X ln], w_in := ms\<rparr>)"
  using assms
  by (simp add: sender_nonce_def bind_t_def map_err_t_def send_eqs receive_nonce_runs nonce_message_def)

lemma sender_nonce_waits:
  assumes "w_sends w = []" and "w_in w = []" and "\<not> w_in_closed w"
  shows "sender_nonce X ln w = (Wait, w\<lparr>w_out := w_out w @ [nonce_message X ln]\<rparr>)"
  using assms
  by (simp add: sender_nonce_def bind_t_def map_err_t_def send_eqs receive_nonce_waits nonce_message_def)

lemma receiver_nonce_runs:
  assumes "serde_ok X" and "base64_ok (rx_crypto X)" and "validate_nonce n" and "w_sends w = []"
    and "w_in w = nonce_message X n # ms"
  shows "receiver_nonce X ln w = (Ok (n @ ln), w\<lparr>w_out := w_out w @ [nonce_message X ln], w_in := ms\<rparr>)"
  using assms
  by (simp add: receiver_nonce_def bind_t_def map_err_t_def send_eqs receive_nonce_runs) (simp add: nonce_message_def)

text \<open>The key a side expects: none, or the one the other side really has.\<close>

definition expects :: "crypto_ext \<Rightarrow> verifying_token_key option \<Rightarrow> signing_token_key \<Rightarrow> bool" where
  "expects C key sk \<longleftrightarrow> (case key of None \<Rightarrow> True | Some k \<Rightarrow> k = to_verifying_key C sk)"

lemma expected_key_checks:
  assumes "base64_ok (rx_crypto X)" and "ed25519_ok (rx_crypto X)"
    and "generate_token_nonce (rx_crypto X) sk nonce = Ok token" and "expects (rx_crypto X) key sk"
  shows "check_expected_key X key token nonce w = (Ok (), w)"
    and "receiver_check_key X key token nonce v = (Ok (), v)"
  using assms verify_generated_token [OF assms(1-3)]
  by (auto simp: check_expected_key_def receiver_check_key_def expects_def bind_t_def
      verify_token_nonce_def check_nonce_salt_def split: option.splits)

lemma sender_token_runs:
  assumes "serde_ok X" and "base64_ok (rx_crypto X)" and "ed25519_ok (rx_crypto X)"
    and "generate_token_nonce (rx_crypto X) sk nonce = Ok st"
    and "generate_token_nonce (rx_crypto X) rk nonce = Ok rt" and "expects (rx_crypto X) key rk"
    and "w_sends w = []" and "w_in w = Text (ser_token_response X (TokenOk rt)) # ms"
  shows "sender_token X sk key nonce w =
    (Ok (TokenOk rt, rt), w\<lparr>w_out := w_out w @ [Text (ser_token_request X st)], w_in := ms\<rparr>)"
  using assms
  by (simp add: expected_key_checks(1) [OF assms(2,3,5,6)] sender_token_def bind_t_def map_err_t_def send_eqs receive_token_response_def recv_def
      parse_json_def serde_okD)

lemma sender_token_waits:
  assumes "generate_token_nonce (rx_crypto X) sk nonce = Ok st"
    and "w_sends w = []" and "w_in w = []" and "\<not> w_in_closed w"
  shows "sender_token X sk key nonce w = (Wait, w\<lparr>w_out := w_out w @ [Text (ser_token_request X st)]\<rparr>)"
  using assms
  by (simp add: sender_token_def bind_t_def map_err_t_def send_eqs receive_token_response_def recv_def)

lemma receiver_token_runs:
  assumes "serde_ok X" and "base64_ok (rx_crypto X)" and "ed25519_ok (rx_crypto X)"
    and "generate_token_nonce (rx_crypto X) sk nonce = Ok st" and "expects (rx_crypto X) key sk"
    and "generate_token_nonce (rx_crypto X) rk nonce = Ok rt"
    and "w_sends w = []" and "w_in w = Text (ser_token_request X st) # ms"
  shows "receiver_token X rk key None nonce w =
    (Ok (), w\<lparr>w_in := ms, w_out := w_out w @ [Text (ser_token_response X (TokenOk rt))]\<rparr>)"
  using assms
  by (simp add: expected_key_checks(2) [OF assms(2-5)] receiver_token_def bind_t_def map_err_t_def send_eqs receive_token_def recv_def
      parse_json_def serde_okD)

lemma receiver_token_waits:
  assumes "w_in w = []" and "\<not> w_in_closed w"
  shows "receiver_token X rk key pin nonce w = (Wait, w)"
  using assms by (simp add: receiver_token_def bind_t_def receive_token_def recv_def)

section \<open>The list of files and the answer to it\<close>

lemma sender_file_list_runs:
  assumes "w_sends w = []"
  shows "sender_file_list X files w = (Ok (), w\<lparr>w_out := w_out w @ file_list_messages X files\<rparr>)"
  using assms
  by (simp add: sender_file_list_def bind_t_def try_t_def send_string_in_chunks_sends
      send_delimiter_sends file_list_messages_def)

lemma receive_string_waits:
  assumes "w_in w = []" and "\<not> w_in_closed w"
  shows "receive_string_from_chunks w = (Wait, w)"
  using assms by (simp add: receive_string_from_chunks_def)

lemma receiver_file_list_runs:
  assumes "serde_ok X" and "w_in w = file_list_messages X files @ ms"
  shows "receiver_file_list X w = (Ok files, w\<lparr>w_in := ms\<rparr>)"
proof -
  have "receive_string_from_chunks w =
      (Ok (as_bytes (ser_pin_sending X (PinSendingOk files))), w\<lparr>w_in := ms\<rparr>)"
    using assms(2) receive_blocks [of w "as_bytes (ser_pin_sending X (PinSendingOk files))" "Text ''0''" ms]
    by (simp add: file_list_messages_def)
  then show ?thesis
    using serde_okD(6) [OF assms(1)]
    by (simp add: receiver_file_list_def bind_t_def map_err_t_def parse_json_def)
qed

lemma receiver_selection_runs:
  assumes "w_sends w = []" and "rw_files_open w" and "rw_selection w = SelectionFiles sel"
  shows "receiver_selection X new_token files w =
    (Ok (Some (make_file_tokens new_token sel)),
     w\<lparr>rw_files := Some files, w_out := w_out w @ selection_messages X (make_file_tokens new_token sel)\<rparr>)"
  using assms
  by (simp add: receiver_selection_def bind_t_def publish_files_def send_string_in_chunks_sends
      send_delimiter_sends selection_messages_def)

lemma make_file_tokens_fst [simp]: "map fst (make_file_tokens new_token sel) = sel"
  by (simp add: make_file_tokens_def case_prod_unfold comp_def enumerate_eq_zip)

lemma sender_file_map_runs:
  assumes "de_file_list X (as_bytes (ser_file_list X (FileListOk tokens))) = Some (FileListOk l)"
    and "w_in w = selection_messages X tokens @ ms"
  shows "sender_file_map X remote_token nonce w = (Ok (Some l), w\<lparr>w_in := ms\<rparr>)"
proof -
  have "receive_string_from_chunks w =
      (Ok (as_bytes (ser_file_list X (FileListOk tokens))), w\<lparr>w_in := ms\<rparr>)"
    using assms(2) receive_blocks [of w "as_bytes (ser_file_list X (FileListOk tokens))" "Text ''0''" ms]
    by (simp add: selection_messages_def)
  with assms(1) show ?thesis
    by (simp add: sender_file_map_def receive_file_list_response_def bind_t_def map_err_t_def parse_json_def)
qed

lemma sender_file_map_waits:
  assumes "w_in w = []" and "\<not> w_in_closed w"
  shows "sender_file_map X remote_token nonce w = (Wait, w)"
  using receive_string_waits [OF assms]
  by (simp add: sender_file_map_def receive_file_list_response_def bind_t_def)

section \<open>The files\<close>

lemma send_file_runs:
  assumes "w_sends w = []" and "rf_closed f" and "map_of l (rf_file_id f) = Some t"
  shows "send_file X l f w = (Ok (), w\<lparr>w_out := w_out w @ file_messages X (map_of l) f\<rparr>)"
  using assms
  by (simp add: send_file_def bind_t_def try_t_def send_eqs process_in_chunks_sends file_messages_def
      file_pieces_def)

lemma send_files_loop_runs:
  assumes "w_sends w = []" and "\<forall>f \<in> set fs. rf_closed f \<and> map_of l (rf_file_id f) \<noteq> None"
  shows "send_files_loop X l True fs w =
    (Ok (), w\<lparr>w_out := w_out w @ concat (map (file_messages X (map_of l)) fs)\<rparr>)"
  using assms
proof (induction fs arbitrary: w)
  case (Cons f fs)
  then obtain t where "map_of l (rf_file_id f) = Some t" by auto
  with Cons.prems have "send_file X l f w = (Ok (), w\<lparr>w_out := w_out w @ file_messages X (map_of l) f\<rparr>)"
    by (intro send_file_runs) simp_all
  with Cons show ?case by (simp add: bind_t_def)
qed simp

text \<open>Everything the sender writes about the files.\<close>

definition transfer_messages :: "rtc_ext \<Rightarrow> (string \<rightharpoonup> string) \<Rightarrow> rtc_file list \<Rightarrow> data_channel_message list" where
  "transfer_messages X tokens fs = concat (map (file_messages X tokens) fs) @ [Text ''0'']"

lemma sender_files_runs:
  assumes "w_sends w = []" and "sw_selected_open w" and "sw_files_closed w"
    and "\<forall>f \<in> set (sw_files w). rf_closed f \<and> map_of l (rf_file_id f) \<noteq> None"
    and "w_in w = m # ms"
  shows "sender_files X l w =
    (Ok (), w\<lparr>sw_selected := Some (map fst l), w_buffered := drop_until_zero (w_buffered w),
       w_out := w_out w @ transfer_messages X (map_of l) (sw_files w), w_in := ms\<rparr>)"
  using assms
  by (simp add: sender_files_def bind_t_def publish_selected_def send_files_loop_runs
      wait_buffer_empty_def send_delimiter_sends recv_def transfer_messages_def)

lemma sender_files_waits:
  assumes "w_sends w = []" and "sw_selected_open w" and "sw_files_closed w"
    and "\<forall>f \<in> set (sw_files w). rf_closed f \<and> map_of l (rf_file_id f) \<noteq> None"
    and "w_in w = []" and "\<not> w_in_closed w"
  shows "sender_files X l w =
    (Wait, w\<lparr>sw_selected := Some (map fst l), w_buffered := drop_until_zero (w_buffered w),
       w_out := w_out w @ transfer_messages X (map_of l) (sw_files w)\<rparr>)"
  using assms
  by (simp add: sender_files_def bind_t_def publish_selected_def send_files_loop_runs
      wait_buffer_empty_def send_delimiter_sends recv_def transfer_messages_def)

text \<open>The receiver's loop: pieces go to the file that is open.\<close>

lemma add_piece_snoc [simp]: "add_piece b (l @ [(i, ps)]) = l @ [(i, ps @ [b])]"
  by (simp add: add_piece_def)

lemma receive_pieces_run:
  assumes "rw_receiving_open w" and "rw_writes w = []" and "w_in w = map Binary bs @ ms"
    and "rw_received w = l @ [(i, ps)]"
  shows "receive_files_loop X fl tokens (Some s) (map Binary bs @ ms) w =
    receive_files_loop X fl tokens (Some s) ms (w\<lparr>w_in := ms, rw_received := l @ [(i, ps @ bs)]\<rparr>)"
  using assms
proof (induction bs arbitrary: w ps)
  case Nil
  then have "w\<lparr>w_in := ms, rw_received := l @ [(i, ps)]\<rparr> = w" by (cases w) simp
  then show ?case by simp
next
  case (Cons b bs)
  let ?w = "w\<lparr>w_in := map Binary bs @ ms, rw_received := l @ [(i, ps @ [b])]\<rparr>"
  have "receive_files_loop X fl tokens (Some s) (map Binary (b # bs) @ ms) w =
      receive_files_loop X fl tokens (Some s) (map Binary bs @ ms) ?w"
    using Cons.prems by (simp add: bind_t_def recv_def file_message_def write_piece_def)
  with Cons.IH [of ?w "ps @ [b]"] Cons.prems show ?case by simp
qed

text \<open>A file whose header the receiver accepts.\<close>

definition acceptable :: "file_dto list \<Rightarrow> (string \<times> string) list \<Rightarrow> rtc_file \<Rightarrow> bool" where
  "acceptable fl tokens f \<longleftrightarrow> map_of tokens (rf_file_id f) \<noteq> None \<and> rf_file_id f \<in> fd_id ` set fl"

lemma start_file_runs:
  assumes "serde_ok X" and "acceptable fl tokens f" and "rw_receiving_open w"
    and "m = Text (ser_header X \<lparr>fh_id = rf_file_id f, fh_token = the (map_of tokens (rf_file_id f))\<rparr>)"
  shows "\<exists>s. fs_file_id s = rf_file_id f \<and>
    start_file X fl tokens m w =
      (Ok (Continue (Some s)), w\<lparr>rw_received := rw_received w @ [(rf_file_id f, [])]\<rparr>)"
proof -
  from assms(2) obtain t where t: "map_of tokens (rf_file_id f) = Some t" by (auto simp: acceptable_def)
  from assms(2) obtain d where "find (\<lambda>g. fd_id g = rf_file_id f) fl = Some d"
    by (cases "find (\<lambda>g. fd_id g = rf_file_id f) fl") (auto simp: acceptable_def find_None_iff)
  with t assms(1,3,4) show ?thesis
    by (simp add: start_file_def bind_t_def parse_json_def serde_okD publish_receiving_def)
qed

lemma finish_file_runs:
  assumes "w_sends w = []" and "rw_results w = r # rs"
  shows "finish_file X i w = (Ok (),
    w\<lparr>rw_results := rs, w_out := w_out w @ [Text (ser_file_response X (file_result i r))]\<rparr>)"
  using assms by (simp add: finish_file_def bind_t_def next_result_def send_eqs file_result_def Let_def)

lemma header_not_delimiter:
  "serde_ok X \<Longrightarrow> \<not> is_delimiter (Text (ser_header X h))"
  using serde_okD(11) [of X h] by (simp add: is_delimiter_def)

text \<open>
  With a file open, the rest of the files and the delimiter: every file is delivered and one
  result is reported per file.
\<close>

lemma receive_rest_runs:
  assumes X: "serde_ok X"
  shows "w_sends w = [] \<Longrightarrow> rw_receiving_open w \<Longrightarrow> rw_writes w = [] \<Longrightarrow>
    \<forall>f \<in> set fs. acceptable fl tokens f \<Longrightarrow> length fs < length (rw_results w) \<Longrightarrow>
    rw_received w = l @ [(fs_file_id s, ps)] \<Longrightarrow>
    w_in w = concat (map (file_messages X (map_of tokens)) fs) @ Text ''0'' # ms \<Longrightarrow>
    receive_files_loop X fl tokens (Some s) (w_in w) w = (Ok (),
      w\<lparr>w_in := ms, w_buffered := drop_until_zero (w_buffered w),
        rw_received := rw_received w @ map (\<lambda>f. (rf_file_id f, file_pieces f)) fs,
        rw_results := drop (Suc (length fs)) (rw_results w),
        w_out := w_out w @ result_messages X (fs_file_id s # map rf_file_id fs) (rw_results w)\<rparr>)"
proof (induction fs arbitrary: w s l ps)
  case Nil
  then obtain r rs where "rw_results w = r # rs" by (cases "rw_results w") auto
  with Nil show ?case
    by (simp add: bind_t_def recv_def file_message_def finish_file_runs is_delimiter_def
        wait_buffer_empty_def result_messages_def)
next
  case (Cons f fs)
  obtain r rs where rs: "rw_results w = r # rs" using Cons.prems(5) by (cases "rw_results w") auto
  let ?head = "Text (ser_header X \<lparr>fh_id = rf_file_id f, fh_token = the (map_of tokens (rf_file_id f))\<rparr>)"
  let ?rest = "concat (map (file_messages X (map_of tokens)) fs) @ Text ''0'' # ms"
  let ?tail = "map Binary (file_pieces f) @ ?rest"
  have in_w: "w_in w = ?head # ?tail" using Cons.prems(7) by (simp add: file_messages_def [of X "map_of tokens" f])
  let ?v = "w\<lparr>w_in := ?tail, rw_results := rs,
      w_out := w_out w @ [Text (ser_file_response X (file_result (fs_file_id s) r))]\<rparr>"
  have acc: "acceptable fl tokens f" using Cons.prems(4) by simp
  obtain s' where s': "fs_file_id s' = rf_file_id f"
    and start: "start_file X fl tokens ?head ?v =
      (Ok (Continue (Some s')), ?v\<lparr>rw_received := rw_received ?v @ [(rf_file_id f, [])]\<rparr>)"
    using start_file_runs [OF X acc, of ?v ?head] Cons.prems(2) by auto
  let ?u = "?v\<lparr>rw_received := rw_received w @ [(rf_file_id f, [])]\<rparr>"
  have "finish_file X (fs_file_id s) (w\<lparr>w_in := ?tail\<rparr>) = (Ok (), ?v)"
    using finish_file_runs [of "w\<lparr>w_in := ?tail\<rparr>" r rs] Cons.prems(1) rs by simp
  with start in_w have "receive_files_loop X fl tokens (Some s) (w_in w) w =
      receive_files_loop X fl tokens (Some s') ?tail ?u"
    by (simp add: bind_t_def recv_def file_message_def header_not_delimiter [OF X])
  also have "\<dots> = receive_files_loop X fl tokens (Some s') ?rest
      (?u\<lparr>w_in := ?rest, rw_received := rw_received w @ [(rf_file_id f, [] @ file_pieces f)]\<rparr>)"
    using Cons.prems(2,3) by (intro receive_pieces_run) simp_all
  finally show ?case
    using Cons.IH [of "?u\<lparr>w_in := ?rest, rw_received := rw_received w @ [(rf_file_id f, file_pieces f)]\<rparr>"
        "rw_received w" s' "file_pieces f"] Cons.prems s' rs
    by (simp add: result_messages_def)
qed

lemma receiver_files_run:
  assumes X: "serde_ok X" and "w_sends w = []" and "rw_receiving_open w" and "rw_writes w = []"
    and "fs \<noteq> []" and "\<forall>f \<in> set fs. acceptable fl tokens f" and "length fs \<le> length (rw_results w)"
    and "w_in w = transfer_messages X (map_of tokens) fs @ ms"
  shows "receiver_files X fl tokens w = (Ok (),
      w\<lparr>w_in := ms, w_buffered := drop_until_zero (w_buffered w),
        rw_received := rw_received w @ map (\<lambda>f. (rf_file_id f, file_pieces f)) fs,
        rw_results := drop (length fs) (rw_results w),
        w_out := w_out w @ result_messages X (map rf_file_id fs) (rw_results w)\<rparr>)"
proof -
  obtain f gs where fs: "fs = f # gs" using assms(5) by (cases fs) auto
  let ?head = "Text (ser_header X \<lparr>fh_id = rf_file_id f, fh_token = the (map_of tokens (rf_file_id f))\<rparr>)"
  let ?rest = "concat (map (file_messages X (map_of tokens)) gs) @ Text ''0'' # ms"
  let ?tail = "map Binary (file_pieces f) @ ?rest"
  have in_w: "w_in w = ?head # ?tail"
    using assms(8) by (simp add: fs transfer_messages_def file_messages_def [of X "map_of tokens" f])
  let ?v = "w\<lparr>w_in := ?tail\<rparr>"
  have acc: "acceptable fl tokens f" using assms(6) fs by simp
  obtain s where s: "fs_file_id s = rf_file_id f"
    and start: "start_file X fl tokens ?head ?v =
      (Ok (Continue (Some s)), ?v\<lparr>rw_received := rw_received ?v @ [(rf_file_id f, [])]\<rparr>)"
    using start_file_runs [OF X acc, of ?v ?head] assms(3) by auto
  let ?u = "?v\<lparr>rw_received := rw_received w @ [(rf_file_id f, [])]\<rparr>"
  from start in_w have "receiver_files X fl tokens w = receive_files_loop X fl tokens (Some s) ?tail ?u"
    by (simp add: receiver_files_def bind_t_def recv_def file_message_def)
  also have "\<dots> = receive_files_loop X fl tokens (Some s) ?rest
      (?u\<lparr>w_in := ?rest, rw_received := rw_received w @ [(rf_file_id f, [] @ file_pieces f)]\<rparr>)"
    using assms(3,4) by (intro receive_pieces_run) simp_all
  finally show ?thesis
    using receive_rest_runs [OF X, of "?u\<lparr>w_in := ?rest, rw_received := rw_received w @ [(rf_file_id f, file_pieces f)]\<rparr>"
        gs fl tokens "rw_received w" s "file_pieces f" ms] assms s fs
    by simp
qed

end
