(* ===== verification/Rtc_Transfer.thy ===== *)
theory Rtc_Transfer
  imports Rtc_Run
begin

text \<open>
  A whole transfer between the two tasks: what makes up a session, what each application has to
  provide, and \<open>exchange\<close>, which runs the two in turn, each on everything the other has written
  so far. That a session completes is in \<open>Rtc_Session\<close>.
\<close>

section \<open>Sessions\<close>

text \<open>
  The two nonces, the keys and the tokens of a session in which each side expects no key or the
  key the other one has.
\<close>

definition session_ok ::
  "rtc_ext \<Rightarrow> signing_token_key \<Rightarrow> signing_token_key \<Rightarrow> verifying_token_key option \<Rightarrow>
   verifying_token_key option \<Rightarrow> byte list \<Rightarrow> byte list \<Rightarrow> string \<Rightarrow> string \<Rightarrow> bool" where
  "session_ok X sk rk skey rkey sn rn st rt \<longleftrightarrow>
     serde_ok X \<and> base64_ok (rx_crypto X) \<and> ed25519_ok (rx_crypto X) \<and>
     validate_nonce sn \<and> validate_nonce rn \<and>
     generate_token_nonce (rx_crypto X) sk (sn @ rn) = Ok st \<and>
     generate_token_nonce (rx_crypto X) rk (sn @ rn) = Ok rt \<and>
     expects (rx_crypto X) skey rk \<and> expects (rx_crypto X) rkey sk"

definition token_request :: "rtc_ext \<Rightarrow> string \<Rightarrow> data_channel_message" where
  "token_request X t = Text (ser_token_request X t)"

definition token_answer :: "rtc_ext \<Rightarrow> string \<Rightarrow> data_channel_message" where
  "token_answer X t = Text (ser_token_response X (TokenOk t))"

lemma session_runs:
  assumes "session_ok X sk rk skey rkey sn rn st rt"
  shows "w_sends w = [] \<Longrightarrow> w_in w = nonce_message X rn # ms \<Longrightarrow>
      sender_nonce X sn w = (Ok (sn @ rn), w\<lparr>w_out := w_out w @ [nonce_message X sn], w_in := ms\<rparr>)"
    and "w_sends w = [] \<Longrightarrow> w_in w = token_answer X rt # ms \<Longrightarrow>
      sender_token X sk skey (sn @ rn) w =
        (Ok (TokenOk rt, rt), w\<lparr>w_out := w_out w @ [token_request X st], w_in := ms\<rparr>)"
    and "w_sends w = [] \<Longrightarrow> w_in w = [] \<Longrightarrow> \<not> w_in_closed w \<Longrightarrow>
      sender_token X sk skey (sn @ rn) w = (Wait, w\<lparr>w_out := w_out w @ [token_request X st]\<rparr>)"
    and "w_sends v = [] \<Longrightarrow> w_in v = nonce_message X sn # ms \<Longrightarrow>
      receiver_nonce X rn v = (Ok (sn @ rn), v\<lparr>w_out := w_out v @ [nonce_message X rn], w_in := ms\<rparr>)"
    and "w_sends v = [] \<Longrightarrow> w_in v = token_request X st # ms \<Longrightarrow>
      receiver_token X rk rkey None (sn @ rn) v =
        (Ok (), v\<lparr>w_in := ms, w_out := w_out v @ [token_answer X rt]\<rparr>)"
  using assms unfolding session_ok_def token_request_def token_answer_def
  by (blast intro: sender_nonce_runs sender_token_runs sender_token_waits receiver_nonce_runs receiver_token_runs)+

section \<open>The exchange\<close>

fun exchange ::
  "(data_channel_message list \<Rightarrow> data_channel_message list) \<Rightarrow>
   (data_channel_message list \<Rightarrow> data_channel_message list) \<Rightarrow> nat \<Rightarrow>
   data_channel_message list \<times> data_channel_message list" where
  "exchange sender receiver 0 = ([], [])"
| "exchange sender receiver (Suc n) =
     (let sent = sender (snd (exchange sender receiver n)) in (sent, receiver sent))"

definition sender_run ::
  "rtc_ext \<Rightarrow> byte list \<Rightarrow> signing_token_key \<Rightarrow> verifying_token_key option \<Rightarrow> file_dto list \<Rightarrow> sender_world \<Rightarrow>
   data_channel_message list \<Rightarrow> unit res \<times> sender_world" where
  "sender_run X sn sk skey files w ms = send_task X sn sk skey None files (w\<lparr>w_in := ms\<rparr>)"

definition receiver_run ::
  "rtc_ext \<Rightarrow> byte list \<Rightarrow> (nat \<Rightarrow> string) \<Rightarrow> signing_token_key \<Rightarrow> verifying_token_key option \<Rightarrow>
   receiver_world \<Rightarrow> data_channel_message list \<Rightarrow> unit res \<times> receiver_world" where
  "receiver_run X rn new_token rk rkey v ms = receive_task X rn new_token rk rkey None (v\<lparr>w_in := ms\<rparr>)"

section \<open>What the applications provide\<close>

definition sender_ready :: "string list \<Rightarrow> sender_world \<Rightarrow> bool" where
  "sender_ready sel w \<longleftrightarrow> healthy w \<and> \<not> w_in_closed w \<and> sw_selected_open w \<and> sw_files_closed w \<and>
     sw_files w \<noteq> [] \<and> (\<forall>f \<in> set (sw_files w). rf_closed f \<and> rf_file_id f \<in> set sel)"

definition receiver_ready :: "string list \<Rightarrow> receiver_world \<Rightarrow> bool" where
  "receiver_ready sel v \<longleftrightarrow> healthy v \<and> \<not> w_in_closed v \<and> w_out v = [] \<and> rw_files_open v \<and>
     rw_receiving_open v \<and> rw_received v = [] \<and> rw_writes v = [] \<and>
     distinct sel \<and> rw_selection v = SelectionFiles sel"

definition transfer_possible :: "file_dto list \<Rightarrow> string list \<Rightarrow> sender_world \<Rightarrow> receiver_world \<Rightarrow> bool" where
  "transfer_possible files sel w v \<longleftrightarrow>
     sender_ready sel w \<and> w_out w = [] \<and> receiver_ready sel v \<and>
     set (map rf_file_id (sw_files w)) \<subseteq> set (map fd_id files) \<and>
     length (sw_files w) \<le> length (rw_results v)"

lemma concat_file_pieces [simp]: "concat (file_pieces f) = concat (rf_binary f)"
  by (simp add: file_pieces_def)

definition sample_session_token :: "byte list \<Rightarrow> string" where
  "sample_session_token sk = (case generate_token_nonce sample_crypto \<lparr>sk_inner = sk\<rparr> (replicate 64 7) of
     Ok t \<Rightarrow> t | _ \<Rightarrow> '''')"

lemma sample_session:
  "session_ok sample_rtc \<lparr>sk_inner = [1]\<rparr> \<lparr>sk_inner = [2]\<rparr>
     (Some (to_verifying_key sample_crypto \<lparr>sk_inner = [2]\<rparr>)) None (replicate 32 7) (replicate 32 7)
     (sample_session_token [1]) (sample_session_token [2])"
proof -
  have "generate_token_nonce sample_crypto \<lparr>sk_inner = k\<rparr> (replicate 64 7) = Ok (sample_session_token k)" for k
    by (rule sample_generates [of "\<lparr>sk_inner = k\<rparr>" "replicate 64 7"]) (simp add: sample_session_token_def)
  then show ?thesis
    by (simp add: session_ok_def sample_crypto_ok validate_nonce_def expects_def flip: replicate_add)
qed

definition sample_file :: file_dto where
  "sample_file = \<lparr>fd_id = ''a'', fd_file_name = ''a.txt'', fd_size = 3, fd_file_type = ''text/plain'',
     fd_sha256 = None, fd_preview = None, fd_metadata = None\<rparr>"

end
