(* ===== verification/Rtc_Dialogue.thy ===== *)
theory Rtc_Dialogue
  imports Rtc_Transfer
begin

text \<open>
  The two tasks of a transfer as the two ends of one dialogue. A dialogue is a list of turns: what
  one side writes and what the other answers. \<open>follows\<close> says that a task keeps to a dialogue: fed
  the other side's part it ends well and has written its own part, and cut off after any number of
  turns it waits, having written what belongs to the turns so far. Tasks composed with \<open>bind_t\<close>
  follow the concatenation of their dialogues, so each phase of a transfer is looked at by itself,
  and two tasks that follow the same dialogue from its two ends complete each other (\<open>exchange\<close>).
\<close>

section \<open>Keeping to a dialogue\<close>

type_synonym dialogue = "(data_channel_message list \<times> data_channel_message list) list"

text \<open>
  In a dialogue of a task, \<open>fst\<close> of a turn is what the task writes and \<open>snd\<close> what it reads. With
  \<open>k = 1\<close> the task writes its part of a turn before it reads the other's, with \<open>k = 0\<close> after it.
\<close>

definition follows ::
  "nat \<Rightarrow> ('z world_scheme, 'a) task \<Rightarrow> 'z world_scheme \<Rightarrow> dialogue \<Rightarrow> 'a \<Rightarrow> 'z world_scheme \<Rightarrow> bool" where
  "follows k t w d x w' \<longleftrightarrow>
     (\<forall>rest. t (w\<lparr>w_in := concat (map snd d) @ rest\<rparr>) = (Ok x, w'\<lparr>w_in := rest\<rparr>)) \<and>
     w_out w' = w_out w @ concat (map fst d) \<and>
     (\<forall>j < length d. \<exists>v. t (w\<lparr>w_in := concat (map snd (take j d))\<rparr>) = (Wait, v) \<and>
        w_out v = w_out w @ concat (map fst (take (j + k) d)))"

text \<open>A task that only writes.\<close>

definition speaks ::
  "('z world_scheme, 'a) task \<Rightarrow> 'z world_scheme \<Rightarrow> data_channel_message list \<Rightarrow> 'a \<Rightarrow> 'z world_scheme \<Rightarrow> bool" where
  "speaks t w c x w' \<longleftrightarrow>
     (\<forall>rest. t (w\<lparr>w_in := rest\<rparr>) = (Ok x, w'\<lparr>w_in := rest\<rparr>)) \<and> w_out w' = w_out w @ c"

lemma followsI:
  assumes "\<And>rest. t (w\<lparr>w_in := concat (map snd d) @ rest\<rparr>) = (Ok x, w'\<lparr>w_in := rest\<rparr>)"
    and "w_out w' = w_out w @ concat (map fst d)"
    and "\<And>j. j < length d \<Longrightarrow> \<exists>v. t (w\<lparr>w_in := concat (map snd (take j d))\<rparr>) = (Wait, v) \<and>
      w_out v = w_out w @ concat (map fst (take (j + k) d))"
  shows "follows k t w d x w'"
  using assms by (simp add: follows_def)

lemma follows_runs:
  "follows k t w d x w' \<Longrightarrow> t (w\<lparr>w_in := concat (map snd d) @ rest\<rparr>) = (Ok x, w'\<lparr>w_in := rest\<rparr>)"
  by (simp add: follows_def)

lemma follows_out: "follows k t w d x w' \<Longrightarrow> w_out w' = w_out w @ concat (map fst d)"
  by (simp add: follows_def)

lemma follows_waits:
  assumes "follows k t w d x w'" and "j < length d"
  obtains v where "t (w\<lparr>w_in := concat (map snd (take j d))\<rparr>) = (Wait, v)"
    and "w_out v = w_out w @ concat (map fst (take (j + k) d))"
  using assms by (auto simp: follows_def)

lemma speaks_runs: "speaks t w c x w' \<Longrightarrow> t (w\<lparr>w_in := rest\<rparr>) = (Ok x, w'\<lparr>w_in := rest\<rparr>)"
  by (simp add: speaks_def)

lemma follows_then:
  "follows k t w d x u \<Longrightarrow> bind_t t f (w\<lparr>w_in := concat (map snd d) @ rest\<rparr>) = f x (u\<lparr>w_in := rest\<rparr>)"
  by (rule bind_t_eqs(1)) (rule follows_runs)

lemma speaks_then: "speaks t w c x u \<Longrightarrow> bind_t t f (w\<lparr>w_in := rest\<rparr>) = f x (u\<lparr>w_in := rest\<rparr>)"
  by (rule bind_t_eqs(1)) (rule speaks_runs)

lemma speaks_out: "speaks t w c x w' \<Longrightarrow> w_out w' = w_out w @ c"
  by (simp add: speaks_def)

lemma follows_Nil: "follows k t w [] x w' \<longleftrightarrow> speaks t w [] x w'"
  by (simp add: follows_def speaks_def)

text \<open>One block that is read and not answered.\<close>

lemma follows_reads:
  assumes "\<And>rest. t (w\<lparr>w_in := i @ rest\<rparr>) = (Ok x, w\<lparr>w_in := rest\<rparr>)"
    and "t (w\<lparr>w_in := []\<rparr>) = (Wait, w\<lparr>w_in := []\<rparr>)"
  shows "follows k t w [([], i)] x w"
  using assms by (cases k) (auto intro!: followsI)

text \<open>The update of the input is kept outermost.\<close>

lemma in_last:
  "w\<lparr>w_in := i, w_out := a\<rparr> = w\<lparr>w_out := a, w_in := i\<rparr>"
  "w\<lparr>w_in := i, w_status := b\<rparr> = w\<lparr>w_status := b, w_in := i\<rparr>"
  "w\<lparr>w_in := i, w_pins := c\<rparr> = w\<lparr>w_pins := c, w_in := i\<rparr>"
  "w\<lparr>w_in := i, w_buffered := d\<rparr> = w\<lparr>w_buffered := d, w_in := i\<rparr>"
  "s\<lparr>w_in := i, sw_selected := e\<rparr> = s\<lparr>sw_selected := e, w_in := i\<rparr>"
  "v\<lparr>w_in := i, rw_files := f\<rparr> = v\<lparr>rw_files := f, w_in := i\<rparr>"
  "v\<lparr>w_in := i, rw_received := g\<rparr> = v\<lparr>rw_received := g, w_in := i\<rparr>"
  "v\<lparr>w_in := i, rw_results := h\<rparr> = v\<lparr>rw_results := h, w_in := i\<rparr>"
  by simp_all

section \<open>Composition\<close>

lemma follows_bind:
  assumes t: "follows k t w d x u" and f: "follows k (f x) u e y v" and k: "k \<le> 1"
  shows "follows k (bind_t t f) w (d @ e) y v"
proof (rule followsI)
  show "bind_t t f (w\<lparr>w_in := concat (map snd (d @ e)) @ rest\<rparr>) = (Ok y, v\<lparr>w_in := rest\<rparr>)" for rest
    using follows_then [OF t, of f] follows_runs [OF f] by simp
  show "w_out v = w_out w @ concat (map fst (d @ e))"
    using follows_out [OF t] follows_out [OF f] by simp
  fix j assume j: "j < length (d @ e)"
  show "\<exists>z. bind_t t f (w\<lparr>w_in := concat (map snd (take j (d @ e)))\<rparr>) = (Wait, z) \<and>
      w_out z = w_out w @ concat (map fst (take (j + k) (d @ e)))"
  proof (cases "j < length d")
    case True
    then obtain z where "t (w\<lparr>w_in := concat (map snd (take j d))\<rparr>) = (Wait, z)"
      "w_out z = w_out w @ concat (map fst (take (j + k) d))"
      by (rule follows_waits [OF t])
    with True k show ?thesis by (intro exI [of _ z]) (simp add: bind_t_eqs(4))
  next
    case False
    define i where "i = j - length d"
    with j False have i: "i < length e" "j = length d + i" by simp_all
    from follows_waits [OF f this(1)] obtain z where
      "f x (u\<lparr>w_in := concat (map snd (take i e))\<rparr>) = (Wait, z)"
      "w_out z = w_out u @ concat (map fst (take (i + k) e))" .
    moreover have "j + k - length d = i + k" "j - length d = i" "length d \<le> j + k" using i(2) by simp_all
    moreover note follows_then [OF t, of f "concat (map snd (take i e))"]
    ultimately show ?thesis using follows_out [OF t] i(2) by (intro exI [of _ z]) simp
  qed
qed

text \<open>Writing before a turn of one's own, and after the turn of the other side.\<close>

lemma follows_start:
  assumes t: "\<And>i. t (w\<lparr>w_in := i\<rparr>) = t' (u\<lparr>w_in := i\<rparr>)" "w_out u = w_out w @ c"
    and f: "follows 1 t' u ((a, b) # d) y v"
  shows "follows 1 t w ((c @ a, b) # d) y v"
proof (rule followsI)
  show "t (w\<lparr>w_in := concat (map snd ((c @ a, b) # d)) @ rest\<rparr>) = (Ok y, v\<lparr>w_in := rest\<rparr>)" for rest
    using follows_runs [OF f] by (simp add: t(1))
  show "w_out v = w_out w @ concat (map fst ((c @ a, b) # d))"
    using follows_out [OF f] by (simp add: t(2))
  fix j assume "j < length ((c @ a, b) # d)"
  then have "j < length ((a, b) # d)" by simp
  from follows_waits [OF f this] obtain z where
    "t' (u\<lparr>w_in := concat (map snd (take j ((a, b) # d)))\<rparr>) = (Wait, z)"
    "w_out z = w_out u @ concat (map fst (take (j + 1) ((a, b) # d)))" .
  then show "\<exists>z. t (w\<lparr>w_in := concat (map snd (take j ((c @ a, b) # d)))\<rparr>) = (Wait, z) \<and>
      w_out z = w_out w @ concat (map fst (take (j + 1) ((c @ a, b) # d)))"
    by (intro exI [of _ z]) (cases j; simp add: t)
qed

lemma follows_speak_first:
  assumes t: "speaks t w c x u" and f: "follows 1 (f x) u ((a, b) # d) y v"
  shows "follows 1 (bind_t t f) w ((c @ a, b) # d) y v"
  using speaks_then [OF t] speaks_out [OF t] f by (rule follows_start)

lemma follows_silent_first:
  assumes t: "speaks t w [] x u" and f: "follows k (f x) u d y v" and k: "k \<le> 1"
  shows "follows k (bind_t t f) w d y v"
  using follows_bind [of k t w "[]" x u f d y v] assms by (simp add: follows_Nil)

lemma follows_cong:
  "(\<And>i. t (w\<lparr>w_in := i\<rparr>) = t' (w\<lparr>w_in := i\<rparr>)) \<Longrightarrow> follows k t w d x v \<longleftrightarrow> follows k t' w d x v"
  by (simp add: follows_def)

lemma speaks_bind: "speaks t w c x u \<Longrightarrow> speaks (f x) u e y v \<Longrightarrow> speaks (bind_t t f) w (c @ e) y v"
  by (simp add: speaks_def bind_t_eqs(1))

lemma follows_speak_last:
  assumes t: "follows 0 t w (d @ [(a, b)]) x u" and f: "speaks (f x) u c y v"
  shows "follows 0 (bind_t t f) w (d @ [(a @ c, b)]) y v"
proof (rule followsI)
  show "bind_t t f (w\<lparr>w_in := concat (map snd (d @ [(a @ c, b)])) @ rest\<rparr>) = (Ok y, v\<lparr>w_in := rest\<rparr>)" for rest
    using follows_then [OF t, of f rest] speaks_runs [OF f] by simp
  show "w_out v = w_out w @ concat (map fst (d @ [(a @ c, b)]))"
    using follows_out [OF t] speaks_out [OF f] by simp
  fix j assume "j < length (d @ [(a @ c, b)])"
  then have j: "j < length (d @ [(a, b)])" "j \<le> length d" by simp_all
  from follows_waits [OF t this(1)] obtain z where
    "t (w\<lparr>w_in := concat (map snd (take j (d @ [(a, b)])))\<rparr>) = (Wait, z)"
    "w_out z = w_out w @ concat (map fst (take (j + 0) (d @ [(a, b)])))" .
  with j(2) show "\<exists>z. bind_t t f (w\<lparr>w_in := concat (map snd (take j (d @ [(a @ c, b)])))\<rparr>) = (Wait, z) \<and>
      w_out z = w_out w @ concat (map fst (take (j + 0) (d @ [(a @ c, b)])))"
    by (intro exI [of _ z]) (simp add: bind_t_eqs(4))
qed

text \<open>
  A side that reads a block, then leads a dialogue of its own and has the last word follows the
  dialogue shifted by half a turn.
\<close>

definition shift :: "data_channel_message list \<Rightarrow> dialogue \<Rightarrow> data_channel_message list \<Rightarrow> dialogue" where
  "shift i d c = zip (map fst d @ [c]) (i # map snd d)"

lemma shift_simps [simp]:
  "length (shift i d c) = Suc (length d)" "map fst (shift i d c) = map fst d @ [c]"
  "map snd (shift i d c) = i # map snd d"
  by (simp_all add: shift_def)

lemma shift_eqs: "shift i [] c = [(c, i)]" "shift i ((a, b) # d) c = (a, i) # shift b d c"
  by (simp_all add: shift_def)

lemma follows_shift:
  assumes t: "follows 0 t w [([], i)] x u" and g: "follows 1 (g x) u d y v" and h: "speaks (h y) v c z v'"
  shows "follows 0 (bind_t t (\<lambda>x. bind_t (g x) h)) w (shift i d c) z v'"
proof (rule followsI)
  have t_run: "bind_t t f (w\<lparr>w_in := i @ rest\<rparr>) = f x (u\<lparr>w_in := rest\<rparr>)" for f :: "_ \<Rightarrow> (_, 'd) task" and rest
    using follows_then [OF t, of f rest] by simp
  have out: "w_out u = w_out w" using follows_out [OF t] by simp
  show "bind_t t (\<lambda>x. bind_t (g x) h) (w\<lparr>w_in := concat (map snd (shift i d c)) @ rest\<rparr>) = (Ok z, v'\<lparr>w_in := rest\<rparr>)" for rest
    using follows_then [OF g, of h rest] speaks_runs [OF h] by (simp add: t_run)
  show "w_out v' = w_out w @ concat (map fst (shift i d c))"
    using follows_out [OF g] speaks_out [OF h] out by simp
  fix j assume j: "j < length (shift i d c)"
  show "\<exists>z. bind_t t (\<lambda>x. bind_t (g x) h) (w\<lparr>w_in := concat (map snd (take j (shift i d c)))\<rparr>) = (Wait, z) \<and>
      w_out z = w_out w @ concat (map fst (take (j + 0) (shift i d c)))"
  proof (cases j)
    case 0
    obtain z where "t (w\<lparr>w_in := []\<rparr>) = (Wait, z)" "w_out z = w_out w"
      using follows_waits [OF t, of 0] by auto
    with 0 show ?thesis by (intro exI [of _ z]) (simp add: bind_t_eqs(4))
  next
    case (Suc n)
    with j have "n < length d" by simp
    from follows_waits [OF g this] obtain z where z: "g x (u\<lparr>w_in := concat (map snd (take n d))\<rparr>) = (Wait, z)"
      "w_out z = w_out u @ concat (map fst (take (n + 1) d))" .
    from \<open>n < length d\<close> Suc have "map snd (take j (shift i d c)) = i # map snd (take n d)"
      "map fst (take j (shift i d c)) = map fst (take (n + 1) d)"
      by (simp_all flip: take_map)
    with z out show ?thesis by (intro exI [of _ z]) (simp add: t_run bind_t_eqs(4))
  qed
qed

section \<open>Two ends of one dialogue\<close>

text \<open>
  The sending task leads, the receiving one answers; the answer to the last turn may be longer than
  what the leading side still reads. After as many rounds as there are turns both have ended.
\<close>

definition given :: "('z world_scheme, 'a) task \<Rightarrow> 'z world_scheme \<Rightarrow> data_channel_message list \<Rightarrow> 'a res \<times> 'z world_scheme" where
  "given t w ms = t (w\<lparr>w_in := ms\<rparr>)"

lemma exchange_dialogue:
  assumes t: "follows 1 t w (d @ [(a, b)]) x w'" and u: "follows 0 u v (map prod.swap d @ [(b @ c, a)]) y v'"
    and fresh: "w_out w = []" "w_out v = []"
  shows "exchange (\<lambda>ms. w_out (snd (given t w ms))) (\<lambda>ms. w_out (snd (given u v ms))) (Suc (length d)) =
      (concat (map fst d) @ a, concat (map snd d) @ b @ c)"
    and "given t w (concat (map snd d) @ b @ c) = (Ok x, w'\<lparr>w_in := c\<rparr>)"
    and "given u v (concat (map fst d) @ a) = (Ok y, v'\<lparr>w_in := []\<rparr>)"
proof -
  let ?S = "\<lambda>ms. w_out (snd (given t w ms))" and ?R = "\<lambda>ms. w_out (snd (given u v ms))"
  have swap: "map fst (map prod.swap e) = map snd e" "map snd (map prod.swap e) = map fst e" for e :: dialogue
    by (simp_all add: comp_def)
  have S: "?S (concat (map snd (take j d))) = concat (map fst (take (j + 1) (d @ [(a, b)])))" if "j \<le> length d" for j
  proof -
    have "j < length (d @ [(a, b)])" using that by simp
    from follows_waits [OF t this] obtain z where
      "t (w\<lparr>w_in := concat (map snd (take j (d @ [(a, b)])))\<rparr>) = (Wait, z)"
      "w_out z = w_out w @ concat (map fst (take (j + 1) (d @ [(a, b)])))" .
    with that fresh(1) show ?thesis by (simp add: given_def)
  qed
  have R: "?R (concat (map fst (take j d))) = concat (map snd (take j d))" if "j \<le> length d" for j
  proof -
    let ?d = "map prod.swap d @ [(b @ c, a)]"
    have j: "j < length ?d" using that by simp
    have taken: "take (j + 0) ?d = map prod.swap (take j d)" "take j ?d = map prod.swap (take j d)"
      using that by (simp_all add: take_map)
    from follows_waits [OF u j] obtain z where
      "u (v\<lparr>w_in := concat (map snd (take j ?d))\<rparr>) = (Wait, z)"
      "w_out z = w_out v @ concat (map fst (take (j + 0) ?d))" .
    then show ?thesis unfolding taken swap given_def by (simp add: fresh(2))
  qed
  have round: "snd (exchange ?S ?R j) = concat (map snd (take j d))" if "j \<le> length d" for j
    using that
  proof (induction j)
    case (Suc j)
    then have "?S (snd (exchange ?S ?R j)) = concat (map fst (take (Suc j) d))" using S [of j] by simp
    with R [OF Suc.prems] show ?case by (simp add: Let_def)
  qed simp
  show "given t w (concat (map snd d) @ b @ c) = (Ok x, w'\<lparr>w_in := c\<rparr>)"
    using follows_runs [OF t, of c] by (simp add: given_def)
  show u_run: "given u v (concat (map fst d) @ a) = (Ok y, v'\<lparr>w_in := []\<rparr>)"
    using follows_runs [OF u, of "[]", unfolded map_append concat_append swap] by (simp add: given_def)
  have "?R (concat (map fst d) @ a) = concat (map snd d) @ b @ c"
    using u_run follows_out [OF u, unfolded map_append concat_append swap] fresh(2) by simp
  then show "exchange ?S ?R (Suc (length d)) = (concat (map fst d) @ a, concat (map snd d) @ b @ c)"
    using round [of "length d"] S [of "length d"] by (simp add: Let_def)
qed

end
