(* ===== verification/Rtc_Session.thy ===== *)
theory Rtc_Session
  imports Rtc_Dialogue
begin

text \<open>
  A transfer from beginning to end, each side asking for a PIN or not. Every phase of the two tasks
  is shown to keep to its part of one dialogue, and the dialogue closes.
\<close>

section \<open>Proving a PIN and asking for one\<close>

definition pin_message :: "rtc_ext \<Rightarrow> string \<Rightarrow> data_channel_message list" where
  "pin_message X g = [Text (ser_pin X g)]"

text \<open>A challenge, from the side of the one who guesses: every guess but the last is answered by
  \<open>wm\<close>, the last by \<open>rm\<close>.\<close>

fun challenge :: "rtc_ext \<Rightarrow> data_channel_message list \<Rightarrow> data_channel_message list \<Rightarrow> string list \<Rightarrow> dialogue" where
  "challenge X wm rm [] = []"
| "challenge X wm rm [g] = [(pin_message X g, rm)]"
| "challenge X wm rm (g # h # gs) = (pin_message X g, wm) # challenge X wm rm (h # gs)"

text \<open>The same from the side of the one who asks, when every question is the message \<open>wm\<close>.\<close>

definition questions :: "rtc_ext \<Rightarrow> data_channel_message list \<Rightarrow> string list \<Rightarrow> dialogue" where
  "questions X wm gs = map (\<lambda>g. (wm, pin_message X g)) gs"

lemma questions_simps [simp]:
  "questions X wm [] = []" "questions X wm (g # gs) = (wm, pin_message X g) # questions X wm gs"
  "length (questions X wm gs) = length gs"
  by (simp_all add: questions_def)

lemma length_challenge [simp]: "length (challenge X wm rm gs) = length gs"
  by (induction X wm rm gs rule: challenge.induct) simp_all

lemma shift_questions:
  "shift (pin_message X g) (questions X wm gs) rm = map prod.swap (challenge X wm rm (g # gs))"
  by (induction gs arbitrary: g) (simp_all add: shift_eqs)

lemma shift_challenge:
  "gs \<noteq> [] \<Longrightarrow> shift wm (challenge X wm rm gs) c = map prod.swap (questions X wm gs @ [(rm, c)])"
  by (induction X wm rm gs rule: challenge.induct) (simp_all add: shift_eqs)

text \<open>The guesses a side takes: none without a PIN, else up to the right one and not too many.\<close>

definition right_guesses :: "pin_config \<Rightarrow> string list \<Rightarrow> bool" where
  "right_guesses cfg gs \<longleftrightarrow> gs \<noteq> [] \<and> last gs = pc_pin cfg \<and> pc_pin cfg \<notin> set (butlast gs) \<and>
     pc_pin cfg \<noteq> '''' \<and> length gs \<le> unat (pc_max_tries cfg)"

definition guesses_for :: "pin_config option \<Rightarrow> string list \<Rightarrow> bool" where
  "guesses_for pin gs \<longleftrightarrow> (case pin of None \<Rightarrow> gs = [] | Some cfg \<Rightarrow> right_guesses cfg gs)"

text \<open>
  The guessing side: \<open>wb\<close> and \<open>rb\<close> are what is read of the two answers.
\<close>

lemma handle_pin_loop_follows:
  fixes w :: "'z world_scheme"
  assumes reads: "\<And>(v :: 'z world_scheme) rest. receive_pin_response chunks (v\<lparr>w_in := wm @ rest\<rparr>) = (Ok wb, v\<lparr>w_in := rest\<rparr>)"
      "\<And>(v :: 'z world_scheme) rest. receive_pin_response chunks (v\<lparr>w_in := rm @ rest\<rparr>) = (Ok rb, v\<lparr>w_in := rest\<rparr>)"
      "\<And>v :: 'z world_scheme. \<not> w_in_closed v \<Longrightarrow> receive_pin_response chunks (v\<lparr>w_in := []\<rparr>) = (Wait, v\<lparr>w_in := []\<rparr>)"
    and parses: "parse wb = ChallengePinRequired" "parse rb = ChallengeOk y"
  shows "healthy w \<Longrightarrow> \<not> w_in_closed w \<Longrightarrow> gs \<noteq> [] \<Longrightarrow> w_pins w = map PinGiven gs @ later \<Longrightarrow>
    follows 1 (handle_pin_loop X chunks parse (map PinGiven gs @ later)) w (challenge X wm rm gs) y
      (w\<lparr>w_status := w_status w @ replicate (length gs) PinRequired, w_pins := later,
         w_out := w_out w @ concat (map (pin_message X) gs)\<rparr>)"
proof (induction gs arbitrary: w)
  case (Cons g gs)
  let ?later = "map PinGiven gs @ later"
  let ?u = "w\<lparr>w_status := w_status w @ [PinRequired], w_pins := ?later, w_out := w_out w @ pin_message X g\<rparr>"
  let ?k = "\<lambda>bytes. case parse bytes of
      ChallengeOk result \<Rightarrow> return_t result
    | ChallengePinRequired \<Rightarrow> handle_pin_loop X chunks parse ?later
    | ChallengeTooManyAttempts \<Rightarrow> bind_t (send_status TooManyAttempts) (\<lambda>_. fail_t (Msg ''Too many requests''))
    | ChallengeParseError e \<Rightarrow> fail_t e"
  have asks: "handle_pin_loop X chunks parse (map PinGiven (g # gs) @ later) (w\<lparr>w_in := i\<rparr>) =
      bind_t (receive_pin_response chunks) ?k (?u\<lparr>w_in := i\<rparr>)" for i
    using Cons.prems
    by (simp add: healthy_def bind_t_def task_simps next_pin_reply_def pin_message_def in_last)
  have u: "healthy ?u" "\<not> w_in_closed ?u" "w_pins ?u = ?later" using Cons.prems by (simp_all add: healthy_def)
  show ?case
  proof (cases gs)
    case Nil
    have "follows 1 (receive_pin_response chunks) ?u [([], rm)] rb ?u"
      using u by (intro follows_reads reads) simp_all
    moreover have "follows 1 (?k rb) ?u [] y ?u" by (simp add: parses follows_Nil speaks_def)
    ultimately have "follows 1 (bind_t (receive_pin_response chunks) ?k) ?u [([], rm)] y ?u"
      using follows_bind [of 1 "receive_pin_response chunks" ?u "[([], rm)]" rb ?u ?k "[]" y ?u] by simp
    from follows_start [OF asks _ this] show ?thesis by (simp add: Nil)
  next
    case (Cons h hs)
    have "follows 1 (receive_pin_response chunks) ?u [([], wm)] wb ?u"
      using u by (intro follows_reads reads) simp_all
    moreover let ?v = "?u\<lparr>w_status := w_status ?u @ replicate (length gs) PinRequired, w_pins := later,
         w_out := w_out ?u @ concat (map (pin_message X) gs)\<rparr>"
    have "follows 1 (?k wb) ?u (challenge X wm rm gs) y ?v"
      using Cons.IH [OF u(1,2) _ u(3)] by (simp add: parses Cons)
    ultimately have "follows 1 (bind_t (receive_pin_response chunks) ?k) ?u (([], wm) # challenge X wm rm gs) y ?v"
      using follows_bind [of 1 "receive_pin_response chunks" ?u "[([], wm)]" wb ?u ?k "challenge X wm rm gs" y ?v] by simp
    from follows_start [OF asks _ this] show ?thesis by (simp add: Cons)
  qed
qed simp

lemma handle_pin_follows:
  fixes w :: "'z world_scheme"
  assumes "\<And>(v :: 'z world_scheme) rest. receive_pin_response chunks (v\<lparr>w_in := wm @ rest\<rparr>) = (Ok wb, v\<lparr>w_in := rest\<rparr>)"
      "\<And>(v :: 'z world_scheme) rest. receive_pin_response chunks (v\<lparr>w_in := rm @ rest\<rparr>) = (Ok rb, v\<lparr>w_in := rest\<rparr>)"
      "\<And>v :: 'z world_scheme. \<not> w_in_closed v \<Longrightarrow> receive_pin_response chunks (v\<lparr>w_in := []\<rparr>) = (Wait, v\<lparr>w_in := []\<rparr>)"
    and "parse wb = ChallengePinRequired" "parse rb = ChallengeOk y"
    and w: "healthy w" "\<not> w_in_closed w" "gs \<noteq> []" "w_pins w = map PinGiven gs @ later"
  shows "follows 1 (handle_pin X chunks parse) w (challenge X wm rm gs) y
      (w\<lparr>w_status := w_status w @ replicate (length gs) PinRequired, w_pins := later,
         w_out := w_out w @ concat (map (pin_message X) gs)\<rparr>)"
proof (rule follows_cong [THEN iffD2])
  show "handle_pin X chunks parse (w\<lparr>w_in := i\<rparr>) =
      handle_pin_loop X chunks parse (map PinGiven gs @ later) (w\<lparr>w_in := i\<rparr>)" for i
    using w(4) by (simp add: handle_pin_def)
qed (rule handle_pin_loop_follows [OF assms])

text \<open>The asking side, once every question is put to the peer.\<close>

definition read_pin :: "rtc_ext \<Rightarrow> ('z world_scheme, string) task" where
  "read_pin X = bind_t recv (\<lambda>received.
     case received of
       Some m \<Rightarrow> parse_json (de_pin X) (msg_data m)
     | None \<Rightarrow> fail_t (Msg ''Failed to receive pin''))"

lemma read_pin_follows:
  assumes "serde_ok X" and "\<not> w_in_closed w"
  shows "follows k (read_pin X) w [([], pin_message X g)] g w"
  using assms(2) serde_okD(4) [OF assms(1)]
  by (intro follows_reads) (simp_all add: read_pin_def pin_message_def bind_t_def recv_def parse_json_def)

abbreviation verify_from where
  "verify_from X cfg sr notice rp t \<equiv> \<lambda>w. verify_pin_loop X cfg sr notice rp t (w_in w) w"

lemma verify_from_reads:
  assumes "rp \<noteq> pc_pin cfg" and "t < pc_max_tries cfg" and "\<not> w_in_closed w"
    and "notice \<or> t > 0 \<Longrightarrow> sr VerifyPinRequired w = (Ok (), v)" and "\<not> (notice \<or> t > 0) \<Longrightarrow> v = w"
    and "w_in v = w_in w" "w_in_closed v = w_in_closed w"
  shows "verify_from X cfg sr notice rp t w = bind_t (read_pin X) (\<lambda>pin. verify_from X cfg sr False pin (t + 1)) v"
proof (cases "w_in w")
  case Nil
  with assms show ?thesis
    by (cases "notice \<or> t > 0") (auto simp: verify_pin_turn_def read_pin_def bind_t_def recv_def)
next
  case (Cons m ms)
  with assms show ?thesis
    by (cases "notice \<or> t > 0"; cases "de_pin X (msg_data m)")
      (auto simp: verify_pin_turn_def read_pin_def bind_t_def recv_def parse_json_def)
qed

text \<open>A way of putting the question: on a working channel it writes \<open>wm\<close>.\<close>

definition asks_with :: "(verify_pin_result \<Rightarrow> ('z world_scheme, unit) task) \<Rightarrow> data_channel_message list \<Rightarrow> bool" where
  "asks_with sr wm \<longleftrightarrow> (\<forall>w. healthy w \<longrightarrow> sr VerifyPinRequired w = (Ok (), w\<lparr>w_out := w_out w @ wm\<rparr>))"

lemma verify_from_follows:
  assumes X: "serde_ok X" and sr: "asks_with sr wm"
  shows "healthy w \<Longrightarrow> \<not> w_in_closed w \<Longrightarrow> notice \<or> t > 0 \<Longrightarrow> last (rp # gs) = pc_pin cfg \<Longrightarrow>
    pc_pin cfg \<notin> set (butlast (rp # gs)) \<Longrightarrow> unat t + length gs \<le> unat (pc_max_tries cfg) \<Longrightarrow>
    follows 1 (verify_from X cfg sr notice rp t) w (questions X wm gs) ()
      (w\<lparr>w_out := w_out w @ concat (replicate (length gs) wm)\<rparr>)"
proof (induction gs arbitrary: w notice rp t)
  case Nil
  then show ?case by (simp add: follows_Nil speaks_def verify_pin_loop_passes)
next
  case (Cons g gs)
  let ?u = "w\<lparr>w_out := w_out w @ wm\<rparr>"
  have rp: "rp \<noteq> pc_pin cfg" and t: "t < pc_max_tries cfg"
    using Cons.prems(5,6) by (auto simp: word_less_nat_alt)
  from t have t1: "unat (t + 1) = Suc (unat t)" by (rule pin_try_no_overflow)
  then have pos: "t + 1 > 0" by (simp add: word_less_nat_alt)
  have asks: "verify_from X cfg sr notice rp t (w\<lparr>w_in := i\<rparr>) =
      bind_t (read_pin X) (\<lambda>pin. verify_from X cfg sr False pin (t + 1)) (?u\<lparr>w_in := i\<rparr>)" for i
    using sr Cons.prems(1-3)
    by (intro verify_from_reads [OF rp t]) (simp_all add: asks_with_def healthy_def in_last)
  have u: "healthy ?u" "\<not> w_in_closed ?u" using Cons.prems(1,2) by (simp_all add: healthy_def)
  have "follows 1 (read_pin X) ?u [([], pin_message X g)] g ?u" using X u(2) by (rule read_pin_follows)
  moreover have "follows 1 (verify_from X cfg sr False g (t + 1)) ?u (questions X wm gs) ()
      (?u\<lparr>w_out := w_out ?u @ concat (replicate (length gs) wm)\<rparr>)"
    using Cons.prems(4-6) t1 pos by (intro Cons.IH u) simp_all
  ultimately have "follows 1 (bind_t (read_pin X) (\<lambda>pin. verify_from X cfg sr False pin (t + 1))) ?u
      (([], pin_message X g) # questions X wm gs) () (?u\<lparr>w_out := w_out ?u @ concat (replicate (length gs) wm)\<rparr>)"
    using follows_bind [of 1 "read_pin X" ?u "[([], pin_message X g)]" g ?u
        "\<lambda>pin. verify_from X cfg sr False pin (t + 1)" "questions X wm gs" "()"
        "?u\<lparr>w_out := w_out ?u @ concat (replicate (length gs) wm)\<rparr>"] by simp
  from follows_start [OF asks _ this] show ?case by simp
qed

lemma verify_pin_start:
  "healthy w \<Longrightarrow> verify_pin X cfg notice sr (w\<lparr>w_in := i\<rparr>) =
    verify_from X cfg sr notice '''' 0 (w\<lparr>w_status := w_status w @ [PinRequired], w_in := i\<rparr>)"
  by (simp add: verify_pin_def healthy_def bind_t_def task_simps in_last)

text \<open>The sender asks before it reads, the receiver has already said that it wants a PIN.\<close>

definition required_messages :: "rtc_ext \<Rightarrow> data_channel_message list" where
  "required_messages X =
     map Binary (blocks CHUNK_SIZE (as_bytes (ser_pin_sending X PinSendingRequired))) @ [Text ''0'']"

lemma asks_with_results:
  "asks_with (sender_send_result X) (required_messages X)"
  "asks_with (receiver_send_result X) [Text (ser_pin_receiving X PinReceivingRequired)]"
  by (simp_all add: asks_with_def sender_send_result_def receiver_send_result_def healthy_def bind_t_def
      task_simps required_messages_def pin_sending_of_def pin_receiving_of_def)

lemma sender_asks:
  assumes X: "serde_ok X" and w: "healthy w" "\<not> w_in_closed w" and gs: "right_guesses cfg gs"
  shows "follows 1 (verify_pin X cfg True (sender_send_result X)) w (questions X (required_messages X) gs) ()
    (w\<lparr>w_status := w_status w @ [PinRequired],
       w_out := w_out w @ concat (replicate (length gs) (required_messages X))\<rparr>)"
proof -
  let ?u = "w\<lparr>w_status := w_status w @ [PinRequired]\<rparr>"
  have "follows 1 (verify_from X cfg (sender_send_result X) True '''' 0) ?u (questions X (required_messages X) gs) ()
      (?u\<lparr>w_out := w_out ?u @ concat (replicate (length gs) (required_messages X))\<rparr>)"
    by (rule verify_from_follows [OF X asks_with_results(1)])
      (use w gs in \<open>auto simp: healthy_def right_guesses_def\<close>)
  then show ?thesis
    by (simp add: follows_def verify_pin_start [OF w(1)])
qed

lemma receiver_asks:
  assumes X: "serde_ok X" and w: "healthy w" "\<not> w_in_closed w" and gs: "right_guesses cfg gs"
  shows "follows 0 (receiver_verify_pin X (Some cfg)) w
    (map prod.swap (challenge X [Text (ser_pin_receiving X PinReceivingRequired)]
       [Text (ser_pin_receiving X PinReceivingOk)] gs)) ()
    (w\<lparr>w_status := w_status w @ [PinRequired], w_out := w_out w @
       concat (replicate (length gs - 1) [Text (ser_pin_receiving X PinReceivingRequired)]) @
       [Text (ser_pin_receiving X PinReceivingOk)]\<rparr>)"
proof -
  let ?sr = "receiver_send_result X" and ?wm = "[Text (ser_pin_receiving X PinReceivingRequired)]"
    and ?rm = "[Text (ser_pin_receiving X PinReceivingOk)]"
  obtain g hs where g: "gs = g # hs" using gs by (cases gs) (auto simp: right_guesses_def)
  let ?u = "w\<lparr>w_status := w_status w @ [PinRequired]\<rparr>"
  let ?v = "?u\<lparr>w_out := w_out ?u @ concat (replicate (length hs) ?wm)\<rparr>"
  have u: "healthy ?u" "\<not> w_in_closed ?u" using w by (simp_all add: healthy_def)
  have "0 < pc_max_tries cfg" using gs g by (auto simp: right_guesses_def word_less_nat_alt)
  then have start: "verify_from X cfg ?sr False '''' 0 (?u\<lparr>w_in := i\<rparr>) =
      bind_t (read_pin X) (\<lambda>pin. verify_from X cfg ?sr False pin (0 + 1)) (?u\<lparr>w_in := i\<rparr>)" for i
    using gs w by (intro verify_from_reads) (auto simp: right_guesses_def)
  have "follows 0 (read_pin X) ?u [([], pin_message X g)] g ?u" using X u(2) by (rule read_pin_follows)
  moreover have "follows 1 (verify_from X cfg ?sr False g (0 + 1)) ?u (questions X ?wm hs) () ?v"
    by (rule verify_from_follows [OF X asks_with_results(2) u])
      (use gs g in \<open>auto simp: right_guesses_def\<close>)
  moreover have "speaks (send_text (ser_pin_receiving X PinReceivingOk)) ?v ?rm () (?v\<lparr>w_out := w_out ?v @ ?rm\<rparr>)"
    using w(1) by (simp add: speaks_def healthy_def send_eqs in_last)
  ultimately have "follows 0 (bind_t (read_pin X) (\<lambda>pin. bind_t (verify_from X cfg ?sr False pin (0 + 1))
        (\<lambda>_. send_text (ser_pin_receiving X PinReceivingOk)))) ?u
      (shift (pin_message X g) (questions X ?wm hs) ?rm) () (?v\<lparr>w_out := w_out ?v @ ?rm\<rparr>)"
    by (rule follows_shift)
  moreover have "receiver_verify_pin X (Some cfg) (w\<lparr>w_in := i\<rparr>) =
      bind_t (bind_t (read_pin X) (\<lambda>pin. verify_from X cfg ?sr False pin (0 + 1)))
        (\<lambda>_. send_text (ser_pin_receiving X PinReceivingOk)) (?u\<lparr>w_in := i\<rparr>)" for i
    by (simp only: receiver_verify_pin_def option.case bind_t_def verify_pin_start [OF w(1)] start)
  ultimately show ?thesis
    by (simp add: follows_def bind_t_assoc g shift_questions)
qed

section \<open>The phases of the sender\<close>

definition token_reply :: "pin_config option \<Rightarrow> string \<Rightarrow> rtc_token_response" where
  "token_reply pin t = (case pin of None \<Rightarrow> TokenOk t | Some _ \<Rightarrow> TokenPinRequired t)"

definition token_reply_message :: "rtc_ext \<Rightarrow> pin_config option \<Rightarrow> string \<Rightarrow> data_channel_message" where
  "token_reply_message X pin t = Text (ser_token_response X (token_reply pin t))"

lemma session_checks:
  assumes "session_ok X sk rk skey rkey sn rn st rt"
  shows "check_expected_key X skey rt (sn @ rn) w = (Ok (), w)"
    and "receiver_check_key X rkey st (sn @ rn) v = (Ok (), v)"
  using assms expected_key_checks by (fastforce simp: session_ok_def)+

lemma sender_greets:
  assumes s: "session_ok X sk rk skey rkey sn rn st rt" and w: "healthy w" "\<not> w_in_closed w"
  shows "follows 1 (sender_nonce X sn) w [([nonce_message X sn], [nonce_message X rn])] (sn @ rn)
      (w\<lparr>w_out := w_out w @ [nonce_message X sn]\<rparr>)"
    and "follows 1 (sender_token X sk skey (sn @ rn)) w
      [([token_request X st], [token_reply_message X pin rt])] (token_reply pin rt, rt)
      (w\<lparr>w_out := w_out w @ [token_request X st]\<rparr>)"
proof -
  have X: "serde_ok X" and st: "generate_token_nonce (rx_crypto X) sk (sn @ rn) = Ok st"
    using s by (simp_all add: session_ok_def)
  show "follows 1 (sender_nonce X sn) w [([nonce_message X sn], [nonce_message X rn])] (sn @ rn)
      (w\<lparr>w_out := w_out w @ [nonce_message X sn]\<rparr>)"
    using w by (intro followsI) (simp_all add: session_runs(1) [OF s] sender_nonce_waits healthy_def)
  have "sender_token X sk skey (sn @ rn) (w\<lparr>w_in := token_reply_message X pin rt # rest\<rparr>) =
      (Ok (token_reply pin rt, rt), w\<lparr>w_out := w_out w @ [token_request X st], w_in := rest\<rparr>)" for rest
    using w st serde_okD [OF X]
    by (cases pin) (simp_all add: session_checks(1) [OF s] sender_token_def bind_t_def map_err_t_def send_eqs healthy_def recv_def parse_json_def
        receive_token_response_def token_reply_message_def token_reply_def token_request_def in_last)
  then show "follows 1 (sender_token X sk skey (sn @ rn)) w
      [([token_request X st], [token_reply_message X pin rt])] (token_reply pin rt, rt)
      (w\<lparr>w_out := w_out w @ [token_request X st]\<rparr>)"
    using w by (intro followsI) (simp_all add: session_runs(3) [OF s] healthy_def)
qed

definition pin_right :: "rtc_ext \<Rightarrow> data_channel_message list" where
  "pin_right X = [Text (ser_pin_receiving X PinReceivingOk)]"

definition pin_wrong :: "rtc_ext \<Rightarrow> data_channel_message list" where
  "pin_wrong X = [Text (ser_pin_receiving X PinReceivingRequired)]"

lemma sender_proves_pin:
  assumes X: "serde_ok X" and w: "healthy w" "\<not> w_in_closed w" "gs \<noteq> []" "w_pins w = map PinGiven gs @ later"
  shows "follows 1 (handle_pin X False (challenge_receiving X)) w (challenge X (pin_wrong X) (pin_right X) gs) ()
      (w\<lparr>w_status := w_status w @ replicate (length gs) PinRequired, w_pins := later,
         w_out := w_out w @ concat (map (pin_message X) gs)\<rparr>)"
  by (rule handle_pin_follows [where wb = "as_bytes (ser_pin_receiving X PinReceivingRequired)"
        and rb = "as_bytes (ser_pin_receiving X PinReceivingOk)"])
    (use w in \<open>simp_all add: pin_wrong_def pin_right_def receive_pin_response_def bind_t_def recv_def
       challenge_receiving_eqs [OF X]\<close>)

definition challenges :: "rtc_ext \<Rightarrow> string list \<Rightarrow> string list \<Rightarrow> dialogue" where
  "challenges X rgs sgs = challenge X (pin_wrong X) (pin_right X) rgs @ questions X (required_messages X) sgs"

text \<open>The two challenges together, each left out when its side has no PIN.\<close>

lemma sender_challenges:
  fixes w :: sender_world
  assumes X: "serde_ok X" and w: "healthy w" "\<not> w_in_closed w" "w_pins w = map PinGiven rgs @ later"
    and gs: "guesses_for rpin rgs" "guesses_for spin sgs"
  obtains u where "follows 1 (sender_pins X (token_reply rpin rt) spin) w (challenges X rgs sgs) () u"
    and "healthy u" "\<not> w_in_closed u" "w_errors u = w_errors w" "sw_selected_open u = sw_selected_open w"
    and "sw_files u = sw_files w" "sw_files_closed u = sw_files_closed w"
proof -
  let ?u = "\<lambda>c. w\<lparr>w_status := w_status w @ replicate (length rgs) PinRequired, w_pins := later, w_out := w_out w @ c\<rparr>"
  obtain c where first: "follows 1 (case token_reply rpin rt of
        TokenPinRequired _ \<Rightarrow> handle_pin X False (challenge_receiving X) | _ \<Rightarrow> return_t ()) w
      (challenge X (pin_wrong X) (pin_right X) rgs) () (?u c)"
  proof (cases rpin)
    case None
    with gs(1) w(3) have "rgs = []" "?u [] = w" by (simp_all add: guesses_for_def)
    with None that [of "[]"] show thesis by (simp add: token_reply_def follows_Nil speaks_def)
  next
    case (Some cfg)
    with gs(1) have "rgs \<noteq> []" by (simp add: guesses_for_def right_guesses_def)
    from that [of "concat (map (pin_message X) rgs)"] sender_proves_pin [OF X w(1,2) this w(3)] Some show thesis
      by (simp add: token_reply_def)
  qed
  have u: "healthy (?u c)" "\<not> w_in_closed (?u c)" using w(1,2) by (simp_all add: healthy_def)
  let ?v = "(?u c)\<lparr>w_status := w_status (?u c) @ [PinRequired],
       w_out := w_out (?u c) @ concat (replicate (length sgs) (required_messages X))\<rparr>"
  define v where "v = (if spin = None then ?u c else ?v)"
  have second: "follows 1 (case spin of Some cfg \<Rightarrow> verify_pin X cfg True (sender_send_result X) | None \<Rightarrow> return_t ())
      (?u c) (questions X (required_messages X) sgs) () v"
  proof (cases spin)
    case None
    with gs(2) show ?thesis by (simp add: guesses_for_def follows_Nil speaks_def v_def)
  next
    case (Some cfg)
    with gs(2) sender_asks [OF X u, of cfg sgs] show ?thesis by (simp add: guesses_for_def v_def)
  qed
  have "follows 1 (sender_pins X (token_reply rpin rt) spin) w (challenges X rgs sgs) () v"
    unfolding sender_pins_def challenges_def by (rule follows_bind, rule first, rule second) simp
  then show thesis
    by (rule that) (use w in \<open>simp_all add: v_def healthy_def\<close>)
qed

text \<open>From the list of files on. The sender reads one message after the files, whatever it is.\<close>

lemma sender_transfers:
  assumes w: "healthy w" "\<not> w_in_closed w" "sw_selected_open w" "sw_files_closed w"
    and l: "de_file_list X (as_bytes (ser_file_list X (FileListOk tokens))) = Some (FileListOk l)"
    and files: "\<forall>f \<in> set (sw_files w). rf_closed f \<and> map_of l (rf_file_id f) \<noteq> None"
  obtains v where "follows 1
      (bind_t (send_status Connected) (\<lambda>_.
       bind_t (sender_file_list X files) (\<lambda>_.
       bind_t (sender_file_map X remote_token nonce) (\<lambda>agreed.
       case agreed of None \<Rightarrow> return_t () | Some file_map \<Rightarrow> sender_files X file_map)))) w
      [(file_list_messages X files, selection_messages X tokens),
       (transfer_messages X (map_of l) (sw_files w), [m])] () v"
    and "sw_selected v = Some (map fst l)" "w_errors v = w_errors w"
proof -
  let ?k = "\<lambda>agreed. case agreed of None \<Rightarrow> return_t () | Some file_map \<Rightarrow> sender_files X file_map"
  let ?T = "transfer_messages X (map_of l) (sw_files w)"
  let ?u = "w\<lparr>w_status := w_status w @ [Connected]\<rparr>"
  let ?v = "?u\<lparr>w_out := w_out ?u @ file_list_messages X files\<rparr>"
  let ?z = "?v\<lparr>sw_selected := Some (map fst l), w_buffered := drop_until_zero (w_buffered w), w_out := w_out ?v @ ?T\<rparr>"
  have v: "w_sends ?v = []" "\<not> w_in_closed ?v" using w by (simp_all add: healthy_def)
  have read: "follows 1 (sender_file_map X remote_token nonce) ?v [([], selection_messages X tokens)] (Some l) ?v"
    using v by (intro follows_reads) (simp_all add: sender_file_map_runs [OF l] sender_file_map_waits)
  have files: "follows 1 (?k (Some l)) ?v [(?T, [m])] () ?z"
  proof (rule followsI)
    show "?k (Some l) (?v\<lparr>w_in := concat (map snd [(?T, [m])]) @ rest\<rparr>) = (Ok (), ?z\<lparr>w_in := rest\<rparr>)" for rest
      using w v files sender_files_runs [of "?v\<lparr>w_in := m # rest\<rparr>" l m rest X] by (simp add: in_last)
    show "\<exists>z. ?k (Some l) (?v\<lparr>w_in := concat (map snd (take j [(?T, [m])]))\<rparr>) = (Wait, z) \<and>
        w_out z = w_out ?v @ concat (map fst (take (j + 1) [(?T, [m])]))" if "j < length [(?T, [m])]" for j
      using that w v files sender_files_waits [of "?v\<lparr>w_in := []\<rparr>" l X] by simp
  qed simp
  have "follows 1 (bind_t (sender_file_map X remote_token nonce) ?k) ?v
      ([([], selection_messages X tokens)] @ [(?T, [m])]) () ?z"
    by (rule follows_bind, rule read, rule files) simp
  moreover have "speaks (sender_file_list X files) ?u (file_list_messages X files) () ?v"
    using v by (simp add: speaks_def sender_file_list_runs in_last)
  ultimately have "follows 1 (bind_t (sender_file_list X files) (\<lambda>_. bind_t (sender_file_map X remote_token nonce) ?k)) ?u
      [(file_list_messages X files @ [], selection_messages X tokens), (?T, [m])] () ?z"
    by (intro follows_speak_first) simp_all
  moreover have connected: "speaks (send_status Connected) w [] () ?u"
    using w(1) by (simp add: speaks_def healthy_def send_eqs in_last)
  ultimately have "follows 1 (bind_t (send_status Connected) (\<lambda>_.
      bind_t (sender_file_list X files) (\<lambda>_. bind_t (sender_file_map X remote_token nonce) ?k))) w
      [(file_list_messages X files, selection_messages X tokens), (?T, [m])] () ?z"
    by (intro follows_silent_first [OF connected]) simp_all
  then show thesis by (rule that) simp_all
qed

section \<open>The phases of the receiver\<close>

lemma receiver_nonce_waits: "w_in w = [] \<Longrightarrow> \<not> w_in_closed w \<Longrightarrow> receiver_nonce X rn w = (Wait, w)"
  by (simp add: receiver_nonce_def bind_t_def receive_nonce_waits)

lemma receiver_greets:
  assumes s: "session_ok X sk rk skey rkey sn rn st rt" and w: "healthy w" "\<not> w_in_closed w"
  shows "follows 0 (receiver_nonce X rn) w [([nonce_message X rn], [nonce_message X sn])] (sn @ rn)
      (w\<lparr>w_out := w_out w @ [nonce_message X rn]\<rparr>)"
    and "follows 0 (receiver_token X rk rkey pin (sn @ rn)) w
      [([token_reply_message X pin rt], [token_request X st])] ()
      (w\<lparr>w_out := w_out w @ [token_reply_message X pin rt]\<rparr>)"
proof -
  have X: "serde_ok X" and rt: "generate_token_nonce (rx_crypto X) rk (sn @ rn) = Ok rt"
    using s by (simp_all add: session_ok_def)
  show "follows 0 (receiver_nonce X rn) w [([nonce_message X rn], [nonce_message X sn])] (sn @ rn)
      (w\<lparr>w_out := w_out w @ [nonce_message X rn]\<rparr>)"
    using w by (intro followsI) (simp_all add: session_runs(4) [OF s] healthy_def receiver_nonce_waits)
  have "receiver_token X rk rkey pin (sn @ rn) (w\<lparr>w_in := token_request X st # rest\<rparr>) =
      (Ok (), w\<lparr>w_out := w_out w @ [token_reply_message X pin rt], w_in := rest\<rparr>)" for rest
    using w rt serde_okD [OF X]
    by (cases pin) (simp_all add: session_checks(2) [OF s] receiver_token_def bind_t_def map_err_t_def send_eqs
        healthy_def recv_def parse_json_def receive_token_def token_reply_message_def token_reply_def
        token_request_def in_last)
  then show "follows 0 (receiver_token X rk rkey pin (sn @ rn)) w
      [([token_reply_message X pin rt], [token_request X st])] ()
      (w\<lparr>w_out := w_out w @ [token_reply_message X pin rt]\<rparr>)"
    using w by (intro followsI) (simp_all add: receiver_token_waits)
qed

lemma receiver_challenge:
  fixes w :: receiver_world
  assumes X: "serde_ok X" and w: "healthy w" "\<not> w_in_closed w" and gs: "guesses_for rpin rgs"
  obtains st c where "follows 0 (receiver_verify_pin X rpin) w
      (map prod.swap (challenge X (pin_wrong X) (pin_right X) rgs)) ()
      (w\<lparr>w_status := w_status w @ st, w_out := w_out w @ c\<rparr>)"
proof (cases rpin)
  case None
  with gs that [of "[]" "[]"] show thesis
    by (simp add: guesses_for_def receiver_verify_pin_def follows_Nil speaks_def)
next
  case (Some cfg)
  with gs receiver_asks [OF X w, of cfg rgs] that show thesis
    by (simp add: guesses_for_def pin_wrong_def pin_right_def)
qed

text \<open>The list of files, asked for with PINs or not, and the selection.\<close>

definition read_pin_sending :: "rtc_ext \<Rightarrow> ('z receiver_world_scheme, rtc_pin_sending_response) task" where
  "read_pin_sending X = bind_t receive_string_from_chunks (\<lambda>bytes.
     map_err_t (Wrap ''Failed to deserialize file list response: '') (parse_json (de_pin_sending X) bytes))"

lemma read_pin_sending_follows:
  assumes "serde_ok X" and "\<not> w_in_closed w"
    and "i = map Binary (blocks CHUNK_SIZE (as_bytes (ser_pin_sending X response))) @ [Text ''0'']"
  shows "follows k (read_pin_sending X) w [([], i)] response w"
  using assms(2) serde_okD(6) [OF assms(1)] unfolding assms(3)
  by (intro follows_reads)
    (simp_all add: read_pin_sending_def bind_t_def map_err_t_def receive_blocks parse_json_def receive_string_waits)

lemma receiver_proves_pin:
  assumes X: "serde_ok X" and w: "healthy w" "\<not> w_in_closed w" "gs \<noteq> []" "w_pins w = map PinGiven gs @ later"
  shows "follows 1 (handle_pin X True (challenge_sending X)) w
      (challenge X (required_messages X) (file_list_messages X files) gs) files
      (w\<lparr>w_status := w_status w @ replicate (length gs) PinRequired, w_pins := later,
         w_out := w_out w @ concat (map (pin_message X) gs)\<rparr>)"
  by (rule handle_pin_follows [where wb = "as_bytes (ser_pin_sending X PinSendingRequired)"
        and rb = "as_bytes (ser_pin_sending X (PinSendingOk files))"])
    (use w serde_okD(6) [OF X] in \<open>simp_all add: required_messages_def file_list_messages_def
       receive_pin_response_def receive_blocks receive_string_waits challenge_sending_def\<close>)

lemma receiver_chooses:
  fixes w :: receiver_world and new_token :: "nat \<Rightarrow> string"
  assumes X: "serde_ok X" and w: "healthy w" "\<not> w_in_closed w" "w_pins w = map PinGiven sgs @ later"
    "rw_files_open w" "rw_selection w = SelectionFiles sel"
    and gs: "guesses_for spin sgs"
  defines "tokens \<equiv> make_file_tokens new_token sel"
  obtains v where "follows 0
      (bind_t (receiver_file_list X) (\<lambda>file_list.
       bind_t (send_status Connected) (\<lambda>_.
       bind_t (receiver_selection X new_token file_list) (\<lambda>selected.
       return_t (file_list, selected))))) w
      (map prod.swap (questions X (required_messages X) sgs @ [(file_list_messages X files, selection_messages X tokens)]))
      (files, Some tokens) v"
    and "healthy v" "\<not> w_in_closed v" "rw_files v = Some files" "w_errors v = w_errors w"
    and "rw_received v = rw_received w" "rw_receiving_open v = rw_receiving_open w"
    and "rw_writes v = rw_writes w" "rw_results v = rw_results w"
proof -
  let ?after = "\<lambda>file_list. bind_t (send_status Connected) (\<lambda>_.
      bind_t (receiver_selection X new_token file_list) (\<lambda>selected. return_t (file_list, selected)))"
  let ?chosen = "\<lambda>u. u\<lparr>w_status := w_status u @ [Connected], rw_files := Some files,
      w_out := w_out u @ selection_messages X tokens\<rparr>"
  have chosen: "speaks (?after files) u (selection_messages X tokens) (files, Some tokens) (?chosen u)"
    if "healthy u" "rw_files_open u" "rw_selection u = SelectionFiles sel" for u
    using that by (simp add: speaks_def healthy_def bind_t_def send_eqs receiver_selection_runs tokens_def in_last)
  have split: "receiver_file_list X = bind_t (read_pin_sending X) (\<lambda>response.
      case response of
        PinSendingOk files \<Rightarrow> return_t files
      | PinSendingRequired \<Rightarrow> handle_pin X True (challenge_sending X)
      | PinSendingTooManyAttempts \<Rightarrow>
          bind_t (ignore_t (send_status (StatusError ''Unexpected TooManyAttempts response'')))
            (\<lambda>_. fail_t (Msg ''Unexpected TooManyAttempts response'')))"
    by (simp add: receiver_file_list_def read_pin_sending_def bind_t_assoc)
  show thesis
  proof (cases "sgs = []")
    case True
    have read: "follows 0 (read_pin_sending X) w ([] @ [([], file_list_messages X files)]) (PinSendingOk files) w"
      using read_pin_sending_follows [OF X w(2)] by (simp add: file_list_messages_def)
    have "follows 0 (bind_t (receiver_file_list X) ?after) w
        ([] @ [([] @ selection_messages X tokens, file_list_messages X files)]) (files, Some tokens) (?chosen w)"
      unfolding split bind_t_assoc
      by (rule follows_speak_last, rule read) (use chosen [OF w(1,4,5)] in simp)
    with True show thesis by (intro that [of "?chosen w"]) (use w in \<open>simp_all add: healthy_def\<close>)
  next
    case False
    let ?u = "w\<lparr>w_status := w_status w @ replicate (length sgs) PinRequired, w_pins := later,
         w_out := w_out w @ concat (map (pin_message X) sgs)\<rparr>"
    have u: "healthy ?u" "rw_files_open ?u" "rw_selection ?u = SelectionFiles sel"
      using w by (simp_all add: healthy_def)
    have read: "follows 0 (read_pin_sending X) w [([], required_messages X)] PinSendingRequired w"
      using read_pin_sending_follows [OF X w(2)] by (simp add: required_messages_def)
    have "follows 0 (bind_t (receiver_file_list X) ?after) w
        (shift (required_messages X) (challenge X (required_messages X) (file_list_messages X files) sgs)
          (selection_messages X tokens)) (files, Some tokens) (?chosen ?u)"
      unfolding split bind_t_assoc
      by (rule follows_shift, rule read, simp only: rtc_pin_sending_response.case, rule receiver_proves_pin [OF X w(1,2) False w(3)], rule chosen [OF u])
    then show thesis
      unfolding shift_challenge [OF False] by (rule that) (use w in \<open>simp_all add: healthy_def\<close>)
  qed
qed

section \<open>The whole transfer\<close>

text \<open>The files: every one is taken, and one result per file is reported.\<close>

lemma receiver_takes:
  assumes X: "serde_ok X" and w: "healthy w" "\<not> w_in_closed w" "rw_receiving_open w" "rw_writes w = []"
    and fs: "fs \<noteq> []" "\<forall>f \<in> set fs. acceptable fl tokens f" "length fs \<le> length (rw_results w)"
  obtains v where "follows 0 (receiver_files X fl tokens) w
      [(result_messages X (map rf_file_id fs) (rw_results w), transfer_messages X (map_of tokens) fs)] () v"
    and "rw_received v = rw_received w @ map (\<lambda>f. (rf_file_id f, file_pieces f)) fs"
    and "rw_files v = rw_files w" "w_errors v = w_errors w"
proof -
  let ?v = "w\<lparr>w_buffered := drop_until_zero (w_buffered w),
        rw_received := rw_received w @ map (\<lambda>f. (rf_file_id f, file_pieces f)) fs,
        rw_results := drop (length fs) (rw_results w),
        w_out := w_out w @ result_messages X (map rf_file_id fs) (rw_results w)\<rparr>"
  have run: "receiver_files X fl tokens (w\<lparr>w_in := transfer_messages X (map_of tokens) fs @ rest\<rparr>) =
      (Ok (), ?v\<lparr>w_in := rest\<rparr>)" for rest
    using receiver_files_run [OF X, of "w\<lparr>w_in := transfer_messages X (map_of tokens) fs @ rest\<rparr>" fs fl tokens rest]
      w fs by (simp add: healthy_def in_last)
  have "receiver_files X fl tokens (w\<lparr>w_in := []\<rparr>) = (Wait, w\<lparr>w_in := []\<rparr>)"
    using w(2) by (simp add: receiver_files_def bind_t_def recv_def)
  with run have "follows 0 (receiver_files X fl tokens) w
      [(result_messages X (map rf_file_id fs) (rw_results w), transfer_messages X (map_of tokens) fs)] () ?v"
    by (intro followsI) simp_all
  then show thesis by (rule that) simp_all
qed

definition session_turns :: "rtc_ext \<Rightarrow> byte list \<Rightarrow> byte list \<Rightarrow> string \<Rightarrow> data_channel_message \<Rightarrow> string list \<Rightarrow> string list \<Rightarrow>
    data_channel_message list \<Rightarrow> data_channel_message list \<Rightarrow> dialogue" where
  "session_turns X sn rn st answer rgs sgs list selection =
     [([nonce_message X sn], [nonce_message X rn])] @ [([token_request X st], [answer])] @
     challenges X rgs sgs @ [(list, selection)]"

lemma length_session_turns [simp]:
  "length (session_turns X sn rn st answer rgs sgs list selection) = 3 + length rgs + length sgs"
  by (simp add: session_turns_def challenges_def)

lemma sender_session:
  fixes w :: sender_world and rn :: "byte list"
  assumes s: "session_ok X sk rk skey rkey sn rn st rt" and w: "sender_ready sel w"
    and pins: "w_pins w = map PinGiven rgs @ later"
    and gs: "guesses_for rpin rgs" "guesses_for spin sgs"
    and l: "de_file_list X (as_bytes (ser_file_list X (FileListOk tokens))) = Some (FileListOk l)"
      "set (map fst l) = set sel"
  obtains v where "follows 1 (send_task X sn sk skey spin files) w
      (session_turns X sn rn st (token_reply_message X rpin rt) rgs sgs (file_list_messages X files) (selection_messages X tokens) @
       [(transfer_messages X (map_of l) (sw_files w), [m])]) () v"
    and "sw_selected v = Some (map fst l)" "w_errors v = w_errors w"
proof -
  have X: "serde_ok X" using s by (simp add: session_ok_def)
  let ?u = "w\<lparr>w_buffered := drop_until_zero (w_buffered w)\<rparr>"
  let ?u1 = "?u\<lparr>w_out := w_out ?u @ [nonce_message X sn]\<rparr>"
  let ?u2 = "?u1\<lparr>w_out := w_out ?u1 @ [token_request X st]\<rparr>"
  have ready: "healthy w" "\<not> w_in_closed w" "sw_selected_open w" "sw_files_closed w"
    and files: "\<forall>f \<in> set (sw_files w). rf_closed f \<and> rf_file_id f \<in> set sel"
    using w by (simp_all add: sender_ready_def)
  then have u: "healthy ?u" "\<not> w_in_closed ?u" "healthy ?u1" "\<not> w_in_closed ?u1" "healthy ?u2" "\<not> w_in_closed ?u2"
    "w_pins ?u2 = map PinGiven rgs @ later"
    using pins by (simp_all add: healthy_def)
  obtain u3 where challenges: "follows 1 (sender_pins X (token_reply rpin rt) spin) ?u2 (challenges X rgs sgs) () u3"
    and u3: "healthy u3" "\<not> w_in_closed u3" "w_errors u3 = w_errors ?u2" "sw_selected_open u3 = sw_selected_open ?u2"
      "sw_files u3 = sw_files ?u2" "sw_files_closed u3 = sw_files_closed ?u2"
    by (rule sender_challenges [OF X u(5,6,7) gs])
  have fs: "\<forall>f \<in> set (sw_files u3). rf_closed f \<and> map_of l (rf_file_id f) \<noteq> None"
    using files l(2) u3(5) by (auto simp: map_of_eq_None_iff)
  have "sw_selected_open u3" "sw_files_closed u3" using u3(4,6) ready(3,4) by simp_all
  note open3 = this
  obtain v where rest: "follows 1
      (bind_t (send_status Connected) (\<lambda>_.
       bind_t (sender_file_list X files) (\<lambda>_.
       bind_t (sender_file_map X rt (sn @ rn)) (\<lambda>agreed.
       case agreed of None \<Rightarrow> return_t () | Some file_map \<Rightarrow> sender_files X file_map)))) u3
      [(file_list_messages X files, selection_messages X tokens),
       (transfer_messages X (map_of l) (sw_files u3), [m])] () v"
    and v: "sw_selected v = Some (map fst l)" "w_errors v = w_errors u3"
    by (rule sender_transfers [OF u3(1,2) open3 l(1) fs])
  have "speaks wait_buffer_empty w [] () ?u"
    by (simp add: speaks_def wait_buffer_empty_def in_last)
  then have "follows 1 (send_task X sn sk skey spin files) w
     ([([nonce_message X sn], [nonce_message X rn])] @ [([token_request X st], [token_reply_message X rpin rt])] @
      challenges X rgs sgs @ [(file_list_messages X files, selection_messages X tokens),
       (transfer_messages X (map_of l) (sw_files u3), [m])]) () v"
    unfolding send_task_def
    apply (rule follows_silent_first)
     apply (rule follows_bind, rule sender_greets(1) [OF s u(1,2)])
      apply (rule follows_bind, rule sender_greets(2) [OF s u(3,4), where pin = rpin])
       apply (simp only: prod.case)
       apply (rule follows_bind, rule challenges, rule rest)
       apply simp_all
    done
  then show thesis
    by (intro that [of v]) (simp_all add: session_turns_def v u3)
qed

lemma receiver_session:
  fixes v :: receiver_world and new_token :: "nat \<Rightarrow> string" and sn :: "byte list"
  assumes s: "session_ok X sk rk skey rkey sn rn st rt" and v: "receiver_ready sel v"
    and pins: "w_pins v = map PinGiven sgs @ later"
    and gs: "guesses_for rpin rgs" "guesses_for spin sgs"
    and fs: "fs \<noteq> []" "set (map rf_file_id fs) \<subseteq> set sel \<inter> set (map fd_id files)" "length fs \<le> length (rw_results v)"
  defines "tokens \<equiv> make_file_tokens new_token sel"
  obtains v' where "follows 0 (receive_task X rn new_token rk rkey rpin) v
      (map prod.swap (session_turns X sn rn st (token_reply_message X rpin rt) rgs sgs
         (file_list_messages X files) (selection_messages X tokens)) @
       [(result_messages X (map rf_file_id fs) (rw_results v), transfer_messages X (map_of tokens) fs)]) () v'"
    and "rw_received v' = map (\<lambda>f. (rf_file_id f, file_pieces f)) fs"
    and "rw_files v' = Some files" "w_errors v' = w_errors v"
proof -
  have X: "serde_ok X" using s by (simp add: session_ok_def)
  let ?u1 = "v\<lparr>w_out := w_out v @ [nonce_message X rn]\<rparr>"
  let ?u2 = "?u1\<lparr>w_out := w_out ?u1 @ [token_reply_message X rpin rt]\<rparr>"
  have h: "healthy v" "\<not> w_in_closed v" and ready: "rw_files_open v" "rw_receiving_open v" "rw_received v = []"
    "rw_writes v = []" "rw_selection v = SelectionFiles sel"
    using v by (simp_all add: receiver_ready_def)
  then have u: "healthy ?u1" "\<not> w_in_closed ?u1" "healthy ?u2" "\<not> w_in_closed ?u2" by (simp_all add: healthy_def)
  obtain st' c where challenge: "follows 0 (receiver_verify_pin X rpin) ?u2
      (map prod.swap (challenge X (pin_wrong X) (pin_right X) rgs)) ()
      (?u2\<lparr>w_status := w_status ?u2 @ st', w_out := w_out ?u2 @ c\<rparr>)"
    by (rule receiver_challenge [OF X u(3,4) gs(1)])
  let ?u3 = "?u2\<lparr>w_status := w_status ?u2 @ st', w_out := w_out ?u2 @ c\<rparr>"
  have u3: "healthy ?u3" "\<not> w_in_closed ?u3" "w_pins ?u3 = map PinGiven sgs @ later" "rw_files_open ?u3"
    "rw_selection ?u3 = SelectionFiles sel"
    using h ready pins by (simp_all add: healthy_def)
  let ?choose = "\<lambda>file_list. bind_t (send_status Connected) (\<lambda>_.
      bind_t (receiver_selection X new_token file_list) (\<lambda>selected. return_t (file_list, selected)))"
  let ?take = "\<lambda>(file_list, selected). case selected of None \<Rightarrow> return_t ()
      | Some file_tokens \<Rightarrow> receiver_files X file_list file_tokens"
  obtain u4 where chooses: "follows 0 (bind_t (receiver_file_list X) ?choose) ?u3
      (map prod.swap (questions X (required_messages X) sgs @ [(file_list_messages X files, selection_messages X tokens)]))
      (files, Some tokens) u4"
    and u4: "healthy u4" "\<not> w_in_closed u4" "rw_files u4 = Some files" "w_errors u4 = w_errors ?u3"
      "rw_received u4 = rw_received ?u3" "rw_receiving_open u4 = rw_receiving_open ?u3"
      "rw_writes u4 = rw_writes ?u3" "rw_results u4 = rw_results ?u3"
    unfolding tokens_def by (rule receiver_chooses [OF X u3 gs(2)])
  have "map_of tokens i \<noteq> None \<longleftrightarrow> i \<in> set sel" for i
    using make_file_tokens_fst [of new_token sel] by (metis map_of_eq_None_iff set_map tokens_def)
  then have acc: "\<forall>f \<in> set fs. acceptable files tokens f"
    using fs(2) by (force simp: acceptable_def)
  have "rw_receiving_open u4" "rw_writes u4 = []" "length fs \<le> length (rw_results u4)"
    using u4 ready fs(3) by simp_all
  note takes = receiver_takes [OF X u4(1,2) this(1,2) fs(1) acc this(3)]
  obtain v' where takes: "follows 0 (receiver_files X files tokens) u4
      [(result_messages X (map rf_file_id fs) (rw_results u4), transfer_messages X (map_of tokens) fs)] () v'"
    and v': "rw_received v' = rw_received u4 @ map (\<lambda>f. (rf_file_id f, file_pieces f)) fs"
      "rw_files v' = rw_files u4" "w_errors v' = w_errors u4"
    by (rule takes)
  have split: "receive_task X rn new_token rk rkey rpin =
      bind_t (receiver_nonce X rn) (\<lambda>nonce.
      bind_t (receiver_token X rk rkey rpin nonce) (\<lambda>_.
      bind_t (receiver_verify_pin X rpin) (\<lambda>_.
      bind_t (bind_t (receiver_file_list X) ?choose) ?take)))"
    by (simp add: receive_task_def bind_t_assoc)
  have "follows 0 (receive_task X rn new_token rk rkey rpin) v
     ([([nonce_message X rn], [nonce_message X sn])] @ [([token_reply_message X rpin rt], [token_request X st])] @
      map prod.swap (challenge X (pin_wrong X) (pin_right X) rgs) @
      map prod.swap (questions X (required_messages X) sgs @ [(file_list_messages X files, selection_messages X tokens)]) @
      [(result_messages X (map rf_file_id fs) (rw_results u4), transfer_messages X (map_of tokens) fs)]) () v'"
    unfolding split
    apply (rule follows_bind, rule receiver_greets(1) [OF s h])
     apply (rule follows_bind, rule receiver_greets(2) [OF s u(1,2)])
      apply (rule follows_bind, rule challenge)
       apply (rule follows_bind, rule chooses)
        apply (simp only: prod.case option.case, rule takes)
       apply simp_all
    done
  then show thesis
    by (intro that [of v']) (use u4 v' ready in \<open>simp_all add: session_turns_def challenges_def\<close>)
qed

definition pins_given :: "string list \<Rightarrow> 'z world_scheme \<Rightarrow> bool" where
  "pins_given gs w \<longleftrightarrow> take (length gs) (w_pins w) = map PinGiven gs"

lemma pins_givenE:
  assumes "pins_given gs w"
  obtains later where "w_pins w = map PinGiven gs @ later"
  using assms append_take_drop_id [of "length gs" "w_pins w"] that by (metis pins_given_def)

lemma session_exchange:
  fixes w :: sender_world and v :: receiver_world and new_token :: "nat \<Rightarrow> string"
  assumes s: "session_ok X sk rk skey rkey sn rn st rt" and ready: "transfer_possible files sel w v"
    and gs: "guesses_for rpin rgs" "guesses_for spin sgs" and pins: "pins_given rgs w" "pins_given sgs v"
  shows "\<exists>sent answers s' r'.
    exchange (\<lambda>ms. w_out (snd (given (send_task X sn sk skey spin files) w ms)))
      (\<lambda>ms. w_out (snd (given (receive_task X rn new_token rk rkey rpin) v ms)))
      (4 + length rgs + length sgs) = (sent, answers) \<and>
    given (send_task X sn sk skey spin files) w answers = (Ok (), s') \<and>
    given (receive_task X rn new_token rk rkey rpin) v sent = (Ok (), r') \<and>
    map (\<lambda>(i, ps). (i, concat ps)) (rw_received r') =
      map (\<lambda>f. (rf_file_id f, concat (rf_binary f))) (sw_files w) \<and>
    rw_files r' = Some files \<and> (\<exists>ids. sw_selected s' = Some ids \<and> set ids = set sel) \<and>
    w_errors s' = w_errors w \<and> w_errors r' = w_errors v \<and> w_in r' = []"
proof -
  have X: "serde_ok X" using s by (simp add: session_ok_def)
  have w: "sender_ready sel w" "w_out w = []" "sw_files w \<noteq> []" and v: "receiver_ready sel v" "w_out v = []"
    and sel: "distinct sel" and fs: "length (sw_files w) \<le> length (rw_results v)"
      "set (map rf_file_id (sw_files w)) \<subseteq> set sel \<inter> set (map fd_id files)"
    using ready by (auto simp: transfer_possible_def sender_ready_def receiver_ready_def)
  obtain later1 later2 where later: "w_pins w = map PinGiven rgs @ later1" "w_pins v = map PinGiven sgs @ later2"
    using pins by (elim pins_givenE)
  define tokens where "tokens = make_file_tokens new_token sel"
  obtain l where l: "de_file_list X (as_bytes (ser_file_list X (FileListOk tokens))) = Some (FileListOk l)"
    "map_of l = map_of tokens"
    using serde_ok_file_list [OF X, of tokens] sel by (auto simp: tokens_def)
  have "set (map fst l) = dom (map_of l)" by (simp add: dom_map_of_conv_image_fst)
  also have "\<dots> = set (map fst tokens)" unfolding l(2) by (simp only: dom_map_of_conv_image_fst set_map)
  finally have ids: "set (map fst l) = set sel" by (simp add: tokens_def)
  obtain m ms where results: "result_messages X (map rf_file_id (sw_files w)) (rw_results v) = [m] @ ms"
    using fs(1) w(3) by (cases "sw_files w"; cases "rw_results v") (auto simp: result_messages_def)
  obtain s' where sender: "follows 1 (send_task X sn sk skey spin files) w
      (session_turns X sn rn st (token_reply_message X rpin rt) rgs sgs (file_list_messages X files) (selection_messages X tokens) @
       [(transfer_messages X (map_of tokens) (sw_files w), [m])]) () s'"
    and s': "sw_selected s' = Some (map fst l)" "w_errors s' = w_errors w"
    using sender_session [OF s w(1) later(1) gs l(1) ids, where m = m] by (auto simp: l(2))
  obtain r' where receiver: "follows 0 (receive_task X rn new_token rk rkey rpin) v
      (map prod.swap (session_turns X sn rn st (token_reply_message X rpin rt) rgs sgs
         (file_list_messages X files) (selection_messages X tokens)) @
       [([m] @ ms, transfer_messages X (map_of tokens) (sw_files w))]) () r'"
    and r': "rw_received r' = map (\<lambda>f. (rf_file_id f, file_pieces f)) (sw_files w)"
      "rw_files r' = Some files" "w_errors r' = w_errors v"
    using receiver_session [OF s v(1) later(2) gs w(3) fs(2,1)] unfolding results tokens_def by blast
  note complete = exchange_dialogue [OF sender receiver w(2) v(2)]
  have rounds: "4 + length rgs + length sgs = Suc (length (session_turns X sn rn st (token_reply_message X rpin rt)
      rgs sgs (file_list_messages X files) (selection_messages X tokens)))"
    by simp
  show ?thesis
    unfolding rounds
    by (rule exI, rule exI, rule exI [of _ "s'\<lparr>w_in := ms\<rparr>"], rule exI [of _ "r'\<lparr>w_in := []\<rparr>"],
        intro conjI, rule complete(1), rule complete(2), rule complete(3))
      (use s' r' ids in \<open>simp_all add: case_prod_unfold comp_def\<close>)
qed

text \<open>
  C5: a transfer of files that were offered and selected, between peers that expect no key or each
  other's, each asking for a PIN or not, whose users find the right PIN within the tries: after four
  rounds and one for every guess both tasks have ended well. The receiver's application has got
  exactly the bytes of every file that was sent, under its id and in order, and the list of files;
  the sender's application has seen the selection; and no file error was reported.
\<close>

theorem session_delivers:
  assumes "session_ok X sk rk skey rkey sn rn st rt" and "transfer_possible files sel w v"
    and "guesses_for rpin rgs" and "guesses_for spin sgs" and "pins_given rgs w" and "pins_given sgs v"
  shows "\<exists>sent answers s' r'.
    exchange (\<lambda>ms. w_out (snd (given (send_task X sn sk skey spin files) w ms)))
      (\<lambda>ms. w_out (snd (given (receive_task X rn new_token rk rkey rpin) v ms)))
      (4 + length rgs + length sgs) = (sent, answers) \<and>
    given (send_task X sn sk skey spin files) w answers = (Ok (), s') \<and>
    given (receive_task X rn new_token rk rkey rpin) v sent = (Ok (), r') \<and>
    map (\<lambda>(i, ps). (i, concat ps)) (rw_received r') =
      map (\<lambda>f. (rf_file_id f, concat (rf_binary f))) (sw_files w) \<and>
    rw_files r' = Some files \<and> (\<exists>ids. sw_selected s' = Some ids \<and> set ids = set sel) \<and>
    w_errors s' = w_errors w \<and> w_errors r' = w_errors v \<and> w_in r' = []"
  using assms by (rule session_exchange)

lemma sample_possible:
  "transfer_possible [sample_file] [''a''] (sender_sample [] pins) ((receiver_sample [])\<lparr>w_pins := pins'\<rparr>)"
  by (simp add: transfer_possible_def sender_ready_def receiver_ready_def healthy_def sender_sample_def
      receiver_sample_def sample_file_def)

theorem session_delivers_witness:
  "\<exists>sent r'. given (receive_task sample_rtc (replicate 32 7) (\<lambda>i. ''t'') \<lparr>sk_inner = [2]\<rparr> None
       (Some \<lparr>pc_pin = ''7'', pc_max_tries = 3\<rparr>)) ((receiver_sample [])\<lparr>w_pins := [PinGiven ''5'']\<rparr>) sent = (Ok (), r') \<and>
     map (\<lambda>(i, ps). (i, concat ps)) (rw_received r') = [(''a'', [1, 2, 3])]"
proof -
  have gs: "guesses_for (Some \<lparr>pc_pin = ''7'', pc_max_tries = 3\<rparr>) [''1'', ''7'']"
    "guesses_for (Some \<lparr>pc_pin = ''5'', pc_max_tries = 1\<rparr>) [''5'']"
    by (simp_all add: guesses_for_def right_guesses_def)
  have pins: "pins_given [''1'', ''7''] (sender_sample [] [PinGiven ''1'', PinGiven ''7''])"
    "pins_given [''5''] ((receiver_sample [])\<lparr>w_pins := [PinGiven ''5'']\<rparr>)"
    by (simp_all add: pins_given_def sender_sample_def)
  show ?thesis
    using session_delivers [OF sample_session sample_possible gs pins, of "\<lambda>i. ''t''"]
    by (elim exE conjE) (intro exI conjI, assumption, simp add: sender_sample_def)
qed

section \<open>Sessions without PINs, and with one of the receiver\<close>

text \<open>Without PINs the transfer takes four rounds.\<close>

theorem transfer_delivers:
  assumes "session_ok X sk rk skey rkey sn rn st rt" and "transfer_possible files sel w v"
  shows "\<exists>sent answers s' r'.
    exchange (\<lambda>ms. w_out (snd (sender_run X sn sk skey files w ms)))
      (\<lambda>ms. w_out (snd (receiver_run X rn new_token rk rkey v ms))) 4 = (sent, answers) \<and>
    sender_run X sn sk skey files w answers = (Ok (), s') \<and>
    receiver_run X rn new_token rk rkey v sent = (Ok (), r') \<and>
    map (\<lambda>(i, ps). (i, concat ps)) (rw_received r') =
      map (\<lambda>f. (rf_file_id f, concat (rf_binary f))) (sw_files w) \<and>
    rw_files r' = Some files \<and> (\<exists>ids. sw_selected s' = Some ids \<and> set ids = set sel) \<and>
    w_errors s' = w_errors w \<and> w_errors r' = w_errors v \<and> w_in r' = []"
  using session_exchange [OF assms, of None "[]" None "[]" new_token]
  by (simp add: guesses_for_def pins_given_def given_def sender_run_def receiver_run_def)

text \<open>
  With a PIN of the receiver that the sender's user gets right after the guesses \<open>wrong\<close>: one round
  more per guess.
\<close>

definition pin_session :: "pin_config \<Rightarrow> string list \<Rightarrow> 'z world_scheme \<Rightarrow> bool" where
  "pin_session cfg wrong w \<longleftrightarrow> pc_pin cfg \<noteq> '''' \<and> pc_pin cfg \<notin> set wrong \<and>
     length wrong < unat (pc_max_tries cfg) \<and>
     (\<exists>later. w_pins w = map PinGiven (wrong @ [pc_pin cfg]) @ later)"

theorem pin_transfer_delivers:
  assumes "session_ok X sk rk skey rkey sn rn st rt" and "transfer_possible files sel w v"
    and "pin_session cfg wrong w"
  shows "\<exists>sent answers s' r'.
    exchange (\<lambda>ms. w_out (snd (sender_run X sn sk skey files w ms)))
      (\<lambda>ms. w_out (snd (receive_task X rn new_token rk rkey (Some cfg) (v\<lparr>w_in := ms\<rparr>)))) (length wrong + 5) =
      (sent, answers) \<and>
    sender_run X sn sk skey files w answers = (Ok (), s') \<and>
    receive_task X rn new_token rk rkey (Some cfg) (v\<lparr>w_in := sent\<rparr>) = (Ok (), r') \<and>
    map (\<lambda>(i, ps). (i, concat ps)) (rw_received r') =
      map (\<lambda>f. (rf_file_id f, concat (rf_binary f))) (sw_files w) \<and>
    rw_files r' = Some files \<and> (\<exists>ids. sw_selected s' = Some ids \<and> set ids = set sel) \<and>
    w_errors s' = w_errors w \<and> w_errors r' = w_errors v \<and> w_in r' = []"
proof -
  have "guesses_for (Some cfg) (wrong @ [pc_pin cfg])" "pins_given (wrong @ [pc_pin cfg]) w"
    using assms(3) by (auto simp: pin_session_def guesses_for_def right_guesses_def pins_given_def)
  from session_exchange [OF assms(1,2) this(1), of None "[]" new_token] this(2)
  show ?thesis
    by (simp add: guesses_for_def pins_given_def given_def sender_run_def add.commute)
qed

section \<open>An empty PIN\<close>

text \<open>
  C36: the empty string as the PIN. A sender configured so lets everybody through, as if it had no
  PIN. A receiver configured so announces a PIN, passes its own challenge without reading an answer
  and takes the first PIN of the sender for the end of the list of files: the task fails, whatever
  the sender's user enters.
\<close>

theorem empty_pin_fails:
  assumes "session_ok X sk rk skey rkey sn rn st rt" and "pc_pin cfg = ''''"
    and "de_pin_sending X [] = None" and "healthy w" and "healthy v"
    and "w_in v = nonce_message X sn # token_request X st # pin_message X g @ ms"
  shows "verify_pin X cfg True (sender_send_result X) w = (Ok (), w\<lparr>w_status := w_status w @ [PinRequired]\<rparr>) \<and>
    fst (receive_task X rn new_token rk rkey (Some cfg) v) =
      Err (Wrap ''Failed to deserialize file list response: '' (Lib ''serde_json error'')) \<and>
    w_out (snd (receive_task X rn new_token rk rkey (Some cfg) v)) =
      w_out v @ [nonce_message X rn, token_reply_message X (Some cfg) rt] @ pin_right X"
proof -
  note passes = verify_pin_loop_passes [of X cfg, unfolded assms(2)]
  have "verify_pin X cfg True (sender_send_result X) w = (Ok (), w\<lparr>w_status := w_status w @ [PinRequired]\<rparr>)"
    using assms(4) by (simp add: verify_pin_def bind_t_def healthy_def send_eqs passes)
  moreover let ?v1 = "v\<lparr>w_out := w_out v @ [nonce_message X rn], w_in := token_request X st # pin_message X g @ ms\<rparr>"
  let ?v2 = "?v1\<lparr>w_out := w_out ?v1 @ [token_reply_message X (Some cfg) rt], w_in := pin_message X g @ ms\<rparr>"
  let ?v3 = "?v2\<lparr>w_status := w_status v @ [PinRequired], w_out := w_out ?v2 @ pin_right X\<rparr>"
  have h: "w_sends v = []" "w_status_left v = None" using assms(5) by (simp_all add: healthy_def)
  have 1: "receiver_nonce X rn v = (Ok (sn @ rn), ?v1)"
    by (rule session_runs(4) [OF assms(1) h(1) assms(6)])
  have 2: "receiver_token X rk rkey (Some cfg) (sn @ rn) ?v1 = (Ok (), ?v2)"
    using assms(1) h serde_okD(2) [of X]
    by (simp add: session_checks(2) [OF assms(1)] receiver_token_def bind_t_def map_err_t_def send_eqs recv_def
        parse_json_def receive_token_def token_reply_message_def token_reply_def token_request_def session_ok_def in_last)
  have 3: "receiver_verify_pin X (Some cfg) ?v2 = (Ok (), ?v3)"
    using h by (simp add: receiver_verify_pin_def verify_pin_def bind_t_def send_eqs passes pin_right_def in_last)
  have 4: "receiver_file_list X ?v3 =
      (Err (Wrap ''Failed to deserialize file list response: '' (Lib ''serde_json error'')), ?v3\<lparr>w_in := ms\<rparr>)"
    using assms(3)
    by (simp add: receiver_file_list_def bind_t_def receive_string_from_chunks_def pin_message_def map_err_t_def parse_json_def)
  have "receive_task X rn new_token rk rkey (Some cfg) v =
      (Err (Wrap ''Failed to deserialize file list response: '' (Lib ''serde_json error'')), ?v3\<lparr>w_in := ms\<rparr>)"
    unfolding receive_task_def using 1 2 3 4 by (simp only: bind_t_eqs(1,2))
  ultimately show ?thesis by simp
qed

theorem empty_pin_fails_witness:
  "fst (receive_task sample_rtc (replicate 32 7) (\<lambda>i. ''t'') \<lparr>sk_inner = [2]\<rparr> None (Some \<lparr>pc_pin = '''', pc_max_tries = 3\<rparr>)
     (receiver_sample (nonce_message sample_rtc (replicate 32 7) # token_request sample_rtc (sample_session_token [1]) #
        pin_message sample_rtc ''1'' @ []))) =
   Err (Wrap ''Failed to deserialize file list response: '' (Lib ''serde_json error''))"
proof -
  let ?v = "receiver_sample (nonce_message sample_rtc (replicate 32 7) #
    token_request sample_rtc (sample_session_token [1]) # pin_message sample_rtc ''1'' @ [])"
  have empty: "de_pin_sending sample_rtc [] = None" by code_simp
  have v: "healthy (sender_sample [] [])" "healthy ?v" "w_in ?v = nonce_message sample_rtc (replicate 32 7) #
    token_request sample_rtc (sample_session_token [1]) # pin_message sample_rtc ''1'' @ []"
    by (simp_all add: healthy_def receiver_sample_def sender_sample_def)
  show ?thesis
    using empty_pin_fails [OF sample_session _ empty v, of "\<lparr>pc_pin = '''', pc_max_tries = 3\<rparr>" "\<lambda>i. ''t''"]
    by simp
qed

end
