(* ===== verification/Rtc_Deliveries.thy ===== *)
theory Rtc_Deliveries
  imports Rtc_Session
begin

text \<open>
  What the receiver hands to its application when the sender is arbitrary, and the transfer of no
  files, which the protocol of the two tasks does not get through.
\<close>

section \<open>Phases that deliver nothing\<close>

definition undelivered :: "'z receiver_world_scheme \<Rightarrow> 'z receiver_world_scheme \<Rightarrow> bool" where
  "undelivered w w' \<longleftrightarrow> rw_received w' = rw_received w \<and> rw_selection w' = rw_selection w \<and>
     suffix (w_in w') (w_in w)"

lemma undelivered_order: "reflp undelivered" "transp undelivered"
  by (auto simp: undelivered_def reflp_def transp_def intro: suffix_order.order_trans)

lemma leaves_undelivered_ops:
  "leaves undelivered recv" "leaves undelivered (send_message m)" "leaves undelivered (send_text s)"
  "leaves undelivered (send_binary b)" "leaves undelivered wait_buffer_empty"
  "leaves undelivered (parse_json de bs)" "leaves undelivered (send_status st)"
  "leaves undelivered receive_string_from_chunks" "leaves undelivered next_pin_reply"
  "leaves undelivered (publish_files fl)"
  by (auto simp: leaves_def undelivered_def recv_def send_message_def send_text_def send_binary_def
      wait_buffer_empty_def parse_json_def send_status_def receive_string_from_chunks_def next_pin_reply_def
      publish_files_def intro: suffix_ConsI dest: collect_chunks_suffix
      split: list.splits option.splits nat.splits prod.splits)

lemmas leaves_undelivered [intro] =
  leaves_undelivered_ops leaves_simple [OF undelivered_order(1)] leaves_bind [OF undelivered_order(2)]
  leaves_map_err leaves_try leaves_ignore [OF undelivered_order]

lemma leaves_undelivered_send_string [intro]: "leaves undelivered (send_string_in_chunks dc s send_chunk)"
  unfolding send_string_in_chunks_def
  by (rule leaves_process_in_chunks [OF undelivered_order]) (auto simp: send_chunk_def)

lemma leaves_undelivered_delimiter [intro]: "leaves undelivered send_delimiter"
  by (auto simp: send_delimiter_def)

lemma leaves_undelivered_handle_pin_loop: "leaves undelivered (handle_pin_loop X chunks parse rs)"
  by (induction rs)
    (auto intro!: leaves_undelivered simp: receive_pin_response_def
      split: pin_reply.splits challenge_pin_result.splits option.splits)

lemma leaves_undelivered_handle_pin [intro]: "leaves undelivered (handle_pin X chunks parse)"
  by (simp add: leaves_def handle_pin_def leaves_undelivered_handle_pin_loop [unfolded leaves_def, rule_format])

lemma leaves_undelivered_verify_pin_loop:
  "leaves undelivered (verify_pin_loop X cfg (receiver_send_result X) n rp t ms)"
  by (induction ms arbitrary: n rp t)
    (auto intro!: leaves_undelivered simp: verify_pin_turn_def receiver_send_result_def split: option.splits)

lemma leaves_undelivered_verify_pin [intro]:
  "leaves undelivered (receiver_verify_pin X pin)"
proof -
  have "leaves undelivered (\<lambda>w. verify_pin_loop X cfg (receiver_send_result X) n '''' 0 (w_in w) w)" for cfg n
    by (simp add: leaves_def leaves_undelivered_verify_pin_loop [unfolded leaves_def, rule_format])
  then show ?thesis
    unfolding receiver_verify_pin_def verify_pin_def
    by (auto intro!: leaves_undelivered split: option.splits)
qed

lemma leaves_undelivered_phases [intro]:
  "leaves undelivered (receiver_nonce X n)" "leaves undelivered (receiver_token X sk key pin nonce)"
  "leaves undelivered (receiver_file_list X)"
  unfolding receiver_nonce_def receive_nonce_def receiver_token_def receive_token_def
    receiver_check_key_def receiver_file_list_def
  by (auto intro!: leaves_undelivered split: option.splits rtc_pin_sending_response.splits)

lemma leaves_selection_case:
  assumes "reflp R" and "leaves R f" and "\<And>sel. leaves R (g sel)"
  shows "leaves R (\<lambda>w. case rw_selection w of
       SelectionPending \<Rightarrow> (Wait, w) | SelectionDropped \<Rightarrow> (Ok None, w)
     | SelectionDeclined \<Rightarrow> f w | SelectionFiles sel \<Rightarrow> g sel w)"
  using assms by (auto simp: leaves_def reflpD split: selection_reply.splits)

lemma leaves_undelivered_selection [intro]: "leaves undelivered (receiver_selection X new_token fl)"
  unfolding receiver_selection_def
  by (intro leaves_undelivered leaves_selection_case undelivered_order(1) leaves_undelivered_send_string
      leaves_undelivered_delimiter)

lemma leaves_keeps_answer:
  "leaves (keeps rw_files) (send_string_in_chunks dc s send_chunk)" "leaves (keeps rw_files) send_delimiter"
proof -
  have one: "leaves (keeps rw_files) (send_message m)" for m
    by (auto simp: leaves_def keeps_def send_message_def split: list.splits option.splits)
  then show "leaves (keeps rw_files) (send_string_in_chunks dc s send_chunk)"
    unfolding send_string_in_chunks_def
    by (intro leaves_process_in_chunks keeps_order)
      (auto simp: send_chunk_def send_binary_def intro: leaves_bind leaves_simple keeps_order)
  from one show "leaves (keeps rw_files) send_delimiter"
    by (auto simp: send_delimiter_def send_text_def intro: leaves_bind leaves_simple keeps_order)
qed

lemma receiver_selection_SomeD:
  assumes "receiver_selection X new_token fl w = (Ok (Some tokens), w')"
  obtains sel where "rw_selection w = SelectionFiles sel" "tokens = make_file_tokens new_token sel"
    "rw_files w' = Some fl"
proof -
  from assms obtain v where v: "publish_files fl w = (Ok (), v)"
    and sel: "(case rw_selection v of
       SelectionPending \<Rightarrow> (Wait, v)
     | SelectionDropped \<Rightarrow> (Ok None, v)
     | SelectionDeclined \<Rightarrow>
         bind_t (send_string_in_chunks () (ser_file_list X FileListDeclined) send_chunk) (\<lambda>_.
         bind_t send_delimiter (\<lambda>_. return_t None)) v
     | SelectionFiles sel \<Rightarrow>
         bind_t (send_string_in_chunks ()
           (ser_file_list X (FileListOk (make_file_tokens new_token sel))) send_chunk) (\<lambda>_.
         bind_t send_delimiter (\<lambda>_. return_t (Some (make_file_tokens new_token sel)))) v) = (Ok (Some tokens), w')"
    by (auto simp: receiver_selection_def bind_t_Ok_iff simp del: selection_reply.case)
  from v have "rw_selection v = rw_selection w" "rw_files v = Some fl"
    by (auto simp: publish_files_def split: if_splits)
  with sel that show thesis
    by (cases "rw_selection w")
      (auto simp: bind_t_Ok_iff dest!: keepsD [OF leaves_keeps_answer(1)] keepsD [OF leaves_keeps_answer(2)])
qed

section \<open>The list of the sender\<close>

text \<open>
  The list \<open>fl\<close> was offered in \<open>ms\<close>: a run of binary messages, ended by a text or by the end, whose
  bytes are the message with that list.
\<close>

definition offered_list :: "rtc_ext \<Rightarrow> data_channel_message list \<Rightarrow> file_dto list \<Rightarrow> bool" where
  "offered_list X ms fl \<longleftrightarrow>
     (\<exists>before chunks rest. ms = before @ chunks @ rest \<and> (\<forall>m \<in> set chunks. \<not> is_string m) \<and>
        (rest = [] \<or> is_string (hd rest)) \<and>
        de_pin_sending X (concat (map msg_data chunks)) = Some (PinSendingOk fl))"

lemma offered_list_suffix: "offered_list X ms fl \<Longrightarrow> suffix ms ms' \<Longrightarrow> offered_list X ms' fl"
  unfolding offered_list_def suffix_def by (metis append.assoc)

lemma collect_chunks_bytes:
  "collect_chunks ms b = (b', r) \<Longrightarrow> \<exists>chunks rest. ms = chunks @ rest \<and> (\<forall>m \<in> set chunks. \<not> is_string m) \<and>
    (rest = [] \<or> is_string (hd rest)) \<and> b' = b @ concat (map msg_data chunks)"
proof (induction ms b rule: collect_chunks.induct)
  case (2 m ms b)
  show ?case
  proof (cases "is_string m")
    case True
    with 2 show ?thesis by (intro exI [of _ "[]"] exI [of _ "m # ms"]) simp
  next
    case False
    with 2 obtain chunks rest where "ms = chunks @ rest" "\<forall>m \<in> set chunks. \<not> is_string m"
      "rest = [] \<or> is_string (hd rest)" "b' = (b @ msg_data m) @ concat (map msg_data chunks)" by auto
    with False show ?thesis by (intro exI [of _ "m # chunks"] exI [of _ rest]) simp
  qed
qed simp

lemma received_list:
  assumes "receive_string_from_chunks w = (Ok bytes, w')" and "de_pin_sending X bytes = Some (PinSendingOk fl)"
  shows "offered_list X (w_in w) fl"
proof -
  from assms(1) obtain r where "collect_chunks (w_in w) [] = (bytes, r)"
    by (auto simp: receive_string_from_chunks_def split: prod.splits option.splits if_splits)
  from collect_chunks_bytes [OF this] obtain chunks rest where "w_in w = chunks @ rest"
    "\<forall>m \<in> set chunks. \<not> is_string m" "rest = [] \<or> is_string (hd rest)" "bytes = concat (map msg_data chunks)"
    by auto
  with assms(2) show ?thesis
    unfolding offered_list_def by (intro exI [of _ "[]"] exI [of _ chunks] exI [of _ rest]) simp
qed

lemma handle_pin_list:
  fixes w :: "'z receiver_world_scheme"
  shows "handle_pin_loop X True (challenge_sending X) rs w = (Ok fl, w') \<Longrightarrow> offered_list X (w_in w) fl"
proof (induction rs arbitrary: w)
  case (Cons q rs)
  from Cons.prems obtain reply a where a: "bind_t (send_status PinRequired) (\<lambda>_. next_pin_reply) w = (Ok reply, a)"
    and rest: "(case reply of
         PinRequestRefused \<Rightarrow> fail_t (Msg ''Failed to send PIN request'')
       | PinDropped \<Rightarrow> fail_t (Msg ''PIN required but not provided'')
       | PinGiven pin \<Rightarrow>
           bind_t (send_text (ser_pin X pin)) (\<lambda>_.
           bind_t (receive_pin_response True) (\<lambda>bytes.
             case challenge_sending X bytes of
               ChallengeOk result \<Rightarrow> return_t result
             | ChallengePinRequired \<Rightarrow> handle_pin_loop X True (challenge_sending X) rs
             | ChallengeTooManyAttempts \<Rightarrow>
                 bind_t (send_status TooManyAttempts) (\<lambda>_. fail_t (Msg ''Too many requests''))
             | ChallengeParseError e \<Rightarrow> fail_t e))) a = (Ok fl, w')"
    by (auto simp: bind_t_Ok_iff simp del: pin_reply.case)
  from rest obtain pin b bytes c where ab: "send_text (ser_pin X pin) a = (Ok (), b)"
    and b: "receive_string_from_chunks b = (Ok bytes, c)"
    and e: "(case challenge_sending X bytes of
             ChallengeOk result \<Rightarrow> return_t result
           | ChallengePinRequired \<Rightarrow> handle_pin_loop X True (challenge_sending X) rs
           | ChallengeTooManyAttempts \<Rightarrow>
               bind_t (send_status TooManyAttempts) (\<lambda>_. fail_t (Msg ''Too many requests''))
           | ChallengeParseError e \<Rightarrow> fail_t e) c = (Ok fl, w')"
    by (cases reply) (auto simp: bind_t_Ok_iff receive_pin_response_def simp del: challenge_pin_result.case)
  have "leaves undelivered (bind_t (send_status PinRequired) (\<lambda>_. next_pin_reply))" by auto
  from this a have wa: "undelivered w a" by (rule leavesD)
  have ab: "undelivered a b" using leaves_undelivered_ops(3) ab by (rule leavesD)
  have "undelivered b c" using leaves_undelivered_ops(8) b by (rule leavesD)
  then have bc: "suffix (w_in c) (w_in b)" and bw: "suffix (w_in b) (w_in w)"
    using ab wa by (auto simp: undelivered_def intro: suffix_order.order_trans)
  show ?case
  proof (cases "challenge_sending X bytes")
    case (ChallengeOk list)
    with e have "de_pin_sending X bytes = Some (PinSendingOk fl)"
      by (auto simp: challenge_sending_def split: option.splits rtc_pin_sending_response.splits)
    from received_list [OF b this] bw show ?thesis by (rule offered_list_suffix)
  next
    case ChallengePinRequired
    with e Cons.IH [of c] have "offered_list X (w_in c) fl" by simp
    then show ?thesis using bc bw by (meson offered_list_suffix)
  qed (use e in \<open>auto simp: bind_t_Ok_iff\<close>)
qed (auto simp: bind_t_Ok_iff)

lemma parse_json_Ok: "map_err_t g (parse_json de bs) w = (Ok p, v) \<longleftrightarrow> de bs = Some p \<and> v = w"
  by (cases "de bs") (auto simp: map_err_t_def parse_json_def)

lemma receiver_file_list_offered:
  assumes "receiver_file_list X w = (Ok fl, w')"
  shows "offered_list X (w_in w) fl"
proof -
  from assms obtain bytes v p where b: "receive_string_from_chunks w = (Ok bytes, v)"
    and p: "de_pin_sending X bytes = Some p"
    and e: "(case p of
       PinSendingOk files \<Rightarrow> return_t files
     | PinSendingRequired \<Rightarrow> handle_pin X True (challenge_sending X)
     | PinSendingTooManyAttempts \<Rightarrow>
         bind_t (ignore_t (send_status (StatusError ''Unexpected TooManyAttempts response'')))
           (\<lambda>_. fail_t (Msg ''Unexpected TooManyAttempts response''))) v = (Ok fl, w')"
    by (auto simp: receiver_file_list_def bind_t_Ok_iff parse_json_Ok simp del: rtc_pin_sending_response.case)
  show ?thesis
  proof (cases p)
    case (PinSendingOk files)
    with e p received_list [OF b] show ?thesis by simp
  next
    case PinSendingRequired
    with e have "offered_list X (w_in v) fl" by (simp add: handle_pin_def handle_pin_list)
    moreover have "undelivered w v" using leaves_undelivered_ops(8) b by (rule leavesD)
    ultimately show ?thesis by (auto simp: undelivered_def intro: offered_list_suffix)
  qed (use e in \<open>auto simp: bind_t_Ok_iff\<close>)
qed

section \<open>The receiving loop\<close>

text \<open>
  A delivered file has a token, stands in the sender's list, was announced with its token in one
  of the messages \<open>M\<close>, and its pieces are data of binary messages of \<open>M\<close>.
\<close>

definition delivered_ok ::
  "rtc_ext \<Rightarrow> file_dto list \<Rightarrow> (string \<times> string) list \<Rightarrow> data_channel_message set \<Rightarrow>
   string \<times> byte list list \<Rightarrow> bool" where
  "delivered_ok X fl tokens M d \<longleftrightarrow>
     fst d \<in> fd_id ` set fl \<and>
     (\<exists>t m. map_of tokens (fst d) = Some t \<and> m \<in> M \<and> is_string m \<and>
        de_header X (msg_data m) = Some \<lparr>fh_id = fst d, fh_token = t\<rparr>) \<and>
     set (snd d) \<subseteq> msg_data ` {m \<in> M. \<not> is_string m}"

definition delivers ::
  "rtc_ext \<Rightarrow> file_dto list \<Rightarrow> (string \<times> string) list \<Rightarrow> data_channel_message set \<Rightarrow>
   'z receiver_world_scheme \<Rightarrow> 'z receiver_world_scheme \<Rightarrow> bool" where
  "delivers X fl tokens M w w' \<longleftrightarrow> w_in w' = w_in w \<and> rw_files w' = rw_files w \<and>
     ((\<forall>d \<in> set (rw_received w). delivered_ok X fl tokens M d) \<longrightarrow>
      (\<forall>d \<in> set (rw_received w'). delivered_ok X fl tokens M d))"

lemma delivers_order: "reflp (delivers X fl tokens M)" "transp (delivers X fl tokens M)"
  by (auto simp: delivers_def reflp_def transp_def)

lemma leaves_delivers_ops:
  "leaves (delivers X fl tokens M) (send_text s)" "leaves (delivers X fl tokens M) wait_buffer_empty"
  "leaves (delivers X fl tokens M) (parse_json de bs)" "leaves (delivers X fl tokens M) (send_error i e)"
  "leaves (delivers X fl tokens M) next_result"
  by (auto simp: leaves_def delivers_def send_text_def send_message_def wait_buffer_empty_def parse_json_def
      send_error_def next_result_def split: list.splits option.splits)

lemmas leaves_delivers =
  leaves_delivers_ops leaves_simple [OF delivers_order(1)] leaves_bind [OF delivers_order(2)]

lemma add_piece_set:
  assumes "d \<in> set (add_piece b l)"
  shows "d \<in> set l \<or> (\<exists>ps. (fst d, ps) \<in> set l \<and> snd d = ps @ [b])"
proof (cases "rev l")
  case (Cons p rest)
  moreover obtain i ps where "p = (i, ps)" by (cases p)
  ultimately have "l = rev rest @ [(i, ps)]" by (metis rev.simps(2) rev_rev_ident)
  with assms show ?thesis by auto
qed (use assms in \<open>simp add: add_piece_def\<close>)

lemma delivered_ok_snoc:
  "delivered_ok X fl tokens M (i, ps) \<Longrightarrow> m \<in> M \<Longrightarrow> \<not> is_string m \<Longrightarrow>
    delivered_ok X fl tokens M (i, ps @ [msg_data m])"
  unfolding delivered_ok_def by (simp add: image_iff) blast

lemma leaves_delivers_write:
  assumes "m \<in> M" and "\<not> is_string m"
  shows "leaves (delivers X fl tokens M) (write_piece (msg_data m))"
proof -
  have "delivered_ok X fl tokens M d"
    if "\<forall>d \<in> set l. delivered_ok X fl tokens M d" "d \<in> set (add_piece (msg_data m) l)" for d l
    using that(1) add_piece_set [OF that(2)] delivered_ok_snoc [OF _ assms] by (metis prod.collapse)
  then show ?thesis
    by (auto simp: leaves_def delivers_def write_piece_def split: list.splits bool.splits)
qed

lemma leaves_delivers_publish:
  assumes "i \<in> fd_id ` set fl" and "map_of tokens i = Some t" and "m \<in> M" and "is_string m"
    and "de_header X (msg_data m) = Some \<lparr>fh_id = i, fh_token = t\<rparr>"
  shows "leaves (delivers X fl tokens M) (publish_receiving i)"
proof -
  have "delivered_ok X fl tokens M (i, [])" using assms by (auto simp: delivered_ok_def)
  then show ?thesis by (auto simp: leaves_def delivers_def publish_receiving_def)
qed

lemma find_id: "find (\<lambda>f. fd_id f = i) fl = Some d \<Longrightarrow> i \<in> fd_id ` set fl"
  by (metis (mono_tags, lifting) find_Some_iff image_eqI nth_mem)

lemma leaves_delivers_start:
  assumes "m \<in> M" and "is_string m"
  shows "leaves (delivers X fl tokens M) (start_file X fl tokens m)"
proof (cases "de_header X (msg_data m)")
  case (Some h)
  have "leaves (delivers X fl tokens M) (publish_receiving (fh_id h))"
    if "map_of tokens (fh_id h) = Some (fh_token h)" "find (\<lambda>f. fd_id f = fh_id h) fl = Some d" for d
    using that assms Some by (intro leaves_delivers_publish) (auto dest: find_id)
  then have "leaves (delivers X fl tokens M) (case map_of tokens (fh_id h) of
      None \<Rightarrow> bind_t (send_error (fh_id h) ''File not found'') (\<lambda>_. return_t (Continue None))
    | Some entry \<Rightarrow>
        if fh_token h \<noteq> entry then
          bind_t (send_error (fh_id h) ''Invalid token'') (\<lambda>_. return_t (Continue None))
        else
          (case find (\<lambda>f. fd_id f = fh_id h) fl of
             None \<Rightarrow> bind_t (send_error (fh_id h) ''Expected size to be available'') (\<lambda>_. return_t (Continue None))
           | Some file \<Rightarrow> bind_t (publish_receiving (fh_id h)) (\<lambda>_.
               return_t (Continue (Some \<lparr>fs_file_id = fh_id h, fs_size = fd_size file\<rparr>)))))"
    by (auto intro!: leaves_delivers split: option.splits)
  with Some show ?thesis by (simp add: start_file_def leaves_def bind_t_def parse_json_def)
next
  case None
  then show ?thesis
    by (simp add: start_file_def leaves_def bind_t_def parse_json_def delivers_def)
qed

lemma leaves_delivers_message:
  assumes "m \<in> M"
  shows "leaves (delivers X fl tokens M) (file_message X fl tokens st m)"
  using assms leaves_delivers_start [OF assms] leaves_delivers_write [OF assms]
  unfolding file_message_def finish_file_def Let_def
  by (auto intro!: leaves_delivers split: option.splits)

lemma receive_loop_delivers:
  assumes "w_in w = ms" and "set ms \<subseteq> M" and "\<forall>d \<in> set (rw_received w). delivered_ok X fl tokens M d"
    and "receive_files_loop X fl tokens st ms w = (r, w')"
  shows "(\<forall>d \<in> set (rw_received w'). delivered_ok X fl tokens M d) \<and> rw_files w' = rw_files w"
  using assms
proof (induction ms arbitrary: st w)
  case Nil
  then have "rw_received w' = rw_received w" "rw_files w' = rw_files w" by (auto simp: bind_t_def recv_def split: if_splits)
  with Nil show ?case by simp
next
  case (Cons m ms)
  let ?w = "w\<lparr>w_in := ms\<rparr>"
  obtain q v where q: "file_message X fl tokens st m ?w = (q, v)" by fastforce
  with Cons.prems(2) have "delivers X fl tokens M ?w v" by (intro leavesD [OF leaves_delivers_message]) auto
  then have v: "w_in v = ms" "\<forall>d \<in> set (rw_received v). delivered_ok X fl tokens M d" "rw_files v = rw_files w"
    using Cons.prems(3) by (auto simp: delivers_def)
  show ?case
    using Cons.prems(1,2,4) Cons.IH [OF v(1) _ v(2)] q v(2,3)
    by (auto simp: bind_t_def recv_def split: res.splits file_step.splits)
qed

text \<open>A task that has delivered something has passed the phases before the loop.\<close>

lemma delivered_phase:
  assumes "bind_t t f w = (r, w')" and "leaves undelivered t"
    and "rw_received w = []" and "d \<in> set (rw_received w')"
  obtains x v where "t w = (Ok x, v)" "f x v = (r, w')" "undelivered w v" "rw_received v = []"
  using assms(1)
proof (cases rule: bind_t_cases)
  case (stop q)
  with assms(2-4) show thesis by (auto dest!: leavesD simp: undelivered_def)
next
  case (go x v)
  with assms(2) have "undelivered w v" by (blast intro: leavesD)
  with go assms(3) that show thesis by (auto simp: undelivered_def)
qed

text \<open>
  C1: whatever the sender does and however the run ends, every file the application of the
  receiver is handed was selected by its user and stands in the list the sender has offered, which is
  the one the user was shown; its header carried the token made for it, and its contents are binary
  messages that did arrive.
\<close>

theorem receiver_delivers_selected:
  assumes "receive_task X rn new_token rk key pin w = (r, w')" and "rw_received w = []"
    and "d \<in> set (rw_received w')"
  shows "\<exists>sel fl. rw_selection w = SelectionFiles sel \<and> fst d \<in> set sel \<and>
    rw_files w' = Some fl \<and> offered_list X (w_in w) fl \<and> fst d \<in> fd_id ` set fl \<and>
    delivered_ok X fl (make_file_tokens new_token sel) (set (w_in w)) d"
proof -
  note phase = delivered_phase [OF _ _ _ assms(3)]
  let ?last = "\<lambda>fl selected. case selected of None \<Rightarrow> return_t () | Some tokens \<Rightarrow> receiver_files X fl tokens"
  let ?after = "\<lambda>fl. bind_t (send_status Connected) (\<lambda>_.
    bind_t (receiver_selection X new_token fl) (?last fl))"
  from assms(1) obtain n v1 where v1: "undelivered w v1" "rw_received v1 = []"
    and 1: "bind_t (receiver_token X rk key pin n) (\<lambda>_. bind_t (receiver_verify_pin X pin) (\<lambda>_.
      bind_t (receiver_file_list X) ?after)) v1 = (r, w')"
    unfolding receive_task_def by (rule phase) (use assms(2) in auto)
  from 1 obtain u v2 where v2: "undelivered v1 v2" "rw_received v2 = []"
    and 2: "bind_t (receiver_verify_pin X pin) (\<lambda>_. bind_t (receiver_file_list X) ?after) v2 = (r, w')"
    by (rule phase) (use v1 in auto)
  from 2 obtain u v3 where v3: "undelivered v2 v3" "rw_received v3 = []"
    and 3: "bind_t (receiver_file_list X) ?after v3 = (r, w')"
    by (rule phase) (use v2 in auto)
  from 3 obtain fl v4 where v4: "undelivered v3 v4" "rw_received v4 = []" and 4: "?after fl v4 = (r, w')"
    and list: "receiver_file_list X v3 = (Ok fl, v4)"
    by (rule phase) (use v3 in auto)
  from 4 obtain u v5 where v5: "undelivered v4 v5" "rw_received v5 = []"
    and 5: "bind_t (receiver_selection X new_token fl) (?last fl) v5 = (r, w')"
    by (rule phase) (use v4 in auto)
  from 5 obtain selected v6 where v6: "undelivered v5 v6" "rw_received v6 = []"
    and sel: "receiver_selection X new_token fl v5 = (Ok selected, v6)"
    and 6: "?last fl selected v6 = (r, w')"
    by (rule phase) (use v5 in auto)
  from 6 v6(2) assms(3) obtain tokens where tokens: "selected = Some tokens" by (cases selected) auto
  with sel obtain sl where sl: "rw_selection v5 = SelectionFiles sl" "tokens = make_file_tokens new_token sl"
    "rw_files v6 = Some fl"
    using receiver_selection_SomeD by metis
  have 7: "undelivered w v5"
    using v1(1) v2(1) v3(1) v4(1) v5(1) transpD [OF undelivered_order(2)] by meson
  then have "undelivered w v6" using v6(1) transpD [OF undelivered_order(2)] by meson
  with 7 have w: "rw_selection v5 = rw_selection w" "set (w_in v6) \<subseteq> set (w_in w)"
    by (auto simp: undelivered_def dest!: set_mono_suffix)
  have "undelivered w v3" using v1(1) v2(1) v3(1) transpD [OF undelivered_order(2)] by meson
  then have offered: "offered_list X (w_in w) fl"
    using receiver_file_list_offered [OF list] by (auto simp: undelivered_def intro: offered_list_suffix)
  have "delivered_ok X fl tokens (set (w_in w)) d" "rw_files w' = Some fl"
    using receive_loop_delivers [OF refl w(2), of X fl tokens None r w'] 6 v6(2) assms(3)
    by (auto simp: tokens receiver_files_def sl(3))
  moreover from this(1) have "fst d \<in> set (map fst tokens)" "fst d \<in> fd_id ` set fl"
    by (auto simp: delivered_ok_def dest!: map_of_SomeD intro: rev_image_eqI)
  ultimately show ?thesis using sl w(1) offered by auto
qed

text \<open>The witness is the whole transfer.\<close>

theorem receiver_delivers_selected_witness:
  "\<exists>sent r' d. d \<in> set (rw_received r') \<and>
     receive_task sample_rtc (replicate 32 7) (\<lambda>i. ''t'') \<lparr>sk_inner = [2]\<rparr> None None (receiver_sample sent) = (Ok (), r') \<and>
     fst d \<in> set [''a''] \<and> (\<exists>fl. rw_files r' = Some fl \<and> offered_list sample_rtc sent fl \<and> fst d \<in> fd_id ` set fl)"
proof -
  have "(receiver_sample [])\<lparr>w_pins := [], w_in := ms\<rparr> = receiver_sample ms" for ms
    by (simp add: receiver_sample_def)
  with session_exchange [OF sample_session sample_possible, of None "[]" None "[]" "[]" "[]" "\<lambda>i. ''t''"]
  obtain sent r' where run: "receive_task sample_rtc (replicate 32 7) (\<lambda>i. ''t'') \<lparr>sk_inner = [2]\<rparr> None None
      (receiver_sample sent) = (Ok (), r')" and "rw_received r' \<noteq> []"
    by (auto simp: guesses_for_def pins_given_def given_def sender_sample_def)
  then obtain d where d: "d \<in> set (rw_received r')" by (cases "rw_received r'") auto
  from receiver_delivers_selected [OF run _ d] have "fst d \<in> set [''a''] \<and>
      (\<exists>fl. rw_files r' = Some fl \<and> offered_list sample_rtc sent fl \<and> fst d \<in> fd_id ` set fl)"
    by (fastforce simp: receiver_sample_def)
  with run d show ?thesis by blast
qed

section \<open>The transfer of no files\<close>

text \<open>
  C35: the delimiter is only recognised when a file is open. A sender whose application sends no
  file writes the delimiter and waits; the receiver reads it as a header and fails, so the sender
  is not answered.
\<close>

theorem empty_transfer_fails:
  assumes "serde_ok X" and "healthy w" and "sw_selected_open w" and "sw_files_closed w" and "sw_files w = []"
    and "w_in w = []" and "\<not> w_in_closed w"
  shows "fst (sender_files X l w) = Wait \<and>
    w_out (snd (sender_files X l w)) = w_out w @ [Text ''0''] \<and>
    receiver_files X fl tokens (v\<lparr>w_in := [Text ''0'']\<rparr>) =
      (Err (Lib ''serde_json error''), v\<lparr>w_in := []\<rparr>)"
proof -
  have "w_sends w = []" using assms(2) by (simp add: healthy_def)
  from sender_files_waits [OF this assms(3,4) _ assms(6,7), of l X] assms(5)
  have "fst (sender_files X l w) = Wait \<and> w_out (snd (sender_files X l w)) = w_out w @ [Text ''0'']"
    by (simp add: transfer_messages_def)
  moreover have "receiver_files X fl tokens (v\<lparr>w_in := [Text ''0'']\<rparr>) =
      (Err (Lib ''serde_json error''), v\<lparr>w_in := []\<rparr>)"
    using serde_okD(12) [OF assms(1)]
    by (simp add: receiver_files_def bind_t_def recv_def file_message_def start_file_def parse_json_def)
  ultimately show ?thesis by simp
qed

theorem empty_transfer_fails_witness:
  "fst (receiver_files sample_rtc [] [] (receiver_sample [Text ''0''])) = Err (Lib ''serde_json error'')"
  using empty_transfer_fails [of sample_rtc "sender_sample [] []\<lparr>sw_files := []\<rparr>" "[]" "[]" "[]" "receiver_sample []"]
  by (simp add: healthy_def sender_sample_def receiver_sample_def)

section \<open>Witnesses of the gates\<close>

text \<open>A peer that shows a token it has made up.\<close>

theorem sender_waits_for_key_witness:
  "\<exists>r w'. send_task sample_rtc (replicate 32 7) \<lparr>sk_inner = [1]\<rparr>
       (Some (to_verifying_key sample_crypto \<lparr>sk_inner = [2]\<rparr>)) None []
       (sender_sample [nonce_message sample_rtc (replicate 32 7), token_answer sample_rtc ''a.b.c.d.e''] []) = (r, w') \<and>
     r \<noteq> Ok () \<and> w_status w' = [] \<and> length (w_out w') \<le> 2"
proof -
  let ?key = "to_verifying_key sample_crypto \<lparr>sk_inner = [2]\<rparr>"
  let ?w = "sender_sample [nonce_message sample_rtc (replicate 32 7), token_answer sample_rtc ''a.b.c.d.e''] []"
  have "verify_token_nonce sample_crypto ?key ''a.b.c.d.e'' n \<noteq> Ok True" for n
    by (simp add: verify_token_nonce_def verify_token_with_result_def)
  then have unproved: "\<not> proved_key sample_rtc (replicate 32 7) ?key (w_in ?w)"
    by (auto simp: proved_key_def sender_sample_def token_answer_def serde_okD)
  obtain r w' where run: "send_task sample_rtc (replicate 32 7) \<lparr>sk_inner = [1]\<rparr> (Some ?key) None [] ?w = (r, w')"
    by fastforce
  from sender_waits_for_key [OF run unproved] have "r \<noteq> Ok ()" "w_status w' = []" "length (w_out w') \<le> 2"
    by (auto simp: sender_sample_def dest!: prefix_length_le)
  with run show ?thesis by blast
qed

text \<open>A session in which the sender's PIN is given at the first attempt.\<close>

lemma sender_pin_given:
  assumes "serde_ok X" and "healthy w" and "w_in w = [Text (ser_pin X p)]" and "p \<noteq> ''''" and "\<not> w_in_closed w"
  shows "\<exists>w'. sender_pins X (TokenOk t) (Some \<lparr>pc_pin = p, pc_max_tries = 3\<rparr>) w = (Ok (), w') \<and>
    healthy w' \<and> w_in w' = [] \<and> \<not> w_in_closed w'"
  using assms verify_pin_loop_passes [of X "\<lparr>pc_pin = p, pc_max_tries = 3\<rparr>"]
  by (simp add: sender_pins_def verify_pin_def verify_pin_turn_def bind_t_def
      healthy_def send_status_def sender_send_result_def send_string_in_chunks_sends send_delimiter_sends
      recv_def parse_json_def serde_okD)

lemma sender_connects:
  assumes s: "session_ok X sk rk skey rkey sn rn st rt" and w: "healthy w" "\<not> w_in_closed w" and p: "p \<noteq> ''''"
    and ms: "w_in w = [nonce_message X rn, token_answer X rt, Text (ser_pin X p)]"
  shows "Connected \<in> set (w_status (snd (send_task X sn sk skey (Some \<lparr>pc_pin = p, pc_max_tries = 3\<rparr>) files w)))"
proof -
  let ?v = "w\<lparr>w_buffered := drop_until_zero (w_buffered w),
    w_out := w_out w @ [nonce_message X sn, token_request X st], w_in := [Text (ser_pin X p)]\<rparr>"
  have X: "serde_ok X" using s by (simp add: session_ok_def)
  obtain u where u: "sender_pins X (TokenOk rt) (Some \<lparr>pc_pin = p, pc_max_tries = 3\<rparr>) ?v = (Ok (), u)"
    "healthy u" "w_in u = []" "\<not> w_in_closed u"
    using sender_pin_given [OF X, of ?v p rt] w p by (auto simp: healthy_def)
  then show ?thesis
    using w ms
    by (simp add: send_task_def bind_t_def wait_buffer_empty_def session_runs(1,2) [OF s] healthy_def
        send_status_def sender_file_list_runs sender_file_map_waits)
qed

theorem sender_connects_with_pin_witness:
  "\<exists>r w'. send_task sample_rtc (replicate 32 7) \<lparr>sk_inner = [1]\<rparr>
       (Some (to_verifying_key sample_crypto \<lparr>sk_inner = [2]\<rparr>)) (Some \<lparr>pc_pin = ''7'', pc_max_tries = 3\<rparr>) []
       (sender_sample [nonce_message sample_rtc (replicate 32 7), token_answer sample_rtc (sample_session_token [2]),
         Text (ser_pin sample_rtc ''7'')] []) = (r, w') \<and>
     Connected \<in> set (w_status w') \<and>
     (\<exists>k. 0 < k \<and> 2 + k \<le> 3 \<and> de_pin sample_rtc (msg_data
       ([nonce_message sample_rtc (replicate 32 7), token_answer sample_rtc (sample_session_token [2]),
         Text (ser_pin sample_rtc ''7'')] ! (1 + k))) = Some ''7'')"
proof -
  let ?key = "to_verifying_key sample_crypto \<lparr>sk_inner = [2]\<rparr>" and ?pin = "\<lparr>pc_pin = ''7'', pc_max_tries = 3\<rparr>"
  let ?ms = "[nonce_message sample_rtc (replicate 32 7), token_answer sample_rtc (sample_session_token [2]),
    Text (ser_pin sample_rtc ''7'')]"
  obtain r w' where run: "send_task sample_rtc (replicate 32 7) \<lparr>sk_inner = [1]\<rparr> (Some ?key) (Some ?pin) []
      (sender_sample ?ms []) = (r, w')" by fastforce
  have "Connected \<in> set (w_status (snd (send_task sample_rtc (replicate 32 7) \<lparr>sk_inner = [1]\<rparr> (Some ?key) (Some ?pin) []
      (sender_sample ?ms []))))"
    by (rule sender_connects [OF sample_session]) (simp_all add: healthy_def sender_sample_def)
  then have connected: "Connected \<in> set (w_status w')" by (simp only: run snd_conv)
  have w: "w_in (sender_sample ?ms []) = ?ms" "w_pins (sender_sample ?ms []) = []" "w_status (sender_sample ?ms []) = []"
    by (simp_all add: sender_sample_def)
  have "\<exists>k. 0 < k \<and> k \<le> unat (pc_max_tries ?pin) \<and> 2 + 0 + k \<le> length ?ms \<and>
      de_pin sample_rtc (msg_data (?ms ! (1 + 0 + k))) = Some (pc_pin ?pin)"
    using sender_connects_with_pin [OF run _ _ connected] unfolding w by simp
  then have "\<exists>k. 0 < k \<and> 2 + k \<le> 3 \<and> de_pin sample_rtc (msg_data (?ms ! (1 + k))) = Some ''7''"
    by (simp only: add_0_right list.size) auto
  with run connected show ?thesis by blast
qed

end
