(* ===== verification/Ip_Text.thy ===== *)
theory Ip_Text
  imports Json_Text
begin

text \<open>
  IP addresses of Rust's standard library and their text (\<open>Display\<close>): the signaling server groups
  its clients by it, the HTTP server and client identify a peer without a certificate by it.
\<close>

datatype ip_addr = V4 u8 u8 u8 u8 | V6 u16 u16 u16 u16 u16 u16 u16 u16

definition hex_segments :: "u16 list \<Rightarrow> string" where
  "hex_segments ss = join_with CHR '':'' (map (\<lambda>s. show_hex (unat s)) ss)"

definition ipv4_to_string :: "u8 \<Rightarrow> u8 \<Rightarrow> u8 \<Rightarrow> u8 \<Rightarrow> string" where
  "ipv4_to_string a b c d =
     join_with CHR ''.'' [show_nat (unat a), show_nat (unat b), show_nat (unat c), show_nat (unat d)]"

text \<open>
  The first of the longest runs of zero segments, as start and length: \<open>longest\<close> so far and the
  run that ends before segment \<open>i\<close>.
\<close>

fun zero_run :: "nat \<Rightarrow> nat \<times> nat \<Rightarrow> nat \<times> nat \<Rightarrow> u16 list \<Rightarrow> nat \<times> nat" where
  "zero_run i longest current [] = longest"
| "zero_run i longest (start, len) (s # ss) =
     (if s = 0 then
        (let current = (if len = 0 then i else start, len + 1)
         in zero_run (i + 1) (if snd current > snd longest then current else longest) current ss)
      else zero_run (i + 1) longest (0, 0) ss)"

definition ipv6_to_string :: "u16 list \<Rightarrow> string" where
  "ipv6_to_string ss =
     (if take 6 ss = [0, 0, 0, 0, 0, 0xFFFF] then
        ''::ffff:'' @ ipv4_to_string (ucast (drop_bit 8 (ss ! 6))) (ucast (ss ! 6))
          (ucast (drop_bit 8 (ss ! 7))) (ucast (ss ! 7))
      else
        (case zero_run 0 (0, 0) (0, 0) ss of
           (start, len) \<Rightarrow>
             if len > 1 then hex_segments (take start ss) @ ''::'' @ hex_segments (drop (start + len) ss)
             else hex_segments ss))"

fun ip_to_string :: "ip_addr \<Rightarrow> string" where
  "ip_to_string (V4 a b c d) = ipv4_to_string a b c d"
| "ip_to_string (V6 s0 s1 s2 s3 s4 s5 s6 s7) = ipv6_to_string [s0, s1, s2, s3, s4, s5, s6, s7]"

lemmas ip_text_simps = ipv6_to_string_def hex_segments_def ipv4_to_string_def show_hex.simps show_nat.simps
  hex_char_def digit_char_def

lemma ip_to_string_samples:
  "ip_to_string (V4 192 168 0 1) = ''192.168.0.1''"
  "ip_to_string (V6 0 0 0 0 0 0 0 1) = ''::1''"
  "ip_to_string (V6 0 0 0 0 0 0 0 0) = ''::''"
  "ip_to_string (V6 0xFE80 0 0 0 1 0 0 0xAB) = ''fe80::1:0:0:ab''"
  "ip_to_string (V6 0 0 0 0 0 0xFFFF 0xC0A8 1) = ''::ffff:192.168.0.1''"
  by (simp_all add: ip_text_simps) (code_simp+)

end
