(* ===== verification/Signaling_Server.thy ===== *)
theory Signaling_Server
  imports Wire_Messages Ip_Text
begin

text \<open>
  The signaling server (\<open>server/src\<close>). Peers of one IP group see each other: a connection is
  registered in the group's map, announced to the others, greeted with the list of the others, and
  from then on its updates, offers and answers are forwarded within the group.

  The operations are functions on the two shared maps (each runs under the lock of the map it
  uses), and the messages an operation sends are returned as a list of pending sends. The step
  relation \<open>server_step\<close> interleaves the connections: between two pending sends of one connection
  anything may happen, a channel holds at most four messages, a send to a full channel waits.
\<close>

section \<open>IP groups\<close>

fun get_ip_group :: "ip_addr \<Rightarrow> string" where
  "get_ip_group (V4 a b c d) = ip_to_string (V4 a b c d)"
| "get_ip_group (V6 s0 s1 s2 s3 s4 s5 s6 s7) =
     hex_segments [s0, s1, s2, s3]"

section \<open>The shared state\<close>

text \<open>
  \<open>TxMap\<close>: group, peer, state of the client; the channel of a peer is found by its id in
  \<open>channels\<close>. \<open>IpRequestCountMap\<close> counts the requests of a group.
\<close>

type_synonym tx_local_map = "(uuid \<times> client_info_without_id) list"
type_synonym tx_map = "(string \<times> tx_local_map) list"
type_synonym request_count_map = "(string \<times> u32) list"

record server_config =
  MAX_CONNECTIONS :: nat
  MAX_REQUESTS :: u32

type_synonym pending = "(uuid \<times> ws_server_message) list"

definition local_map :: "tx_map \<Rightarrow> string \<Rightarrow> tx_local_map" where
  "local_map m g = (case map_of m g of None \<Rightarrow> [] | Some l \<Rightarrow> l)"

section \<open>The operations\<close>

definition protect_ddos_request_count ::
  "server_config \<Rightarrow> string \<Rightarrow> request_count_map \<Rightarrow> unit option \<times> request_count_map" where
  "protect_ddos_request_count cfg ip_group counts =
     (let count = (case map_of counts ip_group of None \<Rightarrow> 0 | Some c \<Rightarrow> c)
      in if count \<ge> MAX_REQUESTS cfg then (None, AList.update ip_group count counts)
         else (Some (), AList.update ip_group (count + 1) counts))"

text \<open>
  The locked block of \<open>handle_socket\<close>: the others of the group and their infos, or \<open>None\<close> when a
  limit is reached. The entry of the group is made before the limits are checked.
\<close>

definition register_peer ::
  "server_config \<Rightarrow> string \<Rightarrow> client_info \<Rightarrow> tx_map \<Rightarrow> request_count_map \<Rightarrow>
   (uuid list \<times> client_info list) option \<times> tx_map \<times> request_count_map" where
  "register_peer cfg ip_group peer m counts =
     (let tx_local_map = local_map m ip_group;
          m = AList.update ip_group tx_local_map m
      in if length tx_local_map \<ge> MAX_CONNECTIONS cfg then (None, m, counts)
         else
           (case protect_ddos_request_count cfg ip_group counts of
              (None, counts) \<Rightarrow> (None, m, counts)
            | (Some _, counts) \<Rightarrow>
                (Some (map fst tx_local_map, map (\<lambda>(k, v). client_info_from v k) tx_local_map),
                 AList.update ip_group
                   (AList.update (ci_id peer) (client_info_strip peer) tx_local_map) m,
                 counts)))"

text \<open>What the connection then sends: \<open>Join\<close> to each of the others, \<open>Hello\<close> to itself.\<close>

definition announcements :: "client_info \<Rightarrow> uuid list \<Rightarrow> client_info list \<Rightarrow> pending" where
  "announcements peer peers_tx peers =
     map (\<lambda>t. (t, SJoin peer)) peers_tx @ [(ci_id peer, SHello peer peers)]"

definition send_update_to_other_peers ::
  "tx_map \<Rightarrow> string \<Rightarrow> uuid \<Rightarrow> client_info_without_id \<Rightarrow> tx_map \<times> pending" where
  "send_update_to_other_peers m ip_group peer_id info =
     (case map_of m ip_group of
        None \<Rightarrow> (m, [])
      | Some tx_local_map \<Rightarrow>
          (case map_of tx_local_map peer_id of
             None \<Rightarrow> (m, [])
           | Some _ \<Rightarrow>
               let l = AList.update peer_id info tx_local_map
               in (AList.update ip_group l m,
                   map (\<lambda>(k, _). (k, SUpdate (client_info_from info peer_id)))
                     (filter (\<lambda>(k, _). k \<noteq> peer_id) l))))"

datatype ws_client_sdp_message_wrapper = WOffer ws_client_sdp_message | WAnswer ws_client_sdp_message

fun wrapped :: "ws_client_sdp_message_wrapper \<Rightarrow> ws_client_sdp_message" where
  "wrapped (WOffer m) = m"
| "wrapped (WAnswer m) = m"

definition send_to_peer ::
  "tx_map \<Rightarrow> string \<Rightarrow> client_info \<Rightarrow> ws_client_sdp_message_wrapper \<Rightarrow> pending" where
  "send_to_peer m ip_group origin_peer message =
     (let target = cs_target (wrapped message);
          sdp_message = \<lparr>ss_peer = origin_peer, ss_session_id = cs_session_id (wrapped message),
            ss_sdp = cs_sdp (wrapped message)\<rparr>
      in case map_of m ip_group of
           None \<Rightarrow> []
         | Some tx_local_map \<Rightarrow>
             (case map_of tx_local_map target of
                None \<Rightarrow> []
              | Some _ \<Rightarrow>
                  [(target, case message of WOffer _ \<Rightarrow> SOffer sdp_message | WAnswer _ \<Rightarrow> SAnswer sdp_message)]))"

text \<open>
  One decoded message in \<open>recv_task\<close>: the sends it causes, and whether the task goes on. \<open>peer\<close> is
  the info of the registration; an \<open>Update\<close> changes the map only.
\<close>

definition handle_client_message ::
  "server_config \<Rightarrow> string \<Rightarrow> client_info \<Rightarrow> ws_client_message \<Rightarrow> tx_map \<Rightarrow> request_count_map \<Rightarrow>
   bool \<times> pending \<times> tx_map \<times> request_count_map" where
  "handle_client_message cfg ip_group peer msg m counts =
     (case protect_ddos_request_count cfg ip_group counts of
        (None, counts) \<Rightarrow> (False, [(ci_id peer, SError 429)], m, counts)
      | (Some _, counts) \<Rightarrow>
          (case msg of
             CUpdate info \<Rightarrow>
               (case send_update_to_other_peers m ip_group (ci_id peer) info of
                  (m, sends) \<Rightarrow> (True, sends, m, counts))
           | COffer sdp \<Rightarrow> (True, send_to_peer m ip_group peer (WOffer sdp), m, counts)
           | CAnswer sdp \<Rightarrow> (True, send_to_peer m ip_group peer (WAnswer sdp), m, counts)))"

text \<open>The end of \<open>handle_socket\<close>: the map without the peer, and the others who are told.\<close>

definition unregister_peer :: "string \<Rightarrow> uuid \<Rightarrow> tx_map \<Rightarrow> tx_map \<times> uuid list" where
  "unregister_peer ip_group peer_id m =
     (case map_of m ip_group of
        Some tx_local_map \<Rightarrow>
          let l = AList.delete peer_id tx_local_map
          in if l = [] then (AList.delete ip_group m, [])
             else (AList.update ip_group l m, map fst l)
      | None \<Rightarrow> (m, []))"

section \<open>Connections\<close>

text \<open>
  The phases of \<open>handle_socket\<close>: announcing before its two tasks run; running; finishing once
  \<open>recv_task\<close> is about to return on the request limit; leaving after the \<open>select\<close>.
\<close>

datatype conn_phase = Announcing | Running | Finishing | Leaving

record ws_conn =
  wc_group :: string
  wc_peer :: client_info
  wc_phase :: conn_phase
  wc_pending :: pending

record server_state =
  ss_tx_map :: tx_map
  ss_counts :: request_count_map
  ss_channels :: "uuid \<Rightarrow> ws_server_message list"
  ss_sockets :: "uuid \<Rightarrow> ws_server_message list"
  ss_conns :: "uuid \<Rightarrow> ws_conn option"

definition AppState_new :: server_state where
  "AppState_new = \<lparr>ss_tx_map = [], ss_counts = [], ss_channels = (\<lambda>_. []), ss_sockets = (\<lambda>_. []),
     ss_conns = (\<lambda>_. None)\<rparr>"

definition CHANNEL_SIZE :: nat where "CHANNEL_SIZE = 4"

text \<open>The receiving end of a peer's channel lives until its connection leaves.\<close>

definition listening :: "server_state \<Rightarrow> uuid \<Rightarrow> bool" where
  "listening s t \<longleftrightarrow> (\<exists>c. ss_conns s t = Some c \<and> wc_phase c \<noteq> Leaving)"

text \<open>\<open>Uuid::new_v4\<close> is taken to give an id that was not used before.\<close>

inductive server_step :: "server_config \<Rightarrow> server_state \<Rightarrow> server_state \<Rightarrow> bool" for cfg where
  connect:
    "ss_conns s (ci_id peer) = None \<Longrightarrow>
     register_peer cfg g peer (ss_tx_map s) (ss_counts s) = (Some (peers_tx, peers), m, counts) \<Longrightarrow>
     server_step cfg s
       (s\<lparr>ss_tx_map := m, ss_counts := counts,
          ss_conns := (ss_conns s)(ci_id peer \<mapsto>
            \<lparr>wc_group = g, wc_peer = peer, wc_phase = Announcing,
             wc_pending = announcements peer peers_tx peers\<rparr>)\<rparr>)"
| refuse:
    "register_peer cfg g peer (ss_tx_map s) (ss_counts s) = (None, m, counts) \<Longrightarrow>
     server_step cfg s (s\<lparr>ss_tx_map := m, ss_counts := counts\<rparr>)"
| deliver:
    "ss_conns s i = Some c \<Longrightarrow> wc_pending c = (t, msg) # rest \<Longrightarrow> listening s t \<Longrightarrow>
     length (ss_channels s t) < CHANNEL_SIZE \<Longrightarrow>
     server_step cfg s
       (s\<lparr>ss_channels := (ss_channels s)(t := ss_channels s t @ [msg]),
          ss_conns := (ss_conns s)(i \<mapsto> c\<lparr>wc_pending := rest\<rparr>)\<rparr>)"
| skip:
    "ss_conns s i = Some c \<Longrightarrow> wc_pending c = (t, msg) # rest \<Longrightarrow> \<not> listening s t \<Longrightarrow>
     server_step cfg s (s\<lparr>ss_conns := (ss_conns s)(i \<mapsto> c\<lparr>wc_pending := rest\<rparr>)\<rparr>)"
| start:
    "ss_conns s i = Some c \<Longrightarrow> wc_phase c = Announcing \<Longrightarrow> wc_pending c = [] \<Longrightarrow>
     server_step cfg s (s\<lparr>ss_conns := (ss_conns s)(i \<mapsto> c\<lparr>wc_phase := Running\<rparr>)\<rparr>)"
| client:
    "ss_conns s i = Some c \<Longrightarrow> wc_phase c = Running \<Longrightarrow> wc_pending c = [] \<Longrightarrow>
     handle_client_message cfg (wc_group c) (wc_peer c) msg (ss_tx_map s) (ss_counts s) =
       (go_on, sends, m, counts) \<Longrightarrow>
     server_step cfg s
       (s\<lparr>ss_tx_map := m, ss_counts := counts,
          ss_conns := (ss_conns s)(i \<mapsto>
            c\<lparr>wc_pending := sends, wc_phase := if go_on then Running else Finishing\<rparr>)\<rparr>)"
| write_out:
    "ss_conns s i = Some c \<Longrightarrow> wc_phase c \<in> {Running, Finishing} \<Longrightarrow> ss_channels s i = msg # msgs \<Longrightarrow>
     server_step cfg s
       (s\<lparr>ss_channels := (ss_channels s)(i := msgs),
          ss_sockets := (ss_sockets s)(i := ss_sockets s i @ [msg])\<rparr>)"
| leave:
    "ss_conns s i = Some c \<Longrightarrow> wc_phase c \<in> {Running, Finishing} \<Longrightarrow>
     unregister_peer (wc_group c) i (ss_tx_map s) = (m, remaining) \<Longrightarrow>
     server_step cfg s
       (s\<lparr>ss_tx_map := m, ss_channels := (ss_channels s)(i := []),
          ss_conns := (ss_conns s)(i \<mapsto>
            c\<lparr>wc_phase := Leaving, wc_pending := map (\<lambda>t. (t, SLeft i)) remaining\<rparr>)\<rparr>)"
| hour: "server_step cfg s (s\<lparr>ss_counts := []\<rparr>)"

definition server_reachable :: "server_config \<Rightarrow> server_state \<Rightarrow> bool" where
  "server_reachable cfg s \<longleftrightarrow> (server_step cfg)\<^sup>*\<^sup>* AppState_new s"

section \<open>The request that opens a connection\<close>

text \<open>\<open>HeaderValue::to_str\<close> accepts visible ASCII and tabs; \<open>str::trim\<close> on such a text.\<close>

definition header_to_str :: "byte list \<Rightarrow> string option" where
  "header_to_str v = (if \<forall>b \<in> set v. 32 \<le> b \<and> b < 127 \<or> b = 9 then Some (of_bytes v) else None)"

definition is_blank :: "char \<Rightarrow> bool" where
  "is_blank c \<longleftrightarrow> c = CHR '' '' \<or> c = CHR 0x09"

definition trim :: "string \<Rightarrow> string" where
  "trim s = rev (dropWhile is_blank (rev (dropWhile is_blank s)))"

text \<open>
  The peer's address: the last component of \<open>x-forwarded-for\<close> when there is one and it parses
  (\<open>parse_ip\<close> is \<open>IpAddr::from_str\<close>), the socket's address otherwise.
\<close>

definition client_ip :: "(string \<Rightarrow> ip_addr option) \<Rightarrow> byte list option \<Rightarrow> ip_addr \<Rightarrow> ip_addr" where
  "client_ip parse_ip forwarded addr =
     (case Option.bind (Option.bind forwarded header_to_str)
             (\<lambda>v. parse_ip (trim (last (split_on CHR '','' v)))) of
        Some ip \<Rightarrow> ip
      | None \<Rightarrow> addr)"

text \<open>\<open>ws_handler\<close> up to the upgrade: status 400, or the arguments of \<open>handle_socket\<close>.\<close>

definition ws_handler ::
  "(string \<Rightarrow> byte list option) \<Rightarrow> (string \<Rightarrow> client_info_without_id option) \<Rightarrow> (string \<Rightarrow> ip_addr option) \<Rightarrow>
   string \<Rightarrow> byte list option \<Rightarrow> ip_addr \<Rightarrow> uuid \<Rightarrow> u16 + (string \<times> client_info)" where
  "ws_handler decode from_str parse_ip d forwarded addr new_id =
     (case Option.bind (Option.bind (decode d) from_utf8) from_str of
        None \<Rightarrow> Inl 400
      | Some register_dto \<Rightarrow>
          Inr (get_ip_group (client_ip parse_ip forwarded addr), client_info_from register_dto new_id))"

end
