(* ===== verification/Signaling_Server_Props.thy ===== *)
theory Signaling_Server_Props
  imports Signaling_Server
begin

text \<open>
  Correctness of the signaling server: the invariant of every reachable state (limits per group,
  who is registered, which peers a message may mention, how full a channel gets), what each
  operation does to the map of groups, and the two ways in which the code misbehaves that the
  interleaving shows: a greeting that is never delivered and an entry that is never removed.
\<close>

section \<open>Machines and their invariants\<close>

locale machine =
  fixes step :: "'s \<Rightarrow> 's \<Rightarrow> bool" and init :: 's and inv :: "'s \<Rightarrow> bool"
  assumes inv_init: "inv init"
    and inv_step: "inv s \<Longrightarrow> step s s' \<Longrightarrow> inv s'"
begin

lemma inv_run: "step\<^sup>*\<^sup>* s s' \<Longrightarrow> inv s \<Longrightarrow> inv s'"
  by (induction rule: rtranclp_induct) (auto intro: inv_step)

lemma reachable_inv: "step\<^sup>*\<^sup>* init s \<Longrightarrow> inv s"
  using inv_run inv_init by blast

end

section \<open>The map of groups\<close>

lemma local_map_simps [simp]:
  "local_map (AList.update g l m) g' = (if g' = g then l else local_map m g')"
  "local_map (AList.delete g m) g' = (if g' = g then [] else local_map m g')"
  "local_map [] g' = []"
  by (auto simp: local_map_def update_conv' delete_conv')

lemma keys_update:
  "fst ` set (AList.update k v l) = insert k (fst ` set l)"
  using dom_update [of k v l] by (simp add: dom_map_of_conv_image_fst)

lemma keys_delete: "fst ` set (AList.delete k l) = fst ` set l - {k}"
  by (auto simp: AList.delete_eq)

lemma length_update:
  "length (AList.update k v l) = (if k \<in> fst ` set l then length l else Suc (length l))"
  by (induction l) auto

lemma map_of_Some_key: "map_of l k = Some v \<Longrightarrow> k \<in> fst ` set l"
  by (auto dest: map_of_SomeD intro: rev_image_eqI)

lemma register_peer_Some:
  assumes "register_peer cfg g peer m counts = (Some (ids, peers), m', counts')"
  shows "local_map m' = (local_map m)(g := AList.update (ci_id peer) (client_info_strip peer) (local_map m g))"
    and "length (local_map m g) < MAX_CONNECTIONS cfg"
    and "ids = map fst (local_map m g)"
    and "peers = map (\<lambda>(k, v). client_info_from v k) (local_map m g)"
    and "protect_ddos_request_count cfg g counts = (Some (), counts')"
  using assms by (auto simp: register_peer_def Let_def split: if_splits prod.splits option.splits)

lemma register_peer_None:
  assumes "register_peer cfg g peer m counts = (None, m', counts')"
  shows "local_map m' = local_map m"
    and "counts' = counts \<or> protect_ddos_request_count cfg g counts = (None, counts')"
  using assms by (auto simp: register_peer_def Let_def split: if_splits prod.splits option.splits)

lemma send_update_effect:
  assumes "send_update_to_other_peers m g i info = (m', sends)"
  shows "\<exists>v. local_map m' = (if i \<in> fst ` set (local_map m g) then (local_map m)(g := AList.update i v (local_map m g)) else local_map m)"
    and "set sends \<subseteq> {(k, SUpdate (client_info_from info i)) | k. k \<in> fst ` set (local_map m g)}"
    and "sends \<noteq> [] \<Longrightarrow> i \<in> fst ` set (local_map m g)"
proof -
  consider (absent) "i \<notin> fst ` set (local_map m g)" "m' = m" "sends = []"
    | (here) l where "map_of m g = Some l" "i \<in> fst ` set l" "m' = AList.update g (AList.update i info l) m"
        "sends = map (\<lambda>(k, _). (k, SUpdate (client_info_from info i))) (filter (\<lambda>(k, _). k \<noteq> i) (AList.update i info l))"
    using assms
    by (auto simp: send_update_to_other_peers_def Let_def local_map_def map_of_eq_None_iff
        dest: map_of_Some_key split: option.splits)
  then have "(\<exists>v. local_map m' = (if i \<in> fst ` set (local_map m g) then (local_map m)(g := AList.update i v (local_map m g)) else local_map m)) \<and>
      set sends \<subseteq> {(k, SUpdate (client_info_from info i)) | k. k \<in> fst ` set (local_map m g)} \<and>
      (sends \<noteq> [] \<longrightarrow> i \<in> fst ` set (local_map m g))"
  proof cases
    case here
    have l: "local_map m g = l" using here(1) by (simp add: local_map_def)
    have "k \<in> fst ` set l" if "k \<in> fst ` set (AList.update i info l)" for k
      using that here(2) by (auto simp: keys_update)
    then have "set sends \<subseteq> {(k, SUpdate (client_info_from info i)) | k. k \<in> fst ` set l}"
      unfolding here(4) by (force simp: image_iff)
    moreover have "local_map m' = (local_map m)(g := AList.update i info l)"
      using here(3) by auto
    ultimately show ?thesis using here(2) l by auto
  qed auto
  then show "\<exists>v. local_map m' = (if i \<in> fst ` set (local_map m g) then (local_map m)(g := AList.update i v (local_map m g)) else local_map m)"
    and "set sends \<subseteq> {(k, SUpdate (client_info_from info i)) | k. k \<in> fst ` set (local_map m g)}"
    and "sends \<noteq> [] \<Longrightarrow> i \<in> fst ` set (local_map m g)"
    by blast+
qed

lemma local_map_key: "map_of m g = Some l \<Longrightarrow> map_of l k = Some v \<Longrightarrow> k \<in> fst ` set (local_map m g)"
  by (simp add: local_map_def map_of_Some_key)

lemma send_to_peer_effect:
  "set (send_to_peer m g origin w) \<subseteq>
     {(t, msg) | t msg. t \<in> fst ` set (local_map m g) \<and>
        (\<exists>sdp. ss_peer sdp = origin \<and> (msg = SOffer sdp \<or> msg = SAnswer sdp))}"
  by (auto simp: send_to_peer_def Let_def dest: local_map_key [OF sym sym]
      split: option.splits ws_client_sdp_message_wrapper.splits)

lemma unregister_effect:
  assumes "unregister_peer g i m = (m', remaining)"
  shows "local_map m' = (local_map m)(g := AList.delete i (local_map m g))"
    and "remaining = map fst (AList.delete i (local_map m g))"
  using assms by (auto simp: unregister_peer_def Let_def local_map_def fun_eq_iff delete_conv' update_conv'
      split: option.splits if_splits)

lemma protect_effect:
  assumes "protect_ddos_request_count cfg g counts = (q, counts')"
    and "\<forall>g c. map_of counts g = Some c \<longrightarrow> c \<le> MAX_REQUESTS cfg"
  shows "\<forall>g c. map_of counts' g = Some c \<longrightarrow> c \<le> MAX_REQUESTS cfg"
proof -
  let ?c = "case map_of counts g of None \<Rightarrow> 0 | Some c \<Rightarrow> c"
  have c: "?c \<le> MAX_REQUESTS cfg" using assms(2) by (auto split: option.splits)
  have "?c + 1 \<le> MAX_REQUESTS cfg" if "\<not> ?c \<ge> MAX_REQUESTS cfg"
    using that by (simp add: inc_le not_le)
  with assms c show ?thesis
    by (auto simp: protect_ddos_request_count_def Let_def update_conv' split: if_splits)
qed

section \<open>The invariant\<close>

text \<open>The peers a message tells its reader about.\<close>

fun mentions :: "ws_server_message \<Rightarrow> uuid set" where
  "mentions (SHello c ps) = insert (ci_id c) (ci_id ` set ps)"
| "mentions (SJoin p) = {ci_id p}"
| "mentions (SUpdate p) = {ci_id p}"
| "mentions (SLeft i) = {i}"
| "mentions (SOffer m) = {ci_id (ss_peer m)}"
| "mentions (SAnswer m) = {ci_id (ss_peer m)}"
| "mentions (SError _) = {}"

definition in_group :: "server_state \<Rightarrow> string \<Rightarrow> uuid \<Rightarrow> bool" where
  "in_group s g i \<longleftrightarrow> (\<exists>c. ss_conns s i = Some c \<and> wc_group c = g)"

definition registered :: "server_state \<Rightarrow> string \<Rightarrow> uuid set" where
  "registered s g = {i. \<exists>c. ss_conns s i = Some c \<and> wc_group c = g \<and> wc_phase c \<noteq> Leaving}"

definition maps_ok :: "server_config \<Rightarrow> server_state \<Rightarrow> bool" where
  "maps_ok cfg s \<longleftrightarrow>
     (\<forall>g. distinct (map fst (local_map (ss_tx_map s) g)) \<and>
          length (local_map (ss_tx_map s) g) \<le> MAX_CONNECTIONS cfg \<and>
          fst ` set (local_map (ss_tx_map s) g) = registered s g) \<and>
     (\<forall>g c. map_of (ss_counts s) g = Some c \<longrightarrow> c \<le> MAX_REQUESTS cfg)"

definition sends_ok :: "server_state \<Rightarrow> bool" where
  "sends_ok s \<longleftrightarrow>
     (\<forall>i c. ss_conns s i = Some c \<longrightarrow> ci_id (wc_peer c) = i \<and>
        (\<forall>(t, msg) \<in> set (wc_pending c). in_group s (wc_group c) t \<and>
           (\<forall>p \<in> mentions msg. in_group s (wc_group c) p)))"

definition channels_ok :: "server_state \<Rightarrow> bool" where
  "channels_ok s \<longleftrightarrow>
     (\<forall>i. length (ss_channels s i) \<le> CHANNEL_SIZE \<and>
        (\<forall>msg \<in> set (ss_channels s i) \<union> set (ss_sockets s i).
           \<exists>c. ss_conns s i = Some c \<and> (\<forall>p \<in> mentions msg. in_group s (wc_group c) p)))"

definition server_inv :: "server_config \<Rightarrow> server_state \<Rightarrow> bool" where
  "server_inv cfg s \<longleftrightarrow> maps_ok cfg s \<and> sends_ok s \<and> channels_ok s"

text \<open>A connection keeps its group and its peer for ever, so what is in the group stays there.\<close>

lemma in_group_step: "server_step cfg s s' \<Longrightarrow> in_group s g p \<Longrightarrow> in_group s' g p"
  by (induction rule: server_step.induct) (auto simp: in_group_def)

lemma conn_step:
  "server_step cfg s s' \<Longrightarrow> ss_conns s i = Some c \<Longrightarrow>
    \<exists>c'. ss_conns s' i = Some c' \<and> wc_group c' = wc_group c \<and> wc_peer c' = wc_peer c"
  by (induction rule: server_step.induct) auto

lemma handle_effect:
  assumes "handle_client_message cfg g peer msg m counts = (go_on, sends, m', counts')"
  obtains q where "protect_ddos_request_count cfg g counts = (q, counts')"
      "m' = m" "sends = [(ci_id peer, SError 429)]"
    | q w where "protect_ddos_request_count cfg g counts = (q, counts')" "m' = m" "sends = send_to_peer m g peer w"
    | q info where "protect_ddos_request_count cfg g counts = (q, counts')"
      "send_update_to_other_peers m g (ci_id peer) info = (m', sends)"
proof -
  obtain q counts1 where p: "protect_ddos_request_count cfg g counts = (q, counts1)" by fastforce
  show thesis
    using assms p that by (cases q; cases msg) (auto simp: handle_client_message_def split: prod.splits)
qed

lemma map_fst_update_same: "k \<in> fst ` set l \<Longrightarrow> map fst (AList.update k v l) = map fst l"
  by (induction l) auto

lemma handle_keeps_keys:
  assumes "handle_client_message cfg g peer msg m counts = (go_on, sends, m', counts')"
  shows "map fst (local_map m' h) = map fst (local_map m h)"
  using assms
proof (cases rule: handle_effect)
  case (3 q info)
  from send_update_effect(1) [OF 3(2)] map_fst_update_same [of "ci_id peer" "local_map m g"] show ?thesis
    by (metis (no_types, lifting) fun_upd_apply)
qed simp_all

lemma handle_keeps_counts:
  assumes "handle_client_message cfg g peer msg m counts = (go_on, sends, m', counts')"
    and "\<forall>g c. map_of counts g = Some c \<longrightarrow> c \<le> MAX_REQUESTS cfg"
  shows "\<forall>g c. map_of counts' g = Some c \<longrightarrow> c \<le> MAX_REQUESTS cfg"
  using assms(1) by (cases rule: handle_effect) (use protect_effect [OF _ assms(2)] in blast)+

text \<open>The sends of a client message go to the group and mention the connection's own peer only.\<close>

lemma handle_sends:
  assumes "handle_client_message cfg g peer msg m counts = (go_on, sends, m', counts')"
    and "(t, out) \<in> set sends"
  shows "t \<in> insert (ci_id peer) (fst ` set (local_map m g)) \<and> mentions out \<subseteq> {ci_id peer}"
  using assms(1)
proof (cases rule: handle_effect)
  case (2 q w)
  with assms(2) have "(t, out) \<in> set (send_to_peer m g peer w)" by simp
  with send_to_peer_effect [of m g peer w] show ?thesis by auto
next
  case (3 q info)
  from send_update_effect(2) [OF 3(2)] assms(2) show ?thesis by auto
qed (use assms(2) in simp)

lemma registered_in_group: "i \<in> registered s g \<Longrightarrow> in_group s g i"
  by (auto simp: registered_def in_group_def)

lemma AppState_new_inv: "server_inv cfg AppState_new"
  by (simp add: server_inv_def maps_ok_def sends_ok_def channels_ok_def AppState_new_def registered_def)

text \<open>The maps: each operation changes the keys of its own group as it changes the connections.\<close>

lemma maps_ok_step:
  assumes "server_step cfg s s'" and "maps_ok cfg s" and "sends_ok s"
  shows "maps_ok cfg s'"
  using assms(1)
proof cases
  case (connect peer g ids peers m counts)
  note r = register_peer_Some [OF connect(3)]
  have keys: "fst ` set (local_map (ss_tx_map s) h) = registered s h" for h
    using assms(2) by (simp add: maps_ok_def)
  have new: "ci_id peer \<notin> registered s h" for h using connect(2) by (simp add: registered_def)
  have reg: "registered s' h = (if h = g then insert (ci_id peer) (registered s h) else registered s h)" for h
    using connect(1,2) by (auto simp: registered_def)
  have "\<forall>g c. map_of counts g = Some c \<longrightarrow> c \<le> MAX_REQUESTS cfg"
    using assms(2) by (intro protect_effect [OF r(5)]) (simp add: maps_ok_def)
  moreover have "distinct (map fst (local_map m h)) \<and> length (local_map m h) \<le> MAX_CONNECTIONS cfg \<and>
      fst ` set (local_map m h) = registered s' h" for h
    using assms(2) r(1,2) keys [of g] keys [of h] new [of g] reg
    by (auto simp: maps_ok_def keys_update length_update intro: distinct_update)
  ultimately show ?thesis using connect(1) by (simp add: maps_ok_def)
next
  case (refuse g peer m counts)
  note r = register_peer_None [OF refuse(2)]
  have "registered s' h = registered s h" for h using refuse(1) by (simp add: registered_def)
  moreover have "\<forall>g c. map_of counts g = Some c \<longrightarrow> c \<le> MAX_REQUESTS cfg"
    using r(2) assms(2) protect_effect [of cfg g "ss_counts s" None counts] by (auto simp: maps_ok_def)
  ultimately show ?thesis using refuse(1) assms(2) r(1) by (simp add: maps_ok_def)
next
  case (client i c msg go_on sends m counts)
  have "registered s' h = registered s h" for h
    using client(1,2,3) by (auto simp: registered_def)
  moreover have "fst ` set (local_map m h) = fst ` set (local_map (ss_tx_map s) h)"
    and "length (local_map m h) = length (local_map (ss_tx_map s) h)" for h
    using handle_keeps_keys [OF client(5), of h] by (metis list.set_map) (metis handle_keeps_keys [OF client(5)] length_map)
  moreover have "\<forall>g c. map_of counts g = Some c \<longrightarrow> c \<le> MAX_REQUESTS cfg"
    using assms(2) by (intro handle_keeps_counts [OF client(5)]) (simp add: maps_ok_def)
  ultimately show ?thesis
    using client(1) assms(2) handle_keeps_keys [OF client(5)] by (simp add: maps_ok_def)
next
  case (leave i c m remaining)
  note u = unregister_effect [OF leave(4)]
  have reg: "registered s' h = (if h = wc_group c then registered s h - {i} else registered s h)" for h
    using leave(1,2) by (auto simp: registered_def)
  have "distinct (map fst (local_map m h)) \<and> length (local_map m h) \<le> MAX_CONNECTIONS cfg \<and>
      fst ` set (local_map m h) = registered s' h" for h
    using assms(2) u(1) reg length_delete_le [of i "local_map (ss_tx_map s) (wc_group c)"]
    by (auto simp: maps_ok_def keys_delete distinct_delete intro: order_trans)
  then show ?thesis using leave(1) assms(2) by (simp add: maps_ok_def)
qed (use assms(2) in \<open>auto simp: maps_ok_def registered_def split: if_splits\<close>)

lemma sends_okD:
  assumes "sends_ok s" and "ss_conns s i = Some c"
  shows "ci_id (wc_peer c) = i"
    and "(t, msg) \<in> set (wc_pending c) \<Longrightarrow> in_group s (wc_group c) t"
    and "(t, msg) \<in> set (wc_pending c) \<Longrightarrow> p \<in> mentions msg \<Longrightarrow> in_group s (wc_group c) p"
  using assms unfolding sends_ok_def by fast+

text \<open>The sends that wait and the messages that were accepted: in the group, about the group.\<close>

lemma sends_ok_step:
  assumes "server_step cfg s s'" and "maps_ok cfg s" and "sends_ok s"
  shows "sends_ok s'"
proof -
  have keys: "fst ` set (local_map (ss_tx_map s) h) = registered s h" for h
    using assms(2) by (simp add: maps_ok_def)
  have stays: "in_group s h p \<Longrightarrow> in_group s' h p" for h p
    using assms(1) by (rule in_group_step)
  have old: "ci_id (wc_peer c) = i \<and> (\<forall>(t, msg) \<in> set (wc_pending c). in_group s' (wc_group c) t \<and>
      (\<forall>p \<in> mentions msg. in_group s' (wc_group c) p))" if "ss_conns s i = Some c" for i c
    using assms(3) that stays by (fastforce simp: sends_ok_def)
  have only: "sends_ok s'" if "ss_conns s' = (ss_conns s)(i \<mapsto> c')"
    and "ci_id (wc_peer c') = i" and "\<forall>(t, msg) \<in> set (wc_pending c'). in_group s' (wc_group c') t \<and>
      (\<forall>p \<in> mentions msg. in_group s' (wc_group c') p)" for i c'
    using that old by (simp add: sends_ok_def)
  show ?thesis
    using assms(1)
  proof cases
    case (connect peer g ids peers m counts)
    note r = register_peer_Some [OF connect(3)]
    have self: "in_group s' g (ci_id peer)" using connect(1) by (simp add: in_group_def)
    have others: "in_group s' g t" if "t \<in> fst ` set (local_map (ss_tx_map s) g)" for t
      using that keys [of g] registered_in_group stays by auto
    have "\<forall>(t, msg) \<in> set (announcements peer ids peers). in_group s' g t \<and>
        (\<forall>p \<in> mentions msg. in_group s' g p)"
      using self others by (auto simp: announcements_def r(3,4) rev_image_eqI)
    moreover define c' where "c' = \<lparr>wc_group = g, wc_peer = peer, wc_phase = Announcing,
        wc_pending = announcements peer ids peers\<rparr>"
    moreover have "ss_conns s' = (ss_conns s)(ci_id peer \<mapsto> c')"
      using connect(1) by (simp add: c'_def)
    ultimately show ?thesis by (intro only [of "ci_id peer" c']) simp_all
  next
    case (deliver i c t msg rest)
    from deliver(1) have "ss_conns s' = (ss_conns s)(i \<mapsto> c\<lparr>wc_pending := rest\<rparr>)" by simp
    then show ?thesis by (rule only) (use old [OF deliver(2)] deliver(3) in auto)
  next
    case (skip i c t msg rest)
    from skip(1) have "ss_conns s' = (ss_conns s)(i \<mapsto> c\<lparr>wc_pending := rest\<rparr>)" by simp
    then show ?thesis by (rule only) (use old [OF skip(2)] skip(3) in auto)
  next
    case (start i c)
    from start(1) have "ss_conns s' = (ss_conns s)(i \<mapsto> c\<lparr>wc_phase := Running\<rparr>)" by simp
    then show ?thesis by (rule only) (use old [OF start(2)] start(3) in auto)
  next
    case (client i c msg go_on sends m counts)
    have i: "ci_id (wc_peer c) = i" using old [OF client(2)] by simp
    then have self: "in_group s' (wc_group c) (ci_id (wc_peer c))"
      using client(2) by (intro stays) (simp add: in_group_def)
    have "in_group s' (wc_group c) t \<and> (\<forall>p \<in> mentions out. in_group s' (wc_group c) p)"
      if "(t, out) \<in> set sends" for t out
      using handle_sends [OF client(5) that] keys [of "wc_group c"] self registered_in_group stays by blast
    moreover define c' where "c' = c\<lparr>wc_pending := sends, wc_phase := if go_on then Running else Finishing\<rparr>"
    moreover have "ss_conns s' = (ss_conns s)(i \<mapsto> c')" using client(1) by (simp add: c'_def)
    ultimately show ?thesis using i by (intro only [of i c']) auto
  next
    case (leave i c m remaining)
    have i: "ci_id (wc_peer c) = i" using old [OF leave(2)] by simp
    have "in_group s' (wc_group c) i"
      using leave(2) by (intro stays) (simp add: in_group_def)
    moreover have "in_group s' (wc_group c) t" if "t \<in> set remaining" for t
    proof -
      have "t \<in> fst ` set (local_map (ss_tx_map s) (wc_group c))"
        using that unregister_effect(2) [OF leave(4)] keys_delete [of i "local_map (ss_tx_map s) (wc_group c)"] by auto
      then show ?thesis using keys registered_in_group stays by auto
    qed
    moreover define c' where "c' = c\<lparr>wc_phase := Leaving, wc_pending := map (\<lambda>t. (t, SLeft i)) remaining\<rparr>"
    moreover have "ss_conns s' = (ss_conns s)(i \<mapsto> c')" using leave(1) by (simp add: c'_def)
    ultimately show ?thesis using i by (intro only [of i c']) auto
  qed (use old in \<open>auto simp: sends_ok_def\<close>)
qed

lemma channels_ok_step:
  assumes "server_step cfg s s'" and "sends_ok s" and "channels_ok s"
  shows "channels_ok s'"
proof -
  have old: "\<exists>c. ss_conns s' i = Some c \<and> (\<forall>p \<in> mentions msg. in_group s' (wc_group c) p)"
    if "msg \<in> set (ss_channels s i) \<union> set (ss_sockets s i)" for i msg
    using assms(3) that conn_step [OF assms(1)] in_group_step [OF assms(1)]
    unfolding channels_ok_def by (metis (no_types))
  have len: "length (ss_channels s i) \<le> CHANNEL_SIZE" for i
    using assms(3) by (simp add: channels_ok_def)
  have keep: "channels_ok s'"
    if "\<And>i. set (ss_channels s' i) \<union> set (ss_sockets s' i) \<subseteq> set (ss_channels s i) \<union> set (ss_sockets s i)"
      "\<And>i. length (ss_channels s' i) \<le> length (ss_channels s i)"
    unfolding channels_ok_def using old that(1) order_trans [OF that(2) len] by blast
  show ?thesis
    using assms(1)
  proof cases
    case (deliver i c t msg rest)
    have new: "\<exists>c'. ss_conns s' t = Some c' \<and> (\<forall>p \<in> mentions msg. in_group s' (wc_group c') p)"
    proof -
      have "in_group s (wc_group c) t" "\<forall>p \<in> mentions msg. in_group s (wc_group c) p"
        using sends_okD(2,3) [OF assms(2) deliver(2)] deliver(3) by (metis list.set_intros(1))+
      then have "in_group s' (wc_group c) t" "\<forall>p \<in> mentions msg. in_group s' (wc_group c) p"
        using in_group_step [OF assms(1)] by blast+
      then show ?thesis by (auto simp: in_group_def)
    qed
    have "\<exists>c. ss_conns s' j = Some c \<and> (\<forall>p \<in> mentions x. in_group s' (wc_group c) p)"
      if "x \<in> set (ss_channels s' j) \<union> set (ss_sockets s' j)" for j x
      using that new old [of x j] deliver(1) by (auto split: if_splits)
    moreover have "length (ss_channels s' j) \<le> CHANNEL_SIZE" for j
      using deliver(1,5) len by simp
    ultimately show ?thesis unfolding channels_ok_def by blast
  next
    case (write_out i c msg msgs)
    then show ?thesis by (intro keep) (auto split: if_splits)
  qed (use keep in auto)
qed

interpretation server: machine "server_step cfg" AppState_new "server_inv cfg" for cfg
proof
  show "server_inv cfg AppState_new" by (rule AppState_new_inv)
  show "server_inv cfg s'" if "server_inv cfg s" "server_step cfg s s'" for s s'
    using that maps_ok_step sends_ok_step channels_ok_step unfolding server_inv_def by blast
qed

lemma reachable_server_inv: "server_reachable cfg s \<Longrightarrow> server_inv cfg s"
  unfolding server_reachable_def by (rule server.reachable_inv)


section \<open>Properties of every reachable state\<close>

definition sample_config :: server_config where
  "sample_config = \<lparr>MAX_CONNECTIONS = 10, MAX_REQUESTS = 1000\<rparr>"

definition sample_peer :: "uuid \<Rightarrow> client_info" where
  "sample_peer i = \<lparr>ci_id = i, ci_alias = ''a'', ci_version = ''2.1'', ci_device_model = None,
     ci_device_type = Some Desktop, ci_token = ''t''\<rparr>"

lemma reachable_map_exact:
  assumes "server_reachable cfg s"
  shows "fst ` set (local_map (ss_tx_map s) g) =
      {i. \<exists>c. ss_conns s i = Some c \<and> wc_group c = g \<and> wc_phase c \<noteq> Leaving} \<and>
    distinct (map fst (local_map (ss_tx_map s) g)) \<and>
    length (local_map (ss_tx_map s) g) \<le> MAX_CONNECTIONS cfg \<and>
    (\<forall>c. map_of (ss_counts s) g = Some c \<longrightarrow> c \<le> MAX_REQUESTS cfg) \<and>
    length (ss_channels s i) \<le> CHANNEL_SIZE"
  using reachable_server_inv [OF assms]
  by (auto simp: server_inv_def maps_ok_def channels_ok_def registered_def)

text \<open>
  C3: in every state the server can reach, the map of a group holds exactly the live connections
  of that group, each once, and never more than \<open>MAX_CONNECTIONS\<close>; no request count exceeds
  \<open>MAX_REQUESTS\<close>, and no channel holds more than four messages.
\<close>

theorem server_map_exact:
  assumes "server_reachable cfg s"
  shows "fst ` set (local_map (ss_tx_map s) g) =
      {i. \<exists>c. ss_conns s i = Some c \<and> wc_group c = g \<and> wc_phase c \<noteq> Leaving} \<and>
    distinct (map fst (local_map (ss_tx_map s) g)) \<and>
    length (local_map (ss_tx_map s) g) \<le> MAX_CONNECTIONS cfg \<and>
    (\<forall>c. map_of (ss_counts s) g = Some c \<longrightarrow> c \<le> MAX_REQUESTS cfg) \<and>
    length (ss_channels s i) \<le> CHANNEL_SIZE"
  using assms by (rule reachable_map_exact)

lemma sample_connected:
  obtains s where "server_reachable sample_config s" "ss_conns s 7 \<noteq> None"
    "set (local_map (ss_tx_map s) ''g'') \<noteq> {}"
proof -
  let ?r = "register_peer sample_config ''g'' (sample_peer 7) [] []"
  obtain ids peers m counts where r: "?r = (Some (ids, peers), m, counts)"
    by (simp add: register_peer_def protect_ddos_request_count_def sample_config_def Let_def)
  define s where "s = AppState_new\<lparr>ss_tx_map := m, ss_counts := counts,
        ss_conns := (ss_conns AppState_new)(ci_id (sample_peer 7) \<mapsto>
          \<lparr>wc_group = ''g'', wc_peer = sample_peer 7, wc_phase = Announcing,
           wc_pending = announcements (sample_peer 7) ids peers\<rparr>)\<rparr>"
  have "server_step sample_config AppState_new s"
    unfolding s_def using r by (intro server_step.connect) (simp_all add: AppState_new_def)
  then have "server_reachable sample_config s" by (simp add: server_reachable_def r_into_rtranclp)
  moreover have "local_map m ''g'' = [(7, client_info_strip (sample_peer 7))]"
    using register_peer_Some(1) [OF r] by (simp add: sample_peer_def)
  moreover have "ss_conns s 7 \<noteq> None" "ss_tx_map s = m" by (simp_all add: s_def sample_peer_def)
  ultimately show thesis using that [of s] by simp
qed

theorem server_map_exact_witness:
  "\<exists>s. server_reachable sample_config s \<and> set (local_map (ss_tx_map s) ''g'') \<noteq> {} \<and>
     length (local_map (ss_tx_map s) ''g'') \<le> 10"
proof (rule sample_connected)
  fix s
  assume s: "server_reachable sample_config s" "set (local_map (ss_tx_map s) ''g'') \<noteq> {}"
  from server_map_exact [OF s(1), of "''g''"] have "length (local_map (ss_tx_map s) ''g'') \<le> 10"
    by (simp add: sample_config_def)
  with s show ?thesis by blast
qed

text \<open>A run in which the first connection of a group is overtaken by the next ones.\<close>

definition first_conn :: ws_conn where
  "first_conn = \<lparr>wc_group = ''g'', wc_peer = sample_peer 0, wc_phase = Announcing,
     wc_pending = [(0, SHello (sample_peer 0) [])]\<rparr>"

definition overtaken :: "nat \<Rightarrow> server_state \<Rightarrow> bool" where
  "overtaken n s \<longleftrightarrow> server_reachable sample_config s \<and> ss_conns s 0 = Some first_conn \<and>
     length (ss_channels s 0) = n \<and> ss_sockets s 0 = [] \<and>
     (\<exists>v l. local_map (ss_tx_map s) ''g'' = (0, v) # l \<and> length l = n) \<and>
     (\<exists>k. map_of (ss_counts s) ''g'' = Some k \<and> unat k = Suc n) \<and>
     (\<forall>i. ss_conns s i \<noteq> None \<longrightarrow> unat i \<le> n)"

lemma reachable_step: "server_reachable cfg s \<Longrightarrow> server_step cfg s s' \<Longrightarrow> server_reachable cfg s'"
  by (auto simp: server_reachable_def)

lemma overtaken_start: "\<exists>s. overtaken 0 s"
proof -
  obtain ids peers m counts where
    r: "register_peer sample_config ''g'' (sample_peer 0) [] [] = (Some (ids, peers), m, counts)"
    by (simp add: register_peer_def protect_ddos_request_count_def sample_config_def Let_def)
  note e = register_peer_Some [OF r]
  define s where "s = AppState_new\<lparr>ss_tx_map := m, ss_counts := counts,
        ss_conns := (ss_conns AppState_new)(ci_id (sample_peer 0) \<mapsto>
          \<lparr>wc_group = ''g'', wc_peer = sample_peer 0, wc_phase = Announcing,
           wc_pending = announcements (sample_peer 0) ids peers\<rparr>)\<rparr>"
  have "server_step sample_config AppState_new s"
    unfolding s_def using r by (intro server_step.connect) (simp_all add: AppState_new_def)
  then have "server_reachable sample_config s" by (simp add: server_reachable_def r_into_rtranclp)
  moreover have "ids = []" "peers = []" using e(3,4) by simp_all
  moreover have "map_of counts ''g'' = Some 1"
    using e(5) by (auto simp: protect_ddos_request_count_def sample_config_def)
  ultimately have "overtaken 0 s"
    using e(1) by (simp add: overtaken_def s_def AppState_new_def first_conn_def announcements_def sample_peer_def)
  then show ?thesis by blast
qed

lemma overtaken_step:
  assumes "overtaken n s" and "n < 4"
  shows "\<exists>s'. overtaken (Suc n) s'"
proof -
  from assms(1) obtain v l k where s: "server_reachable sample_config s" "ss_conns s 0 = Some first_conn"
    "length (ss_channels s 0) = n" "ss_sockets s 0 = []" "local_map (ss_tx_map s) ''g'' = (0, v) # l" "length l = n"
    "map_of (ss_counts s) ''g'' = Some k" "unat k = Suc n" "\<forall>j. ss_conns s j \<noteq> None \<longrightarrow> unat j \<le> n"
    unfolding overtaken_def by blast
  define i :: uuid where "i = word_of_nat (Suc n)"
  have ui: "unat i = Suc n" using assms(2) by (simp add: i_def unsigned_of_nat take_bit_nat_eq_self del: of_nat_Suc)
  then have new: "ss_conns s i = None" "i \<noteq> 0" using s(9) ui by force+
  have "i \<notin> fst ` set ((0, v) # l)"
    using reachable_map_exact [OF s(1), of "''g''" 0] new(1) s(5) by auto
  moreover have "k < 1000" "unat (k + 1) = Suc (Suc n)" using s(8) assms(2)
    by (simp_all add: word_less_nat_alt unat_word_ariths)
  ultimately obtain peers m counts where
    r: "register_peer sample_config ''g'' (sample_peer i) (ss_tx_map s) (ss_counts s) =
      (Some (map fst ((0, v) # l), peers), m, counts)"
    and m: "local_map m ''g'' = (0, v) # l @ [(i, client_info_strip (sample_peer i))]"
    and counts: "map_of counts ''g'' = Some (k + 1)"
    using s(5-7) assms(2)
    by (simp add: register_peer_def protect_ddos_request_count_def sample_config_def Let_def update_new
        update_conv' sample_peer_def not_le del: of_nat_Suc)
  define c where "c = \<lparr>wc_group = ''g'', wc_peer = sample_peer i, wc_phase = Announcing,
     wc_pending = announcements (sample_peer i) (map fst ((0, v) # l)) peers\<rparr>"
  define s1 where "s1 = s\<lparr>ss_tx_map := m, ss_counts := counts, ss_conns := (ss_conns s)(ci_id (sample_peer i) \<mapsto> c)\<rparr>"
  have id: "ci_id (sample_peer i) = i" by (simp add: sample_peer_def)
  have "server_step sample_config s s1"
    unfolding s1_def c_def using r new(1) by (intro server_step.connect) (simp_all add: id)
  with s(1) have 1: "server_reachable sample_config s1" by (rule reachable_step)
  define rest where "rest = map (\<lambda>t. (t, SJoin (sample_peer i))) (map fst l) @ [(i, SHello (sample_peer i) peers)]"
  define s2 where "s2 = s1\<lparr>ss_channels := (ss_channels s1)(0 := ss_channels s1 0 @ [SJoin (sample_peer i)]),
     ss_conns := (ss_conns s1)(i \<mapsto> c\<lparr>wc_pending := rest\<rparr>)\<rparr>"
  have "server_step sample_config s1 s2"
    unfolding s2_def
  proof (rule server_step.deliver)
    show "ss_conns s1 i = Some c" by (simp add: s1_def id)
    show "wc_pending c = (0, SJoin (sample_peer i)) # rest" by (simp add: c_def rest_def announcements_def id)
    show "listening s1 0" using s(2) new(2) by (simp add: s1_def listening_def id first_conn_def)
    show "length (ss_channels s1 0) < CHANNEL_SIZE" using s(3) assms(2) by (simp add: s1_def CHANNEL_SIZE_def)
  qed
  with 1 have "server_reachable sample_config s2" by (rule reachable_step)
  moreover have "unat j \<le> Suc n" if "ss_conns s2 j \<noteq> None" for j
    using that s(9) ui by (cases "j = i") (auto simp: s2_def s1_def id le_Suc_eq simp del: of_nat_Suc)
  ultimately have "overtaken (Suc n) s2"
    using s(2-4,6) new(2) m counts \<open>unat (k + 1) = Suc (Suc n)\<close>
    by (simp add: overtaken_def s2_def s1_def id del: of_nat_Suc)
  then show ?thesis by blast
qed

lemma overtaken_four: "\<exists>s. overtaken 4 s"
proof -
  have "\<exists>s. overtaken n s" if "n \<le> 4" for n
    using that by (induction n) (use overtaken_start overtaken_step in \<open>auto simp: Suc_le_eq\<close>)
  then show ?thesis by simp
qed

lemma greeted_state:
  obtains s c where "server_reachable sample_config s" "ss_conns s 0 = Some c" "wc_group c = ''g''"
    "SHello (sample_peer 0) [] \<in> set (ss_channels s 0)"
proof -
  obtain s where s: "overtaken 0 s" using overtaken_start by blast
  define s1 where "s1 = s\<lparr>ss_channels := (ss_channels s)(0 := ss_channels s 0 @ [SHello (sample_peer 0) []]),
     ss_conns := (ss_conns s)(0 \<mapsto> first_conn\<lparr>wc_pending := []\<rparr>)\<rparr>"
  have "server_step sample_config s s1"
    unfolding s1_def
  proof (rule server_step.deliver)
    show "ss_conns s 0 = Some first_conn" using s by (simp add: overtaken_def)
    then show "listening s 0" by (simp add: listening_def first_conn_def)
    show "wc_pending first_conn = (0, SHello (sample_peer 0) []) # []" by (simp add: first_conn_def)
    show "length (ss_channels s 0) < CHANNEL_SIZE" using s by (simp add: overtaken_def CHANNEL_SIZE_def)
  qed
  with s have "server_reachable sample_config s1" by (auto simp: overtaken_def intro: reachable_step)
  then show thesis using that [of s1 "first_conn\<lparr>wc_pending := []\<rparr>"] by (simp add: s1_def first_conn_def)
qed

text \<open>
  C13: groups are isolated. Whatever a client is sent, or has waiting in its channel, tells it only
  about peers that connected from its own IP group.
\<close>

theorem server_groups_isolated:
  assumes "server_reachable cfg s" and "msg \<in> set (ss_channels s i) \<union> set (ss_sockets s i)"
    and "p \<in> mentions msg"
  shows "\<exists>c c'. ss_conns s i = Some c \<and> ss_conns s p = Some c' \<and> wc_group c' = wc_group c"
proof -
  from reachable_server_inv [OF assms(1)] assms(2) obtain c where
    "ss_conns s i = Some c" "\<forall>p \<in> mentions msg. in_group s (wc_group c) p"
    unfolding server_inv_def channels_ok_def by blast
  with assms(3) show ?thesis by (auto simp: in_group_def)
qed

theorem server_groups_isolated_witness:
  "\<exists>s c. server_reachable sample_config s \<and> SHello (sample_peer 0) [] \<in> set (ss_channels s 0) \<and>
     ss_conns s 0 = Some c \<and> wc_group c = ''g''"
proof (rule greeted_state)
  fix s c
  assume s: "server_reachable sample_config s" "ss_conns s 0 = Some c" "wc_group c = ''g''"
    "SHello (sample_peer 0) [] \<in> set (ss_channels s 0)"
  from server_groups_isolated [OF s(1), of "SHello (sample_peer 0) []" 0 0] s show ?thesis
    by (auto simp: sample_peer_def)
qed

section \<open>A greeting that is never delivered\<close>

text \<open>
  C34: a connection is stuck for good when its channel is full before it has sent itself the
  \<open>Hello\<close>: the channel is only emptied by a task that starts after the \<open>Hello\<close>. Whatever the
  clients do, the connection never gets further, nothing is written to its socket, and its client
  never learns its id.
\<close>

theorem full_channel_blocks_hello:
  assumes "ss_conns s i = Some c" and "wc_phase c = Announcing"
    and "wc_pending c = [(i, SHello p ps)]" and "length (ss_channels s i) = CHANNEL_SIZE"
    and "(server_step cfg)\<^sup>*\<^sup>* s s'"
  shows "ss_conns s' i = Some c \<and> ss_channels s' i = ss_channels s i \<and> ss_sockets s' i = ss_sockets s i"
  using assms(5)
proof (induction rule: rtranclp_induct)
  case (step x y)
  then have x: "ss_conns x i = Some c" "length (ss_channels x i) = CHANNEL_SIZE"
    using assms(4) by simp_all
  have "listening x i" using x(1) assms(2) by (auto simp: listening_def)
  with step.hyps(2) x have "ss_conns y i = ss_conns x i \<and> ss_channels y i = ss_channels x i \<and>
      ss_sockets y i = ss_sockets x i"
    using assms(2,3) by cases auto
  with step.IH show ?case by simp
qed (use assms(1) in simp)

theorem full_channel_blocks_hello_witness:
  "\<exists>s. server_reachable sample_config s \<and>
     (\<forall>s'. (server_step sample_config)\<^sup>*\<^sup>* s s' \<longrightarrow> ss_conns s' 0 = Some first_conn \<and> ss_sockets s' 0 = [])"
proof -
  obtain s where "overtaken 4 s" using overtaken_four by blast
  then have s: "server_reachable sample_config s" "ss_conns s 0 = Some first_conn"
    "length (ss_channels s 0) = CHANNEL_SIZE" "ss_sockets s 0 = []"
    by (simp_all add: overtaken_def CHANNEL_SIZE_def)
  have "ss_conns s' 0 = Some first_conn \<and> ss_sockets s' 0 = []" if "(server_step sample_config)\<^sup>*\<^sup>* s s'" for s'
    using full_channel_blocks_hello [OF s(2) _ _ s(3) that] s(4) by (simp add: first_conn_def)
  with s(1) show ?thesis by blast
qed

section \<open>Operations\<close>

definition sample_new_info :: client_info_without_id where
  "sample_new_info = \<lparr>ciw_alias = ''new'', ciw_version = ''2.1'', ciw_device_model = None,
     ciw_device_type = None, ciw_token = ''t''\<rparr>"

lemma steps_keep_peer:
  assumes "(server_step cfg)\<^sup>*\<^sup>* s s'" and "ss_conns s i = Some c"
  shows "\<exists>c'. ss_conns s' i = Some c' \<and> wc_peer c' = wc_peer c \<and> wc_group c' = wc_group c"
  using assms(1)
proof (induction rule: rtranclp_induct)
  case (step x y)
  from step.hyps(2) step.IH show ?case by cases auto
qed (use assms(2) in simp)

lemma send_to_peer_eq:
  "send_to_peer m g origin w =
     (if cs_target (wrapped w) \<in> fst ` set (local_map m g)
      then [(cs_target (wrapped w), (case w of WOffer _ \<Rightarrow> SOffer | WAnswer _ \<Rightarrow> SAnswer)
        \<lparr>ss_peer = origin, ss_session_id = cs_session_id (wrapped w), ss_sdp = cs_sdp (wrapped w)\<rparr>)]
      else [])"
proof (cases "map_of m g")
  case (Some l)
  have "k \<in> fst ` set l \<longleftrightarrow> (\<exists>v. map_of l k = Some v)" for k
    by (metis map_of_eq_None_iff not_None_eq)
  with Some show ?thesis
    by (cases "map_of l (cs_target (wrapped w))"; cases w) (simp_all add: send_to_peer_def Let_def local_map_def)
qed (simp add: send_to_peer_def Let_def local_map_def)

text \<open>
  C33: an offer or an answer goes to its target if that is a live connection of the sender's group, and
  to nobody otherwise, unless the group has used up its requests, which only the sender is told. It
  carries the info the sender registered with, whatever has happened since its connection was made;
  in particular an \<open>Update\<close> changes the map only.
\<close>

theorem offer_carries_registration:
  assumes "server_reachable cfg s" and "ss_conns s i = Some c"
    and "(server_step cfg)\<^sup>*\<^sup>* s s'" and "ss_conns s' i = Some c'"
    and "msg = COffer sdp \<or> msg = CAnswer sdp"
    and "handle_client_message cfg (wc_group c') (wc_peer c') msg (ss_tx_map s') (ss_counts s') =
      (go_on, sends, m, counts)"
  shows "m = ss_tx_map s' \<and> ci_id (wc_peer c) = i \<and>
    go_on = (fst (protect_ddos_request_count cfg (wc_group c) (ss_counts s')) \<noteq> None) \<and>
    sends =
      (if \<not> go_on then [(i, SError 429)]
       else if \<exists>t. ss_conns s' (cs_target sdp) = Some t \<and> wc_group t = wc_group c \<and> wc_phase t \<noteq> Leaving
       then [(cs_target sdp, (if msg = COffer sdp then SOffer else SAnswer)
         \<lparr>ss_peer = wc_peer c, ss_session_id = cs_session_id sdp, ss_sdp = cs_sdp sdp\<rparr>)]
       else [])"
proof -
  have reach: "server_reachable cfg s'" using assms(1,3) by (auto simp: server_reachable_def)
  have peer: "wc_peer c' = wc_peer c" "wc_group c' = wc_group c"
    using steps_keep_peer [OF assms(3,2)] assms(4) by simp_all
  have i: "ci_id (wc_peer c) = i"
    using reachable_server_inv [OF assms(1)] assms(2) by (simp add: server_inv_def sends_ok_def)
  have members: "t \<in> fst ` set (local_map (ss_tx_map s') g) \<longleftrightarrow>
      (\<exists>d. ss_conns s' t = Some d \<and> wc_group d = g \<and> wc_phase d \<noteq> Leaving)" for t g
    using reachable_map_exact [OF reach] by blast
  from assms(5) show ?thesis
    using assms(6) i by (elim disjE) (auto simp: handle_client_message_def send_to_peer_eq members peer
        split: prod.splits option.splits if_splits)
qed

text \<open>The first of two connections of a group, after it has updated its info.\<close>

lemma updated_state:
  obtains s c t d k where "server_reachable sample_config s" "ss_conns s 0 = Some c" "wc_group c = ''g''"
    "wc_peer c = sample_peer 0" "map_of (local_map (ss_tx_map s) ''g'') 0 = Some sample_new_info"
    "ss_conns s t = Some d" "wc_group d = ''g''" "wc_phase d \<noteq> Leaving" "t \<noteq> 0"
    "map_of (ss_counts s) ''g'' = Some k" "k < 1000"
proof -
  obtain s0 where "overtaken 0 s0" using overtaken_start by blast
  then obtain s where "overtaken 1 s" using overtaken_step [of 0] by auto
  then obtain v l k where s: "server_reachable sample_config s" "ss_conns s 0 = Some first_conn"
    "length (ss_channels s 0) = 1" "local_map (ss_tx_map s) ''g'' = (0, v) # l" "length l = 1"
    "map_of (ss_counts s) ''g'' = Some k" "unat k = 2"
    unfolding overtaken_def by (auto simp: numeral_2_eq_2)
  from s(5) obtain t u where l: "l = [(t, u)]" by (auto simp: length_Suc_conv)
  then have t: "t \<noteq> 0" and "t \<in> fst ` set (local_map (ss_tx_map s) ''g'')"
    using reachable_map_exact [OF s(1), of "''g''" 0] s(4) by auto
  then obtain d where d: "ss_conns s t = Some d" "wc_group d = ''g''" "wc_phase d \<noteq> Leaving"
    using reachable_map_exact [OF s(1), of "''g''" 0] by auto
  define c1 where "c1 = first_conn\<lparr>wc_pending := []\<rparr>"
  define s1 where "s1 = s\<lparr>ss_channels := (ss_channels s)(0 := ss_channels s 0 @ [SHello (sample_peer 0) []]),
     ss_conns := (ss_conns s)(0 \<mapsto> c1)\<rparr>"
  define c2 where "c2 = c1\<lparr>wc_phase := Running\<rparr>"
  define s2 where "s2 = s1\<lparr>ss_conns := (ss_conns s1)(0 \<mapsto> c2)\<rparr>"
  have k: "k < 1000" "k + 1 < 1000" using s(7) by (simp_all add: word_less_nat_alt unat_word_ariths)
  obtain ll where ll: "map_of (ss_tx_map s) ''g'' = Some ll" "ll = (0, v) # l"
    using s(4) by (cases "map_of (ss_tx_map s) ''g''") (simp_all add: local_map_def)
  obtain sends m counts where h: "handle_client_message sample_config ''g'' (sample_peer 0) (CUpdate sample_new_info)
      (ss_tx_map s) (ss_counts s) = (True, sends, m, counts)"
    and m: "map_of (local_map m ''g'') 0 = Some sample_new_info" and counts: "map_of counts ''g'' = Some (k + 1)"
    using s(6) k ll by (simp add: handle_client_message_def protect_ddos_request_count_def sample_config_def Let_def
        send_update_to_other_peers_def sample_peer_def update_conv' not_le)
  define s3 where "s3 = s2\<lparr>ss_tx_map := m, ss_counts := counts,
     ss_conns := (ss_conns s2)(0 \<mapsto> c2\<lparr>wc_pending := sends, wc_phase := if True then Running else Finishing\<rparr>)\<rparr>"
  note defs = c1_def c2_def s1_def s2_def s3_def first_conn_def
  have "server_step sample_config s s1"
    unfolding s1_def c1_def using s(2,3)
    by (intro server_step.deliver) (simp_all add: listening_def first_conn_def CHANNEL_SIZE_def)
  moreover have "server_step sample_config s1 s2"
    unfolding s2_def c2_def by (intro server_step.start) (simp_all add: defs)
  moreover have "server_step sample_config s2 s3"
    unfolding s3_def using h by (intro server_step.client) (simp_all add: defs)
  ultimately have "server_reachable sample_config s3"
    using s(1) by (blast intro: reachable_step)
  then show thesis
    using m counts k(2) d t
    by (intro that [of s3 "c2\<lparr>wc_pending := sends, wc_phase := if True then Running else Finishing\<rparr>" t d "k + 1"])
      (simp_all add: defs)
qed

text \<open>The map has the new info, the offer the old one.\<close>

theorem offer_carries_registration_witness:
  "\<exists>s t sends m counts. server_reachable sample_config s \<and>
     map_of (local_map (ss_tx_map s) ''g'') 0 = Some sample_new_info \<and>
     handle_client_message sample_config ''g'' (sample_peer 0)
       (COffer \<lparr>cs_session_id = ''s'', cs_target = t, cs_sdp = ''x''\<rparr>) (ss_tx_map s) (ss_counts s) =
       (True, sends, m, counts) \<and>
     sends = [(t, SOffer \<lparr>ss_peer = sample_peer 0, ss_session_id = ''s'', ss_sdp = ''x''\<rparr>)]"
proof -
  obtain s c t d k where s: "server_reachable sample_config s" "ss_conns s 0 = Some c" "wc_group c = ''g''"
    "wc_peer c = sample_peer 0" "map_of (local_map (ss_tx_map s) ''g'') 0 = Some sample_new_info"
    "ss_conns s t = Some d" "wc_group d = ''g''" "wc_phase d \<noteq> Leaving"
    "map_of (ss_counts s) ''g'' = Some k" "k < 1000"
    using updated_state by metis
  let ?sdp = "\<lparr>cs_session_id = ''s'', cs_target = t, cs_sdp = ''x''\<rparr>"
  obtain sends m counts where h: "handle_client_message sample_config ''g'' (sample_peer 0) (COffer ?sdp)
      (ss_tx_map s) (ss_counts s) = (True, sends, m, counts)"
    using s(9,10) by (simp add: handle_client_message_def protect_ddos_request_count_def sample_config_def Let_def not_le)
  have "sends = [(t, SOffer \<lparr>ss_peer = sample_peer 0, ss_session_id = ''s'', ss_sdp = ''x''\<rparr>)]"
    using offer_carries_registration [OF s(1,2) rtranclp.rtrancl_refl s(2), of "COffer ?sdp" ?sdp True sends m counts]
      h s(3,4,6-8) by simp
  with s(1,5) h show ?thesis by blast
qed

text \<open>
  A connection that is refused because its group has used up its requests leaves an empty
  entry for the group in the map.
\<close>

theorem refused_connection_leaves_entry:
  assumes "map_of m g = None" and "0 < MAX_CONNECTIONS cfg"
    and "map_of counts g = Some c" and "MAX_REQUESTS cfg \<le> c"
  shows "\<exists>m' counts'. register_peer cfg g peer m counts = (None, m', counts') \<and> map_of m' g = Some []"
  using assms
  by (simp add: register_peer_def local_map_def protect_ddos_request_count_def Let_def update_conv')

theorem refused_connection_leaves_entry_witness:
  "\<exists>m' counts'. register_peer sample_config ''g'' (sample_peer 7) [] [(''g'', 1000)] = (None, m', counts') \<and>
     map_of m' ''g'' = Some []"
  using refused_connection_leaves_entry [of "[]" "''g''" sample_config "[(''g'', 1000)]" 1000 "sample_peer 7"]
  by (simp add: sample_config_def)

end
