(* ===== verification/Signaling_Client.thy ===== *)
theory Signaling_Client
  imports Signaling_Server_Props Base64_Url
begin

text \<open>
  The client of the signaling server (\<open>core/src/webrtc/signaling.rs\<close>): opening a connection and
  waiting for the \<open>Hello\<close> (\<open>connect\<close>), the task that writes messages and pings, the listener that
  gives answers to the callback of their session (\<open>start_listener\<close>, \<open>on_answer\<close>) and the
  messages of \<open>send_update\<close>, \<open>send_offer\<close> and \<open>send_answer\<close>.
\<close>

section \<open>Connecting\<close>

text \<open>The query the server's \<open>ws_handler\<close> reads; \<open>enc\<close> is the base64 engine, \<open>js\<close> is \<open>to_string\<close>.\<close>

definition connect_uri ::
  "(byte list \<Rightarrow> string) \<Rightarrow> (client_info_without_id \<Rightarrow> string) \<Rightarrow> string \<Rightarrow> client_info_without_id \<Rightarrow> string" where
  "connect_uri enc js uri info = uri @ ''?d='' @ enc (as_bytes (js info))"

text \<open>
  The reading task up to the moment \<open>connect\<close> returns. It puts every message it decodes on a
  channel with room for one, which nobody reads yet (\<open>room\<close>); the info of a \<open>Hello\<close> goes to
  \<open>connect\<close> first. \<open>None\<close> stands for a frame that is no text or does not decode. When the
  stream ends before a \<open>Hello\<close>, the \<open>unwrap\<close> in \<open>connect\<close> panics.
\<close>

fun read_until_hello :: "nat \<Rightarrow> bool \<Rightarrow> ws_server_message option list \<Rightarrow> client_info res" where
  "read_until_hello room closed [] =
     (if closed then Panic ''called Option::unwrap() on a None value'' else Wait)"
| "read_until_hello room closed (None # ms) = read_until_hello room closed ms"
| "read_until_hello room closed (Some m # ms) =
     (case m of
        SHello client _ \<Rightarrow> Ok client
      | _ \<Rightarrow> (case room of 0 \<Rightarrow> Wait | Suc r \<Rightarrow> read_until_hello r closed ms))"

definition connect :: "bool \<Rightarrow> ws_server_message option list \<Rightarrow> client_info res" where
  "connect closed frames = read_until_hello 1 closed frames"

text \<open>
  The writing task. In each round a message arrives, the senders are gone, or two minutes pass;
  \<open>writes\<close> says which of the next writes succeed (all, past its end).
\<close>

datatype send_event = SendMessage ws_client_message | SendersGone | SendTimeout
datatype ws_frame = TextFrame string | PingFrame

fun write_loop :: "(ws_client_message \<Rightarrow> string) \<Rightarrow> bool list \<Rightarrow> send_event list \<Rightarrow> ws_frame list" where
  "write_loop js writes [] = []"
| "write_loop js writes (e # es) =
     (case e of
        SendersGone \<Rightarrow> []
      | SendMessage m \<Rightarrow>
          (case writes of
             False # _ \<Rightarrow> []
           | _ \<Rightarrow> TextFrame (js m) # write_loop js (tl writes) es)
      | SendTimeout \<Rightarrow>
          (case writes of
             False # _ \<Rightarrow> []
           | _ \<Rightarrow> PingFrame # write_loop js (tl writes) es))"

section \<open>Sending\<close>

definition send_update :: "client_info_without_id \<Rightarrow> ws_client_message" where
  "send_update info = CUpdate info"

definition send_offer_message :: "string \<Rightarrow> uuid \<Rightarrow> string \<Rightarrow> ws_client_message" where
  "send_offer_message session_id target sdp =
     COffer \<lparr>cs_session_id = session_id, cs_target = target, cs_sdp = sdp\<rparr>"

definition send_answer_message :: "string \<Rightarrow> uuid \<Rightarrow> string \<Rightarrow> ws_client_message" where
  "send_answer_message session_id target sdp =
     CAnswer \<lparr>cs_session_id = session_id, cs_target = target, cs_sdp = sdp\<rparr>"

text \<open>
  The calls of a connection: the message is put on the channel of the writing task, if that still
  runs (\<open>writing\<close>).
\<close>

definition connection_send :: "bool \<Rightarrow> ws_client_message \<Rightarrow> ws_client_message list \<Rightarrow> unit res \<times> ws_client_message list" where
  "connection_send writing m queue =
     (if writing then (Ok (), queue @ [m]) else (Err (Lib ''channel closed''), queue))"

definition managed_send_update ::
  "bool \<Rightarrow> client_info_without_id \<Rightarrow> ws_client_message list \<Rightarrow> unit res \<times> ws_client_message list" where
  "managed_send_update writing info = connection_send writing (send_update info)"

definition managed_send_offer ::
  "bool \<Rightarrow> string \<Rightarrow> uuid \<Rightarrow> string \<Rightarrow> ws_client_message list \<Rightarrow> unit res \<times> ws_client_message list" where
  "managed_send_offer writing session_id target sdp = connection_send writing (send_offer_message session_id target sdp)"

definition managed_send_answer ::
  "bool \<Rightarrow> string \<Rightarrow> uuid \<Rightarrow> string \<Rightarrow> ws_client_message list \<Rightarrow> unit res \<times> ws_client_message list" where
  "managed_send_answer writing session_id target sdp = connection_send writing (send_answer_message session_id target sdp)"

text \<open>While the socket takes them, the messages are written in the order of the calls.\<close>

lemma write_loop_writes: "write_loop js [] (map SendMessage queue) = map (\<lambda>m. TextFrame (js m)) queue"
  by (induction queue) simp_all

section \<open>Listening\<close>

text \<open>
  \<open>ManagedSignalingConnection\<close> and its listener: the callbacks by session, the calls made, and
  the messages passed on. The listener stops with a panic when it passes a message on and nobody
  takes it any more.
\<close>

record 'cb listener =
  li_callbacks :: "(string \<times> 'cb) list"
  li_called :: "('cb \<times> ws_server_sdp_message) list"
  li_forwarded :: "ws_server_message list"
  li_panicked :: bool

definition start_listener :: "'cb listener" where
  "start_listener = \<lparr>li_callbacks = [], li_called = [], li_forwarded = [], li_panicked = False\<rparr>"

definition on_answer :: "string \<Rightarrow> 'cb \<Rightarrow> 'cb listener \<Rightarrow> 'cb listener" where
  "on_answer session_id callback l =
     l\<lparr>li_callbacks := AList.update session_id callback (li_callbacks l)\<rparr>"

definition dispatch_answer :: "ws_server_message \<Rightarrow> 'cb listener \<Rightarrow> 'cb listener" where
  "dispatch_answer m l =
     (case m of
        SAnswer sdp \<Rightarrow>
          (case map_of (li_callbacks l) (ss_session_id sdp) of
             Some callback \<Rightarrow>
               l\<lparr>li_callbacks := AList.delete (ss_session_id sdp) (li_callbacks l),
                 li_called := li_called l @ [(callback, sdp)]\<rparr>
           | None \<Rightarrow> l)
      | _ \<Rightarrow> l)"

definition listener_message :: "bool \<Rightarrow> ws_server_message \<Rightarrow> 'cb listener \<Rightarrow> 'cb listener" where
  "listener_message taken m l =
     (if li_panicked l then l
      else
        (let l = dispatch_answer m l
         in if taken then l\<lparr>li_forwarded := li_forwarded l @ [m]\<rparr> else l\<lparr>li_panicked := True\<rparr>))"

text \<open>The listener and its callers interleave: messages arrive, callbacks are added.\<close>

datatype 'cb listener_event = Arrives ws_server_message | Registers string 'cb

fun listen :: "'cb listener_event list \<Rightarrow> 'cb listener \<Rightarrow> 'cb listener" where
  "listen [] l = l"
| "listen (Arrives m # es) l = listen es (listener_message True m l)"
| "listen (Registers session_id callback # es) l = listen es (on_answer session_id callback l)"

section \<open>Properties\<close>

text \<open>
  C26: the client hears from the server when the \<open>Hello\<close> comes first or second. A client that is
  sent two other messages before it hangs in \<open>connect\<close>: the second of them waits for room that
  only a connected client makes.
\<close>

theorem connect_returns_iff:
  assumes "\<forall>m \<in> set before. \<forall>c ps. m \<noteq> SHello c ps"
  shows "connect closed (map Some (before @ SHello client peers # after)) =
    (if length before \<le> 1 then Ok client else Wait)"
proof -
  have "read_until_hello room closed (map Some (before @ SHello client peers # after)) =
      (if length before \<le> room then Ok client else Wait)" for room
    using assms
  proof (induction before arbitrary: room)
    case (Cons m before)
    then show ?case by (cases room; cases m) auto
  qed simp
  then show ?thesis by (simp add: connect_def)
qed

text \<open>The two components together: the server does send two messages before the \<open>Hello\<close>.\<close>

theorem connect_returns_iff_witness:
  "connect False (map Some [SJoin (sample_peer 1), SJoin (sample_peer 2), SHello (sample_peer 0) []]) = Wait \<and>
   connect False (map Some [SJoin (sample_peer 1), SHello (sample_peer 0) []]) = Ok (sample_peer 0)"
  using connect_returns_iff [of "[SJoin (sample_peer 1), SJoin (sample_peer 2)]" False "sample_peer 0" "[]" "[]"]
    connect_returns_iff [of "[SJoin (sample_peer 1)]" False "sample_peer 0" "[]" "[]"]
  by simp

text \<open>
  the query a client connects with is what the server reads: the info with the id the server
  gave it, in the group of the client's address.
\<close>

theorem connect_query_roundtrip:
  assumes "text_codec enc dec" and "\<forall>i. from_str (js i) = Some i" and "valid_utf8 (as_bytes (js info))"
    and "connect_uri enc js uri info = uri @ ''?d='' @ d"
  shows "ws_handler dec from_str parse_ip d forwarded addr new_id =
    Inr (get_ip_group (client_ip parse_ip forwarded addr), client_info_from info new_id)"
  using assms by (auto simp: connect_uri_def ws_handler_def text_codec.dec_enc from_utf8_def)

definition sample_info :: client_info_without_id where
  "sample_info = \<lparr>ciw_alias = ''a'', ciw_version = ''2.1'', ciw_device_model = None, ciw_device_type = None,
     ciw_token = ''t''\<rparr>"

definition info_text :: "client_info_without_id \<Rightarrow> string" where
  "info_text i = print_json (client_info_without_id_to_json i)"

definition info_of_text :: "string \<Rightarrow> client_info_without_id option" where
  "info_of_text s = Option.bind (parse_json_text s) client_info_without_id_of_json"

theorem connect_query_roundtrip_witness:
  "ws_handler url_safe_decode info_of_text (\<lambda>_. None) (url_safe_encode (as_bytes (info_text sample_info))) None
     (V4 1 2 3 4) 9 = Inr (''1.2.3.4'', client_info_from sample_info 9)"
proof -
  have "get_ip_group (client_ip (\<lambda>_. None) None (V4 1 2 3 4)) = ''1.2.3.4''" by code_simp
  moreover have "valid_utf8 (as_bytes (info_text sample_info))" by code_simp
  moreover have "\<forall>i. info_of_text (info_text i) = Some i"
    by (simp add: info_of_text_def info_text_def client_info_without_id_wire.text_roundtrip)
  ultimately show ?thesis
    using connect_query_roundtrip [OF url_safe.text_codec_axioms, of info_of_text info_text sample_info "''''"
        "url_safe_encode (as_bytes (info_text sample_info))" "\<lambda>_. None" None "V4 1 2 3 4" 9]
    by (simp add: connect_uri_def)
qed

lemma listen_append: "listen (es @ es') l = listen es' (listen es l)"
  by (induction es l rule: listen.induct) simp_all

lemma listen_keeps_called: "c \<in> set (li_called l) \<Longrightarrow> c \<in> set (li_called (listen es l))"
  by (induction es l rule: listen.induct)
    (auto simp: listener_message_def dispatch_answer_def on_answer_def Let_def
      split: ws_server_message.splits option.splits)

lemma listen_not_panicked: "li_panicked (listen es l) = li_panicked l"
  by (induction es l rule: listen.induct)
    (auto simp: listener_message_def dispatch_answer_def on_answer_def Let_def
      split: ws_server_message.splits option.splits)

text \<open>Events that leave the callback of a session alone.\<close>

definition leaves_session :: "string \<Rightarrow> 'cb listener_event \<Rightarrow> bool" where
  "leaves_session session_id e \<longleftrightarrow>
     (case e of
        Arrives (SAnswer a) \<Rightarrow> ss_session_id a \<noteq> session_id
      | Registers session_id' _ \<Rightarrow> session_id' \<noteq> session_id
      | _ \<Rightarrow> True)"

lemma listen_leaves_session:
  "\<forall>e \<in> set es. leaves_session session_id e \<Longrightarrow>
    map_of (li_callbacks (listen es l)) session_id = map_of (li_callbacks l) session_id"
  by (induction es l rule: listen.induct)
    (auto simp: leaves_session_def listener_message_def dispatch_answer_def on_answer_def Let_def
      update_conv' delete_conv' split: ws_server_message.splits option.splits)

lemma listen_never_calls:
  "\<forall>e \<in> set es. leaves_session (ss_session_id a) e \<Longrightarrow> a \<notin> snd ` set (li_called l) \<Longrightarrow>
    a \<notin> snd ` set (li_called (listen es l))"
proof (induction es l rule: listen.induct)
  case (2 m es l)
  have "a \<notin> snd ` set (li_called (listener_message True m l))"
    using 2(2,3)
    by (auto simp: leaves_session_def listener_message_def dispatch_answer_def Let_def
        split: ws_server_message.splits option.splits)
  with 2 show ?case by simp
next
  case (3 s c es l)
  then show ?case by (simp add: on_answer_def)
qed simp

text \<open>
  An answer reaches the callback of its session when the callback is there first. An answer
  that arrives before its callback is added is passed on but never given to the callback, which
  is what happens when the peer answers before \<open>send_offer\<close> has called \<open>on_answer\<close>.
\<close>

theorem answer_needs_callback:
  assumes "\<forall>e \<in> set between. leaves_session (ss_session_id a) e"
    and "\<forall>e \<in> set after. leaves_session (ss_session_id a) e"
  shows "(cb, a) \<in> set (li_called (listen
      (Registers (ss_session_id a) cb # between @ Arrives (SAnswer a) # after) start_listener)) \<and>
    li_called (listen [Arrives (SAnswer a), Registers (ss_session_id a) cb] start_listener) = [] \<and>
    (cb, a) \<notin> set (li_called (listen
      (Arrives (SAnswer a) # Registers (ss_session_id a) cb # after) start_listener))"
proof -
  let ?l = "listen between (on_answer (ss_session_id a) cb start_listener)"
  have "map_of (li_callbacks ?l) (ss_session_id a) = Some cb"
    using listen_leaves_session [OF assms(1)] by (simp add: on_answer_def update_conv')
  moreover have "\<not> li_panicked ?l" by (simp add: listen_not_panicked on_answer_def start_listener_def)
  ultimately have "(cb, a) \<in> set (li_called (listener_message True (SAnswer a) ?l))"
    by (simp add: listener_message_def dispatch_answer_def Let_def)
  then have 1: "(cb, a) \<in> set (li_called (listen
      (Registers (ss_session_id a) cb # between @ Arrives (SAnswer a) # after) start_listener))"
    using listen_keeps_called by (auto simp: listen_append)
  let ?s = "on_answer (ss_session_id a) cb (listener_message True (SAnswer a) start_listener)"
  have 2: "li_called ?s = []"
    by (simp add: listener_message_def dispatch_answer_def on_answer_def start_listener_def Let_def)
  have "a \<notin> snd ` set (li_called (listen after ?s))"
    using listen_never_calls [of after a ?s] assms(2) 2 by simp
  then have "(cb, a) \<notin> set (li_called (listen after ?s))" by force
  with 1 2 show ?thesis by simp
qed

theorem answer_needs_callback_witness:
  "li_called (listen [Arrives (SAnswer \<lparr>ss_peer = sample_peer 1, ss_session_id = ''s'', ss_sdp = ''x''\<rparr>),
     Registers ''s'' True] start_listener) = []"
  using answer_needs_callback [of "[]" "\<lparr>ss_peer = sample_peer 1, ss_session_id = ''s'', ss_sdp = ''x''\<rparr>" "[]" True]
  by simp

end
