(* ===== verification/Rtc_Offer.thy ===== *)
theory Rtc_Offer
  imports Rtc_Receiver Signaling_Client
begin

text \<open>
  What \<open>send_offer\<close> and \<open>accept_offer\<close> of \<open>core/src/webrtc/webrtc.rs\<close> do around their tasks: create
  the peer connection, exchange the session descriptions through the signaling server, wait for
  the task or the end of the connection, and close. The crate \<open>webrtc\<close>, the signaling connection
  and the receiver of the statuses are the world: it says what each call returns and records the
  calls in order.
\<close>

section \<open>The world of a connection\<close>

text \<open>How the \<open>select\<close> at the end is decided: by the task, or by the connection going away.\<close>

datatype select_end = TaskEnded "unit res" | ConnectionClosed

datatype peer_call =
    CreateConnection
  | CreateChannel
  | SpawnTask
  | CreateOffer
  | CreateAnswer
  | SetLocal string
  | Signal ws_client_message
  | OnAnswer string
  | StatusSent rtc_status
  | SetRemote string
  | CloseChannel
  | CloseConnection

record peer_world =
  pw_connection :: "unit res"
  pw_channel :: "unit res"
  pw_description :: "string res"
  pw_set_local :: "unit res"
  pw_gathered :: "unit res"
  pw_local_description :: "string option"
  pw_signaling :: "unit res"
  pw_answer :: "string res"
  pw_parse :: "string \<Rightarrow> unit res"
  pw_set_remote :: "unit res"
  pw_statuses :: "unit res list"
  pw_end :: select_end
  pw_close_channel :: "unit res"
  pw_close :: "unit res"
  pw_calls :: "peer_call list"

text \<open>
  \<open>pw_description\<close> is what \<open>create_offer\<close> or \<open>create_answer\<close> gives, \<open>pw_local_description\<close> the local
  description once candidates are gathered, \<open>pw_answer\<close> what arrives on \<open>rx_answer\<close>, \<open>pw_parse\<close>
  whether a text is a session description; \<open>pw_statuses\<close> are the results of the next sends on
  \<open>status_tx\<close> (past its end they succeed).
\<close>

definition call_t :: "peer_call \<Rightarrow> (peer_world \<Rightarrow> 'a res) \<Rightarrow> (peer_world, 'a) task" where
  "call_t c result w = (result w, w\<lparr>pw_calls := pw_calls w @ [c]\<rparr>)"

definition ask_t :: "(peer_world \<Rightarrow> 'a res) \<Rightarrow> (peer_world, 'a) task" where
  "ask_t result w = (result w, w)"

definition peer_status :: "rtc_status \<Rightarrow> (peer_world, unit) task" where
  "peer_status s w =
     (case pw_statuses w of
        [] \<Rightarrow> (Ok (), w\<lparr>pw_calls := pw_calls w @ [StatusSent s]\<rparr>)
      | r # rs \<Rightarrow> (r, w\<lparr>pw_statuses := rs, pw_calls := pw_calls w @ [StatusSent s]\<rparr>))"

text \<open>A spawned task that panics ends with a \<open>JoinError\<close>, an error of the select's branch.\<close>

definition select_t :: "string \<Rightarrow> (peer_world, unit) task" where
  "select_t what w =
     (case pw_end w of
        ConnectionClosed \<Rightarrow> (Ok (), w)
      | TaskEnded (Panic s) \<Rightarrow> (Err (Wrap what (Lib s)), w)
      | TaskEnded r \<Rightarrow> (r, w))"

text \<open>The send that fails here closes the connection before the error is returned.\<close>

definition sdp_exchanged :: "(peer_world, unit) task" where
  "sdp_exchanged =
     bind_t (try_t (peer_status SdpExchanged)) (\<lambda>sent.
       case sent of
         Inl e \<Rightarrow> bind_t (call_t CloseConnection pw_close) (\<lambda>_. fail_t e)
       | Inr _ \<Rightarrow> return_t ())"

text \<open>From the \<open>select\<close> on.\<close>

definition finish_offer :: "(peer_world, unit) task" where
  "finish_offer =
     bind_t (select_t ''Sending error: '') (\<lambda>_.
     bind_t (ignore_t (peer_status Finished)) (\<lambda>_.
     bind_t (ignore_t (call_t CloseChannel pw_close_channel)) (\<lambda>_.
     bind_t (call_t CloseConnection pw_close) (\<lambda>_.
     return_t ()))))"

definition finish_accept :: "(peer_world, unit) task" where
  "finish_accept =
     bind_t (select_t ''Receiving error: '') (\<lambda>_.
     bind_t (ignore_t (peer_status Finished)) (\<lambda>_.
     bind_t (call_t CloseConnection pw_close) (\<lambda>_.
     return_t ())))"

section \<open>The two functions\<close>

text \<open>\<open>session_id\<close> is the fresh UUID as text.\<close>

definition send_offer ::
  "rtc_ext \<Rightarrow> string \<Rightarrow> uuid \<Rightarrow> (peer_world, unit) task" where
  "send_offer X session_id target_id =
     bind_t (call_t CreateConnection pw_connection) (\<lambda>_.
     bind_t (call_t CreateChannel pw_channel) (\<lambda>_.
     bind_t (call_t SpawnTask (\<lambda>_. Ok ())) (\<lambda>_.
     bind_t (call_t CreateOffer pw_description) (\<lambda>offer.
     bind_t (call_t (SetLocal offer) pw_set_local) (\<lambda>_.
     bind_t (ignore_t (ask_t pw_gathered)) (\<lambda>_.
     bind_t (ask_t (\<lambda>w. res_of_option (Msg ''Could not generate local_description'') (pw_local_description w)))
       (\<lambda>local_description.
     bind_t (call_t (Signal (send_offer_message session_id target_id (encode_sdp X local_description)))
       pw_signaling) (\<lambda>_.
     bind_t (call_t (OnAnswer session_id) (\<lambda>_. Ok ())) (\<lambda>_.
     bind_t (ask_t pw_answer) (\<lambda>remote_desc.
     bind_t sdp_exchanged (\<lambda>_.
     bind_t (lift_t (decode_sdp X remote_desc)) (\<lambda>answer.
     bind_t (ask_t (\<lambda>w. pw_parse w answer)) (\<lambda>_.
     bind_t (call_t (SetRemote answer) pw_set_remote) (\<lambda>_.
     finish_offer))))))))))))))"

definition accept_offer ::
  "rtc_ext \<Rightarrow> ws_server_sdp_message \<Rightarrow> (peer_world, unit) task" where
  "accept_offer X offer =
     bind_t (call_t CreateConnection pw_connection) (\<lambda>_.
     bind_t (call_t SpawnTask (\<lambda>_. Ok ())) (\<lambda>_.
     bind_t (lift_t (decode_sdp X (ss_sdp offer))) (\<lambda>remote_desc_sdp.
     bind_t (ask_t (\<lambda>w. pw_parse w remote_desc_sdp)) (\<lambda>_.
     bind_t (call_t (SetRemote remote_desc_sdp) pw_set_remote) (\<lambda>_.
     bind_t (call_t CreateAnswer pw_description) (\<lambda>answer.
     bind_t (call_t (SetLocal answer) pw_set_local) (\<lambda>_.
     bind_t (ignore_t (ask_t pw_gathered)) (\<lambda>_.
     bind_t (ask_t (\<lambda>w. res_of_option (Msg ''generate local_description failed!'') (pw_local_description w)))
       (\<lambda>local_description.
     bind_t (call_t (Signal (send_answer_message (ss_session_id offer) (ci_id (ss_peer offer))
       (encode_sdp X local_description))) pw_signaling) (\<lambda>_.
     bind_t sdp_exchanged (\<lambda>_.
     finish_accept)))))))))))"

text \<open>The start of the two tasks: they wait for the data channel to open.\<close>

definition opened_send_task ::
  "bool \<Rightarrow> rtc_ext \<Rightarrow> byte list \<Rightarrow> signing_token_key \<Rightarrow> verifying_token_key option \<Rightarrow> pin_config option \<Rightarrow>
   file_dto list \<Rightarrow> ('z sender_world_scheme, unit) task" where
  "opened_send_task opened X local_nonce signing_key expecting_public_key pin files =
     (if \<not> opened then fail_t (Msg ''Data channel not opened'')
      else send_task X local_nonce signing_key expecting_public_key pin files)"

definition opened_receive_task ::
  "bool \<Rightarrow> rtc_ext \<Rightarrow> byte list \<Rightarrow> (nat \<Rightarrow> string) \<Rightarrow> signing_token_key \<Rightarrow> verifying_token_key option \<Rightarrow>
   pin_config option \<Rightarrow> ('z receiver_world_scheme, unit) task" where
  "opened_receive_task found X local_nonce new_token signing_key expecting_public_key pin =
     (if \<not> found then fail_t (Msg ''Data channel not found'')
      else receive_task X local_nonce new_token signing_key expecting_public_key pin)"

end
