(* ===== verification/Rtc_Offer_Props.thy ===== *)
theory Rtc_Offer_Props
  imports Rtc_Offer Token_Props
begin

text \<open>
  Properties of \<open>send_offer\<close> and \<open>accept_offer\<close> around their tasks: the order of the calls, when the
  connection is closed, and the way the session descriptions take through the signaling server.
\<close>

lemmas peer_defs = call_t_def ask_t_def peer_status_def select_t_def sdp_exchanged_def

fun ignored :: "'a res \<Rightarrow> unit res" where
  "ignored (Panic s) = Panic s"
| "ignored Wait = Wait"
| "ignored _ = Ok ()"

lemma ignore_ask_t: "ignore_t (ask_t f) w = (ignored (f w), w)"
  by (simp add: ask_t_def ignore_t_def bind_t_def try_t_def split: res.splits)

lemmas finish_defs = finish_offer_def finish_accept_def

definition sdp_ok :: "rtc_ext \<Rightarrow> bool" where
  "sdp_ok X \<longleftrightarrow> base64_ok (rx_crypto X) \<and> (\<forall>d. zlib_decompress X (zlib_compress X d) = Some d)"

lemma decode_encode_sdp: "sdp_ok X \<Longrightarrow> valid_utf8 (as_bytes s) \<Longrightarrow> decode_sdp X (encode_sdp X s) = Ok s"
  by (simp add: sdp_ok_def decode_sdp_def encode_sdp_def from_utf8_def)

section \<open>The calls\<close>

text \<open>A world in which every call up to the \<open>select\<close> succeeds.\<close>

definition smooth :: "peer_world \<Rightarrow> bool" where
  "smooth w \<longleftrightarrow> pw_connection w = Ok () \<and> pw_channel w = Ok () \<and> pw_set_local w = Ok () \<and>
     pw_gathered w = Ok () \<and> pw_signaling w = Ok () \<and> pw_set_remote w = Ok () \<and> pw_statuses w = [] \<and>
     pw_calls w = [] \<and> is_ok (pw_close_channel w)"

definition offer_calls :: "rtc_ext \<Rightarrow> string \<Rightarrow> uuid \<Rightarrow> string \<Rightarrow> string \<Rightarrow> string \<Rightarrow> peer_call list" where
  "offer_calls X session_id target_id offer local_description answer =
     [CreateConnection, CreateChannel, SpawnTask, CreateOffer, SetLocal offer,
      Signal (send_offer_message session_id target_id (encode_sdp X local_description)),
      OnAnswer session_id, StatusSent SdpExchanged, SetRemote answer]"

definition answer_calls :: "rtc_ext \<Rightarrow> ws_server_sdp_message \<Rightarrow> string \<Rightarrow> string \<Rightarrow> string \<Rightarrow> peer_call list" where
  "answer_calls X offer remote answer local_description =
     [CreateConnection, SpawnTask, SetRemote remote, CreateAnswer, SetLocal answer,
      Signal (send_answer_message (ss_session_id offer) (ci_id (ss_peer offer)) (encode_sdp X local_description)),
      StatusSent SdpExchanged]"

lemma offer_ends:
  assumes "smooth w" and "pw_description w = Ok d" and "pw_local_description w = Some l"
    and "pw_parse w s = Ok ()" and "pw_answer w = Ok a" and "decode_sdp X a = Ok s"
  shows "pw_end w = TaskEnded (Err e) \<Longrightarrow> send_offer X session_id target_id w = (Err e,
      w\<lparr>pw_calls := offer_calls X session_id target_id d l s\<rparr>)"
    and "pw_end w \<in> {TaskEnded (Ok ()), ConnectionClosed} \<Longrightarrow> send_offer X session_id target_id w = (pw_close w,
      w\<lparr>pw_calls := offer_calls X session_id target_id d l s @ [StatusSent Finished, CloseChannel, CloseConnection]\<rparr>)"
proof -
  from assms(1) obtain u where u: "pw_close_channel w = Ok u" by (auto simp: smooth_def is_ok_iff)
  note run = smooth_def send_offer_def finish_offer_def peer_defs bind_t_eqs try_t_eqs ignore_t_eqs ignore_ask_t
    simple_task_eqs offer_calls_def
  show "send_offer X session_id target_id w = (Err e, w\<lparr>pw_calls := offer_calls X session_id target_id d l s\<rparr>)"
    if "pw_end w = TaskEnded (Err e)"
    using assms that by (simp add: run)
  show "send_offer X session_id target_id w = (pw_close w,
      w\<lparr>pw_calls := offer_calls X session_id target_id d l s @ [StatusSent Finished, CloseChannel, CloseConnection]\<rparr>)"
    if "pw_end w \<in> {TaskEnded (Ok ()), ConnectionClosed}"
    using assms u that by (cases "pw_close w") (auto simp: run)
qed

lemma accept_ends:
  assumes "smooth w" and "pw_description w = Ok d" and "pw_local_description w = Some l"
    and "pw_parse w s = Ok ()" and "decode_sdp X (ss_sdp offer) = Ok s"
  shows "pw_end w = TaskEnded (Err e) \<Longrightarrow> accept_offer X offer w = (Err e,
      w\<lparr>pw_calls := answer_calls X offer s d l\<rparr>)"
    and "pw_end w \<in> {TaskEnded (Ok ()), ConnectionClosed} \<Longrightarrow> accept_offer X offer w = (pw_close w,
      w\<lparr>pw_calls := answer_calls X offer s d l @ [StatusSent Finished, CloseConnection]\<rparr>)"
proof -
  note run = smooth_def accept_offer_def finish_accept_def peer_defs bind_t_eqs try_t_eqs ignore_t_eqs ignore_ask_t
    simple_task_eqs answer_calls_def
  show "accept_offer X offer w = (Err e, w\<lparr>pw_calls := answer_calls X offer s d l\<rparr>)"
    if "pw_end w = TaskEnded (Err e)"
    using assms that by (simp add: run)
  show "accept_offer X offer w = (pw_close w,
      w\<lparr>pw_calls := answer_calls X offer s d l @ [StatusSent Finished, CloseConnection]\<rparr>)"
    if "pw_end w \<in> {TaskEnded (Ok ()), ConnectionClosed}"
    using assms that by (cases "pw_close w") (auto simp: run)
qed

text \<open>
  C28: how the two functions end once the descriptions are exchanged. When the task ends well or
  the connection goes away, the status \<open>Finished\<close> is reported and the connection closed. When the
  task fails, its error is returned at once: no status, and the connection is not closed.
\<close>

theorem connection_ends:
  assumes "smooth w" and "pw_description w = Ok d" and "pw_local_description w = Some l"
    and "pw_parse w s = Ok ()"
    and "pw_answer w = Ok a" and "decode_sdp X a = Ok s" and "decode_sdp X (ss_sdp offer) = Ok s"
    and "\<forall>m. pw_end w \<noteq> TaskEnded (Panic m)" and "pw_end w \<noteq> TaskEnded Wait"
  shows "(case send_offer X session_id target_id w of (r, w') \<Rightarrow>
      (case pw_end w of
         TaskEnded (Err e) \<Rightarrow> r = Err e \<and> pw_calls w' = offer_calls X session_id target_id d l s
       | _ \<Rightarrow> r = pw_close w \<and> pw_calls w' = offer_calls X session_id target_id d l s @
           [StatusSent Finished, CloseChannel, CloseConnection])) \<and>
    (case accept_offer X offer w of (r, w') \<Rightarrow>
      (case pw_end w of
         TaskEnded (Err e) \<Rightarrow> r = Err e \<and> pw_calls w' = answer_calls X offer s d l
       | _ \<Rightarrow> r = pw_close w \<and> pw_calls w' = answer_calls X offer s d l @
           [StatusSent Finished, CloseConnection]))"
proof -
  note offer = offer_ends [OF assms(1-6)] and accept = accept_ends [OF assms(1-4,7)]
  consider (err) e where "pw_end w = TaskEnded (Err e)" | (finished) "pw_end w \<in> {TaskEnded (Ok ()), ConnectionClosed}"
    using assms(8,9) by (cases "pw_end w") (auto, metis (full_types) res.exhaust unit.exhaust)
  then show ?thesis
  proof cases
    case err
    then show ?thesis by (simp add: offer(1) accept(1))
  next
    case finished
    then show ?thesis by (elim insertE emptyE) (simp_all add: offer(2) accept(2))
  qed
qed

section \<open>Through the signaling server\<close>

lemma sdp_exchanged_cases:
  "sdp_exchanged w = (r, w') \<Longrightarrow> pw_answer w' = pw_answer w \<and> pw_local_description w' = pw_local_description w \<and>
    (\<exists>cs. pw_calls w' = pw_calls w @ cs \<and> set cs \<subseteq> {StatusSent SdpExchanged, CloseConnection})"
  by (auto simp: peer_defs bind_t_def try_t_def split: res.splits list.splits sum.splits prod.splits)

lemma finish_cases:
  "finish_offer w = (r, w') \<Longrightarrow>
    \<exists>cs. pw_calls w' = pw_calls w @ cs \<and> set cs \<subseteq> {StatusSent Finished, CloseChannel, CloseConnection}"
  "finish_accept w = (r, w') \<Longrightarrow>
    \<exists>cs. pw_calls w' = pw_calls w @ cs \<and> set cs \<subseteq> {StatusSent Finished, CloseConnection}"
  by (auto simp: finish_defs bind_t_def try_t_def ignore_t_def select_t_def peer_status_def call_t_def
      split: res.splits list.splits select_end.splits prod.splits)

lemmas offer_run_defs = bind_t_def call_t_def ask_t_def ignore_ask_t res_of_option_def

lemma send_offer_uses:
  assumes "send_offer X session_id target_id w = (r, w')" and "pw_calls w = []"
  shows "(Signal m \<in> set (pw_calls w') \<longrightarrow> (\<exists>l. pw_local_description w = Some l \<and>
      m = send_offer_message session_id target_id (encode_sdp X l))) \<and>
    (SetRemote x \<in> set (pw_calls w') \<longrightarrow> (\<exists>a. pw_answer w = Ok a \<and> decode_sdp X a = Ok x))"
  using assms
  by (auto simp: send_offer_def offer_run_defs dest!: sdp_exchanged_cases finish_cases
      split: res.splits option.splits prod.splits)

lemma accept_offer_uses:
  assumes "accept_offer X offer w = (r, w')" and "pw_calls w = []"
  shows "(Signal m \<in> set (pw_calls w') \<longrightarrow> (\<exists>l. pw_local_description w = Some l \<and>
      m = send_answer_message (ss_session_id offer) (ci_id (ss_peer offer)) (encode_sdp X l))) \<and>
    (SetRemote x \<in> set (pw_calls w') \<longrightarrow> decode_sdp X (ss_sdp offer) = Ok x)"
  using assms
  by (auto simp: accept_offer_def offer_run_defs dest!: sdp_exchanged_cases finish_cases
      split: res.splits option.splits prod.splits)

lemma sent_sdp:
  assumes "handle_client_message cfg g p msg m counts = (go_on, sends, m', counts')"
    and "(t, out) \<in> set sends" and "msg = COffer sdp \<or> msg = CAnswer sdp" and "\<forall>e. out \<noteq> SError e"
  shows "t = cs_target sdp \<and> t \<in> fst ` set (local_map m g) \<and>
    out = (if msg = COffer sdp then SOffer else SAnswer)
      \<lparr>ss_peer = p, ss_session_id = cs_session_id sdp, ss_sdp = cs_sdp sdp\<rparr>"
  using assms
  by (auto simp: handle_client_message_def send_to_peer_def Let_def local_map_def
      split: option.splits prod.splits)
    (erule map_of_Some_key)+

text \<open>
  C11: the two functions through the signaling server. The offer of one peer reaches only the
  target it names, and only in its own group, marked with the offering peer; the accepting peer
  answers to that peer under the same session; the answer reaches the callback the offering peer
  has registered; and each side sets as remote description exactly the local one of the other.
\<close>

theorem sdp_exchange_through_server:
  assumes "sdp_ok X" and "valid_utf8 (as_bytes la)" and "valid_utf8 (as_bytes lb)"
    and offers: "send_offer X session_id (ci_id b) wa = (ra, wa')" "pw_calls wa = []"
      "pw_local_description wa = Some la" "Signal offer \<in> set (pw_calls wa')"
    and to_b: "handle_client_message cfg g a offer m counts = (go_on, sends, m1, counts1)"
      "(t, SOffer off) \<in> set sends"
    and accepts: "accept_offer X off wb = (rb, wb')" "pw_calls wb = []"
      "pw_local_description wb = Some lb" "Signal answer \<in> set (pw_calls wb')"
    and to_a: "handle_client_message cfg g b answer m2 counts2 = (go_on', sends', m3, counts3)"
      "(t', SAnswer an) \<in> set sends'"
    and arrives: "pw_answer wa = Ok (ss_sdp an)"
  shows "t = ci_id b \<and> t \<in> fst ` set (local_map m g) \<and> ss_peer off = a \<and>
    t' = ci_id a \<and> t' \<in> fst ` set (local_map m2 g) \<and> ss_peer an = b \<and>
    (callback, an) \<in> set (li_called (listen [Registers session_id callback, Arrives (SAnswer an)] start_listener)) \<and>
    (\<forall>x. SetRemote x \<in> set (pw_calls wb') \<longrightarrow> x = la) \<and>
    (\<forall>x. SetRemote x \<in> set (pw_calls wa') \<longrightarrow> x = lb)"
proof -
  have "offer = send_offer_message session_id (ci_id b) (encode_sdp X la)"
    using send_offer_uses [OF offers(1,2), of offer] offers(3,4) by auto
  then have off: "t = ci_id b" "t \<in> fst ` set (local_map m g)"
    "off = \<lparr>ss_peer = a, ss_session_id = session_id, ss_sdp = encode_sdp X la\<rparr>"
    using sent_sdp [OF to_b] by (auto simp: send_offer_message_def)
  then have "answer = send_answer_message session_id (ci_id a) (encode_sdp X lb)"
    using accept_offer_uses [OF accepts(1,2), of answer] accepts(3,4) by auto
  then have an: "t' = ci_id a" "t' \<in> fst ` set (local_map m2 g)"
    "an = \<lparr>ss_peer = b, ss_session_id = session_id, ss_sdp = encode_sdp X lb\<rparr>"
    using sent_sdp [OF to_a] by (auto simp: send_answer_message_def)
  have "x = la" if "SetRemote x \<in> set (pw_calls wb')" for x
    using accept_offer_uses [OF accepts(1,2), of answer x] that off(3) decode_encode_sdp [OF assms(1,2)] by simp
  moreover have "x = lb" if "SetRemote x \<in> set (pw_calls wa')" for x
    using send_offer_uses [OF offers(1,2), of offer x] that arrives an(3) decode_encode_sdp [OF assms(1,3)] by auto
  moreover have "(callback, an) \<in> set (li_called (listen [Registers session_id callback, Arrives (SAnswer an)] start_listener))"
    using an(3) by (simp add: on_answer_def listener_message_def dispatch_answer_def start_listener_def Let_def)
  ultimately show ?thesis using off an by simp
qed

section \<open>Concrete runs\<close>

definition sample_sdp_ext :: rtc_ext where
  "sample_sdp_ext = wire_ext sample_crypto (\<lambda>d. d) Some"

lemma sample_sdp_ok: "sdp_ok sample_sdp_ext"
  by (simp add: sdp_ok_def sample_sdp_ext_def wire_ext_def sample_crypto_ok)

definition sample_peer_world :: "string \<Rightarrow> string \<Rightarrow> select_end \<Rightarrow> peer_world" where
  "sample_peer_world local_description answer_text ending =
     \<lparr>pw_connection = Ok (), pw_channel = Ok (), pw_description = Ok local_description, pw_set_local = Ok (),
      pw_gathered = Ok (), pw_local_description = Some local_description, pw_signaling = Ok (),
      pw_answer = Ok answer_text, pw_parse = (\<lambda>_. Ok ()), pw_set_remote = Ok (), pw_statuses = [],
      pw_end = ending, pw_close_channel = Ok (), pw_close = Ok (), pw_calls = []\<rparr>"

lemma sample_peer_world_smooth: "smooth (sample_peer_world l a e)"
  by (simp add: smooth_def sample_peer_world_def)

lemma valid_utf8_samples: "valid_utf8 (as_bytes ''A'')" "valid_utf8 (as_bytes ''B'')"
  by code_simp+

theorem connection_ends_witness:
  "\<exists>w'. send_offer sample_sdp_ext ''s'' 1
     (sample_peer_world ''A'' (encode_sdp sample_sdp_ext ''B'') (TaskEnded (Err (Msg ''lost'')))) =
       (Err (Msg ''lost''), w') \<and> CloseConnection \<notin> set (pw_calls w')"
proof -
  let ?w = "sample_peer_world ''A'' (encode_sdp sample_sdp_ext ''B'') (TaskEnded (Err (Msg ''lost'')))"
  obtain r w' where run: "send_offer sample_sdp_ext ''s'' 1 ?w = (r, w')" by (cases "send_offer sample_sdp_ext ''s'' 1 ?w")
  have "r = Err (Msg ''lost'') \<and> pw_calls w' = offer_calls sample_sdp_ext ''s'' 1 ''A'' ''A'' ''B''"
    using connection_ends [OF sample_peer_world_smooth, of "''A''" "encode_sdp sample_sdp_ext ''B''"
        "TaskEnded (Err (Msg ''lost''))" "''A''" "''A''" "''B''" "encode_sdp sample_sdp_ext ''B''" sample_sdp_ext
        "\<lparr>ss_peer = sample_peer 0, ss_session_id = ''s'', ss_sdp = encode_sdp sample_sdp_ext ''B''\<rparr>" "''s''" 1]
      run decode_encode_sdp [OF sample_sdp_ok valid_utf8_samples(2)]
    by (simp add: sample_peer_world_def)
  with run show ?thesis by (simp add: offer_calls_def)
qed

definition sample_tx_map :: tx_map where
  "sample_tx_map = [(''g'', [(0, client_info_strip (sample_peer 0)), (1, client_info_strip (sample_peer 1))])]"

lemma sample_forward:
  "handle_client_message sample_config ''g'' p (send_offer_message s (ci_id (sample_peer 1)) x) sample_tx_map [] =
     (True, [(1, SOffer \<lparr>ss_peer = p, ss_session_id = s, ss_sdp = x\<rparr>)], sample_tx_map, [(''g'', 1)])"
  "handle_client_message sample_config ''g'' p (send_answer_message s (ci_id (sample_peer 0)) x) sample_tx_map [] =
     (True, [(0, SAnswer \<lparr>ss_peer = p, ss_session_id = s, ss_sdp = x\<rparr>)], sample_tx_map, [(''g'', 1)])"
  by (simp_all add: handle_client_message_def protect_ddos_request_count_def sample_config_def send_to_peer_def
      sample_tx_map_def send_offer_message_def send_answer_message_def sample_peer_def)

definition sample_offer :: ws_server_sdp_message where
  "sample_offer = \<lparr>ss_peer = sample_peer 0, ss_session_id = ''s'', ss_sdp = encode_sdp sample_sdp_ext ''A''\<rparr>"

definition sample_answer :: ws_server_sdp_message where
  "sample_answer = \<lparr>ss_peer = sample_peer 1, ss_session_id = ''s'', ss_sdp = encode_sdp sample_sdp_ext ''B''\<rparr>"

theorem sdp_exchange_through_server_witness:
  "\<exists>wb'. accept_offer sample_sdp_ext sample_offer (sample_peer_world ''B'' '''' ConnectionClosed) = (Ok (), wb') \<and>
     SetRemote ''A'' \<in> set (pw_calls wb') \<and> (\<forall>x. SetRemote x \<in> set (pw_calls wb') \<longrightarrow> x = ''A'')"
proof -
  let ?X = sample_sdp_ext
  define wa where "wa = sample_peer_world ''A'' (ss_sdp sample_answer) ConnectionClosed"
  define wb where "wb = sample_peer_world ''B'' '''' ConnectionClosed"
  have w: "pw_calls wa = []" "pw_local_description wa = Some ''A''" "pw_answer wa = Ok (ss_sdp sample_answer)"
    "pw_calls wb = []" "pw_local_description wb = Some ''B''"
    by (simp_all add: wa_def wb_def sample_peer_world_def)
  have sdp: "ss_sdp sample_answer = encode_sdp ?X ''B''" "ss_sdp sample_offer = encode_sdp ?X ''A''"
    "ss_session_id sample_offer = ''s''" "ss_peer sample_offer = sample_peer 0"
    by (simp_all add: sample_answer_def sample_offer_def)
  have dec: "decode_sdp ?X (encode_sdp ?X ''A'') = Ok ''A''" "decode_sdp ?X (encode_sdp ?X ''B'') = Ok ''B''"
    by (rule decode_encode_sdp [OF sample_sdp_ok], rule valid_utf8_samples)+
  obtain wa' where a: "send_offer ?X ''s'' (ci_id (sample_peer 1)) wa = (Ok (), wa')"
    "Signal (send_offer_message ''s'' (ci_id (sample_peer 1)) (encode_sdp ?X ''A'')) \<in> set (pw_calls wa')"
    using dec sdp by (simp add: wa_def send_offer_def finish_defs peer_defs ignore_t_def try_t_def bind_t_def
        sample_peer_world_def)
  obtain wb' where b: "accept_offer ?X sample_offer wb = (Ok (), wb')"
    "Signal (send_answer_message ''s'' (ci_id (sample_peer 0)) (encode_sdp ?X ''B'')) \<in> set (pw_calls wb')"
    "SetRemote ''A'' \<in> set (pw_calls wb')"
    using dec sdp by (simp add: wb_def accept_offer_def finish_defs peer_defs ignore_t_def try_t_def bind_t_def
        sample_peer_world_def)
  have sent: "(1, SOffer sample_offer) \<in> set [(1, SOffer sample_offer)]"
    "(0, SAnswer sample_answer) \<in> set [(0, SAnswer sample_answer)]" by simp_all
  note exchange = sdp_exchange_through_server [OF sample_sdp_ok valid_utf8_samples a(1) w(1,2) a(2)
      sample_forward(1) [of "sample_peer 0" "''s''" "encode_sdp ?X ''A''", folded sample_offer_def] sent(1) b(1) w(4,5) b(2)
      sample_forward(2) [of "sample_peer 1" "''s''" "encode_sdp ?X ''B''", folded sample_answer_def] sent(2) w(3)]
  have "\<forall>x. SetRemote x \<in> set (pw_calls wb') \<longrightarrow> x = ''A''"
    by (rule exchange [of "()", THEN conjunct2, THEN conjunct2, THEN conjunct2, THEN conjunct2, THEN conjunct2,
          THEN conjunct2, THEN conjunct2, THEN conjunct1])
  with b(1,3) show ?thesis unfolding wb_def by (intro exI conjI)
qed

end
