(* ===== verification/Rtc_Channel.thy ===== *)
theory Rtc_Channel
  imports Rtc_Session Rtc_Offer_Props
begin

text \<open>
  What \<open>send_offer\<close> and \<open>accept_offer\<close> of \<open>core/src/webrtc/webrtc.rs\<close> register with the crate
  \<open>webrtc\<close>: the end of the connection (\<open>create_peer_connection\<close>), the data channel
  (\<open>on_data_channel\<close>, \<open>on_open\<close>) and its messages (\<open>to_receive_stream\<close>). The crate calls a handler
  for each event of its kind in order, one at a time. What it does with a message while no handler
  is registered is an argument.
\<close>

section \<open>The end of a connection\<close>

text \<open>\<open>RTCPeerConnectionState\<close> of the crate.\<close>

datatype connection_state =
  StateNew | StateConnecting | StateConnected | StateDisconnected | StateFailed | StateClosed

text \<open>
  The handler of \<open>on_peer_connection_state_change\<close>, on the channel of capacity one behind
  \<open>done_tx\<close>: whether it holds a value. \<open>try_send\<close> into a full channel changes nothing.
\<close>

definition on_state_change :: "connection_state \<Rightarrow> bool \<Rightarrow> bool" where
  "on_state_change s signalled = (if s = StateDisconnected then True else signalled)"

definition connection_done :: "connection_state list \<Rightarrow> bool" where
  "connection_done states = fold on_state_change states False"

text \<open>
  The \<open>select\<close> over the task and \<open>done_rx\<close>: every branch that is ready may win; with none it waits,
  as a task that has not ended does.
\<close>

definition select_ends :: "connection_state list \<Rightarrow> unit res \<Rightarrow> select_end list" where
  "select_ends states task =
     (let ready = (if task \<noteq> Wait then [TaskEnded task] else []) @
                  (if connection_done states then [ConnectionClosed] else [])
      in if ready = [] then [TaskEnded Wait] else ready)"

lemma connection_done_iff: "connection_done states \<longleftrightarrow> StateDisconnected \<in> set states"
proof -
  have "fold on_state_change states b \<longleftrightarrow> b \<or> StateDisconnected \<in> set states" for b
    by (induction states arbitrary: b) (auto simp: on_state_change_def)
  then show ?thesis by (simp add: connection_done_def)
qed

section \<open>The data channel\<close>

definition CHANNEL_LABEL :: string where "CHANNEL_LABEL = ''data''"

text \<open>
  \<open>on_data_channel\<close> and the \<open>on_open\<close> it sets: the opened channel goes into a queue of one, unless its
  label is another one or the queue is full. A channel is its label and what identifies it.
\<close>

definition channel_opened :: "string \<times> 'd \<Rightarrow> 'd list \<Rightarrow> 'd list" where
  "channel_opened ch queue =
     (if fst ch \<noteq> CHANNEL_LABEL then queue
      else if length queue < 1 then queue @ [snd ch] else queue)"



section \<open>The stream of messages\<close>

text \<open>
  \<open>st_handler\<close>: whether \<open>on_message\<close> has a handler; \<open>st_pending\<close>: messages the crate has read for
  which the handler has not finished (it is called for one at a time, and its \<open>tx.send\<close> waits for
  room); \<open>st_queue\<close>: the channel behind \<open>receive_rx\<close>.
\<close>

record rtc_stream =
  st_handler :: bool
  st_pending :: "data_channel_message list"
  st_queue :: "data_channel_message list"

definition new_stream :: rtc_stream where
  "new_stream = \<lparr>st_handler = False, st_pending = [], st_queue = []\<rparr>"

definition to_receive_stream :: "rtc_stream \<Rightarrow> rtc_stream" where
  "to_receive_stream s = s\<lparr>st_handler := True, st_queue := []\<rparr>"

definition STREAM_BUFFER :: nat where "STREAM_BUFFER = 16"

datatype stream_event = MessageArrives data_channel_message | HandlerSends | TaskReceives

text \<open>What the crate does with a message for which there is no handler.\<close>

type_synonym unhandled_message = "data_channel_message \<Rightarrow> rtc_stream \<Rightarrow> rtc_stream"

text \<open>One event, and the message the task got by it.\<close>

definition stream_event ::
  "unhandled_message \<Rightarrow> nat \<Rightarrow> stream_event \<Rightarrow> rtc_stream \<Rightarrow> data_channel_message list \<times> rtc_stream" where
  "stream_event unhandled buffer e s =
     (case e of
        MessageArrives m \<Rightarrow> ([], if st_handler s then s\<lparr>st_pending := st_pending s @ [m]\<rparr> else unhandled m s)
      | HandlerSends \<Rightarrow>
          ([], case st_pending s of
                 [] \<Rightarrow> s
               | m # ms \<Rightarrow>
                   if length (st_queue s) < buffer
                   then s\<lparr>st_pending := ms, st_queue := st_queue s @ [m]\<rparr> else s)
      | TaskReceives \<Rightarrow>
          (case st_queue s of
             [] \<Rightarrow> ([], s)
           | m # ms \<Rightarrow> ([m], s\<lparr>st_queue := ms\<rparr>)))"

fun stream_run ::
  "unhandled_message \<Rightarrow> nat \<Rightarrow> stream_event list \<Rightarrow> rtc_stream \<Rightarrow> data_channel_message list \<times> rtc_stream" where
  "stream_run unhandled buffer [] s = ([], s)"
| "stream_run unhandled buffer (e # es) s =
     (let (got, s1) = stream_event unhandled buffer e s; (later, s2) = stream_run unhandled buffer es s1
      in (got @ later, s2))"

fun arrivals :: "stream_event list \<Rightarrow> data_channel_message list" where
  "arrivals [] = []"
| "arrivals (MessageArrives m # es) = m # arrivals es"
| "arrivals (_ # es) = arrivals es"

text \<open>The incoming messages of the world of a task: all that the stream holds.\<close>

definition stream_in :: "rtc_stream \<Rightarrow> data_channel_message list" where
  "stream_in s = st_queue s @ st_pending s"

lemma stream_event_keeps:
  assumes "stream_event unhandled buffer e s = (got, s')" and "st_handler s" and "length (st_queue s) \<le> buffer"
  shows "got @ stream_in s' = stream_in s @ arrivals [e]" "st_handler s'" "length (st_queue s') \<le> buffer"
  using assms by (auto simp: stream_event_def stream_in_def split: stream_event.splits list.splits if_splits)

lemma stream_run_keeps:
  "stream_run unhandled buffer es s = (got, s') \<Longrightarrow> st_handler s \<Longrightarrow> length (st_queue s) \<le> buffer \<Longrightarrow>
    got @ stream_in s' = stream_in s @ arrivals es \<and> st_handler s' \<and> length (st_queue s') \<le> buffer"
proof (induction es arbitrary: s got)
  case (Cons e es)
  obtain g1 s1 g2 where e: "stream_event unhandled buffer e s = (g1, s1)" and es: "stream_run unhandled buffer es s1 = (g2, s')"
    and got: "got = g1 @ g2"
    using Cons.prems(1) by (auto split: prod.splits)
  have "arrivals (e # es) = arrivals [e] @ arrivals es" by (cases e) simp_all
  with Cons.IH [OF es] stream_event_keeps [OF e Cons.prems(2,3)] got show ?case by simp
qed simp

text \<open>
  C19: the stream behind \<open>receive_rx\<close>, a bounded channel filled by the handler of \<open>on_message\<close>,
  refines the list of incoming messages the tasks are modelled with: whatever the order in which
  messages arrive, the handler runs and the task reads, the task reads what has arrived since the
  stream was made, in order and without loss; the channel never holds more than 16; each read is a
  \<open>recv\<close> on that list; and a message that waits can always be read after the handler has run.
\<close>

theorem stream_refines_list:
  assumes "stream_run unhandled STREAM_BUFFER es (to_receive_stream new_stream) = (got, s)"
  shows "got @ stream_in s = arrivals es \<and> length (st_queue s) \<le> 16 \<and>
    (\<forall>m s'. stream_event unhandled STREAM_BUFFER TaskReceives s = ([m], s') \<longrightarrow>
       recv (w\<lparr>w_in := stream_in s\<rparr>) = (Ok (Some m), w\<lparr>w_in := stream_in s'\<rparr>)) \<and>
    (stream_in s \<noteq> [] \<longrightarrow>
       (\<exists>m s'. stream_run unhandled STREAM_BUFFER [HandlerSends, TaskReceives] s = ([m], s')))"
proof -
  have keeps: "got @ stream_in s = arrivals es" "length (st_queue s) \<le> STREAM_BUFFER"
    using stream_run_keeps [OF assms]
    by (simp_all add: to_receive_stream_def new_stream_def stream_in_def)
  have "recv (w\<lparr>w_in := stream_in s\<rparr>) = (Ok (Some m), w\<lparr>w_in := stream_in s'\<rparr>)"
    if "stream_event unhandled STREAM_BUFFER TaskReceives s = ([m], s')" for m s'
    using that by (auto simp: stream_event_def stream_in_def recv_def split: list.splits)
  moreover have "\<exists>m s'. stream_run unhandled STREAM_BUFFER [HandlerSends, TaskReceives] s = ([m], s')" if "stream_in s \<noteq> []"
    using that by (cases "st_queue s"; cases "st_pending s")
      (auto simp: stream_event_def stream_in_def STREAM_BUFFER_def)
  ultimately show ?thesis using keeps by (simp add: STREAM_BUFFER_def)
qed

theorem stream_refines_list_witness:
  "\<exists>s. stream_run (\<lambda>m s. s) STREAM_BUFFER [MessageArrives (Text ''a''), MessageArrives (Text ''b''), HandlerSends, TaskReceives]
     (to_receive_stream new_stream) = ([Text ''a''], s) \<and> stream_in s = [Text ''b'']"
proof -
  obtain got s where run: "stream_run (\<lambda>m s. s) STREAM_BUFFER
      [MessageArrives (Text ''a''), MessageArrives (Text ''b''), HandlerSends, TaskReceives]
      (to_receive_stream new_stream) = (got, s)" by fastforce
  then have "got = [Text ''a'']"
    by (simp add: stream_event_def to_receive_stream_def new_stream_def STREAM_BUFFER_def)
  moreover have "got @ stream_in s = [Text ''a'', Text ''b'']"
    using stream_refines_list [OF run, of sample_world] by simp
  ultimately show ?thesis using run by auto
qed

section \<open>Connections that do not come about\<close>

text \<open>
  C30: once the descriptions are exchanged and while the task waits, \<open>send_offer\<close> and
  \<open>accept_offer\<close> return if and only if the connection has been reported as disconnected. A
  connection that fails without that report (the negotiation finds no path, so the data channel
  never opens) leaves both waiting for ever.
\<close>

theorem lost_connection_noticed:
  assumes "smooth w" and "pw_description w = Ok d" and "pw_local_description w = Some l" and "pw_parse w s = Ok ()"
    and "pw_answer w = Ok a" and "decode_sdp X a = Ok s" and "decode_sdp X (ss_sdp offer) = Ok s"
    and "pw_end w \<in> set (select_ends states Wait)" and "pw_close w = Ok ()"
  shows "(fst (send_offer X session_id target_id w) \<noteq> Wait \<longleftrightarrow> StateDisconnected \<in> set states) \<and>
    (fst (accept_offer X offer w) \<noteq> Wait \<longleftrightarrow> StateDisconnected \<in> set states)"
proof -
  from assms(1) obtain u where u: "pw_close_channel w = Ok u" by (auto simp: smooth_def is_ok_iff)
  have "pw_end w = (if StateDisconnected \<in> set states then ConnectionClosed else TaskEnded Wait)"
    using assms(8) by (simp add: select_ends_def connection_done_iff split: if_splits)
  with assms(1-7,9) u show ?thesis
    by (cases "StateDisconnected \<in> set states") (simp_all add: smooth_def send_offer_def accept_offer_def finish_defs
        peer_defs bind_t_eqs try_t_eqs ignore_t_eqs ignore_ask_t simple_task_eqs)
qed

theorem lost_connection_noticed_witness:
  "fst (send_offer sample_sdp_ext ''s'' 1
     (sample_peer_world ''A'' (encode_sdp sample_sdp_ext ''B'') (TaskEnded Wait))) = Wait"
  using lost_connection_noticed [OF sample_peer_world_smooth, of "''A''" "encode_sdp sample_sdp_ext ''B''"
      "TaskEnded Wait" "''A''" "''A''" "''B''" "encode_sdp sample_sdp_ext ''B''" sample_sdp_ext
      "\<lparr>ss_peer = sample_peer 0, ss_session_id = ''s'', ss_sdp = encode_sdp sample_sdp_ext ''B''\<rparr>"
      "[StateConnecting, StateFailed]" "''s''" 1]
    decode_encode_sdp [OF sample_sdp_ok valid_utf8_samples(2)]
  by (simp add: sample_peer_world_def select_ends_def connection_done_iff)

section \<open>The receiving side from the start\<close>

text \<open>
  \<open>accept_offer\<close>: channels that have opened wait for the spawned task, which takes the first and
  only then registers the handler for its messages. The messages are those of that channel.
\<close>

record 'd receiving_side =
  rs_opened :: "'d list"
  rs_channel :: "'d option"
  rs_stream :: rtc_stream


datatype 'd channel_event = ChannelOpens "string \<times> 'd" | TaskTakesChannel | OnStream stream_event

definition channel_event ::
  "unhandled_message \<Rightarrow> 'd channel_event \<Rightarrow> 'd receiving_side \<Rightarrow> data_channel_message list \<times> 'd receiving_side" where
  "channel_event unhandled e s =
     (case e of
        ChannelOpens ch \<Rightarrow> ([], s\<lparr>rs_opened := channel_opened ch (rs_opened s)\<rparr>)
      | TaskTakesChannel \<Rightarrow>
          ([], case rs_channel s of
                 Some _ \<Rightarrow> s
               | None \<Rightarrow>
                   (case rs_opened s of
                      [] \<Rightarrow> s
                    | d # ds \<Rightarrow>
                        s\<lparr>rs_opened := ds, rs_channel := Some d, rs_stream := to_receive_stream (rs_stream s)\<rparr>))
      | OnStream e \<Rightarrow>
          (case stream_event unhandled STREAM_BUFFER e (rs_stream s) of
             (got, stream) \<Rightarrow> (got, s\<lparr>rs_stream := stream\<rparr>)))"


text \<open>The channels that open and the messages that arrive in a run.\<close>

definition openings :: "'d channel_event list \<Rightarrow> (string \<times> 'd) list" where
  "openings es = concat (map (\<lambda>e. case e of ChannelOpens ch \<Rightarrow> [ch] | _ \<Rightarrow> []) es)"

definition messages :: "'d channel_event list \<Rightarrow> data_channel_message list" where
  "messages es = arrivals (concat (map (\<lambda>e. case e of OnStream e \<Rightarrow> [e] | _ \<Rightarrow> []) es))"

lemma run_simps [simp]:
  "openings [] = []" "openings (ChannelOpens ch # es) = ch # openings es" "openings (TaskTakesChannel # es) = openings es"
  "openings (OnStream e # es) = openings es" "messages [] = []" "messages (ChannelOpens ch # es) = messages es"
  "messages (TaskTakesChannel # es) = messages es" "messages (OnStream e # es) = arrivals [e] @ messages es"
  by (cases e; simp add: openings_def messages_def)+







end
