(* ===== verification/Ip_Groups.thy ===== *)
theory Ip_Groups
  imports Signaling_Server
begin

text \<open>
  The groups of \<open>get_ip_group\<close> (\<open>server/src/util/ip.rs\<close>): which addresses see each other.
\<close>

fun read_hex :: "string \<Rightarrow> nat" where
  "read_hex s = foldl (\<lambda>a c. 16 * a + hex_value c) 0 s"

lemma read_show_hex: "read_hex (show_hex n) = n"
proof (induction n rule: show_hex.induct)
  case (1 n)
  then show ?case
    by (cases "n < 16") (auto simp: show_hex.simps [of n] hex_value_char)
qed

lemma hex_char_digit: "d < 16 \<Longrightarrow> hex_char d \<in> set ''0123456789abcdef''"
  unfolding hex_char_def by (rule nth_mem) simp

lemma show_hex_digits: "set (show_hex n) \<subseteq> set ''0123456789abcdef''"
proof (induction n rule: show_hex.induct)
  case (1 n)
  define H where "H = set ''0123456789abcdef''"
  have "n < 16 \<Longrightarrow> hex_char n \<in> H" "hex_char (n mod 16) \<in> H" "\<not> n < 16 \<Longrightarrow> set (show_hex (n div 16)) \<subseteq> H"
    using hex_char_digit [of n] hex_char_digit [of "n mod 16"] 1 unfolding H_def by simp_all
  then show ?case
    unfolding H_def [symmetric] by (cases "n < 16") (simp_all add: show_hex.simps [of n])
qed

lemma show_hex_inject: "show_hex m = show_hex n \<longleftrightarrow> m = n"
  by (metis read_show_hex)

lemma show_nat_inject: "show_nat m = show_nat n \<longleftrightarrow> m = n"
  by (metis read_show_nat)

lemma join_with_inject:
  assumes "join_with c xs = join_with c ys" and "xs \<noteq> []" and "ys \<noteq> []"
    and "\<forall>x \<in> set xs. c \<notin> set x" and "\<forall>y \<in> set ys. c \<notin> set y"
  shows "xs = ys"
  using assms split_on_join_with by metis

definition dotted :: "u8 list \<Rightarrow> string list" where
  "dotted bs = map (\<lambda>b. show_nat (unat b)) bs"

definition coloned :: "u16 list \<Rightarrow> string list" where
  "coloned ss = map (\<lambda>s. show_hex (unat s)) ss"

lemma dotted_parts: "x \<in> set (dotted bs) \<Longrightarrow> CHR ''.'' \<notin> set x \<and> CHR '':'' \<notin> set x"
  using show_nat_digits by (fastforce simp: dotted_def is_digit_def)

lemma coloned_parts: "x \<in> set (coloned ss) \<Longrightarrow> CHR '':'' \<notin> set x"
  using show_hex_digits by (fastforce simp: coloned_def)

lemma unat_inject: "unat (a :: 'a :: len word) = unat b \<longleftrightarrow> a = b"
  by (rule word_eq_iff_unsigned [symmetric])

lemma dotted_inject: "dotted as = dotted bs \<longleftrightarrow> as = bs"
  unfolding dotted_def by (rule inj_map_eq_map) (simp add: inj_on_def show_nat_inject unat_inject)

lemma coloned_inject: "coloned as = coloned bs \<longleftrightarrow> as = bs"
  unfolding coloned_def by (rule inj_map_eq_map) (simp add: inj_on_def show_hex_inject unat_inject)

lemma join_dotted:
  "as \<noteq> [] \<Longrightarrow> bs \<noteq> [] \<Longrightarrow>
    join_with CHR ''.'' (dotted as) = join_with CHR ''.'' (dotted bs) \<longleftrightarrow> as = bs"
  using join_with_inject [of "CHR ''.''" "dotted as" "dotted bs"] dotted_parts dotted_inject
  by (metis dotted_def map_is_Nil_conv)

lemma join_coloned:
  "as \<noteq> [] \<Longrightarrow> bs \<noteq> [] \<Longrightarrow>
    join_with CHR '':'' (coloned as) = join_with CHR '':'' (coloned bs) \<longleftrightarrow> as = bs"
  using join_with_inject [of "CHR '':''" "coloned as" "coloned bs"] coloned_parts coloned_inject
  by (metis coloned_def map_is_Nil_conv)

lemma join_with_chars: "c \<in> set (join_with s xs) \<Longrightarrow> c = s \<or> (\<exists>x \<in> set xs. c \<in> set x)"
  by (induction xs rule: join_with.induct) auto

lemma group_V4: "get_ip_group (V4 a b c d) = join_with CHR ''.'' (dotted [a, b, c, d])"
  by (simp add: dotted_def ipv4_to_string_def)

lemma group_V6: "get_ip_group (V6 s0 s1 s2 s3 s4 s5 s6 s7) = join_with CHR '':'' (coloned [s0, s1, s2, s3])"
  by (simp add: coloned_def hex_segments_def)

text \<open>Two addresses belong together: the same IPv4 address, or IPv6 addresses of one /64 network.\<close>

fun same_network :: "ip_addr \<Rightarrow> ip_addr \<Rightarrow> bool" where
  "same_network (V4 a b c d) (V4 a' b' c' d') \<longleftrightarrow> a = a' \<and> b = b' \<and> c = c' \<and> d = d'"
| "same_network (V6 s0 s1 s2 s3 _ _ _ _) (V6 t0 t1 t2 t3 _ _ _ _) \<longleftrightarrow>
     s0 = t0 \<and> s1 = t1 \<and> s2 = t2 \<and> s3 = t3"
| "same_network _ _ \<longleftrightarrow> False"

lemma group_no_colon: "CHR '':'' \<notin> set (get_ip_group (V4 a b c d))"
  unfolding group_V4 using join_with_chars dotted_parts by fastforce

lemma group_colon: "CHR '':'' \<in> set (get_ip_group (V6 s0 s1 s2 s3 s4 s5 s6 s7))"
  by (simp add: hex_segments_def)

text \<open>
  C32: two clients are in one group of the signaling server exactly when they have the same IPv4
  address or IPv6 addresses of one /64 network; an IPv4 and an IPv6 client never share a group.
\<close>

theorem ip_groups_are_networks: "get_ip_group x = get_ip_group y \<longleftrightarrow> same_network x y"
proof (cases x; cases y)
  fix a b c d a' b' c' d'
  assume "x = V4 a b c d" "y = V4 a' b' c' d'"
  then show ?thesis by (simp only: group_V4 join_dotted list.distinct simp_thms list.inject same_network.simps)
next
  fix s0 s1 s2 s3 s4 s5 s6 s7 t0 t1 t2 t3 t4 t5 t6 t7
  assume "x = V6 s0 s1 s2 s3 s4 s5 s6 s7" "y = V6 t0 t1 t2 t3 t4 t5 t6 t7"
  then show ?thesis
    by (simp only: group_V6 join_coloned list.distinct simp_thms list.inject same_network.simps)
next
  fix a b c d t0 t1 t2 t3 t4 t5 t6 t7
  assume x: "x = V4 a b c d" and y: "y = V6 t0 t1 t2 t3 t4 t5 t6 t7"
  then have "get_ip_group x \<noteq> get_ip_group y"
    using group_no_colon [of a b c d] group_colon [of t0 t1 t2 t3 t4 t5 t6 t7] by (simp only: x y) metis
  with x y show ?thesis by (simp only: same_network.simps)
next
  fix s0 s1 s2 s3 s4 s5 s6 s7 a b c d
  assume x: "x = V6 s0 s1 s2 s3 s4 s5 s6 s7" and y: "y = V4 a b c d"
  then have "get_ip_group x \<noteq> get_ip_group y"
    using group_no_colon [of a b c d] group_colon [of s0 s1 s2 s3 s4 s5 s6 s7] by (simp only: x y) metis
  with x y show ?thesis by (simp only: same_network.simps)
qed

end
