(* ===== verification/Server_Start.thy ===== *)
theory Server_Start
  imports Signaling_Server Ip_Text
begin

text \<open>
  The signaling server around its handler: start-up (\<open>server/src/main.rs\<close>, \<open>config/init.rs\<close>), the one
  route, and what a client is answered when the handler fails (\<open>config/error.rs\<close>).
\<close>

section \<open>Errors\<close>

record ws_app_error =
  we_status :: u16
  we_message :: "string option"
  we_error :: "err option"

definition ws_app_error_status :: "u16 \<Rightarrow> string option \<Rightarrow> ws_app_error" where
  "ws_app_error_status status message = \<lparr>we_status = status, we_message = message, we_error = None\<rparr>"

definition ws_app_error_from :: "err \<Rightarrow> ws_app_error" where
  "ws_app_error_from e = \<lparr>we_status = 500, we_message = None, we_error = Some e\<rparr>"

text \<open>What is logged, and the status with the body of the response.\<close>

definition ws_error_response :: "ws_app_error \<Rightarrow> (string \<times> string) option \<times> u16 \<times> string" where
  "ws_error_response e =
     (if we_status e \<ge> 500
      then Some (case we_message e of Some m \<Rightarrow> m | None \<Rightarrow> ''(no message)'',
                 case we_error e of Some x \<Rightarrow> err_text x | None \<Rightarrow> ''(no error)'')
      else None,
      we_status e, case we_message e of Some m \<Rightarrow> m | None \<Rightarrow> [])"

section \<open>Start\<close>

text \<open>
  \<open>schedule\<close> is the result of \<open>configure_scheduling\<close>; the state starts with two empty maps.
\<close>

definition server_init :: "unit res \<Rightarrow> (tx_map \<times> request_count_map) res" where
  "server_init schedule =
     (case schedule of
        Ok _ \<Rightarrow> Ok ([], [])
      | Err e \<Rightarrow> Panic (''Error configuring scheduler: '' @ err_text e)
      | Panic s \<Rightarrow> Panic s
      | Wait \<Rightarrow> Wait)"

definition bind_address :: "string option \<Rightarrow> string option \<Rightarrow> string" where
  "bind_address SERVER_IP SERVER_PORT =
     (case SERVER_IP of Some ip \<Rightarrow> ip | None \<Rightarrow> ''0.0.0.0'') @ '':'' @
     (case SERVER_PORT of Some port \<Rightarrow> port | None \<Rightarrow> ''3000'')"

text \<open>The address that is served, or the panic of an \<open>unwrap\<close>; \<open>bind\<close> is \<open>TcpListener::bind\<close>.\<close>

definition server_main ::
  "unit res \<Rightarrow> string option \<Rightarrow> string option \<Rightarrow> (string \<Rightarrow> unit res) \<Rightarrow> (string \<times> tx_map \<times> request_count_map) res" where
  "server_main schedule SERVER_IP SERVER_PORT bind =
     rbind (server_init schedule) (\<lambda>(m, counts).
       let address = bind_address SERVER_IP SERVER_PORT
       in case bind address of
            Ok _ \<Rightarrow> Ok (address, m, counts)
          | Err e \<Rightarrow> Panic (err_text e)
          | Panic s \<Rightarrow> Panic s
          | Wait \<Rightarrow> Wait)"

text \<open>
  The router: \<open>None\<close> for a path without a route, else the answer to a GET, an error of the handler
  or the upgrade to a websocket (\<open>Inr\<close>).
\<close>

definition configure_routes :: "string \<Rightarrow> (ws_app_error + 'a) \<Rightarrow> (u16 \<times> string + 'a) option" where
  "configure_routes path handler =
     (if path = ''/v1/ws''
      then Some (case handler of Inl e \<Rightarrow> Inl (snd (ws_error_response e)) | Inr x \<Rightarrow> Inr x)
      else None)"

lemma configure_routes_bad_query:
  assumes "ws_handler decode from_str parse_ip d forwarded addr new_id = Inl status"
  shows "configure_routes ''/v1/ws'' (Inl (ws_app_error_status status None)) = Some (Inl (400, []))"
  using assms
  by (simp add: ws_handler_def configure_routes_def ws_error_response_def ws_app_error_status_def split: option.splits)

lemma server_main_initial:
  assumes "server_main schedule ip port bind = Ok (address, m, counts)"
  shows "m = [] \<and> counts = [] \<and> bind address = Ok ()"
  using assms by (auto simp: server_main_def server_init_def Let_def split: res.splits)

end
