(* ===== verification/Nonce_Cache.thy ===== *)
theory Nonce_Cache
  imports LS_Prelude
begin

text \<open>
  The caches of exchanged nonces. Server and client keep two \<open>LruCache<String, Vec<u8>>\<close> of the
  crate \<open>lru\<close>; its operations are an argument of the model and \<open>lru_cache\<close> states what the crate
  documents of them. The cache \<open>list_lru\<close>, a list in order of use, meets the laws.
\<close>

record 'c lru_ops =
  lru_new :: "nat \<Rightarrow> 'c"
  lru_put :: "string \<Rightarrow> byte list \<Rightarrow> 'c \<Rightarrow> 'c"
  lru_get :: "string \<Rightarrow> 'c \<Rightarrow> byte list option"
  lru_keys :: "'c \<Rightarrow> string list"
  lru_cap :: "'c \<Rightarrow> nat"

text \<open>
  \<open>lru_keys\<close> lists the keys from the most to the least recently used, as \<open>iter\<close> does. \<open>lru_get\<close>
  is the value found; that \<open>get\<close> also moves its key to the front matters nowhere, since the code
  only calls it on the key it has just put.
\<close>

locale lru_cache =
  fixes L :: "'c lru_ops"
  assumes keys_new: "lru_keys L (lru_new L n) = []"
    and cap_new: "lru_cap L (lru_new L n) = n"
    and keys_put: "lru_keys L (lru_put L k v c) = take (lru_cap L c) (k # removeAll k (lru_keys L c))"
    and cap_put: "lru_cap L (lru_put L k v c) = lru_cap L c"
    and get_present: "lru_get L k c \<noteq> None \<longleftrightarrow> k \<in> set (lru_keys L c)"
    and get_put: "0 < lru_cap L c \<Longrightarrow> lru_get L k (lru_put L k v c) = Some v"
    and get_other: "k' \<noteq> k \<Longrightarrow> k' \<in> set (lru_keys L (lru_put L k v c)) \<Longrightarrow>
      lru_get L k' (lru_put L k v c) = lru_get L k' c"
begin

definition puts :: "(string \<times> byte list) list \<Rightarrow> 'c \<Rightarrow> 'c" where
  "puts kvs c = fold (\<lambda>(k, v). lru_put L k v) kvs c"

definition sound :: "'c \<Rightarrow> bool" where
  "sound c \<longleftrightarrow> distinct (lru_keys L c) \<and> length (lru_keys L c) \<le> lru_cap L c"

lemma puts_simps: "puts [] c = c" "puts ((k, v) # kvs) c = puts kvs (lru_put L k v c)"
  by (simp_all add: puts_def)

lemma sound_new: "sound (lru_new L n)"
  by (simp add: sound_def keys_new)

lemma sound_put: "sound c \<Longrightarrow> sound (lru_put L k v c)"
  by (simp add: sound_def keys_put cap_put distinct_removeAll distinct_take)

lemma cap_puts: "lru_cap L (puts kvs c) = lru_cap L c"
  by (induction kvs arbitrary: c) (auto simp: puts_simps cap_put)

text \<open>How far a key is from the end of the cache: the keys used since.\<close>

definition before :: "string \<Rightarrow> string list \<Rightarrow> string set" where
  "before k ks = set (takeWhile (\<lambda>x. x \<noteq> k) ks)"

lemma card_before: "distinct ks \<Longrightarrow> card (before k ks) = length (takeWhile (\<lambda>x. x \<noteq> k) ks)"
  unfolding before_def by (simp add: distinct_card distinct_takeWhile)

lemma in_take_iff:
  "distinct ks \<Longrightarrow> k \<in> set (take n ks) \<longleftrightarrow> k \<in> set ks \<and> card (before k ks) < n"
proof (induction ks arbitrary: n)
  case (Cons x ks)
  show ?case
  proof (cases n)
    case (Suc m)
    have "before k (x # ks) = (if x = k then {} else insert x (before k ks))"
      by (auto simp: before_def)
    moreover have "x \<notin> before k ks"
      using Cons.prems set_takeWhileD [of x "\<lambda>x. x \<noteq> k" ks] by (auto simp: before_def)
    moreover have "finite (before k ks)" by (simp add: before_def)
    ultimately show ?thesis using Cons Suc by auto
  qed simp
qed simp

lemma before_remove: "k' \<noteq> k \<Longrightarrow> before k (removeAll k' ks) = before k ks - {k'}"
  by (induction ks) (auto simp: before_def)

lemma before_take: "k \<in> set (take n ks) \<Longrightarrow> before k (take n ks) = before k ks"
proof (induction ks arbitrary: n)
  case (Cons x ks)
  then show ?case by (cases n) (auto simp: before_def)
qed simp

text \<open>
  A key that was put survives the following puts of other keys exactly as long as they are fewer
  different ones than the cache has room for, besides those used since it was put.
\<close>

lemma survives:
  assumes "sound c" and "k \<in> set (lru_keys L c)" and "k \<notin> fst ` set kvs"
    and "card (before k (lru_keys L c) \<union> fst ` set kvs) < lru_cap L c"
  shows "lru_get L k (puts kvs c) = lru_get L k c \<and> k \<in> set (lru_keys L (puts kvs c))"
  using assms
proof (induction kvs arbitrary: c)
  case (Cons kv kvs)
  obtain k' v where kv: "kv = (k', v)" by force
  let ?ks = "k' # removeAll k' (lru_keys L c)" and ?c = "lru_put L k' v c"
  have ne: "k \<noteq> k'" using Cons.prems(3) kv by auto
  have b: "before k ?ks = insert k' (before k (lru_keys L c))"
    using ne before_remove [of k' k "lru_keys L c"] by (auto simp: before_def)
  have sub: "card (before k ?ks) \<le> card (before k (lru_keys L c) \<union> fst ` set (kv # kvs))"
    unfolding b kv by (rule card_mono) (auto simp: before_def)
  have "distinct ?ks" using Cons.prems(1) by (simp add: sound_def distinct_removeAll)
  then have in_put: "k \<in> set (lru_keys L ?c)"
    using in_take_iff [of ?ks k "lru_cap L c"] Cons.prems(2,4) sub ne by (simp add: keys_put)
  moreover have "before k (lru_keys L ?c) = insert k' (before k (lru_keys L c))"
    using in_put b before_take [of k "lru_cap L c" ?ks] by (simp add: keys_put)
  ultimately have "lru_get L k (puts kvs ?c) = lru_get L k ?c \<and> k \<in> set (lru_keys L (puts kvs ?c))"
    using Cons.IH [of ?c] Cons.prems sound_put [of c k' v] kv by (simp add: cap_put insert_commute)
  moreover have "lru_get L k ?c = lru_get L k c" using get_other [OF ne in_put] .
  ultimately show ?case by (simp add: kv puts_simps)
qed (simp add: puts_simps)

lemma stays:
  assumes "sound c" and "0 < lru_cap L c" and "k \<notin> fst ` set kvs" and "card (fst ` set kvs) < lru_cap L c"
  shows "lru_get L k (puts kvs (lru_put L k v c)) = Some v"
proof -
  obtain n where "lru_cap L c = Suc n" using assms(2) by (cases "lru_cap L c") auto
  then have "k \<in> set (lru_keys L (lru_put L k v c))" "before k (lru_keys L (lru_put L k v c)) = {}"
    by (simp_all add: keys_put before_def)
  then show ?thesis
    using survives [of "lru_put L k v c" k kvs] assms sound_put [OF assms(1)] get_put [OF assms(2)]
    by (simp add: cap_put)
qed

text \<open>Two caches that are put the same keys have the same keys.\<close>

definition in_step :: "'c \<Rightarrow> 'c \<Rightarrow> bool" where
  "in_step c d \<longleftrightarrow> lru_keys L c = lru_keys L d \<and> lru_cap L c = lru_cap L d"

lemma in_step_put: "in_step c d \<Longrightarrow> in_step (lru_put L k v c) (lru_put L k w d)"
  by (simp add: in_step_def keys_put cap_put)

end

section \<open>A cache\<close>

text \<open>Capacity, and entries from the most to the least recently used.\<close>

type_synonym list_cache = "nat \<times> (string \<times> byte list) list"

definition list_lru :: "list_cache lru_ops" where
  "list_lru =
     \<lparr>lru_new = (\<lambda>n. (n, [])),
      lru_put = (\<lambda>k v (n, es). (n, take n ((k, v) # filter (\<lambda>e. fst e \<noteq> k) es))),
      lru_get = (\<lambda>k (n, es). map_of es k),
      lru_keys = (\<lambda>(n, es). map fst es),
      lru_cap = fst\<rparr>"

lemma map_fst_filter: "map fst (filter (\<lambda>e. fst e \<noteq> k) es) = removeAll k (map fst es)"
  by (induction es) auto

lemma map_of_take_filter:
  assumes "k' \<noteq> k" and "k' \<in> fst ` set (take n (filter (\<lambda>e. fst e \<noteq> k) es))"
  shows "map_of (take n (filter (\<lambda>e. fst e \<noteq> k) es)) k' = map_of es k'"
  using assms
proof (induction es arbitrary: n)
  case (Cons e es)
  then show ?case by (cases n) (auto split: if_splits)
qed simp

interpretation list_lru: lru_cache list_lru
proof
  fix k k' :: string and v :: "byte list" and c :: list_cache
  assume "k' \<noteq> k" "k' \<in> set (lru_keys list_lru (lru_put list_lru k v c))"
  then show "lru_get list_lru k' (lru_put list_lru k v c) = lru_get list_lru k' c"
    using map_of_take_filter [of k' k "fst c - 1" "snd c"]
    by (cases c; cases "fst c") (auto simp: list_lru_def)
next
  fix k :: string and v :: "byte list" and c :: list_cache
  assume "0 < lru_cap list_lru c"
  then show "lru_get list_lru k (lru_put list_lru k v c) = Some v"
    by (cases c; cases "fst c") (auto simp: list_lru_def)
next
  fix k :: string and v :: "byte list" and c :: list_cache
  show "lru_keys list_lru (lru_put list_lru k v c) =
      take (lru_cap list_lru c) (k # removeAll k (lru_keys list_lru c))"
    by (cases c; cases "fst c") (auto simp: list_lru_def take_map map_fst_filter [symmetric])
  show "lru_get list_lru k c \<noteq> None \<longleftrightarrow> k \<in> set (lru_keys list_lru c)"
    by (cases c) (auto simp: list_lru_def map_of_eq_None_iff)
qed (auto simp: list_lru_def)

end
