(* ===== verification/Http_Server.thy ===== *)
theory Http_Server
  imports Dto Token_Crypto Ip_Text Nonce_Cache
begin

text \<open>
  The HTTP server (\<open>core/src/http/server\<close>): its state, what it knows of the client of a request,
  the routes of \<open>handle_request\<close> and the controllers \<open>v2::register\<close>, \<open>v3::nonce_exchange\<close> and
  \<open>v3::register\<close>, with the bodies and status codes of their errors. Sockets, TLS and hyper are
  the caller: a request is its method, its path and its body.
\<close>

section \<open>Libraries\<close>

text \<open>
  \<open>hx_de_\<dots>\<close> and \<open>hx_ser_\<dots>\<close> are \<open>serde_json\<close> on the types of \<open>http/dto.rs\<close>. \<open>hx_text\<close> is the
  decoding of \<open>Response::text\<close>. \<open>hx_lru\<close> is the crate
  \<open>lru\<close> at the two caches of nonces.
\<close>

record 'c http_ext =
  hx_crypto :: crypto_ext
  hx_x509 :: x509_ext
  hx_lru :: "'c lru_ops"
  hx_ser_nonce_request :: "nonce_request \<Rightarrow> string"
  hx_de_nonce_request :: "byte list \<Rightarrow> nonce_request option"
  hx_ser_nonce_response :: "nonce_response \<Rightarrow> string"
  hx_de_nonce_response :: "byte list \<Rightarrow> nonce_response option"
  hx_ser_register :: "register_dto \<Rightarrow> string"
  hx_de_register :: "byte list \<Rightarrow> register_dto option"
  hx_ser_register_response :: "register_response_dto \<Rightarrow> string"
  hx_de_register_response :: "byte list \<Rightarrow> register_response_dto option"
  hx_ser_prepare_upload :: "prepare_upload_request_dto \<Rightarrow> string"
  hx_de_prepare_upload_response :: "byte list \<Rightarrow> prepare_upload_response_dto option"
  hx_ser_error :: "error_response \<Rightarrow> string"
  hx_de_error :: "byte list \<Rightarrow> error_response option"
  hx_text :: "byte list \<Rightarrow> string"

section \<open>State\<close>

text \<open>\<open>http/state.rs\<close>: what the server tells of itself.\<close>

record http_client_info =
  hi_alias :: string
  hi_version :: string
  hi_device_model :: "string option"
  hi_device_type :: "device_type option"
  hi_token :: string

text \<open>\<open>AppState\<close>; \<open>hs_web\<close> says whether there is a web page state (it has no content).\<close>

record 'c http_state =
  hs_info :: http_client_info
  hs_web :: bool
  hs_received_nonce_map :: 'c
  hs_generated_nonce_map :: 'c

definition http_state_new :: "'c http_ext \<Rightarrow> http_client_info \<Rightarrow> 'c http_state" where
  "http_state_new X info =
     \<lparr>hs_info = info, hs_web = False,
      hs_received_nonce_map = lru_new (hx_lru X) 200, hs_generated_nonce_map = lru_new (hx_lru X) 200\<rparr>"

section \<open>The client of a request\<close>

record request_client_info =
  rc_ip :: ip_addr
  rc_cert :: "byte list option"

text \<open>\<open>start_server_with_addr\<close>: the first of the certificates the TLS connection has, if it has any.\<close>

definition tls_client_info :: "ip_addr \<Rightarrow> byte list list option \<Rightarrow> request_client_info res" where
  "tls_client_info ip peer_certificates =
     (case peer_certificates of
        None \<Rightarrow> Ok \<lparr>rc_ip = ip, rc_cert = None\<rparr>
      | Some [] \<Rightarrow> Panic ''called Option::unwrap() on a None value''
      | Some (cert # _) \<Rightarrow> Ok \<lparr>rc_ip = ip, rc_cert = Some cert\<rparr>)"

definition plain_client_info :: "ip_addr \<Rightarrow> request_client_info" where
  "plain_client_info ip = \<lparr>rc_ip = ip, rc_cert = None\<rparr>"

definition extract_public_key :: "x509_ext \<Rightarrow> request_client_info \<Rightarrow> string option" where
  "extract_public_key X client =
     (case rc_cert client of
        Some cert \<Rightarrow> (case public_key_from_cert_der X cert of Ok public_key \<Rightarrow> Some public_key | _ \<Rightarrow> None)
      | None \<Rightarrow> None)"

definition client_identifier :: "x509_ext \<Rightarrow> request_client_info \<Rightarrow> string" where
  "client_identifier X client =
     (case extract_public_key X client of
        Some public_key \<Rightarrow> public_key
      | None \<Rightarrow> ip_to_string (rc_ip client))"

text \<open>
  \<open>CustomClientCertVerifier\<close>: a client must show a certificate, any that is valid. The checks of
  handshake signatures are rustls'.
\<close>

definition client_auth_mandatory :: bool where "client_auth_mandatory = True"
definition offer_client_auth :: bool where "offer_client_auth = True"

definition verify_client_cert :: "x509_ext \<Rightarrow> byte list \<Rightarrow> byte list list \<Rightarrow> unit res" where
  "verify_client_cert X cert intermediates =
     (case verify_cert_from_der X cert None of
        Ok _ \<Rightarrow> Ok ()
      | Err _ \<Rightarrow> Err (Lib ''invalid peer certificate: ApplicationVerificationFailure'')
      | Panic s \<Rightarrow> Panic s
      | Wait \<Rightarrow> Wait)"

section \<open>Errors and responses\<close>

record app_error =
  ae_status :: u16
  ae_message :: "string option"
  ae_error :: "err option"

definition app_error_status :: "u16 \<Rightarrow> string option \<Rightarrow> app_error" where
  "app_error_status status message = \<lparr>ae_status = status, ae_message = message, ae_error = None\<rparr>"

definition app_error_from :: "err \<Rightarrow> app_error" where
  "app_error_from e = \<lparr>ae_status = 500, ae_message = None, ae_error = Some e\<rparr>"

record http_response =
  rs_status :: u16
  rs_content_type :: "string option"
  rs_body :: string

text \<open>\<open>JsonResponse::into_response\<close>.\<close>

definition into_response :: "('a \<Rightarrow> string) \<Rightarrow> u16 \<Rightarrow> 'a \<Rightarrow> http_response" where
  "into_response ser status body =
     \<lparr>rs_status = status, rs_content_type = Some ''application/json'', rs_body = ser body\<rparr>"

text \<open>A body is \<open>None\<close> when reading it from the connection fails.\<close>

definition collect_to_json :: "(byte list \<Rightarrow> 'a option) \<Rightarrow> byte list option \<Rightarrow> app_error + 'a" where
  "collect_to_json de body =
     (case body of
        None \<Rightarrow> Inl (app_error_from (Lib ''error reading a body from connection''))
      | Some bytes \<Rightarrow>
          (case de bytes of
             None \<Rightarrow> Inl (app_error_status 400 (Some ''Invalid JSON body''))
           | Some payload \<Rightarrow> Inr payload))"

section \<open>Controllers\<close>

definition register_body :: "'c http_state \<Rightarrow> register_response_dto" where
  "register_body state =
     \<lparr>rr_alias = hi_alias (hs_info state), rr_version = hi_version (hs_info state),
      rr_device_model = hi_device_model (hs_info state), rr_device_type = hi_device_type (hs_info state),
      rr_token = hi_token (hs_info state), rr_has_web_interface = hs_web state\<rparr>"

definition v2_register ::
  "'c http_ext \<Rightarrow> byte list option \<Rightarrow> 'c http_state \<Rightarrow> app_error + http_response" where
  "v2_register X body state =
     (case collect_to_json (hx_de_register X) body of
        Inl e \<Rightarrow> Inl e
      | Inr payload \<Rightarrow> Inr (into_response (hx_ser_register_response X) 200 (register_body state)))"

definition v3_register ::
  "'c http_ext \<Rightarrow> byte list option \<Rightarrow> 'c http_state \<Rightarrow> app_error + http_response" where
  "v3_register X body state =
     (case collect_to_json (hx_de_register X) body of
        Inl e \<Rightarrow> Inl e
      | Inr payload \<Rightarrow> Inr (into_response (hx_ser_register_response X) 200 (register_body state)))"

text \<open>\<open>new_nonce\<close> is what \<open>generate_nonce\<close> draws.\<close>

definition nonce_exchange ::
  "'c http_ext \<Rightarrow> byte list \<Rightarrow> byte list option \<Rightarrow> request_client_info \<Rightarrow> 'c http_state \<Rightarrow>
   (app_error + http_response) \<times> 'c http_state" where
  "nonce_exchange X new_nonce body client state =
     (case collect_to_json (hx_de_nonce_request X) body of
        Inl e \<Rightarrow> (Inl e, state)
      | Inr payload \<Rightarrow>
          (case base64_decode (hx_crypto X) (nq_nonce payload) of
             Ok nonce \<Rightarrow>
               if \<not> validate_nonce nonce then
                 (Inl (app_error_status 400 (Some ''Invalid nonce'')), state)
               else
                 let remote_key = client_identifier (hx_x509 X) client;
                     received = lru_put (hx_lru X) remote_key nonce (hs_received_nonce_map state);
                     generated = lru_put (hx_lru X) remote_key new_nonce (hs_generated_nonce_map state)
                 in (Inr (into_response (hx_ser_nonce_response X) 200
                           \<lparr>nr_nonce = base64_encode (hx_crypto X) new_nonce\<rparr>),
                     state\<lparr>hs_received_nonce_map := received, hs_generated_nonce_map := generated\<rparr>)
           | _ \<Rightarrow> (Inl (app_error_status 400 (Some ''Invalid nonce format'')), state)))"

section \<open>Routing\<close>

datatype http_method = POST | GET | OtherMethod string

record http_request =
  rq_method :: http_method
  rq_path :: string
  rq_body :: "byte list option"

text \<open>
  \<open>has_state\<close> and \<open>client\<close>: whether the extensions of the request hold the state and the client,
  which the connection puts there.
\<close>

definition handle_request_inner ::
  "'c http_ext \<Rightarrow> bool \<Rightarrow> byte list \<Rightarrow> bool \<Rightarrow> request_client_info option \<Rightarrow> http_request \<Rightarrow>
   'c http_state \<Rightarrow> (app_error + http_response) \<times> 'c http_state" where
  "handle_request_inner X legacy_enabled new_nonce has_state client req state =
     (if \<not> has_state then (Inl (app_error_status 500 None), state)
      else
        (case client of
           None \<Rightarrow> (Inl (app_error_status 500 None), state)
         | Some client_info \<Rightarrow>
             if rq_method req = POST \<and> rq_path req = ''/api/localsend/v2/register'' then
               (if \<not> legacy_enabled then (Inl (app_error_status 404 None), state)
                else (v2_register X (rq_body req) state, state))
             else if rq_method req = POST \<and> rq_path req = ''/api/localsend/v2/prepare-upload'' then
               (if \<not> legacy_enabled then (Inl (app_error_status 404 None), state)
                else (v2_register X (rq_body req) state, state))
             else if rq_method req = POST \<and> rq_path req = ''/api/localsend/v2/upload'' then
               (if \<not> legacy_enabled then (Inl (app_error_status 404 None), state)
                else (v2_register X (rq_body req) state, state))
             else if rq_method req = POST \<and> rq_path req = ''/api/localsend/v2/cancel'' then
               (if \<not> legacy_enabled then (Inl (app_error_status 404 None), state)
                else (v2_register X (rq_body req) state, state))
             else if rq_method req = POST \<and> rq_path req = ''/api/localsend/v3/nonce'' then
               nonce_exchange X new_nonce (rq_body req) client_info state
             else if rq_method req = POST \<and> rq_path req = ''/api/localsend/v3/register'' then
               (v3_register X (rq_body req) state, state)
             else (Inr \<lparr>rs_status = 404, rs_content_type = None, rs_body = ''''\<rparr>, state)))"

definition error_to_response :: "'c http_ext \<Rightarrow> app_error \<Rightarrow> http_response" where
  "error_to_response X e =
     into_response (hx_ser_error X) (ae_status e)
       \<lparr>er_message = (case ae_message e of Some m \<Rightarrow> m | None \<Rightarrow> ''Internal Server Error'')\<rparr>"

definition handle_request ::
  "'c http_ext \<Rightarrow> bool \<Rightarrow> byte list \<Rightarrow> bool \<Rightarrow> request_client_info option \<Rightarrow> http_request \<Rightarrow>
   'c http_state \<Rightarrow> http_response \<times> 'c http_state" where
  "handle_request X legacy_enabled new_nonce has_state client req state =
     (case handle_request_inner X legacy_enabled new_nonce has_state client req state of
        (Inl e, state) \<Rightarrow> (error_to_response X e, state)
      | (Inr response, state) \<Rightarrow> (response, state))"

text \<open>The \<open>service_fn\<close> of a connection: both extensions are there.\<close>

definition serve ::
  "'c http_ext \<Rightarrow> bool \<Rightarrow> byte list \<Rightarrow> request_client_info \<Rightarrow> http_request \<Rightarrow>
   'c http_state \<Rightarrow> http_response \<times> 'c http_state" where
  "serve X legacy_enabled new_nonce client req state =
     handle_request X legacy_enabled new_nonce True (Some client) req state"

end
