(* ===== verification/Http_Client.thy ===== *)
theory Http_Client
  imports Http_Server
begin

text \<open>
  The HTTP client (\<open>core/src/http/client\<close>): the URLs it asks (\<open>url.rs\<close>), its calls \<open>nonce\<close>,
  \<open>register\<close>, \<open>prepare_upload\<close>, \<open>upload\<close> and \<open>cancel\<close>, and what it makes of the responses. The
  network is a function \<open>send\<close> from URL and body to the response or the error of \<open>send().await\<close>.
\<close>

section \<open>URLs\<close>

datatype api_version = ApiV2 | ApiV3

record target_url =
  tu_version :: api_version
  tu_protocol :: protocol_type
  tu_host :: string
  tu_port :: u16
  tu_path :: string

definition bracketed :: "string \<Rightarrow> string" where
  "bracketed host = (if CHR '':'' \<in> set host then ''['' @ host @ '']'' else host)"

definition url_to_string :: "target_url \<Rightarrow> string" where
  "url_to_string u =
     protocol_as_str (tu_protocol u) @ ''://'' @ bracketed (tu_host u) @ '':'' @ show_nat (unat (tu_port u)) @
     ''/api/localsend/'' @ (case tu_version u of ApiV2 \<Rightarrow> ''v2'' | ApiV3 \<Rightarrow> ''v3'') @ tu_path u"

definition BASE_PATH :: string where "BASE_PATH = ''/api/localsend/v3''"

text \<open>The \<open>format!\<close> of the other calls.\<close>

definition call_url :: "protocol_type \<Rightarrow> string \<Rightarrow> u16 \<Rightarrow> string \<Rightarrow> string" where
  "call_url protocol ip port path =
     protocol_as_str protocol @ ''://'' @ ip @ '':'' @ show_nat (unat port) @ BASE_PATH @ path"

section \<open>Responses\<close>

text \<open>
  What the client reads of a response: its status, its TLS info (missing without TLS) with the
  certificate of the peer, the address of the peer, and its body (\<open>None\<close>: reading it fails).
\<close>

record http_reply =
  rp_status :: u16
  rp_tls_info :: "byte list option option"
  rp_remote_addr :: "ip_addr option"
  rp_body :: "byte list option"

definition reply_bytes :: "http_reply \<Rightarrow> byte list res" where
  "reply_bytes r = res_of_option (Lib ''error decoding response body'') (rp_body r)"

definition reply_json :: "(byte list \<Rightarrow> 'a option) \<Rightarrow> http_reply \<Rightarrow> 'a res" where
  "reply_json de r =
     rbind (reply_bytes r) (\<lambda>b. res_of_option (Lib ''error decoding response body'') (de b))"

text \<open>The inner result is the error the caller returns; reading the body may fail itself.\<close>

definition status_code_error_from_res :: "'c http_ext \<Rightarrow> http_reply \<Rightarrow> err res" where
  "status_code_error_from_res X r =
     rbind (reply_bytes r) (\<lambda>bytes.
     let text = hx_text X bytes;
         body = (case hx_de_error X (as_bytes text) of Some e \<Rightarrow> er_message e | None \<Rightarrow> text)
     in Ok (StatusCodeError (rp_status r) (if body = [] then None else Some body)))"

definition verify_cert_from_res :: "x509_ext \<Rightarrow> http_reply \<Rightarrow> string option \<Rightarrow> string res" where
  "verify_cert_from_res X r public_key =
     rbind (res_of_option (Msg ''TLS info not found'') (rp_tls_info r)) (\<lambda>peer_certificate.
     rbind (res_of_option (Msg ''Certificate not found'') peer_certificate) (\<lambda>cert.
     rbind (case public_key of
              Some public_key \<Rightarrow> Ok public_key
            | None \<Rightarrow> public_key_from_cert_der X cert) (\<lambda>public_key.
     rbind (verify_cert_from_der X cert (Some public_key)) (\<lambda>_.
     Ok public_key))))"

definition to_identifier :: "x509_ext \<Rightarrow> http_reply \<Rightarrow> bool \<Rightarrow> string option \<Rightarrow> string res" where
  "to_identifier X r require_cert public_key =
     (if require_cert then verify_cert_from_res X r public_key
      else res_of_option (Msg ''Remote address not found in response'')
             (map_option ip_to_string (rp_remote_addr r)))"

text \<open>\<open>return Err(status_code_error_from_res(res).await?)\<close> when the status is not 200.\<close>

definition check_status :: "'c http_ext \<Rightarrow> http_reply \<Rightarrow> unit res" where
  "check_status X r =
     (if rp_status r \<noteq> 200 then rbind (status_code_error_from_res X r) Err else Ok ())"

section \<open>The calls\<close>

record 'c http_client =
  hc_received_nonce_map :: 'c
  hc_generated_nonce_map :: 'c

definition http_client_new :: "'c http_ext \<Rightarrow> 'c http_client" where
  "http_client_new X =
     \<lparr>hc_received_nonce_map = lru_new (hx_lru X) 200, hc_generated_nonce_map = lru_new (hx_lru X) 200\<rparr>"

text \<open>
  \<open>identity_from_pem\<close> and \<open>build\<close> are reqwest's; the identity is read from the certificate and the key,
  one after the other.
\<close>

definition http_client_try_new ::
  "'c http_ext \<Rightarrow> (byte list \<Rightarrow> 'i option) \<Rightarrow> ('i \<Rightarrow> unit option) \<Rightarrow> string \<Rightarrow> string \<Rightarrow> 'c http_client res" where
  "http_client_try_new X identity_from_pem build private_key cert =
     rbind (res_of_option (Lib ''reqwest error'')
       (identity_from_pem (as_bytes cert @ as_bytes [CHR 0x0A] @ as_bytes private_key))) (\<lambda>identity.
     rbind (res_of_option (Lib ''reqwest error'') (build identity)) (\<lambda>_.
     Ok (http_client_new X)))"

type_synonym network = "string \<Rightarrow> byte list \<Rightarrow> http_reply res"

definition nonce_url :: "protocol_type \<Rightarrow> string \<Rightarrow> u16 \<Rightarrow> string" where
  "nonce_url protocol ip port =
     url_to_string \<lparr>tu_version = ApiV3, tu_protocol = protocol, tu_host = ip, tu_port = port,
       tu_path = ''/nonce''\<rparr>"

text \<open>
  The response to a nonce request: the server's identifier, the text of its nonce and the nonce.
  The identifier is the public key of its certificate over HTTPS, its address otherwise.
\<close>

definition nonce_reply :: "'c http_ext \<Rightarrow> protocol_type \<Rightarrow> http_reply \<Rightarrow> (string \<times> string \<times> byte list) res" where
  "nonce_reply X protocol r =
     rbind (check_status X r) (\<lambda>_.
     rbind (to_identifier (hx_x509 X) r (protocol = Https) None) (\<lambda>remote_key.
     rbind (reply_json (hx_de_nonce_response X) r) (\<lambda>body.
     rbind (base64_decode (hx_crypto X) (nr_nonce body)) (\<lambda>response_nonce.
     Ok (remote_key, nr_nonce body, response_nonce)))))"

text \<open>\<open>generated_nonce\<close> is what \<open>generate_nonce\<close> draws.\<close>

definition client_nonce ::
  "'c http_ext \<Rightarrow> network \<Rightarrow> byte list \<Rightarrow> protocol_type \<Rightarrow> string \<Rightarrow> u16 \<Rightarrow> 'c http_client \<Rightarrow>
   string res \<times> 'c http_client" where
  "client_nonce X send generated_nonce protocol ip port c =
     (let request_body = hx_ser_nonce_request X \<lparr>nq_nonce = base64_encode (hx_crypto X) generated_nonce\<rparr>
      in case rbind (send (nonce_url protocol ip port) (as_bytes request_body)) (nonce_reply X protocol) of
           Ok (remote_key, nonce, response_nonce) \<Rightarrow>
             (Ok nonce,
              c\<lparr>hc_received_nonce_map := lru_put (hx_lru X) remote_key response_nonce (hc_received_nonce_map c),
                hc_generated_nonce_map := lru_put (hx_lru X) remote_key generated_nonce (hc_generated_nonce_map c)\<rparr>)
         | Err e \<Rightarrow> (Err e, c)
         | Panic s \<Rightarrow> (Panic s, c)
         | Wait \<Rightarrow> (Wait, c))"

text \<open>\<open>RegisterResult\<close>: the public key of the server over HTTPS, and its answer.\<close>

definition client_register ::
  "'c http_ext \<Rightarrow> network \<Rightarrow> protocol_type \<Rightarrow> string \<Rightarrow> u16 \<Rightarrow> register_dto \<Rightarrow>
   (string option \<times> register_response_dto) res" where
  "client_register X send protocol ip port payload =
     rbind (send (call_url protocol ip port ''/register'') (as_bytes (hx_ser_register X payload))) (\<lambda>r.
     rbind (case protocol of
              Https \<Rightarrow> rbind (verify_cert_from_res (hx_x509 X) r None) (\<lambda>k. Ok (Some k))
            | _ \<Rightarrow> Ok None) (\<lambda>public_key.
     rbind (reply_json (hx_de_register_response X) r) (\<lambda>body.
     Ok (public_key, body))))"

definition client_prepare_upload ::
  "'c http_ext \<Rightarrow> network \<Rightarrow> protocol_type \<Rightarrow> string \<Rightarrow> u16 \<Rightarrow> string option \<Rightarrow> prepare_upload_request_dto \<Rightarrow>
   prepare_upload_response_dto res" where
  "client_prepare_upload X send protocol ip port public_key payload =
     rbind (send (call_url protocol ip port ''/prepare-upload'') (as_bytes (hx_ser_prepare_upload X payload))) (\<lambda>r.
     rbind (case public_key of
              Some public_key \<Rightarrow> rbind (verify_cert_from_res (hx_x509 X) r (Some public_key)) (\<lambda>_. Ok ())
            | None \<Rightarrow> Ok ()) (\<lambda>_.
     rbind (check_status X r) (\<lambda>_.
     reply_json (hx_de_prepare_upload_response X) r)))"

text \<open>The body is the stream of the pieces that come through \<open>binary\<close>.\<close>

definition client_upload ::
  "'c http_ext \<Rightarrow> network \<Rightarrow> protocol_type \<Rightarrow> string \<Rightarrow> u16 \<Rightarrow> string \<Rightarrow> string \<Rightarrow> string \<Rightarrow> byte list list \<Rightarrow>
   unit res" where
  "client_upload X send protocol ip port session_id file_id token binary =
     rbind (send (call_url protocol ip port
         (''/upload?sessionId='' @ session_id @ ''&fileId='' @ file_id @ ''&token='' @ token))
       (concat binary)) (\<lambda>r.
     check_status X r)"

definition client_cancel ::
  "network \<Rightarrow> protocol_type \<Rightarrow> string \<Rightarrow> u16 \<Rightarrow> string \<Rightarrow> unit res" where
  "client_cancel send protocol ip port session_id =
     rbind (send (call_url protocol ip port (''/cancel?sessionId='' @ session_id)) []) (\<lambda>r. Ok ())"

end
