(* ===== verification/Http_Props.thy ===== *)
theory Http_Props
  imports Http_Client Wire_Messages Token_Props
begin

text \<open>
  Properties of the HTTP server and client: which status every request gets, the caches of nonces
  over runs of the server, what a client and a server make of each other, and where the client
  looks at the certificate of the server. \<open>http_ok\<close> collects the laws of the libraries;
  \<open>wire_http\<close>, with the formats of \<open>Dto\<close> and the cache of \<open>Nonce_Cache\<close>, satisfies them.
\<close>

section \<open>Laws of the libraries\<close>

definition http_ok :: "'c http_ext \<Rightarrow> bool" where
  "http_ok X \<longleftrightarrow>
     lru_cache (hx_lru X) \<and> base64_ok (hx_crypto X) \<and>
     (\<forall>m. hx_de_nonce_request X (as_bytes (hx_ser_nonce_request X m)) = Some m) \<and>
     (\<forall>m. hx_de_nonce_response X (as_bytes (hx_ser_nonce_response X m)) = Some m) \<and>
     (\<forall>m. hx_de_register X (as_bytes (hx_ser_register X m)) = Some m) \<and>
     (\<forall>m. hx_de_register_response X (as_bytes (hx_ser_register_response X m)) = Some m) \<and>
     hx_de_error X [] = None \<and> hx_text X [] = ''''"

definition wire_http :: "crypto_ext \<Rightarrow> x509_ext \<Rightarrow> list_cache http_ext" where
  "wire_http crypto x509 =
     \<lparr>hx_crypto = crypto, hx_x509 = x509, hx_lru = list_lru,
      hx_ser_nonce_request = print_json \<circ> nonce_request_to_json,
      hx_de_nonce_request = wire_de nonce_request_of_json,
      hx_ser_nonce_response = print_json \<circ> nonce_response_to_json,
      hx_de_nonce_response = wire_de nonce_response_of_json,
      hx_ser_register = print_json \<circ> register_dto_to_json, hx_de_register = wire_de register_dto_of_json,
      hx_ser_register_response = print_json \<circ> register_response_dto_to_json,
      hx_de_register_response = wire_de register_response_dto_of_json,
      hx_ser_prepare_upload = print_json \<circ> prepare_upload_request_to_json,
      hx_de_prepare_upload_response = wire_de prepare_upload_response_of_json,
      hx_ser_error = print_json \<circ> error_response_to_json, hx_de_error = wire_de error_response_of_json,
      hx_text = of_bytes\<rparr>"

lemma wire_http_ok: "base64_ok crypto \<Longrightarrow> http_ok (wire_http crypto x509)"
proof -
  assume "base64_ok crypto"
  moreover have "wire_de error_response_of_json [] = None"
    by (simp add: wire_de_def parse_json_text_def of_bytes_def)
  ultimately show ?thesis
    by (simp add: http_ok_def wire_http_def list_lru.lru_cache_axioms of_bytes_def
        wire_de_print nonce_request_wire.dec_enc nonce_response_wire.dec_enc register_dto_wire.dec_enc
        register_response_wire.dec_enc)
qed

section \<open>Routing\<close>

definition v2_paths :: "string set" where
  "v2_paths = {''/api/localsend/v2/register'', ''/api/localsend/v2/prepare-upload'',
     ''/api/localsend/v2/upload'', ''/api/localsend/v2/cancel''}"

definition nonce_path :: string where "nonce_path = ''/api/localsend/v3/nonce''"

definition served :: "bool \<Rightarrow> http_request \<Rightarrow> bool" where
  "served legacy_enabled req \<longleftrightarrow> rq_method req = POST \<and>
     (rq_path req \<in> v2_paths \<and> legacy_enabled \<or> rq_path req = nonce_path \<or>
      rq_path req = ''/api/localsend/v3/register'')"

text \<open>The nonce of a request that the server accepts.\<close>

definition accepted_nonce :: "'c http_ext \<Rightarrow> http_request \<Rightarrow> byte list option" where
  "accepted_nonce X req =
     (if rq_method req \<noteq> POST \<or> rq_path req \<noteq> nonce_path then None
      else
        Option.bind (rq_body req) (\<lambda>b.
        Option.bind (hx_de_nonce_request X b) (\<lambda>payload.
        Option.bind (b64_decode (hx_crypto X) (nq_nonce payload)) (\<lambda>nonce.
        if 16 \<le> length nonce \<and> length nonce \<le> 128 then Some nonce else None))))"

definition remember ::
  "'c http_ext \<Rightarrow> string \<Rightarrow> byte list \<Rightarrow> byte list \<Rightarrow> 'c http_state \<Rightarrow> 'c http_state" where
  "remember X key received generated s =
     s\<lparr>hs_received_nonce_map := lru_put (hx_lru X) key received (hs_received_nonce_map s),
       hs_generated_nonce_map := lru_put (hx_lru X) key generated (hs_generated_nonce_map s)\<rparr>"

lemma serve_nonce:
  assumes "rq_method req = POST" and "rq_path req = nonce_path"
  shows "serve X legacy_enabled new_nonce client req s =
     (case accepted_nonce X req of
        Some nonce \<Rightarrow>
          (into_response (hx_ser_nonce_response X) 200 \<lparr>nr_nonce = base64_encode (hx_crypto X) new_nonce\<rparr>,
           remember X (client_identifier (hx_x509 X) client) nonce new_nonce s)
      | None \<Rightarrow>
          (into_response (hx_ser_error X) (if rq_body req = None then 500 else 400)
             \<lparr>er_message =
                (case rq_body req of
                   None \<Rightarrow> ''Internal Server Error''
                 | Some b \<Rightarrow>
                     (case hx_de_nonce_request X b of
                        None \<Rightarrow> ''Invalid JSON body''
                      | Some p \<Rightarrow>
                          if b64_decode (hx_crypto X) (nq_nonce p) = None then ''Invalid nonce format''
                          else ''Invalid nonce''))\<rparr>, s))"
proof -
  have "serve X legacy_enabled new_nonce client req s =
      (case nonce_exchange X new_nonce (rq_body req) client s of
         (Inl e, s) \<Rightarrow> (error_to_response X e, s)
       | (Inr response, s) \<Rightarrow> (response, s))"
    using assms by (simp add: serve_def handle_request_def handle_request_inner_def nonce_path_def)
  then show ?thesis
    using assms
    by (auto simp: nonce_exchange_def accepted_nonce_def remember_def Let_def error_to_response_def
        app_error_status_def app_error_from_def collect_to_json_def base64_decode_def validate_nonce_def
        split: option.splits if_splits)
qed

lemma served_paths: "nonce_path \<notin> v2_paths" "''/api/localsend/v3/register'' \<notin> v2_paths"
  "nonce_path \<noteq> ''/api/localsend/v3/register''"
  by (simp_all add: nonce_path_def v2_paths_def)

lemma serve_register:
  assumes "rq_path req \<noteq> nonce_path \<or> rq_method req \<noteq> POST"
  shows "serve X legacy_enabled new_nonce client req s =
     (if served legacy_enabled req then
        (case v2_register X (rq_body req) s of Inl e \<Rightarrow> error_to_response X e | Inr r \<Rightarrow> r)
      else if rq_method req = POST \<and> rq_path req \<in> v2_paths then
        error_to_response X (app_error_status 404 None)
      else \<lparr>rs_status = 404, rs_content_type = None, rs_body = ''''\<rparr>, s)"
proof (cases "rq_method req = POST")
  case True
  then show ?thesis
    using assms
    by (cases "rq_path req \<in> v2_paths"; cases legacy_enabled)
      (auto simp: served_def v2_paths_def nonce_path_def serve_def handle_request_def
        handle_request_inner_def v3_register_def v2_register_def split: sum.splits)
next
  case False
  then show ?thesis by (simp add: served_def serve_def handle_request_def handle_request_inner_def)
qed

lemma v2_register_status:
  "rs_status (case v2_register X body s of Inl e \<Rightarrow> error_to_response X e | Inr r \<Rightarrow> r) =
     (case body of None \<Rightarrow> 500 | Some b \<Rightarrow> if hx_de_register X b = None then 400 else 200)"
  by (auto simp: v2_register_def collect_to_json_def error_to_response_def into_response_def
      app_error_status_def app_error_from_def split: option.splits)

lemma serve_state:
  "snd (serve X legacy_enabled new_nonce client req s) =
     (case accepted_nonce X req of
        Some nonce \<Rightarrow> remember X (client_identifier (hx_x509 X) client) nonce new_nonce s
      | None \<Rightarrow> s)"
proof (cases "rq_path req = nonce_path \<and> rq_method req = POST")
  case True
  then show ?thesis by (auto simp: serve_nonce split: option.splits)
next
  case False
  then have "accepted_nonce X req = None" by (auto simp: accepted_nonce_def)
  with False show ?thesis by (simp add: serve_register)
qed

text \<open>
  C16: every request gets the status that its method, path and body call for: 404 for everything
  that is not a POST to a known path (the v2 paths are known when legacy support is on), 500 when
  the body cannot be read, 400 for a body that is not the JSON expected or holds no valid nonce,
  200 otherwise. The state changes only on an accepted nonce, and then by remembering it and the
  one sent back under the client's identifier. The 404 of a disabled v2 path carries the message
  of an internal error.
\<close>

theorem serve_decides:
  "rs_status (fst (serve X legacy_enabled new_nonce client req s)) =
     (if \<not> served legacy_enabled req then 404
      else
        (case rq_body req of
           None \<Rightarrow> 500
         | Some b \<Rightarrow>
             if rq_path req = nonce_path then (if accepted_nonce X req = None then 400 else 200)
             else if hx_de_register X b = None then 400 else 200)) \<and>
   snd (serve X legacy_enabled new_nonce client req s) =
     (case accepted_nonce X req of
        Some nonce \<Rightarrow> remember X (client_identifier (hx_x509 X) client) nonce new_nonce s
      | None \<Rightarrow> s) \<and>
   (rq_method req = POST \<and> rq_path req \<in> v2_paths \<and> \<not> legacy_enabled \<longrightarrow>
      rs_body (fst (serve X legacy_enabled new_nonce client req s)) =
        hx_ser_error X \<lparr>er_message = ''Internal Server Error''\<rparr>)"
proof (cases "rq_path req = nonce_path \<and> rq_method req = POST")
  case True
  moreover have "accepted_nonce X req = None" if "rq_body req = None"
    using that by (simp add: accepted_nonce_def)
  ultimately show ?thesis
    unfolding serve_state
    by (auto simp: serve_nonce served_def served_paths into_response_def split: option.splits)
next
  case False
  then have "rs_status (fst (serve X legacy_enabled new_nonce client req s)) =
      (if served legacy_enabled req then
         (case rq_body req of None \<Rightarrow> 500 | Some b \<Rightarrow> if hx_de_register X b = None then 400 else 200)
       else 404)"
    using v2_register_status [of X "rq_body req" s]
    by (simp add: serve_register error_to_response_def into_response_def app_error_status_def)
  moreover have "served legacy_enabled req \<Longrightarrow> rq_path req \<noteq> nonce_path"
    using False by (auto simp: served_def)
  moreover have "rs_body (fst (serve X legacy_enabled new_nonce client req s)) =
      hx_ser_error X \<lparr>er_message = ''Internal Server Error''\<rparr>"
    if "rq_method req = POST" "rq_path req \<in> v2_paths" "\<not> legacy_enabled"
    using False that served_paths
    by (auto simp: serve_register served_def error_to_response_def into_response_def app_error_status_def)
  ultimately show ?thesis unfolding serve_state by (auto split: option.splits)
qed

section \<open>The caches of the server\<close>

type_synonym served_request = "byte list \<times> request_client_info \<times> http_request"

text \<open>A run of the server: the requests in the order in which they take the locks.\<close>

fun serve_all :: "'c http_ext \<Rightarrow> bool \<Rightarrow> served_request list \<Rightarrow> 'c http_state \<Rightarrow> 'c http_state" where
  "serve_all X legacy_enabled [] s = s"
| "serve_all X legacy_enabled ((new_nonce, client, req) # reqs) s =
     serve_all X legacy_enabled reqs (snd (serve X legacy_enabled new_nonce client req s))"

text \<open>The exchanges of a run: identifier, received and generated nonce.\<close>

fun exchanges :: "'c http_ext \<Rightarrow> served_request list \<Rightarrow> (string \<times> byte list \<times> byte list) list" where
  "exchanges X [] = []"
| "exchanges X ((new_nonce, client, req) # reqs) =
     (case accepted_nonce X req of
        Some nonce \<Rightarrow> (client_identifier (hx_x509 X) client, nonce, new_nonce) # exchanges X reqs
      | None \<Rightarrow> exchanges X reqs)"

lemma serve_all_append:
  "serve_all X legacy_enabled (as @ bs) s = serve_all X legacy_enabled bs (serve_all X legacy_enabled as s)"
  by (induction as arbitrary: s) auto

lemma serve_all_maps:
  assumes "lru_cache (hx_lru X)"
  shows "hs_received_nonce_map (serve_all X legacy_enabled reqs s) =
      lru_cache.puts (hx_lru X) (map (\<lambda>(k, n, _). (k, n)) (exchanges X reqs)) (hs_received_nonce_map s) \<and>
    hs_generated_nonce_map (serve_all X legacy_enabled reqs s) =
      lru_cache.puts (hx_lru X) (map (\<lambda>(k, _, n). (k, n)) (exchanges X reqs)) (hs_generated_nonce_map s)"
proof (induction reqs arbitrary: s)
  case (Cons r reqs)
  obtain new_nonce client req where "r = (new_nonce, client, req)" by (cases r)
  then show ?case
    using Cons by (simp add: lru_cache.puts_simps [OF assms] serve_state remember_def split: option.splits)
qed (simp add: lru_cache.puts_simps [OF assms])

lemma exchanges_keys:
  "fst ` set (exchanges X reqs) \<subseteq> (\<lambda>(_, client, _). client_identifier (hx_x509 X) client) ` set reqs"
  by (induction X reqs rule: exchanges.induct) (auto split: option.splits)

definition caches_ok :: "'c http_ext \<Rightarrow> 'c http_state \<Rightarrow> bool" where
  "caches_ok X s \<longleftrightarrow>
     lru_cache.sound (hx_lru X) (hs_received_nonce_map s) \<and>
     lru_cache.sound (hx_lru X) (hs_generated_nonce_map s) \<and>
     lru_cache.in_step (hx_lru X) (hs_received_nonce_map s) (hs_generated_nonce_map s) \<and>
     lru_cap (hx_lru X) (hs_received_nonce_map s) = 200"

lemma caches_ok_new: "lru_cache (hx_lru X) \<Longrightarrow> caches_ok X (http_state_new X info)"
  by (simp add: caches_ok_def http_state_new_def lru_cache.sound_new lru_cache.in_step_def lru_cache.cap_new)

lemma caches_ok_serve:
  "lru_cache (hx_lru X) \<Longrightarrow> caches_ok X s \<Longrightarrow> caches_ok X (snd (serve X legacy_enabled new_nonce client req s))"
  by (auto simp: caches_ok_def serve_state remember_def lru_cache.sound_put lru_cache.in_step_put
      lru_cache.cap_put split: option.splits)

lemma caches_ok_all:
  "lru_cache (hx_lru X) \<Longrightarrow> caches_ok X s \<Longrightarrow> caches_ok X (serve_all X legacy_enabled reqs s)"
proof (induction reqs arbitrary: s)
  case (Cons r reqs)
  then show ?case by (cases r) (simp add: caches_ok_serve)
qed simp

text \<open>
  C15: whatever requests the server has answered, its two caches hold nonces of the same clients,
  in the same order of use, each client once and at most 200 of them.
\<close>

theorem nonce_maps_in_step:
  assumes "lru_cache (hx_lru X)"
    and "s = serve_all X legacy_enabled reqs (http_state_new X info)"
  shows "lru_keys (hx_lru X) (hs_received_nonce_map s) = lru_keys (hx_lru X) (hs_generated_nonce_map s) \<and>
    distinct (lru_keys (hx_lru X) (hs_received_nonce_map s)) \<and>
    length (lru_keys (hx_lru X) (hs_received_nonce_map s)) \<le> 200"
  using caches_ok_all [OF assms(1) caches_ok_new [OF assms(1)], of legacy_enabled reqs info] assms
  by (simp add: caches_ok_def lru_cache.sound_def lru_cache.in_step_def)

text \<open>
  A client's nonces are there until 200 other clients have exchanged theirs: after an accepted
  exchange the server has both nonces of the client, whatever came before, as long as the clients
  of the requests since are others, with fewer than 200 identifiers.
\<close>

theorem exchanged_nonces_kept:
  assumes "lru_cache (hx_lru X)"
    and "accepted_nonce X req = Some nonce"
    and "client_identifier (hx_x509 X) client \<notin>
      (\<lambda>(_, client, _). client_identifier (hx_x509 X) client) ` set later"
    and "card ((\<lambda>(_, client, _). client_identifier (hx_x509 X) client) ` set later) < 200"
    and "s = serve_all X legacy_enabled (earlier @ (new_nonce, client, req) # later) (http_state_new X info)"
  shows "lru_get (hx_lru X) (client_identifier (hx_x509 X) client) (hs_received_nonce_map s) = Some nonce \<and>
    lru_get (hx_lru X) (client_identifier (hx_x509 X) client) (hs_generated_nonce_map s) = Some new_nonce"
proof -
  let ?L = "hx_lru X" and ?i = "client_identifier (hx_x509 X) client"
  let ?ids = "(\<lambda>(_, client, _). client_identifier (hx_x509 X) client) ` set later"
  let ?s0 = "serve_all X legacy_enabled earlier (http_state_new X info)"
  have ok: "caches_ok X ?s0" using caches_ok_all caches_ok_new assms(1) by blast
  have keys: "fst ` set (map (\<lambda>(k, n, _). (k, n)) (exchanges X later)) = fst ` set (exchanges X later)"
    "fst ` set (map (\<lambda>(k, _, n). (k, n)) (exchanges X later)) = fst ` set (exchanges X later)"
    by force+
  have few: "card (fst ` set (exchanges X later)) < 200"
    using card_mono [OF _ exchanges_keys [of X later]] assms(4) by simp
  have other: "?i \<notin> fst ` set (exchanges X later)" using assms(3) exchanges_keys [of X later] by blast
  have cap: "lru_cap ?L (hs_received_nonce_map ?s0) = 200" "lru_cap ?L (hs_generated_nonce_map ?s0) = 200"
    using ok lru_cache.in_step_def [OF assms(1)] by (simp_all add: caches_ok_def)
  have "s = serve_all X legacy_enabled later (remember X ?i nonce new_nonce ?s0)"
    using assms(2,5) by (simp add: serve_all_append serve_state)
  then show ?thesis
    using serve_all_maps [OF assms(1), of legacy_enabled later "remember X ?i nonce new_nonce ?s0"] ok keys few other cap
      lru_cache.stays [OF assms(1), of "hs_received_nonce_map ?s0" ?i "map (\<lambda>(k, n, _). (k, n)) (exchanges X later)" nonce]
      lru_cache.stays [OF assms(1), of "hs_generated_nonce_map ?s0" ?i "map (\<lambda>(k, _, n). (k, n)) (exchanges X later)" new_nonce]
    by (simp add: remember_def caches_ok_def)
qed

end
