(* ===== verification/Http_Exchange.thy ===== *)
theory Http_Exchange
  imports Http_Props
begin

text \<open>
  The HTTP client and the HTTP server together: a nonce exchange leaves both sides with the same
  two nonces, registration returns the server's info, the upload calls find no route; and what the
  client checks of the server's certificate.
\<close>

section \<open>The network between them\<close>

text \<open>What the client sees of a response, over TLS with a certificate or without TLS.\<close>

definition reply_of :: "byte list option option \<Rightarrow> ip_addr option \<Rightarrow> http_response \<Rightarrow> http_reply" where
  "reply_of tls_info remote r =
     \<lparr>rp_status = rs_status r, rp_tls_info = tls_info, rp_remote_addr = remote, rp_body = Some (as_bytes (rs_body r))\<rparr>"

text \<open>How the client identifies such a server.\<close>

definition server_identifier ::
  "x509_ext \<Rightarrow> byte list option option \<Rightarrow> ip_addr option \<Rightarrow> protocol_type \<Rightarrow> string res" where
  "server_identifier X tls_info remote protocol =
     to_identifier X \<lparr>rp_status = 200, rp_tls_info = tls_info, rp_remote_addr = remote, rp_body = None\<rparr>
       (protocol = Https) None"

lemma to_identifier_reply_of:
  "to_identifier X (reply_of tls_info remote r) (protocol = Https) None =
    server_identifier X tls_info remote protocol"
  by (simp add: server_identifier_def to_identifier_def verify_cert_from_res_def reply_of_def)

text \<open>A POST to the server, its path taken from the part of the URL after the port.\<close>

definition post :: "string \<Rightarrow> byte list \<Rightarrow> http_request" where
  "post path body = \<lparr>rq_method = POST, rq_path = path, rq_body = Some body\<rparr>"

lemma post_simps [simp]: "rq_method (post p b) = POST" "rq_path (post p b) = p" "rq_body (post p b) = Some b"
  by (simp_all add: post_def)

definition answers ::
  "'c http_ext \<Rightarrow> bool \<Rightarrow> byte list \<Rightarrow> request_client_info \<Rightarrow> byte list option option \<Rightarrow> ip_addr option \<Rightarrow>
   'c http_state \<Rightarrow> string \<Rightarrow> byte list \<Rightarrow> http_reply" where
  "answers X legacy_enabled new_nonce client tls_info remote s path body =
     reply_of tls_info remote (fst (serve X legacy_enabled new_nonce client (post path body) s))"

lemma nonce_request_accepted:
  assumes "http_ok X" and "16 \<le> length n" and "length n \<le> 128"
  shows "accepted_nonce X (post nonce_path
      (as_bytes (hx_ser_nonce_request X \<lparr>nq_nonce = base64_encode (hx_crypto X) n\<rparr>))) = Some n"
proof -
  have "b64_decode (hx_crypto X) (base64_encode (hx_crypto X) n) = Some n"
    using assms(1) base64_ok_decode [of "hx_crypto X" n] by (simp add: http_ok_def base64_decode_def)
  with assms show ?thesis by (simp add: accepted_nonce_def http_ok_def)
qed

lemma nonce_reply_answers:
  assumes ok: "http_ok X" and gen: "16 \<le> length generated" "length generated \<le> 128"
    and ident: "server_identifier (hx_x509 X) tls_info remote protocol = Ok server_id"
    and body: "body = as_bytes (hx_ser_nonce_request X \<lparr>nq_nonce = base64_encode (hx_crypto X) generated\<rparr>)"
  shows "nonce_reply X protocol (answers X legacy_enabled new_nonce client tls_info remote s nonce_path body) =
    Ok (server_id, base64_encode (hx_crypto X) new_nonce, new_nonce)"
proof -
  have "fst (serve X legacy_enabled new_nonce client (post nonce_path body) s) =
      into_response (hx_ser_nonce_response X) 200 \<lparr>nr_nonce = base64_encode (hx_crypto X) new_nonce\<rparr>"
    using nonce_request_accepted [OF ok gen] body by (simp add: serve_nonce)
  then show ?thesis
    using ok ident base64_ok_decode [of "hx_crypto X" new_nonce]
    by (simp add: nonce_reply_def check_status_def answers_def to_identifier_reply_of reply_json_def reply_bytes_def)
      (simp add: reply_of_def into_response_def http_ok_def)
qed

text \<open>The upload calls reach a path without a route.\<close>

lemma upload_answers:
  assumes "http_ok X" and "path \<in> {''/api/localsend/v3/prepare-upload'', ''/api/localsend/v3/upload''}"
  shows "check_status X (answers X legacy_enabled new_nonce client tls_info remote s path body) =
      Err (StatusCodeError 404 None)"
    and "rp_tls_info (answers X legacy_enabled new_nonce client tls_info remote s path body) = tls_info"
proof -
  have "answers X legacy_enabled new_nonce client tls_info remote s path body =
      reply_of tls_info remote \<lparr>rs_status = 404, rs_content_type = None, rs_body = ''''\<rparr>"
    using assms(2) by (auto simp: answers_def serve_register nonce_path_def served_def v2_paths_def)
  with assms(1) show "check_status X (answers X legacy_enabled new_nonce client tls_info remote s path body) =
      Err (StatusCodeError 404 None)"
    and "rp_tls_info (answers X legacy_enabled new_nonce client tls_info remote s path body) = tls_info"
    by (simp_all add: check_status_def reply_of_def status_code_error_from_res_def reply_bytes_def
        http_ok_def as_bytes_def)
qed

section \<open>Exchange and registration\<close>

text \<open>
  C22: after a nonce exchange the client has the server's nonce and its own under the server's
  identifier, and the server has the client's nonce and its own under the client's identifier:
  the two sides agree. The client takes a server's nonce of any length.
\<close>

theorem nonce_exchange_agrees:
  assumes ok: "http_ok X"
    and gen: "16 \<le> length generated" "length generated \<le> 128"
    and net: "\<forall>body. send (nonce_url protocol ip port) body =
      Ok (answers X legacy_enabled new_nonce client tls_info remote s nonce_path body)"
    and ident: "server_identifier (hx_x509 X) tls_info remote protocol = Ok server_id"
    and s: "caches_ok X s" and body: "body = as_bytes (hx_ser_nonce_request X
      \<lparr>nq_nonce = base64_encode (hx_crypto X) generated\<rparr>)"
    and c: "0 < lru_cap (hx_lru X) (hc_received_nonce_map c)" "0 < lru_cap (hx_lru X) (hc_generated_nonce_map c)"
    and run: "client_nonce X send generated protocol ip port c = (result, c')"
      "s' = snd (serve X legacy_enabled new_nonce client (post nonce_path body) s)"
  shows "result = Ok (base64_encode (hx_crypto X) new_nonce) \<and>
    lru_get (hx_lru X) server_id (hc_received_nonce_map c') = Some new_nonce \<and>
    lru_get (hx_lru X) server_id (hc_generated_nonce_map c') = Some generated \<and>
    lru_get (hx_lru X) (client_identifier (hx_x509 X) client) (hs_received_nonce_map s') = Some generated \<and>
    lru_get (hx_lru X) (client_identifier (hx_x509 X) client) (hs_generated_nonce_map s') = Some new_nonce"
proof -
  have lru: "lru_cache (hx_lru X)" using ok by (simp add: http_ok_def)
  have "nonce_reply X protocol (answers X legacy_enabled new_nonce client tls_info remote s nonce_path body) =
      Ok (server_id, base64_encode (hx_crypto X) new_nonce, new_nonce)"
    using ok gen ident body by (rule nonce_reply_answers)
  then have "result = Ok (base64_encode (hx_crypto X) new_nonce)"
    "c' = c\<lparr>hc_received_nonce_map := lru_put (hx_lru X) server_id new_nonce (hc_received_nonce_map c),
       hc_generated_nonce_map := lru_put (hx_lru X) server_id generated (hc_generated_nonce_map c)\<rparr>"
    using run(1) net body by (simp_all add: client_nonce_def Let_def)
  moreover have "s' = remember X (client_identifier (hx_x509 X) client) generated new_nonce s"
    using run(2) nonce_request_accepted [OF ok gen] body by (simp add: serve_state)
  moreover have "lru_cap (hx_lru X) (hs_received_nonce_map s) = 200" "lru_cap (hx_lru X) (hs_generated_nonce_map s) = 200"
    using s lru_cache.in_step_def [OF lru] by (simp_all add: caches_ok_def)
  ultimately show ?thesis using c lru_cache.get_put [OF lru] by (simp add: remember_def)
qed

text \<open>
  A client that registers at the server gets the server's info, and over HTTPS the key of a
  certificate that is valid now and signed with that key.
\<close>

theorem register_returns_info:
  assumes "http_ok X"
    and "\<forall>body. send (call_url protocol ip port ''/register'') body =
      Ok (answers X legacy_enabled new_nonce client tls_info remote s ''/api/localsend/v3/register'' body)"
  shows "client_register X send protocol ip port payload =
    (case protocol of
       Http \<Rightarrow> Ok (None, register_body s)
     | Https \<Rightarrow> rbind (server_identifier (hx_x509 X) tls_info remote Https) (\<lambda>k. Ok (Some k, register_body s)))"
proof -
  let ?req = "post ''/api/localsend/v3/register'' (as_bytes (hx_ser_register X payload))"
  have "fst (serve X legacy_enabled new_nonce client ?req s) =
      into_response (hx_ser_register_response X) 200 (register_body s)"
    using assms(1)
    by (simp add: serve_register nonce_path_def served_def v2_register_def collect_to_json_def http_ok_def)
  then have r: "reply_json (hx_de_register_response X)
      (answers X legacy_enabled new_nonce client tls_info remote s ''/api/localsend/v3/register''
        (as_bytes (hx_ser_register X payload))) = Ok (register_body s)"
    using assms(1) by (simp add: answers_def reply_json_def reply_bytes_def reply_of_def into_response_def http_ok_def)
  show ?thesis
  proof (cases protocol)
    case Http
    with assms(2) r show ?thesis by (simp add: client_register_def)
  next
    case Https
    have "verify_cert_from_res (hx_x509 X) (answers X legacy_enabled new_nonce client tls_info remote s
        ''/api/localsend/v3/register'' (as_bytes (hx_ser_register X payload))) None =
        server_identifier (hx_x509 X) tls_info remote Https"
      using to_identifier_reply_of [of "hx_x509 X" tls_info remote _ Https]
      by (simp add: answers_def to_identifier_def)
    with Https assms(2) r show ?thesis by (simp add: client_register_def rbind_assoc)
  qed
qed

section \<open>Uploads\<close>

text \<open>
  the server has no route for the upload calls of the client. \<open>prepare_upload\<close> (without a
  pinned key) and \<open>upload\<close> end with status 404 and no message, \<open>cancel\<close> reports success.
\<close>

theorem uploads_not_routed:
  assumes "http_ok X"
    and "\<forall>path body. send (call_url protocol ip port path) body =
      Ok (answers X legacy_enabled new_nonce client tls_info remote s
        (''/api/localsend/v3'' @ takeWhile (\<lambda>c. c \<noteq> CHR ''?'') path) body)"
  shows "client_prepare_upload X send protocol ip port None payload = Err (StatusCodeError 404 None) \<and>
    client_upload X send protocol ip port session_id file_id token binary = Err (StatusCodeError 404 None) \<and>
    client_cancel send protocol ip port session_id = Ok ()"
  using assms upload_answers [OF assms(1)]
  by (simp add: client_prepare_upload_def client_upload_def client_cancel_def)

section \<open>Certificates and URLs\<close>

definition without_tls :: "http_reply \<Rightarrow> http_reply" where
  "without_tls r = r\<lparr>rp_tls_info := None\<rparr>"

lemma check_status_without_tls: "check_status X (without_tls r) = check_status X r"
  by (simp add: without_tls_def check_status_def status_code_error_from_res_def reply_bytes_def)

definition map_res :: "('a \<Rightarrow> 'b) \<Rightarrow> 'a res \<Rightarrow> 'b res" where
  "map_res f r = rbind r (\<lambda>x. Ok (f x))"

text \<open>
  C27: where the pinned key of the server is checked. \<open>prepare_upload\<close> with a key succeeds only if
  the certificate of the connection is valid now, signed with its own key, and this is the key;
  \<open>upload\<close>, which sends the content of the files, gives the same result whatever the certificate.
\<close>

theorem only_prepare_upload_pins:
  "(is_ok (client_prepare_upload X send protocol ip port (Some public_key) payload) \<longrightarrow>
      (\<exists>r cert. send (call_url protocol ip port ''/prepare-upload'') (as_bytes (hx_ser_prepare_upload X payload)) = Ok r \<and>
        rp_tls_info r = Some (Some cert) \<and> verify_cert_from_der (hx_x509 X) cert (Some public_key) = Ok () \<and>
        rp_status r = 200)) \<and>
   client_upload X (\<lambda>url body. map_res without_tls (send url body)) protocol ip port session_id file_id token binary =
     client_upload X send protocol ip port session_id file_id token binary"
proof
  show "client_upload X (\<lambda>url body. map_res without_tls (send url body)) protocol ip port session_id file_id token binary =
      client_upload X send protocol ip port session_id file_id token binary"
    by (simp add: client_upload_def map_res_def rbind_assoc check_status_without_tls)
next
  show "is_ok (client_prepare_upload X send protocol ip port (Some public_key) payload) \<longrightarrow>
      (\<exists>r cert. send (call_url protocol ip port ''/prepare-upload'') (as_bytes (hx_ser_prepare_upload X payload)) = Ok r \<and>
        rp_tls_info r = Some (Some cert) \<and> verify_cert_from_der (hx_x509 X) cert (Some public_key) = Ok () \<and>
        rp_status r = 200)"
    by (auto simp: client_prepare_upload_def is_ok_iff rbind_eq_Ok verify_cert_from_res_def check_status_def
        split: if_splits)
qed

text \<open>
  \<open>register\<close> and the upload calls write the host into the URL as it is, \<open>nonce\<close> goes through
  \<open>TargetUrl\<close>, which puts an IPv6 address in brackets. The two agree exactly on hosts without a
  colon.
\<close>

lemma call_url_is_target_url:
  "call_url protocol host port path =
     url_to_string \<lparr>tu_version = ApiV3, tu_protocol = protocol, tu_host = host, tu_port = port, tu_path = path\<rparr>
   \<longleftrightarrow> CHR '':'' \<notin> set host"
  by (auto simp: call_url_def url_to_string_def bracketed_def BASE_PATH_def)

section \<open>Concrete runs\<close>

definition sample_x509 :: x509_ext where
  "sample_x509 = \<lparr>pem_read = (\<lambda>s. Some (as_bytes s)),
     x509_from_der = (\<lambda>d. Some \<lparr>cert_valid_now = True, cert_subject_pki = d, cert_self_signature_ok = True\<rparr>),
     spki_from_der = Some, spki_parsed = Some, pem_encode = (\<lambda>_ d. of_bytes d)\<rparr>"

definition sample_http :: "list_cache http_ext" where
  "sample_http = wire_http sample_crypto sample_x509"

lemma sample_http_ok: "http_ok sample_http" "lru_cache (hx_lru sample_http)" "hx_lru sample_http = list_lru"
  "hx_x509 sample_http = sample_x509"
  using wire_http_ok [OF sample_crypto_ok(1)] list_lru.lru_cache_axioms
  by (simp_all add: sample_http_def wire_http_def)

definition sample_http_info :: http_client_info where
  "sample_http_info = \<lparr>hi_alias = ''a'', hi_version = ''2.1'', hi_device_model = None,
     hi_device_type = Some Desktop, hi_token = ''t''\<rparr>"

definition sample_server :: "list_cache http_state" where
  "sample_server = http_state_new sample_http sample_http_info"

definition sample_nonce :: "byte list" where "sample_nonce = replicate 32 7"

definition nonce_post :: "byte list \<Rightarrow> http_request" where
  "nonce_post n = post nonce_path
     (as_bytes (hx_ser_nonce_request sample_http \<lparr>nq_nonce = base64_encode (hx_crypto sample_http) n\<rparr>))"

definition client_at :: "u8 \<Rightarrow> request_client_info" where
  "client_at d = plain_client_info (V4 10 0 0 d)"

lemma nonce_post_accepted: "accepted_nonce sample_http (nonce_post sample_nonce) = Some sample_nonce"
  unfolding nonce_post_def by (rule nonce_request_accepted [OF sample_http_ok(1)]) (simp_all add: sample_nonce_def)

lemma client_at_identifier:
  "client_identifier X (client_at 1) = ip_to_string (V4 10 0 0 1)"
  "client_identifier X (client_at 2) = ip_to_string (V4 10 0 0 2)"
  "ip_to_string (V4 10 0 0 1) \<noteq> ip_to_string (V4 10 0 0 2)"
  by (simp_all add: client_identifier_def extract_public_key_def client_at_def plain_client_info_def
      ip_text_simps)

theorem nonce_maps_in_step_witness:
  "lru_keys list_lru (hs_received_nonce_map
       (serve_all sample_http True [(sample_nonce, client_at 1, nonce_post sample_nonce)] sample_server)) =
     [ip_to_string (V4 10 0 0 1)] \<and>
   lru_keys list_lru (hs_generated_nonce_map
       (serve_all sample_http True [(sample_nonce, client_at 1, nonce_post sample_nonce)] sample_server)) =
     [ip_to_string (V4 10 0 0 1)]"
proof -
  have "lru_keys list_lru (hs_received_nonce_map
       (serve_all sample_http True [(sample_nonce, client_at 1, nonce_post sample_nonce)] sample_server)) =
     [ip_to_string (V4 10 0 0 1)]"
    by (simp add: serve_state nonce_post_accepted remember_def sample_server_def http_state_new_def
        sample_http_ok client_at_identifier list_lru.keys_put list_lru.keys_new list_lru.cap_new)
  then show ?thesis
    using nonce_maps_in_step [OF sample_http_ok(2), of _ True
        "[(sample_nonce, client_at 1, nonce_post sample_nonce)]" sample_http_info]
    by (simp add: sample_server_def sample_http_ok)
qed

theorem exchanged_nonces_kept_witness:
  "lru_get list_lru (ip_to_string (V4 10 0 0 1)) (hs_received_nonce_map
     (serve_all sample_http True [(replicate 32 1, client_at 1, nonce_post sample_nonce),
        (replicate 32 2, client_at 2, nonce_post sample_nonce)] sample_server)) = Some sample_nonce"
  using exchanged_nonces_kept [OF sample_http_ok(2) nonce_post_accepted _ _ refl, where client = "client_at 1"
      and later = "[(replicate 32 2, client_at 2, nonce_post sample_nonce)]" and legacy_enabled = True
      and earlier = "[]" and new_nonce = "replicate 32 1" and info = sample_http_info] client_at_identifier(3)
  by (simp add: sample_server_def sample_http_ok client_at_identifier)

definition sample_network :: "byte list \<Rightarrow> network" where
  "sample_network new_nonce = (\<lambda>url body.
     Ok (answers sample_http True new_nonce (client_at 1) (Some (Some [1, 2, 3])) None sample_server
       (if url = nonce_url Https ''10.0.0.9'' 80 then nonce_path else ''/api/localsend/v3/register'') body))"

lemma sample_server_key:
  "server_identifier sample_x509 (Some (Some [1, 2, 3])) None Https = Ok (of_bytes [1, 2, 3])"
  by (simp add: server_identifier_def to_identifier_def verify_cert_from_res_def public_key_from_cert_der_def
      public_key_from_cert_def verify_cert_from_der_def verify_cert_from_cert_def sample_x509_def
      of_bytes_def as_bytes_def)

theorem nonce_exchange_agrees_witness:
  "\<exists>c'. client_nonce sample_http (sample_network [5]) sample_nonce Https ''10.0.0.9'' 80
       (http_client_new sample_http) = (Ok (base64_encode (hx_crypto sample_http) [5]), c') \<and>
     lru_get list_lru (of_bytes [1, 2, 3]) (hc_received_nonce_map c') = Some [5] \<and>
     lru_get list_lru (of_bytes [1, 2, 3]) (hc_generated_nonce_map c') = Some sample_nonce"
proof -
  obtain result c' where run: "client_nonce sample_http (sample_network [5]) sample_nonce Https ''10.0.0.9'' 80
       (http_client_new sample_http) = (result, c')" by fastforce
  have "caches_ok sample_http sample_server"
    unfolding sample_server_def by (rule caches_ok_new [OF sample_http_ok(2)])
  then show ?thesis
    using nonce_exchange_agrees [OF sample_http_ok(1), of sample_nonce "sample_network [5]" Https "''10.0.0.9''" 80 True "[5]"
        "client_at 1" "Some (Some [1, 2, 3])" None sample_server "of_bytes [1, 2, 3]" _ "http_client_new sample_http"
        result c', OF _ _ _ _ _ refl _ _ run refl] sample_server_key run
    by (simp add: sample_nonce_def sample_network_def sample_http_ok http_client_new_def list_lru.cap_new)
qed

definition sample_register :: register_dto where
  "sample_register = \<lparr>rd_alias = ''b'', rd_version = ''2.1'', rd_device_model = Some ''x'', rd_device_type = None,
     rd_token = ''u'', rd_port = 53317, rd_protocol = Https, rd_has_web_interface = False\<rparr>"

theorem register_returns_info_witness:
  "client_register sample_http (sample_network [5]) Https ''10.0.0.9'' 80 sample_register =
     Ok (Some (of_bytes [1, 2, 3]), register_body sample_server)"
proof -
  have "call_url Https ''10.0.0.9'' 80 ''/register'' \<noteq> nonce_url Https ''10.0.0.9'' 80"
    by (simp add: call_url_def nonce_url_def url_to_string_def bracketed_def BASE_PATH_def)
  then show ?thesis
    using register_returns_info [OF sample_http_ok(1), of "sample_network [5]" Https "''10.0.0.9''" 80 True "[5]"
        "client_at 1" "Some (Some [1, 2, 3])" None sample_server sample_register] sample_server_key
    by (simp add: sample_network_def sample_http_ok)
qed

definition upload_network :: network where
  "upload_network = (\<lambda>url body.
     Ok (answers sample_http True sample_nonce (client_at 1) None None sample_server
       (''/api/localsend/v3'' @ takeWhile (\<lambda>c. c \<noteq> CHR ''?'') (drop (length (call_url Http ''10.0.0.9'' 80 '''')) url))
       body))"

theorem uploads_not_routed_witness:
  "client_upload sample_http upload_network Http ''10.0.0.9'' 80 ''s'' ''f'' ''t'' [[1, 2], [3]] =
     Err (StatusCodeError 404 None)"
proof -
  have url: "call_url Http ''10.0.0.9'' 80 path = call_url Http ''10.0.0.9'' 80 '''' @ path" for path
    by (simp add: call_url_def)
  have "drop (length (call_url Http ''10.0.0.9'' 80 '''')) (call_url Http ''10.0.0.9'' 80 path) = path" for path
    unfolding url [of path] by simp
  then show ?thesis
    using uploads_not_routed [OF sample_http_ok(1), of upload_network Http "''10.0.0.9''" 80 True sample_nonce
        "client_at 1" None None sample_server]
    by (simp add: upload_network_def)
qed

theorem serve_decides_witness:
  "rs_status (fst (serve sample_http False sample_nonce (client_at 1)
     (post ''/api/localsend/v2/register'' (as_bytes (hx_ser_register sample_http sample_register))) sample_server)) = 404 \<and>
   rs_body (fst (serve sample_http False sample_nonce (client_at 1)
     (post ''/api/localsend/v2/register'' (as_bytes (hx_ser_register sample_http sample_register))) sample_server)) =
     hx_ser_error sample_http \<lparr>er_message = ''Internal Server Error''\<rparr>"
  using serve_decides [of sample_http False sample_nonce "client_at 1" "post ''/api/localsend/v2/register''
      (as_bytes (hx_ser_register sample_http sample_register))" sample_server]
  by (simp add: served_def v2_paths_def nonce_path_def post_def)

text \<open>A server that has the certificate \<open>cert\<close> and accepts every upload.\<close>

definition pinned_network :: "byte list \<Rightarrow> network" where
  "pinned_network cert = (\<lambda>url body.
     Ok \<lparr>rp_status = 200, rp_tls_info = Some (Some cert), rp_remote_addr = None,
       rp_body = Some (as_bytes (print_json (prepare_upload_response_to_json
         \<lparr>pr_session_id = ''s'', pr_files = []\<rparr>)))\<rparr>)"

theorem only_prepare_upload_pins_witness:
  "is_ok (client_prepare_upload sample_http (pinned_network [1, 2, 3]) Https ''10.0.0.9'' 80 (Some (of_bytes [1, 2, 3]))
     \<lparr>pq_info = sample_register, pq_files = []\<rparr>) \<and>
   verify_cert_from_der sample_x509 [1, 2, 3] (Some (of_bytes [1, 2, 3])) = Ok ()"
proof -
  have "hx_de_prepare_upload_response sample_http (as_bytes (print_json (prepare_upload_response_to_json
      \<lparr>pr_session_id = ''s'', pr_files = []\<rparr>))) = Some \<lparr>pr_session_id = ''s'', pr_files = []\<rparr>"
    by (simp add: sample_http_def wire_http_def wire_de_print prepare_upload_response_roundtrip)
  then have "is_ok (client_prepare_upload sample_http (pinned_network [1, 2, 3]) Https ''10.0.0.9'' 80
      (Some (of_bytes [1, 2, 3])) \<lparr>pq_info = sample_register, pq_files = []\<rparr>)"
    by (simp add: client_prepare_upload_def pinned_network_def verify_cert_from_res_def sample_http_ok
        check_status_def reply_json_def reply_bytes_def is_ok_iff verify_cert_from_der_def
        verify_cert_from_cert_def sample_x509_def of_bytes_def as_bytes_def)
  with only_prepare_upload_pins [of sample_http "pinned_network [1, 2, 3]" Https "''10.0.0.9''" 80
      "of_bytes [1, 2, 3]" "\<lparr>pq_info = sample_register, pq_files = []\<rparr>"] show ?thesis
    by (auto simp: pinned_network_def sample_http_ok)
qed

end
