(* ===== verification/Http_Listener.thy ===== *)
theory Http_Listener
  imports Http_Exchange
begin

text \<open>
  The listeners of the HTTP server (\<open>core/src/http/server/mod.rs\<close> and \<open>client_cert_verifier.rs\<close>):
  \<open>start_with_port\<close>, \<open>start_server_with_addr\<close> with the TLS configuration, and the connections it
  serves, whose requests are interleaved on one state. Sockets and rustls are arguments: what
  \<open>bind\<close> and \<open>accept\<close> return, and \<open>accept_tls\<close>, which does the handshake of \<open>TlsAcceptor::accept\<close>
  with the answers of the code's \<open>ClientCertVerifier\<close>.
\<close>

section \<open>The TLS configuration\<close>

record tls_config =
  tc_cert :: string
  tc_private_key :: string

text \<open>
  What the code calls of rustls: the reading of certificate and key, \<open>RootCertStore::add\<close>,
  \<open>WebPkiClientVerifier::builder(..).build\<close> and \<open>with_single_cert\<close>; \<open>None\<close> is an error.
\<close>

record tls_ext =
  te_cert_from_pem :: "string \<Rightarrow> byte list option"
  te_key_from_pem :: "string \<Rightarrow> byte list option"
  te_root_add :: "byte list \<Rightarrow> unit option"
  te_verifier_build :: "byte list list \<Rightarrow> unit option"
  te_single_cert :: "byte list list \<Rightarrow> byte list \<Rightarrow> unit option"

text \<open>The verifier keeps the server's own certificate as its only root.\<close>

definition client_verifier_try_new :: "tls_ext \<Rightarrow> string \<Rightarrow> byte list list res" where
  "client_verifier_try_new T cert =
     rbind (res_of_option (Lib ''pem error'') (te_cert_from_pem T cert)) (\<lambda>root.
     rbind (res_of_option (Lib ''rustls error'') (te_root_add T root)) (\<lambda>_.
     rbind (res_of_option (Lib ''verifier error'') (te_verifier_build T [root])) (\<lambda>_.
     Ok [root])))"

record tls_acceptor =
  ta_certs :: "byte list list"
  ta_key :: "byte list"
  ta_client_roots :: "byte list list"

definition create_tls_config :: "tls_ext \<Rightarrow> tls_config \<Rightarrow> tls_acceptor res" where
  "create_tls_config T config =
     rbind (res_of_option (Lib ''pem error'') (te_cert_from_pem T (tc_cert config))) (\<lambda>cert.
     rbind (res_of_option (Lib ''pem error'') (te_key_from_pem T (tc_private_key config))) (\<lambda>key.
     rbind (client_verifier_try_new T (tc_cert config)) (\<lambda>roots.
     rbind (res_of_option (Lib ''rustls error'') (te_single_cert T [cert] key)) (\<lambda>_.
     Ok \<lparr>ta_certs = [cert], ta_key = key, ta_client_roots = roots\<rparr>))))"

section \<open>Connections\<close>

text \<open>
  \<open>accept_tls\<close> is given the acceptor, whether a client certificate is asked for and whether it is
  mandatory, the check of it, and the stream; it fails or gives the certificates of the client.
\<close>

type_synonym 's tls_accept =
  "tls_acceptor \<Rightarrow> bool \<Rightarrow> bool \<Rightarrow> (byte list \<Rightarrow> byte list list \<Rightarrow> unit res) \<Rightarrow> 's \<Rightarrow> err + byte list list option"

text \<open>
  What rustls documents: with a mandatory client certificate a handshake succeeds only for a client
  that has shown one which the verifier accepted; it is the first of the list.
\<close>

definition rustls_ok :: "'s tls_accept \<Rightarrow> bool" where
  "rustls_ok accept_tls \<longleftrightarrow>
     (\<forall>acceptor verify stream certs. accept_tls acceptor True True verify stream = Inr certs \<longrightarrow>
        (\<exists>cert rest. certs = Some (cert # rest) \<and> verify cert rest = Ok ()))"

datatype connection_start =
  HandshakeFailed err | ConnectionPanics string | ConnectionServed request_client_info

text \<open>
  The spawned task of a connection, up to \<open>serve_connection\<close>. \<open>tls_client_info\<close> gives a client or panics,
  nothing else.
\<close>

definition start_connection ::
  "x509_ext \<Rightarrow> 's tls_accept \<Rightarrow> tls_acceptor option \<Rightarrow> ip_addr \<Rightarrow> 's \<Rightarrow> connection_start" where
  "start_connection X accept_tls tls_acceptor remote_addr tcp_stream =
     (case tls_acceptor of
        Some tls_acceptor \<Rightarrow>
          (case accept_tls tls_acceptor offer_client_auth client_auth_mandatory (verify_client_cert X) tcp_stream of
             Inl e \<Rightarrow> HandshakeFailed e
           | Inr peer_certificates \<Rightarrow>
               (case tls_client_info remote_addr peer_certificates of
                  Ok client_info \<Rightarrow> ConnectionServed client_info
                | Panic s \<Rightarrow> ConnectionPanics s
                | _ \<Rightarrow> ConnectionPanics ''''))
      | None \<Rightarrow> ConnectionServed (plain_client_info remote_addr))"

text \<open>
  The server as a whole: its state, the connections that are served (under a number of their own)
  and, for the statements, what it has answered.
\<close>

record 'c http_listener =
  ln_state :: "'c http_state"
  ln_connections :: "(nat \<times> request_client_info) list"
  ln_answered :: "(request_client_info \<times> http_request \<times> http_response) list"

definition new_listener :: "'c http_ext \<Rightarrow> http_client_info \<Rightarrow> 'c http_listener" where
  "new_listener X info = \<lparr>ln_state = http_state_new X info, ln_connections = [], ln_answered = []\<rparr>"

datatype 's listener_event =
  Connects nat ip_addr 's | Requests nat "byte list" http_request | Disconnects nat

definition listener_event ::
  "'c http_ext \<Rightarrow> bool \<Rightarrow> 's tls_accept \<Rightarrow> tls_acceptor option \<Rightarrow> 's listener_event \<Rightarrow>
   'c http_listener \<Rightarrow> 'c http_listener" where
  "listener_event X legacy_enabled accept_tls tls_acceptor e L =
     (case e of
        Connects i ip stream \<Rightarrow>
          (case start_connection (hx_x509 X) accept_tls tls_acceptor ip stream of
             ConnectionServed client_info \<Rightarrow>
               (if map_of (ln_connections L) i = None
                then L\<lparr>ln_connections := (i, client_info) # ln_connections L\<rparr> else L)
           | _ \<Rightarrow> L)
      | Requests i new_nonce req \<Rightarrow>
          (case map_of (ln_connections L) i of
             None \<Rightarrow> L
           | Some client_info \<Rightarrow>
               (case serve X legacy_enabled new_nonce client_info req (ln_state L) of
                  (response, state) \<Rightarrow>
                    L\<lparr>ln_state := state, ln_answered := ln_answered L @ [(client_info, req, response)]\<rparr>))
      | Disconnects i \<Rightarrow> L\<lparr>ln_connections := filter (\<lambda>(j, _). j \<noteq> i) (ln_connections L)\<rparr>)"

definition listener_run ::
  "'c http_ext \<Rightarrow> bool \<Rightarrow> 's tls_accept \<Rightarrow> tls_acceptor option \<Rightarrow> 's listener_event list \<Rightarrow>
   'c http_listener \<Rightarrow> 'c http_listener" where
  "listener_run X legacy_enabled accept_tls tls_acceptor es L =
     fold (listener_event X legacy_enabled accept_tls tls_acceptor) es L"

section \<open>Who is served\<close>

text \<open>
  A client known by the key of its certificate, which parses, is in its validity period now and
  is signed with that key.
\<close>

definition certified :: "x509_ext \<Rightarrow> request_client_info \<Rightarrow> bool" where
  "certified X client \<longleftrightarrow>
     (\<exists>der cert. rc_cert client = Some der \<and> x509_from_der X der = Some cert \<and>
        cert_valid_now cert \<and> cert_self_signature_ok cert \<and>
        client_identifier X client = pem_encode X ''PUBLIC KEY'' (cert_subject_pki cert))"

lemma verified_certified:
  assumes "verify_client_cert X der rest = Ok ()"
  shows "certified X \<lparr>rc_ip = ip, rc_cert = Some der\<rparr>"
proof -
  have "verify_cert_from_der X der None = Ok ()"
    using assms by (cases "verify_cert_from_der X der None") (auto simp: verify_client_cert_def)
  then obtain cert where "x509_from_der X der = Some cert" "verify_cert_from_cert X cert None = Ok ()"
    by (cases "x509_from_der X der") (auto simp: verify_cert_from_der_def)
  then show ?thesis
    by (simp add: certified_def client_identifier_def extract_public_key_def public_key_from_cert_der_def
        public_key_from_cert_def verify_cert_from_cert_Ok)
qed

lemma tls_start:
  assumes "rustls_ok accept_tls"
  shows "start_connection X accept_tls (Some acceptor) ip stream = ConnectionServed client \<Longrightarrow> certified X client"
    and "start_connection X accept_tls (Some acceptor) ip stream \<noteq> ConnectionPanics s"
proof -
  have "\<exists>cert rest. certs = Some (cert # rest) \<and> verify_client_cert X cert rest = Ok ()"
    if "accept_tls acceptor offer_client_auth client_auth_mandatory (verify_client_cert X) stream = Inr certs" for certs
    using assms that by (simp add: rustls_ok_def offer_client_auth_def client_auth_mandatory_def)
  then show "start_connection X accept_tls (Some acceptor) ip stream = ConnectionServed client \<Longrightarrow> certified X client"
    and "start_connection X accept_tls (Some acceptor) ip stream \<noteq> ConnectionPanics s"
    by (auto simp: start_connection_def tls_client_info_def intro: verified_certified
        split: sum.splits option.splits list.splits)
qed

definition listener_ok :: "'c http_ext \<Rightarrow> 'c http_listener \<Rightarrow> bool" where
  "listener_ok X L \<longleftrightarrow>
     (\<forall>(i, client) \<in> set (ln_connections L). certified (hx_x509 X) client) \<and>
     (\<forall>(client, _) \<in> set (ln_answered L). certified (hx_x509 X) client) \<and>
     (\<forall>k \<in> set (lru_keys (hx_lru X) (hs_received_nonce_map (ln_state L))).
        \<exists>client. certified (hx_x509 X) client \<and> client_identifier (hx_x509 X) client = k)"

lemma listener_ok_event:
  assumes lru: "lru_cache (hx_lru X)" and tls: "rustls_ok accept_tls" and L: "listener_ok X L"
  shows "listener_ok X (listener_event X legacy_enabled accept_tls (Some acceptor) e L)"
proof (cases e)
  case (Connects i ip stream)
  show ?thesis
  proof (cases "start_connection (hx_x509 X) accept_tls (Some acceptor) ip stream")
    case (ConnectionServed client)
    with tls_start(1) [OF tls this] L Connects show ?thesis by (auto simp: listener_event_def listener_ok_def)
  qed (use L Connects in \<open>simp_all add: listener_event_def\<close>)
next
  case (Requests i new_nonce req)
  show ?thesis
  proof (cases "map_of (ln_connections L) i")
    case None
    with L Requests show ?thesis by (simp add: listener_event_def)
  next
    case (Some client)
    then have c: "certified (hx_x509 X) client"
      using L by (auto simp: listener_ok_def dest!: map_of_SomeD)
    obtain response state where serve: "serve X legacy_enabled new_nonce client req (ln_state L) = (response, state)"
      by fastforce
    have "set (lru_keys (hx_lru X) (hs_received_nonce_map state)) \<subseteq>
        insert (client_identifier (hx_x509 X) client) (set (lru_keys (hx_lru X) (hs_received_nonce_map (ln_state L))))"
      using serve_state [of X legacy_enabled new_nonce client req "ln_state L"] serve
      by (auto simp: remember_def lru_cache.keys_put [OF lru] split: option.splits dest!: in_set_takeD)
    with L Some Requests serve c show ?thesis
      by (auto simp: listener_event_def listener_ok_def)
  qed
next
  case (Disconnects i)
  with L show ?thesis by (auto simp: listener_event_def listener_ok_def)
qed

lemma listener_ok_run:
  assumes "lru_cache (hx_lru X)" and "rustls_ok accept_tls"
  shows "listener_ok X L \<Longrightarrow> listener_ok X (listener_run X legacy_enabled accept_tls (Some acceptor) es L)"
  unfolding listener_run_def
  by (induction es arbitrary: L) (simp_all add: listener_ok_event [OF assms])

text \<open>
  C18: over TLS, whatever clients do and however their requests are interleaved, every request the
  server answers comes from a client known by the public key of a certificate that is valid and
  properly signed, every nonce is filed under such a key, and reading the certificate of an accepted
  connection never panics.
\<close>

theorem tls_clients_certified:
  assumes "lru_cache (hx_lru X)" and "rustls_ok accept_tls"
    and "L = listener_run X legacy_enabled accept_tls (Some acceptor) es (new_listener X info)"
  shows "(\<forall>(client, req, response) \<in> set (ln_answered L). certified (hx_x509 X) client) \<and>
    (\<forall>k \<in> set (lru_keys (hx_lru X) (hs_received_nonce_map (ln_state L))).
       \<exists>client. certified (hx_x509 X) client \<and> client_identifier (hx_x509 X) client = k) \<and>
    (\<forall>ip stream s. start_connection (hx_x509 X) accept_tls (Some acceptor) ip stream \<noteq> ConnectionPanics s)"
proof -
  have "listener_ok X (new_listener X info)"
    by (simp add: listener_ok_def new_listener_def http_state_new_def lru_cache.keys_new [OF assms(1)])
  then have "listener_ok X L"
    unfolding assms(3) by (rule listener_ok_run [OF assms(1,2)])
  then show ?thesis
    using tls_start(2) [OF assms(2)] by (auto simp: listener_ok_def)
qed

text \<open>A rustls that gives the stream's own certificate, if the verifier takes it.\<close>

definition sample_accept :: "(byte list option) tls_accept" where
  "sample_accept acceptor offered mandatory verify stream =
     (case stream of
        None \<Rightarrow> if mandatory then Inl (Lib ''peer sent no certificates'') else Inr None
      | Some cert \<Rightarrow> (case verify cert [] of Ok _ \<Rightarrow> Inr (Some [cert]) | _ \<Rightarrow> Inl (Lib ''invalid peer certificate'')))"

lemma sample_accept_ok: "rustls_ok sample_accept"
  by (auto simp: rustls_ok_def sample_accept_def split: option.splits res.splits)

theorem tls_clients_certified_witness:
  "lru_keys list_lru (hs_received_nonce_map (ln_state
     (listener_run sample_http True sample_accept (Some \<lparr>ta_certs = [], ta_key = [], ta_client_roots = []\<rparr>)
        [Connects 1 (V4 10 0 0 1) None, Requests 1 sample_nonce (nonce_post sample_nonce),
         Connects 2 (V4 10 0 0 1) (Some (as_bytes ''A'')), Requests 2 sample_nonce (nonce_post sample_nonce)]
        (new_listener sample_http sample_http_info)))) = [''A''] \<and>
   (\<exists>client. certified sample_x509 client \<and> client_identifier sample_x509 client = ''A'')"
  (is "lru_keys list_lru (hs_received_nonce_map (ln_state ?L)) = _ \<and> _")
proof -
  have served: "serve sample_http True sample_nonce c (nonce_post sample_nonce) s =
      (fst (serve sample_http True sample_nonce c (nonce_post sample_nonce) s),
       remember sample_http (client_identifier sample_x509 c) sample_nonce sample_nonce s)" for c s
    using serve_state [of sample_http True sample_nonce c "nonce_post sample_nonce" s]
    by (simp add: nonce_post_accepted sample_http_ok prod_eq_iff)
  have "client_identifier sample_x509 \<lparr>rc_ip = V4 10 0 0 1, rc_cert = Some (as_bytes ''A'')\<rparr> = ''A''"
    by (simp add: client_identifier_def extract_public_key_def public_key_from_cert_der_def sample_x509_def
        public_key_from_cert_def)
  moreover have "verify_client_cert sample_x509 (as_bytes ''A'') [] = Ok ()"
    by code_simp
  moreover obtain response state where "serve sample_http True sample_nonce
      \<lparr>rc_ip = V4 10 0 0 1, rc_cert = Some (as_bytes ''A'')\<rparr> (nonce_post sample_nonce)
      (http_state_new sample_http sample_http_info) = (response, state)"
    "state = remember sample_http (client_identifier sample_x509 \<lparr>rc_ip = V4 10 0 0 1, rc_cert = Some (as_bytes ''A'')\<rparr>)
       sample_nonce sample_nonce (http_state_new sample_http sample_http_info)"
    using served by blast
  ultimately have keys: "lru_keys list_lru (hs_received_nonce_map (ln_state ?L)) = [''A'']"
    by (simp add: listener_run_def listener_event_def start_connection_def sample_accept_def sample_http_ok
        client_auth_mandatory_def tls_client_info_def new_listener_def http_state_new_def remember_def
        list_lru.keys_put list_lru.keys_new list_lru.cap_new)
  moreover have "\<exists>client. certified sample_x509 client \<and> client_identifier sample_x509 client = ''A''"
    using tls_clients_certified [OF sample_http_ok(2) sample_accept_ok refl,
        of True "\<lparr>ta_certs = [], ta_key = [], ta_client_roots = []\<rparr>"
        "[Connects 1 (V4 10 0 0 1) None, Requests 1 sample_nonce (nonce_post sample_nonce),
         Connects 2 (V4 10 0 0 1) (Some (as_bytes ''A'')), Requests 2 sample_nonce (nonce_post sample_nonce)]" sample_http_info]
      keys by (simp add: sample_http_ok)
  ultimately show ?thesis by simp
qed

section \<open>The two listeners\<close>

text \<open>
  \<open>start_server_with_addr\<close> up to its loop: \<open>bind\<close> is the result of binding the address. The loop ends
  with the first error of \<open>accept\<close>; \<open>accepts\<close> are its results, after which it waits.
\<close>

definition server_setup :: "tls_ext \<Rightarrow> err + unit \<Rightarrow> tls_config option \<Rightarrow> tls_acceptor option res" where
  "server_setup T bind tls_config =
     (case bind of
        Inl e \<Rightarrow> Err e
      | Inr _ \<Rightarrow>
          (case tls_config of
             Some config \<Rightarrow> rbind (create_tls_config T config) (\<lambda>acceptor. Ok (Some acceptor))
           | None \<Rightarrow> Ok None))"

fun accept_loop :: "(err + ip_addr \<times> 's) list \<Rightarrow> (ip_addr \<times> 's) list \<times> err option" where
  "accept_loop [] = ([], None)"
| "accept_loop (Inl e # accepts) = ([], Some e)"
| "accept_loop (Inr connection # accepts) =
     (let (spawned, ended) = accept_loop accepts in (connection # spawned, ended))"

text \<open>The connections it spawns and the error it has returned, if it has.\<close>

definition start_server_with_addr ::
  "tls_ext \<Rightarrow> err + unit \<Rightarrow> tls_config option \<Rightarrow> (err + ip_addr \<times> 's) list \<Rightarrow>
   (ip_addr \<times> 's) list \<times> err option" where
  "start_server_with_addr T bind tls_config accepts =
     (case server_setup T bind tls_config of
        Ok tls_acceptor \<Rightarrow> accept_loop accepts
      | Err e \<Rightarrow> ([], Some e)
      | Panic s \<Rightarrow> ([], Some (Lib s))
      | Wait \<Rightarrow> ([], None))"

text \<open>
  The \<open>select\<close> of \<open>start_with_port\<close>: the end of the IPv4 listener ends it, that of the IPv6 listener
  does not (its branch sleeps from then on), and \<open>stop_rx\<close> does, by a value or because its sender
  was dropped.
\<close>

datatype select_event = V4Returns | V6Returns | StopResolves

record servers =
  sv_running :: bool
  sv_v6 :: bool

definition servers_event :: "select_event \<Rightarrow> servers \<Rightarrow> servers" where
  "servers_event e s =
     (if \<not> sv_running s then s
      else
        (case e of
           V6Returns \<Rightarrow> s\<lparr>sv_v6 := False\<rparr>
         | _ \<Rightarrow> s\<lparr>sv_running := False, sv_v6 := False\<rparr>))"

text \<open>
  The result of \<open>start_with_port\<close>, and its servers once everything that is to come has come: \<open>stopped\<close>
  says whether something is sent on the channel of \<open>stop_rx\<close> or its sender is dropped.
\<close>

definition start_with_port ::
  "tls_ext \<Rightarrow> err + unit \<Rightarrow> err + unit \<Rightarrow> tls_config option \<Rightarrow> (err + ip_addr \<times> 's) list \<Rightarrow>
   (err + ip_addr \<times> 's) list \<Rightarrow> bool \<Rightarrow> unit res \<times> servers" where
  "start_with_port T bind_v4 bind_v6 tls_config accepts_v4 accepts_v6 stopped =
     (let ended_v4 = snd (start_server_with_addr T bind_v4 tls_config accepts_v4);
          ended_v6 = snd (start_server_with_addr T bind_v6 tls_config accepts_v6);
          events = (if ended_v4 \<noteq> None then [V4Returns] else []) @
                   (if ended_v6 \<noteq> None then [V6Returns] else []) @
                   (if stopped then [StopResolves] else [])
      in (Ok (), fold servers_event events \<lparr>sv_running = True, sv_v6 = True\<rparr>))"

lemma servers_run:
  "sv_running (fold servers_event es s) \<longleftrightarrow> sv_running s \<and> set es \<subseteq> {V6Returns}"
  by (induction es arbitrary: s) (auto simp: servers_event_def split: select_event.splits)

lemma accept_loop_ended: "snd (accept_loop accepts) = None \<longleftrightarrow> (\<forall>e. Inl e \<notin> set accepts)"
  by (induction accepts rule: accept_loop.induct) (auto split: prod.splits)

lemma create_tls_config_result:
  obtains acceptor where "create_tls_config T config = Ok acceptor" | e where "create_tls_config T config = Err e"
  by (cases "te_cert_from_pem T (tc_cert config)"; cases "te_key_from_pem T (tc_private_key config)";
      cases "te_root_add T (the (te_cert_from_pem T (tc_cert config)))";
      cases "te_verifier_build T [the (te_cert_from_pem T (tc_cert config))]";
      cases "te_single_cert T [the (te_cert_from_pem T (tc_cert config))] (the (te_key_from_pem T (tc_private_key config)))")
    (auto simp: create_tls_config_def client_verifier_try_new_def res_of_option_def)

lemma server_ended:
  "snd (start_server_with_addr T bind tls_config accepts) = None \<longleftrightarrow>
     bind = Inr () \<and> (case tls_config of None \<Rightarrow> True | Some config \<Rightarrow> is_ok (create_tls_config T config)) \<and>
     (\<forall>e. Inl e \<notin> set accepts)"
proof (cases tls_config)
  case None
  then show ?thesis
    by (auto simp: start_server_with_addr_def server_setup_def accept_loop_ended split: sum.splits)
next
  case (Some config)
  then show ?thesis
    by (cases rule: create_tls_config_result [of T config])
      (auto simp: start_server_with_addr_def server_setup_def accept_loop_ended split: sum.splits)
qed

text \<open>
  C40: \<open>start_with_port\<close> reports success whatever happens. Its servers run exactly as long as the
  IPv4 address could be bound, the TLS configuration is good, no \<open>accept\<close> on IPv4 has failed and
  nobody has stopped them or dropped the means to do so; the IPv6 listener alone does not keep them
  up, and its failure does not end them.
\<close>

theorem start_with_port_runs:
  "fst (start_with_port T bind_v4 bind_v6 tls_config accepts_v4 accepts_v6 stopped) = Ok () \<and>
   (sv_running (snd (start_with_port T bind_v4 bind_v6 tls_config accepts_v4 accepts_v6 stopped)) \<longleftrightarrow>
      bind_v4 = Inr () \<and>
      (case tls_config of None \<Rightarrow> True | Some config \<Rightarrow> is_ok (create_tls_config T config)) \<and>
      (\<forall>e. Inl e \<notin> set accepts_v4) \<and> \<not> stopped)"
proof -
  let ?ended = "snd (start_server_with_addr T bind_v4 tls_config accepts_v4) = None"
  have "sv_running (snd (start_with_port T bind_v4 bind_v6 tls_config accepts_v4 accepts_v6 stopped)) \<longleftrightarrow>
      ?ended \<and> \<not> stopped"
    by (auto simp: start_with_port_def servers_run Let_def split: option.splits)
  then show ?thesis unfolding server_ended by (simp add: start_with_port_def Let_def)
qed

end
