(* ===== verification/App_Bridge.thy ===== *)
theory App_Bridge
  imports Rtc_Receiver Signaling_Client
begin

text \<open>
  The bridge of the application (\<open>app/rust/src/api/webrtc.rs\<close>): connecting to the signaling server
  with a signed info, starting the two sides of a transfer, and the controllers through which the
  application answers a running task. A controller holds the ends of channels in cells that a call
  empties (\<open>Arc<Mutex<Option<_>>>\<close>), so each is used once; the PIN cell is filled again by the task
  that stores the requests.
\<close>

section \<open>Keys\<close>

text \<open>\<open>app/rust/src/api/crypto.rs\<close>; \<open>seed\<close> is what \<open>SigningKey::generate\<close> draws.\<close>

definition app_verify_cert :: "x509_ext \<Rightarrow> string \<Rightarrow> string \<Rightarrow> unit res" where
  "app_verify_cert X cert public_key = verify_cert_from_pem X cert (Some public_key)"

record key_pair =
  kp_private_key :: string
  kp_public_key :: string

definition generate_key_pair :: "crypto_ext \<Rightarrow> byte list \<Rightarrow> key_pair res" where
  "generate_key_pair X seed =
     (let signing_key = generate_key seed
      in rbind (export_private_key X signing_key) (\<lambda>private_key.
         rbind (export_public_key X signing_key) (\<lambda>public_key.
         Ok \<lparr>kp_private_key = private_key, kp_public_key = public_key\<rparr>)))"

section \<open>Connecting\<close>

record proposing_client_info =
  pi_alias :: string
  pi_version :: string
  pi_device_model :: "string option"
  pi_device_type :: "device_type option"

text \<open>\<open>now\<close> is the clock at the call.\<close>

definition sign_info ::
  "crypto_ext \<Rightarrow> int \<Rightarrow> signing_token_key \<Rightarrow> proposing_client_info \<Rightarrow> client_info_without_id res" where
  "sign_info X now signing_key info =
     rbind (generate_token_timestamp X now signing_key) (\<lambda>token.
     Ok \<lparr>ciw_alias = pi_alias info, ciw_version = pi_version info, ciw_device_model = pi_device_model info,
         ciw_device_type = pi_device_type info, ciw_token = token\<rparr>)"

text \<open>
  The stream the application listens to gets an error and ends, or the messages of the connection;
  \<open>connecting\<close> is \<open>SignalingConnection::connect\<close>, \<open>messages\<close> what its listener passes on. The second
  component is the connection the application is given.
\<close>

datatype 'a sink_event = SinkItem 'a | SinkError string

definition app_connect ::
  "crypto_ext \<Rightarrow> int \<Rightarrow> (client_info_without_id \<Rightarrow> client_info res) \<Rightarrow> ws_server_message list \<Rightarrow> string \<Rightarrow>
   proposing_client_info \<Rightarrow> ws_server_message sink_event list \<times> client_info option res" where
  "app_connect X now connecting messages private_key info =
     (case parse_private_key X private_key of
        Ok signing_key \<Rightarrow>
          (case sign_info X now signing_key info of
             Ok client_info \<Rightarrow>
               (case connecting client_info of
                  Ok client \<Rightarrow> (map SinkItem messages, Ok (Some client))
                | Err e \<Rightarrow> ([SinkError (err_text e)], Ok None)
                | Panic s \<Rightarrow> ([], Panic s)
                | Wait \<Rightarrow> ([], Wait))
           | Panic s \<Rightarrow> ([], Panic s)
           | _ \<Rightarrow> ([SinkError ''Invalid client info''], Ok None))
      | _ \<Rightarrow> ([SinkError ''Invalid private key''], Ok None))"

definition update_info ::
  "bool \<Rightarrow> client_info_without_id \<Rightarrow> ws_client_message list \<Rightarrow> unit res \<times> ws_client_message list" where
  "update_info writing info queue = managed_send_update writing info queue"

section \<open>Starting a transfer\<close>

record expecting_public_key =
  ek_public_key :: string
  ek_kind :: string

text \<open>The keys are parsed before anything is started.\<close>

definition transfer_keys ::
  "crypto_ext \<Rightarrow> string \<Rightarrow> expecting_public_key option \<Rightarrow> (signing_token_key \<times> verifying_token_key option) res" where
  "transfer_keys X private_key expecting =
     rbind (parse_private_key X private_key) (\<lambda>signing_key.
     rbind (case expecting of
              Some key \<Rightarrow>
                rbind (parse_public_key X (ek_public_key key) (ek_kind key)) (\<lambda>k. Ok (Some k))
            | None \<Rightarrow> Ok None) (\<lambda>expecting_public_key.
     Ok (signing_key, expecting_public_key)))"

text \<open>What the spawned task adds to the statuses when the transfer ends.\<close>

definition report_result :: "unit res \<Rightarrow> rtc_status list" where
  "report_result result = (case result of Err e \<Rightarrow> [StatusError (err_text e)] | _ \<Rightarrow> [])"

text \<open>A request to pair is always answered with no.\<close>

definition pair_answer :: "bool option option" where
  "pair_answer = Some (Some False)"

section \<open>One-shot channels\<close>

datatype 'a oneshot = OneshotOpen | OneshotSent 'a | OneshotSenderGone | OneshotReceiverGone

definition oneshot_send :: "string \<Rightarrow> 'a \<Rightarrow> 'a oneshot \<Rightarrow> unit res \<times> 'a oneshot" where
  "oneshot_send closed x ch =
     (case ch of OneshotOpen \<Rightarrow> (Ok (), OneshotSent x) | _ \<Rightarrow> (Err (Msg closed), ch))"

definition oneshot_drop_sender :: "'a oneshot \<Rightarrow> 'a oneshot" where
  "oneshot_drop_sender ch = (case ch of OneshotOpen \<Rightarrow> OneshotSenderGone | _ \<Rightarrow> ch)"

definition oneshot_drop_receiver :: "'a oneshot \<Rightarrow> 'a oneshot" where
  "oneshot_drop_receiver ch = (case ch of OneshotOpen \<Rightarrow> OneshotReceiverGone | _ \<Rightarrow> ch)"

definition oneshot_await :: "string \<Rightarrow> 'a oneshot \<Rightarrow> 'a res" where
  "oneshot_await closed ch =
     (case ch of OneshotSent x \<Rightarrow> Ok x | OneshotSenderGone \<Rightarrow> Err (Msg closed) | _ \<Rightarrow> Wait)"

section \<open>The state of a running transfer\<close>

text \<open>
  \<open>br_pins\<close>: the channel of each PIN request so far; \<open>br_pin_queue\<close>: requests on \<open>pin_rx\<close>;
  \<open>br_pin_cell\<close>: the request whose sender is stored; \<open>br_files\<close>, \<open>br_selected\<close>: the channels of the
  file list and of the selection, \<open>br_files_cell\<close>, \<open>br_selected_cell\<close> whether the controller still
  has its end; \<open>br_task\<close>: the task runs; \<open>br_controller\<close>: the application has the controller.
\<close>

record bridge =
  br_pins :: "string oneshot list"
  br_pin_queue :: "nat list"
  br_pin_cell :: "nat option"
  br_files :: "file_dto list oneshot"
  br_files_cell :: bool
  br_selected :: "string list option oneshot"
  br_selected_cell :: bool
  br_task :: bool
  br_controller :: bool

definition bridge_new :: bridge where
  "bridge_new = \<lparr>br_pins = [], br_pin_queue = [], br_pin_cell = None, br_files = OneshotOpen, br_files_cell = True,
     br_selected = OneshotOpen, br_selected_cell = True, br_task = True, br_controller = True\<rparr>"

text \<open>\<open>handle_pin\<close> asks: one request at a time, since it waits for the answer.\<close>

definition request_pin :: "bridge \<Rightarrow> unit res \<times> bridge" where
  "request_pin s =
     (if \<not> br_task s \<or> br_pins s \<noteq> [] \<and> last (br_pins s) = OneshotOpen then (Wait, s)
      else (Ok (), s\<lparr>br_pins := br_pins s @ [OneshotOpen],
                     br_pin_queue := br_pin_queue s @ [length (br_pins s)]\<rparr>))"

text \<open>The task that stores requests: the sender that was in the cell is dropped.\<close>

definition store_pin :: "bridge \<Rightarrow> unit res \<times> bridge" where
  "store_pin s =
     (case br_pin_queue s of
        [] \<Rightarrow> (Wait, s)
      | n # q \<Rightarrow>
          (Ok (), s\<lparr>br_pin_queue := q, br_pin_cell := Some n,
             br_pins := (case br_pin_cell s of
                           Some k \<Rightarrow> (br_pins s)[k := oneshot_drop_sender (br_pins s ! k)]
                         | None \<Rightarrow> br_pins s)\<rparr>))"

definition send_pin :: "string \<Rightarrow> bridge \<Rightarrow> unit res \<times> bridge" where
  "send_pin pin s =
     (case br_pin_cell s of
        None \<Rightarrow> (Err (Msg ''Pin already sent''), s)
      | Some k \<Rightarrow>
          (case oneshot_send ''Pin channel closed'' pin (br_pins s ! k) of
             (r, ch) \<Rightarrow> (r, s\<lparr>br_pin_cell := None, br_pins := (br_pins s)[k := ch]\<rparr>)))"

definition send_on_selected :: "string list option \<Rightarrow> bridge \<Rightarrow> unit res \<times> bridge" where
  "send_on_selected selection s =
     (if \<not> br_selected_cell s then (Err (Msg ''Selected files already sent''), s)
      else
        (case oneshot_send ''Selected files channel closed'' selection (br_selected s) of
           (r, ch) \<Rightarrow> (r, s\<lparr>br_selected_cell := False, br_selected := ch\<rparr>)))"

definition send_selection :: "string list \<Rightarrow> bridge \<Rightarrow> unit res \<times> bridge" where
  "send_selection selection s = send_on_selected (Some selection) s"

definition decline :: "bridge \<Rightarrow> unit res \<times> bridge" where
  "decline s = send_on_selected None s"

definition offer_files :: "file_dto list \<Rightarrow> bridge \<Rightarrow> unit res \<times> bridge" where
  "offer_files files s =
     (case oneshot_send ''Failed to send file list'' files (br_files s) of
        (r, ch) \<Rightarrow> (r, s\<lparr>br_files := ch\<rparr>))"

definition listen_files :: "bridge \<Rightarrow> file_dto list res \<times> bridge" where
  "listen_files s =
     (if \<not> br_files_cell s then (Err (Msg ''Files already received''), s)
      else (oneshot_await ''Files channel closed'' (br_files s), s\<lparr>br_files_cell := False\<rparr>))"

text \<open>
  \<open>RTCSendController::listen_selected_files\<close> is the same call on the channel that \<open>send_offer\<close>
  publishes the selection on.
\<close>

definition listen_selected_files :: "string list oneshot \<Rightarrow> bool \<Rightarrow> string list res \<times> bool" where
  "listen_selected_files ch present =
     (if \<not> present then (Err (Msg ''Selected files already received''), False)
      else (oneshot_await ''Selected files channel closed'' ch, False))"

text \<open>The task ends: its ends of the channels are dropped.\<close>

definition end_task :: "bridge \<Rightarrow> unit res \<times> bridge" where
  "end_task s =
     (Ok (), s\<lparr>br_task := False, br_pins := map oneshot_drop_receiver (br_pins s),
        br_selected := oneshot_drop_receiver (br_selected s), br_files := oneshot_drop_sender (br_files s)\<rparr>)"

text \<open>
  The application drops the controller: the ends in its cells go, but not the PIN cell, which the
  storing task shares.
\<close>

definition drop_controller :: "bridge \<Rightarrow> unit res \<times> bridge" where
  "drop_controller s =
     (Ok (), s\<lparr>br_controller := False, br_selected_cell := False, br_files_cell := False,
        br_selected := (if br_selected_cell s then oneshot_drop_sender (br_selected s) else br_selected s),
        br_files := (if br_files_cell s then oneshot_drop_receiver (br_files s) else br_files s)\<rparr>)"

section \<open>Runs\<close>

datatype bridge_event =
    RequestPin | StorePin | SendPin string | SendSelection "string list" | Decline
  | OfferFiles "file_dto list" | EndTask | DropController

fun bridge_step :: "bridge_event \<Rightarrow> bridge \<Rightarrow> unit res \<times> bridge" where
  "bridge_step RequestPin s = request_pin s"
| "bridge_step StorePin s = store_pin s"
| "bridge_step (SendPin pin) s = (if br_controller s then send_pin pin s else (Wait, s))"
| "bridge_step (SendSelection ids) s = (if br_controller s then send_selection ids s else (Wait, s))"
| "bridge_step Decline s = (if br_controller s then decline s else (Wait, s))"
| "bridge_step (OfferFiles files) s = (if br_task s then offer_files files s else (Wait, s))"
| "bridge_step EndTask s = end_task s"
| "bridge_step DropController s = drop_controller s"

text \<open>The events with their outcomes, and the state they lead to.\<close>

fun bridge_run :: "bridge_event list \<Rightarrow> bridge \<Rightarrow> (bridge_event \<times> unit res) list \<times> bridge" where
  "bridge_run [] s = ([], s)"
| "bridge_run (e # es) s =
     (case bridge_step e s of
        (r, s) \<Rightarrow> (case bridge_run es s of (rs, s) \<Rightarrow> ((e, r) # rs, s)))"

section \<open>Streams and files\<close>

text \<open>
  A stream of the receiving controller (\<open>listen_status\<close>, \<open>listen_error\<close>, \<open>listen_receiving\<close>): the
  items of the channel the first time, an error afterwards. \<open>what\<close> is the name in the message.
\<close>

definition listen_stream :: "string \<Rightarrow> 'a list \<Rightarrow> bool \<Rightarrow> 'a sink_event list \<times> bool" where
  "listen_stream what items present =
     (if \<not> present then ([SinkError (what @ '' stream already listened to'')], False)
      else (map SinkItem items, False))"

definition listen_error :: "rtc_file_error list \<Rightarrow> bool \<Rightarrow> rtc_file_error sink_event list \<times> bool" where
  "listen_error items present = listen_stream ''Error'' items present"

text \<open>What is received comes as file receivers, each with its pieces still to be read.\<close>

record rtc_file_receiver =
  fv_file_id :: string
  fv_binary_present :: bool

definition listen_receiving :: "string list \<Rightarrow> bool \<Rightarrow> rtc_file_receiver sink_event list \<times> bool" where
  "listen_receiving received present =
     listen_stream ''Receiving'' (map (\<lambda>i. \<lparr>fv_file_id = i, fv_binary_present = True\<rparr>) received) present"

text \<open>\<open>RTCSendController\<close> borrows its streams, so they are listened to again after each other.\<close>

definition listen_borrowed :: "'a list \<Rightarrow> 'a sink_event list" where
  "listen_borrowed items = map SinkItem items"

text \<open>Sending files: a new file without content, content for it, its sender dropped.\<close>

definition app_send_file :: "string \<Rightarrow> rtc_file list \<Rightarrow> rtc_file list" where
  "app_send_file file_id fs = fs @ [\<lparr>rf_file_id = file_id, rf_binary = [], rf_closed = False\<rparr>]"

definition file_sender_send :: "nat \<Rightarrow> byte list \<Rightarrow> rtc_file list \<Rightarrow> rtc_file list" where
  "file_sender_send i data fs =
     (if i < length fs then fs[i := (fs ! i)\<lparr>rf_binary := rf_binary (fs ! i) @ [data]\<rparr>] else fs)"

definition file_sender_drop :: "nat \<Rightarrow> rtc_file list \<Rightarrow> rtc_file list" where
  "file_sender_drop i fs = (if i < length fs then fs[i := (fs ! i)\<lparr>rf_closed := True\<rparr>] else fs)"

text \<open>\<open>RTCFileReceiver::receive\<close>, once; \<open>pieces\<close> is what comes through \<open>binary_rx\<close>.\<close>

definition file_receive :: "byte list list \<Rightarrow> bool \<Rightarrow> (byte list sink_event list \<times> unit res) \<times> bool" where
  "file_receive pieces present =
     (if \<not> present then (([], Err (Msg ''File receiver listened to'')), False)
      else ((map SinkItem (buffer_receiver pieces), Ok ()), False))"

definition send_file_status :: "bool \<Rightarrow> rtc_send_file_response \<Rightarrow> rtc_send_file_response list \<Rightarrow>
   unit res \<times> rtc_send_file_response list" where
  "send_file_status taken status results =
     (if taken then (Ok (), results @ [status]) else (Err (Lib ''channel closed''), results))"

end
