(* ===== verification/App_Props.thy ===== *)
theory App_Props
  imports App_Bridge Token_Props
begin

text \<open>
  Properties of the bridge of the application: the answers a running task gets are those of the
  calls that succeeded, in order and each once; the selection is what the first of the events that
  can decide it makes of it; the keys of one pair fit together.
\<close>

section \<open>PIN requests\<close>

text \<open>What the task reads for the requests that are answered.\<close>

fun pin_replies :: "string oneshot list \<Rightarrow> pin_reply list" where
  "pin_replies [] = []"
| "pin_replies (OneshotSent p # cs) = PinGiven p # pin_replies cs"
| "pin_replies (OneshotSenderGone # cs) = PinDropped # pin_replies cs"
| "pin_replies (_ # cs) = pin_replies cs"

text \<open>The PINs of the calls that succeeded.\<close>

fun sent_pins :: "(bridge_event \<times> unit res) list \<Rightarrow> string list" where
  "sent_pins [] = []"
| "sent_pins ((SendPin p, Ok _) # rs) = p # sent_pins rs"
| "sent_pins (_ # rs) = sent_pins rs"

lemma pin_replies_append [simp]: "pin_replies (as @ bs) = pin_replies as @ pin_replies bs"
  by (induction as rule: pin_replies.induct) simp_all

lemma pin_replies_sent [simp]: "pin_replies (map OneshotSent ps) = map PinGiven ps"
  by (induction ps) simp_all

text \<open>
  The channels hold the answers so far and at most one request after them: on its way to the cell
  or in it, open while the task runs.
\<close>

inductive pins_at :: "string list \<Rightarrow> bridge \<Rightarrow> bool" where
  no_request: "br_pins s = map OneshotSent ps \<Longrightarrow> br_pin_queue s = [] \<Longrightarrow> br_pin_cell s = None \<Longrightarrow> pins_at ps s"
| on_its_way: "br_pins s = map OneshotSent ps @ [c] \<Longrightarrow> c = (if br_task s then OneshotOpen else OneshotReceiverGone) \<Longrightarrow>
    br_pin_queue s = [length ps] \<Longrightarrow> br_pin_cell s = None \<Longrightarrow> pins_at ps s"
| in_the_cell: "br_pins s = map OneshotSent ps @ [c] \<Longrightarrow> c = (if br_task s then OneshotOpen else OneshotReceiverGone) \<Longrightarrow>
    br_pin_queue s = [] \<Longrightarrow> br_pin_cell s = Some (length ps) \<Longrightarrow> pins_at ps s"
| failed: "br_pins s = map OneshotSent ps @ [OneshotReceiverGone] \<Longrightarrow> \<not> br_task s \<Longrightarrow>
    br_pin_queue s = [] \<Longrightarrow> br_pin_cell s = None \<Longrightarrow> pins_at ps s"

lemmas bridge_defs = request_pin_def store_pin_def send_pin_def send_on_selected_def send_selection_def
  decline_def offer_files_def end_task_def drop_controller_def oneshot_send_def oneshot_drop_sender_def
  oneshot_drop_receiver_def

lemma drop_receiver_sent [simp]: "map oneshot_drop_receiver (map OneshotSent ps) = map OneshotSent ps"
  by (simp add: oneshot_drop_receiver_def)

lemma last_sent: "ps \<noteq> [] \<Longrightarrow> last (map OneshotSent ps) \<noteq> OneshotOpen"
  by (induction ps) simp_all

lemma pins_at_new: "pins_at [] bridge_new"
  by (rule no_request) (simp_all add: bridge_new_def)

lemma pins_at_request:
  assumes "pins_at ps s" and "request_pin s = (r, s')"
  shows "pins_at ps s'"
  using assms
  by (cases rule: pins_at.cases)
    (auto simp: request_pin_def last_sent split: if_splits intro: pins_at.intros)

lemma pins_at_store:
  assumes "pins_at ps s" and "store_pin s = (r, s')"
  shows "pins_at ps s'"
  using assms
  by (cases rule: pins_at.cases) (auto simp: store_pin_def split: if_splits intro: pins_at.intros)

lemma pins_at_end:
  assumes "pins_at ps s" and "end_task s = (r, s')"
  shows "pins_at ps s'"
  using assms
  by (cases rule: pins_at.cases)
    (auto simp: end_task_def oneshot_drop_receiver_def split: if_splits intro: pins_at.intros)

text \<open>A PIN goes to the request that waits, and nowhere when there is none.\<close>

lemma pins_at_send:
  assumes "pins_at ps s" and "send_pin pin s = (r, s')"
  shows "pins_at (case r of Ok _ \<Rightarrow> ps @ [pin] | _ \<Rightarrow> ps) s'"
  using assms
  by (cases rule: pins_at.cases)
    (auto simp: send_pin_def oneshot_send_def nth_append list_update_append split: if_splits
      intro: pins_at.intros)

text \<open>The other events do not touch the requests.\<close>

lemma pins_at_unchanged:
  assumes "pins_at ps s" and "br_pins s' = br_pins s" and "br_pin_queue s' = br_pin_queue s"
    and "br_pin_cell s' = br_pin_cell s" and "br_task s' = br_task s"
  shows "pins_at ps s'"
  using assms by (cases rule: pins_at.cases) (auto intro: pins_at.intros)

lemma pins_at_step:
  assumes "pins_at ps s" and "bridge_step e s = (r, s')"
  shows "pins_at (ps @ sent_pins [(e, r)]) s'"
proof (cases e)
  case (SendPin pin)
  show ?thesis
  proof (cases "br_controller s")
    case True
    then have "send_pin pin s = (r, s')"
      using assms(2) SendPin by simp
    from pins_at_send [OF assms(1) this] show ?thesis
      using SendPin by (cases r) simp_all
  qed (use assms SendPin in auto)
next
  case RequestPin
  then show ?thesis using assms pins_at_request by simp
next
  case StorePin
  then show ?thesis using assms pins_at_store by simp
next
  case EndTask
  then show ?thesis using assms pins_at_end by simp
qed (use assms in \<open>auto simp: bridge_defs split: if_splits oneshot.splits intro: pins_at_unchanged\<close>)

lemma sent_pins_cons: "sent_pins (x # rs) = sent_pins [x] @ sent_pins rs"
  by (cases x rule: prod.exhaust, rename_tac e r, case_tac e; case_tac r) simp_all

lemma pins_at_run:
  "pins_at ps s \<Longrightarrow> bridge_run es s = (tr, s') \<Longrightarrow> pins_at (ps @ sent_pins tr) s'"
proof (induction es arbitrary: ps s tr)
  case (Cons e es)
  obtain r s1 where e: "bridge_step e s = (r, s1)"
    by fastforce
  obtain rs where es: "bridge_run es s1 = (rs, s')" and tr: "tr = (e, r) # rs"
    using Cons.prems(2) e by (auto split: prod.splits)
  show ?case
    using Cons.IH [OF pins_at_step [OF Cons.prems(1) e] es] sent_pins_cons [of "(e, r)" rs]
    by (simp add: tr)
qed simp

text \<open>
  C9: Every PIN for which \<open>send_pin\<close> reports success is the answer to one request of the running
  task, in the order of the requests, whatever the interleaving of the task, of the task that stores
  its requests and of the calls of the application; no request is dropped unanswered while it
  waits, and at most one is without an answer.
\<close>
theorem pins_in_order:
  "\<exists>rest \<in> {[], [OneshotOpen], [OneshotReceiverGone]}.
     br_pins (snd (bridge_run es bridge_new)) =
       map OneshotSent (sent_pins (fst (bridge_run es bridge_new))) @ rest \<and>
     pin_replies (br_pins (snd (bridge_run es bridge_new))) =
       map PinGiven (sent_pins (fst (bridge_run es bridge_new)))"
proof -
  obtain tr s where run: "bridge_run es bridge_new = (tr, s)"
    by fastforce
  have "pins_at (sent_pins tr) s"
    using pins_at_run [OF pins_at_new run] by simp
  then show ?thesis
    by (cases rule: pins_at.cases) (auto simp: run)
qed

section \<open>The selection\<close>

text \<open>What the first event that can decide it makes of the channel of the selection.\<close>

fun selected_by :: "bridge_event list \<Rightarrow> string list option oneshot" where
  "selected_by [] = OneshotOpen"
| "selected_by (SendSelection ids # _) = OneshotSent (Some ids)"
| "selected_by (Decline # _) = OneshotSent None"
| "selected_by (EndTask # _) = OneshotReceiverGone"
| "selected_by (DropController # _) = OneshotSenderGone"
| "selected_by (_ # es) = selected_by es"

text \<open>The decisions that were reported as successful.\<close>

fun decisions :: "(bridge_event \<times> unit res) list \<Rightarrow> string list option list" where
  "decisions [] = []"
| "decisions ((SendSelection ids, Ok _) # rs) = Some ids # decisions rs"
| "decisions ((Decline, Ok _) # rs) = None # decisions rs"
| "decisions (_ # rs) = decisions rs"

fun selection_of :: "string list option oneshot \<Rightarrow> string list option list" where
  "selection_of (OneshotSent d) = [d]"
| "selection_of _ = []"

lemma decisions_cons: "decisions (x # rs) = decisions [x] @ decisions rs"
  by (cases x rule: prod.exhaust, rename_tac e r, case_tac e; case_tac r) simp_all

lemma selected_settled:
  assumes "bridge_step e s = (r, s')" and "br_selected s \<noteq> OneshotOpen"
  shows "br_selected s' = br_selected s \<and> decisions [(e, r)] = []"
  using assms by (cases e) (auto simp: bridge_defs split: if_splits oneshot.splits list.splits option.splits)

lemma selected_settled_run:
  "bridge_run es s = (tr, s') \<Longrightarrow> br_selected s \<noteq> OneshotOpen \<Longrightarrow>
   br_selected s' = br_selected s \<and> decisions tr = []"
proof (induction es arbitrary: s tr)
  case (Cons e es)
  obtain r s1 where e: "bridge_step e s = (r, s1)"
    by fastforce
  obtain rs where es: "bridge_run es s1 = (rs, s')" and tr: "tr = (e, r) # rs"
    using Cons.prems(1) e by (auto split: prod.splits)
  have "br_selected s1 = br_selected s \<and> decisions [(e, r)] = []"
    by (rule selected_settled [OF e Cons.prems(2)])
  with Cons.IH [OF es] Cons.prems(2) decisions_cons [of "(e, r)" rs] show ?case
    by (simp add: tr)
qed simp

definition undecided :: "bridge \<Rightarrow> bool" where
  "undecided s \<longleftrightarrow> br_selected s = OneshotOpen \<and> br_selected_cell s \<and> br_controller s"

lemma undecided_step:
  assumes "bridge_step e s = (r, s')" and "undecided s"
  shows "(undecided s' \<and> decisions [(e, r)] = [] \<and> (\<forall>es. selected_by (e # es) = selected_by es)) \<or>
    (br_selected s' \<noteq> OneshotOpen \<and> decisions [(e, r)] = selection_of (br_selected s') \<and>
      (\<forall>es. selected_by (e # es) = br_selected s'))"
  using assms
  by (cases e)
    (auto simp: undecided_def bridge_defs split: if_splits oneshot.splits list.splits option.splits)

lemma undecided_run:
  "bridge_run es s = (tr, s') \<Longrightarrow> undecided s \<Longrightarrow>
   br_selected s' = selected_by es \<and> decisions tr = selection_of (selected_by es)"
proof (induction es arbitrary: s tr)
  case (Cons e es)
  obtain r s1 where e: "bridge_step e s = (r, s1)"
    by fastforce
  obtain rs where es: "bridge_run es s1 = (rs, s')" and tr: "tr = (e, r) # rs"
    using Cons.prems(1) e by (auto split: prod.splits)
  from undecided_step [OF e Cons.prems(2)] show ?case
    using Cons.IH [OF es] selected_settled_run [OF es] decisions_cons [of "(e, r)" rs]
    by (auto simp: tr)
qed (simp add: undecided_def)

text \<open>
  C14: The channel on which the receiving task waits for the selection refines the abstract rule
  that the first deciding event wins: a selection, a decline, the end of the task or the drop of the
  controller. Exactly that decision is reported as successful to the application, and every later
  one fails.
\<close>
theorem first_decision_wins:
  "br_selected (snd (bridge_run es bridge_new)) = selected_by es \<and>
   decisions (fst (bridge_run es bridge_new)) = selection_of (selected_by es)"
proof -
  have "undecided bridge_new"
    by (simp add: undecided_def bridge_new_def)
  then show ?thesis
    using undecided_run [of es bridge_new] by (cases "bridge_run es bridge_new") simp
qed

section \<open>Keys\<close>

text \<open>The PEM formats read back what they write.\<close>

definition pem_ok :: "crypto_ext \<Rightarrow> bool" where
  "pem_ok X \<longleftrightarrow>
     (\<forall>k p. ed_to_pkcs8_pem X k = Some p \<longrightarrow> ed_from_pkcs8_pem X p = Some k) \<and>
     (\<forall>k p. ed_to_public_key_pem X k = Some p \<longrightarrow> ed_from_public_key_pem X p = Some k)"

lemma sample_pem_ok: "pem_ok sample_crypto"
  by (simp add: pem_ok_def sample_crypto_def)

lemma generated_keys:
  assumes "pem_ok X" and "generate_key_pair X seed = Ok pair"
  shows "parse_private_key X (kp_private_key pair) = Ok (generate_key seed)"
    and "parse_public_key X (kp_public_key pair) ''ed25519'' = Ok (to_verifying_key X (generate_key seed))"
  using assms
  by (auto simp: pem_ok_def generate_key_pair_def export_private_key_def export_public_key_def
      rbind_res_of_option_Ok parse_private_key_def parse_public_key_def to_verifying_key_def
      generate_key_def res_of_option_def split: option.splits)

text \<open>
  Two applications with generated key pairs. Each parses its own private key when a transfer
  starts; the one that was told the public key of the other as \<open>ed25519\<close> expects the verifying key
  under which exactly the tokens of the other verify, each for its own nonce only.
\<close>
theorem key_pairs_recognised:
  assumes "base64_ok X" and "ed25519_ok X" and "pem_ok X"
    and "generate_key_pair X own_seed = Ok own" and "generate_key_pair X peer_seed = Ok peer"
    and "generate_token_nonce X (generate_key peer_seed) salt = Ok token"
  shows "transfer_keys X (kp_private_key peer) None = Ok (generate_key peer_seed, None) \<and>
    (\<exists>key. transfer_keys X (kp_private_key own)
         (Some \<lparr>ek_public_key = kp_public_key peer, ek_kind = ''ed25519''\<rparr>) =
       Ok (generate_key own_seed, Some key) \<and>
      verify_token_nonce X key token nonce = Ok (nonce = salt))"
  using generated_keys [OF assms(3,4)] generated_keys [OF assms(3,5)]
    verify_generated_token [OF assms(1,2,6)]
  by (simp add: transfer_keys_def verify_token_nonce_def check_nonce_salt_def)

text \<open>The application of the peer signs with \<open>[2]\<close>, the own one with \<open>[1]\<close>.\<close>

theorem key_pairs_recognised_witness:
  "\<exists>own peer token key.
     generate_key_pair sample_crypto [1] = Ok own \<and> generate_key_pair sample_crypto [2] = Ok peer \<and>
     transfer_keys sample_crypto (kp_private_key own)
         (Some \<lparr>ek_public_key = kp_public_key peer, ek_kind = ''ed25519''\<rparr>) =
       Ok (generate_key [1], Some key) \<and>
     verify_token_nonce sample_crypto key token [7] = Ok True"
proof -
  obtain token where token: "generate_token_nonce sample_crypto (generate_key [2]) [7] = Ok token"
    by (rule sample_generates)
  have pair: "\<exists>pair. generate_key_pair sample_crypto seed = Ok pair" for seed
    by (simp add: generate_key_pair_def export_private_key_def export_public_key_def)
      (simp add: sample_crypto_def Let_def)
  obtain own peer where pairs: "generate_key_pair sample_crypto [1] = Ok own"
    "generate_key_pair sample_crypto [2] = Ok peer"
    using pair by blast
  with key_pairs_recognised [OF sample_crypto_ok sample_pem_ok pairs token, of "[7]"] show ?thesis
    by auto
qed

end
