(* ===== verification/App_Transfer.thy ===== *)
theory App_Transfer
  imports Rtc_Session Rtc_Offer_Props App_Props
begin

text \<open>
  A transfer as two applications drive it (\<open>LsSignalingConnection::send_offer\<close> and \<open>accept_offer\<close> of
  \<open>app/rust/src/api/webrtc.rs\<close>): keys from their PEM texts, the connection around the task, the task on
  the data channel, and what the application is told at the end. Shown: two devices of one group
  of the signaling server that have told each other their generated public keys transfer the files,
  from the offer to the last byte.
\<close>

section \<open>The two calls\<close>

text \<open>
  The task the \<open>select\<close> of \<open>send_offer\<close> waits for ends as \<open>r\<close>, unless the connection is lost before
  (\<open>pw_end\<close> is then \<open>ConnectionClosed\<close> already).
\<close>

definition with_task :: "unit res \<Rightarrow> peer_world \<Rightarrow> peer_world" where
  "with_task r p = (if pw_end p = ConnectionClosed then p else p\<lparr>pw_end := TaskEnded r\<rparr>)"

text \<open>The spawned task of the bridge: an error becomes a status, if anybody still listens.\<close>

definition spawned :: "(peer_world, unit) task \<Rightarrow> (peer_world, unit) task" where
  "spawned t =
     bind_t (try_t t) (\<lambda>result.
       case result of
         Inl e \<Rightarrow> ignore_t (peer_status (StatusError (err_text e)))
       | Inr _ \<Rightarrow> return_t ())"

text \<open>
  \<open>app_send_offer\<close> fails before anything is started or gives the spawned task, here as a function of
  the two worlds it runs in.
\<close>

definition app_send_offer ::
  "rtc_ext \<Rightarrow> byte list \<Rightarrow> string \<Rightarrow> uuid \<Rightarrow> string \<Rightarrow> expecting_public_key option \<Rightarrow> pin_config option \<Rightarrow>
   file_dto list \<Rightarrow> (sender_world \<Rightarrow> peer_world \<Rightarrow> sender_world \<times> unit res \<times> peer_world) res" where
  "app_send_offer X local_nonce session_id target private_key expecting pin files =
     rbind (transfer_keys (rx_crypto X) private_key expecting) (\<lambda>(signing_key, expecting_public_key).
     Ok (\<lambda>w p.
       let (r, w) = send_task X local_nonce signing_key expecting_public_key pin files w
       in (w, spawned (send_offer X session_id target) (with_task r p))))"

definition app_accept_offer ::
  "rtc_ext \<Rightarrow> byte list \<Rightarrow> (nat \<Rightarrow> string) \<Rightarrow> ws_server_sdp_message \<Rightarrow> string \<Rightarrow> expecting_public_key option \<Rightarrow>
   pin_config option \<Rightarrow> (receiver_world \<Rightarrow> peer_world \<Rightarrow> receiver_world \<times> unit res \<times> peer_world) res" where
  "app_accept_offer X local_nonce new_token offer private_key expecting pin =
     rbind (transfer_keys (rx_crypto X) private_key expecting) (\<lambda>(signing_key, expecting_public_key).
     Ok (\<lambda>w p.
       let (r, w) = receive_task X local_nonce new_token signing_key expecting_public_key pin w
       in (w, spawned (accept_offer X offer) (with_task r p))))"

text \<open>The public key of a generated pair, as one application tells it to the other.\<close>

definition told :: "key_pair \<Rightarrow> expecting_public_key option" where
  "told pair = Some \<lparr>ek_public_key = kp_public_key pair, ek_kind = ''ed25519''\<rparr>"

lemma transfer_keys_generated:
  assumes "pem_ok C" and "generate_key_pair C own_seed = Ok own" and "generate_key_pair C peer_seed = Ok peer"
  shows "transfer_keys C (kp_private_key own) (told peer) =
    Ok (generate_key own_seed, Some (to_verifying_key C (generate_key peer_seed)))"
  using generated_keys [OF assms(1,2)] generated_keys [OF assms(1,3)]
  by (simp add: transfer_keys_def told_def)

section \<open>A transfer between two applications\<close>

text \<open>
  The world of a connection that is set up, with the own description \<open>l\<close> and the other side's \<open>s\<close>:
  the calls of the crate succeed and the connection is not lost.
\<close>

definition set_up :: "string \<Rightarrow> string \<Rightarrow> string \<Rightarrow> peer_world \<Rightarrow> bool" where
  "set_up d l s p \<longleftrightarrow> smooth p \<and> pw_description p = Ok d \<and> pw_local_description p = Some l \<and>
     pw_parse p s = Ok () \<and> pw_close p = Ok () \<and> pw_end p \<noteq> ConnectionClosed"

definition offer_world :: "rtc_ext \<Rightarrow> string \<Rightarrow> string \<Rightarrow> string \<Rightarrow> peer_world \<Rightarrow> bool" where
  "offer_world X d l s p \<longleftrightarrow> set_up d l s p \<and> (\<exists>a. pw_answer p = Ok a \<and> decode_sdp X a = Ok s)"

definition accept_world :: "rtc_ext \<Rightarrow> ws_server_sdp_message \<Rightarrow> string \<Rightarrow> string \<Rightarrow> string \<Rightarrow> peer_world \<Rightarrow> bool" where
  "accept_world X offer d l s p \<longleftrightarrow> set_up d l s p \<and> decode_sdp X (ss_sdp offer) = Ok s"

lemma world_ends:
  "offer_world X d l s p \<Longrightarrow> send_offer X session_id target (with_task (Ok ()) p) = (Ok (), (with_task (Ok ()) p)
      \<lparr>pw_calls := offer_calls X session_id target d l s @ [StatusSent Finished, CloseChannel, CloseConnection]\<rparr>)"
  "accept_world X offer d l s p \<Longrightarrow> accept_offer X offer (with_task (Ok ()) p) = (Ok (), (with_task (Ok ()) p)
      \<lparr>pw_calls := answer_calls X offer s d l @ [StatusSent Finished, CloseConnection]\<rparr>)"
proof -
  assume w: "offer_world X d l s p"
  then obtain a where "pw_answer p = Ok a" "decode_sdp X a = Ok s" by (auto simp: offer_world_def)
  with w show "send_offer X session_id target (with_task (Ok ()) p) = (Ok (), (with_task (Ok ()) p)
      \<lparr>pw_calls := offer_calls X session_id target d l s @ [StatusSent Finished, CloseChannel, CloseConnection]\<rparr>)"
    using offer_ends(2) [of "with_task (Ok ()) p" d l s a X session_id target]
    by (simp add: offer_world_def set_up_def with_task_def smooth_def)
next
  assume "accept_world X offer d l s p"
  then show "accept_offer X offer (with_task (Ok ()) p) = (Ok (), (with_task (Ok ()) p)
      \<lparr>pw_calls := answer_calls X offer s d l @ [StatusSent Finished, CloseConnection]\<rparr>)"
    using accept_ends(2) [of "with_task (Ok ()) p" d l s X offer]
    by (simp add: accept_world_def set_up_def with_task_def smooth_def)
qed

lemma spawned_Ok: "t p = (Ok (), p') \<Longrightarrow> spawned t p = (Ok (), p')"
  by (simp add: spawned_def task_simps)

lemmas spawned_ends =
  spawned_Ok [where t = "send_offer X session_id target" for X session_id target, OF world_ends(1)]
  spawned_Ok [where t = "accept_offer X offer" for X offer, OF world_ends(2)]

lemma app_runs:
  assumes "transfer_keys (rx_crypto X) private_key expecting = Ok (sk, pk)"
  shows "app_send_offer X n session_id target private_key expecting pin files =
      Ok (\<lambda>w p. (snd (send_task X n sk pk pin files w),
        spawned (send_offer X session_id target) (with_task (fst (send_task X n sk pk pin files w)) p)))"
    and "app_accept_offer X n new_token offer private_key expecting pin =
      Ok (\<lambda>w p. (snd (receive_task X n new_token sk pk pin w),
        spawned (accept_offer X offer) (with_task (fst (receive_task X n new_token sk pk pin w)) p)))"
  using assms by (simp_all add: app_send_offer_def app_accept_offer_def case_prod_unfold Let_def)

lemma concat_buffer_receiver: "concat (buffer_receiver rx) = concat rx"
  by (simp add: buffer_receiver_def concat_buffer_loop)

text \<open>
  Two applications with generated key pairs, each told the other's public key, over a connection
  that is set up.
\<close>

lemma applications_transfer:
  assumes pem: "pem_ok (rx_crypto X)"
    and keys: "generate_key_pair (rx_crypto X) seed_a = Ok a" "generate_key_pair (rx_crypto X) seed_b = Ok b"
    and session: "session_ok X (generate_key seed_a) (generate_key seed_b)
      (Some (to_verifying_key (rx_crypto X) (generate_key seed_b)))
      (Some (to_verifying_key (rx_crypto X) (generate_key seed_a))) sn rn st rt"
    and files: "transfer_possible files sel w v"
    and pins: "guesses_for rpin rgs" "guesses_for spin sgs" "pins_given rgs w" "pins_given sgs v"
    and set_up: "offer_world X d l s p" "accept_world X offer d' l' s' q"
  shows "\<exists>send receive sent answers w' p' v' q'.
    app_send_offer X sn session_id target (kp_private_key a) (told b) spin files = Ok send \<and>
    app_accept_offer X rn new_token offer (kp_private_key b) (told a) rpin = Ok receive \<and>
    exchange (\<lambda>ms. w_out (fst (send (w\<lparr>w_in := ms\<rparr>) p))) (\<lambda>ms. w_out (fst (receive (v\<lparr>w_in := ms\<rparr>) q)))
      (4 + length rgs + length sgs) = (sent, answers) \<and>
    send (w\<lparr>w_in := answers\<rparr>) p = (w', Ok (), p') \<and> receive (v\<lparr>w_in := sent\<rparr>) q = (v', Ok (), q') \<and>
    pw_calls p' = offer_calls X session_id target d l s @ [StatusSent Finished, CloseChannel, CloseConnection] \<and>
    pw_calls q' = answer_calls X offer s' d' l' @ [StatusSent Finished, CloseConnection] \<and>
    map (\<lambda>(i, ps). (i, concat (buffer_receiver ps))) (rw_received v') =
      map (\<lambda>f. (rf_file_id f, concat (rf_binary f))) (sw_files w)"
proof -
  note send = app_runs(1) [OF transfer_keys_generated [OF pem keys]]
    and receive = app_runs(2) [OF transfer_keys_generated [OF pem keys(2,1)]]
  obtain sent answers w' v' where
    run: "exchange (\<lambda>ms. w_out (snd (given (send_task X sn (generate_key seed_a)
          (Some (to_verifying_key (rx_crypto X) (generate_key seed_b))) spin files) w ms)))
        (\<lambda>ms. w_out (snd (given (receive_task X rn new_token (generate_key seed_b)
          (Some (to_verifying_key (rx_crypto X) (generate_key seed_a))) rpin) v ms)))
        (4 + length rgs + length sgs) = (sent, answers)"
      "given (send_task X sn (generate_key seed_a)
          (Some (to_verifying_key (rx_crypto X) (generate_key seed_b))) spin files) w answers = (Ok (), w')"
      "given (receive_task X rn new_token (generate_key seed_b)
          (Some (to_verifying_key (rx_crypto X) (generate_key seed_a))) rpin) v sent = (Ok (), v')"
    and bytes: "map (\<lambda>(i, ps). (i, concat ps)) (rw_received v') =
        map (\<lambda>f. (rf_file_id f, concat (rf_binary f))) (sw_files w)"
    using session_exchange [OF session files pins, of new_token] by blast
  note ends = run(2,3) [unfolded given_def] spawned_ends(1) [OF set_up(1)] spawned_ends(2) [OF set_up(2)]
  show ?thesis
    by (rule exI, rule exI, rule exI [of _ sent], rule exI [of _ answers], rule exI [of _ w'], rule exI,
        rule exI [of _ v'], rule exI, intro conjI, rule send, rule receive,
        (use run(1) bytes in \<open>simp_all add: ends concat_buffer_receiver given_def\<close>)) simp_all
qed

lemma sample_pair: "\<exists>pair. generate_key_pair sample_crypto seed = Ok pair"
  by (simp add: generate_key_pair_def export_private_key_def export_public_key_def)
    (simp add: sample_crypto_def Let_def)

section \<open>Through the signaling server\<close>

text \<open>What the server makes of a message of \<open>peer\<close>: \<open>out\<close> for \<open>t\<close>, and nothing else.\<close>

definition reaches ::
  "server_config \<Rightarrow> string \<Rightarrow> client_info \<Rightarrow> ws_client_message \<Rightarrow> tx_map \<Rightarrow> request_count_map \<Rightarrow> uuid \<Rightarrow>
   ws_server_message \<Rightarrow> bool" where
  "reaches cfg g peer msg m counts t out \<longleftrightarrow> fst (snd (handle_client_message cfg g peer msg m counts)) = [(t, out)]"

text \<open>The server relays to \<open>t\<close>: a registered member of the group, which has not used up its requests.\<close>

definition relays_to :: "server_config \<Rightarrow> string \<Rightarrow> tx_map \<Rightarrow> request_count_map \<Rightarrow> uuid \<Rightarrow> bool" where
  "relays_to cfg g m counts t \<longleftrightarrow>
     t \<in> fst ` set (local_map m g) \<and> (case map_of counts g of None \<Rightarrow> 0 | Some c \<Rightarrow> c) < MAX_REQUESTS cfg"

lemma relayed:
  assumes "relays_to cfg g m counts t"
  shows "reaches cfg g peer (send_offer_message s t x) m counts t
      (SOffer \<lparr>ss_peer = peer, ss_session_id = s, ss_sdp = x\<rparr>)"
    and "reaches cfg g peer (send_answer_message s t x) m counts t
      (SAnswer \<lparr>ss_peer = peer, ss_session_id = s, ss_sdp = x\<rparr>)"
proof -
  obtain l where l: "map_of m g = Some l" "t \<in> fst ` set l"
    using assms by (cases "map_of m g") (simp_all add: relays_to_def local_map_def)
  then obtain info where info: "map_of l t = Some info" by (metis map_of_eq_None_iff not_None_eq)
  have "fst (protect_ddos_request_count cfg g counts) = Some ()"
    using assms by (auto simp: relays_to_def protect_ddos_request_count_def Let_def)
  then show "reaches cfg g peer (send_offer_message s t x) m counts t
      (SOffer \<lparr>ss_peer = peer, ss_session_id = s, ss_sdp = x\<rparr>)"
    and "reaches cfg g peer (send_answer_message s t x) m counts t
      (SAnswer \<lparr>ss_peer = peer, ss_session_id = s, ss_sdp = x\<rparr>)"
    using l(1) info by (auto simp: reaches_def handle_client_message_def send_offer_message_def send_answer_message_def
        send_to_peer_def split: prod.splits option.splits)
qed

text \<open>
  C7: from the registration to the files. Two devices in one group of the signaling server, \<open>a\<close> and
  \<open>b\<close>, with generated key pairs, each told the other's public key; the calls of the crate \<open>webrtc\<close>
  succeed. The server relays the offer of \<open>a\<close> to \<open>b\<close> and the answer of \<open>b\<close> to \<open>a\<close>. With these
  each side sets the other's description, and if the users find the PINs that are asked for in time,
  both report \<open>Finished\<close> last and close, and the application of \<open>b\<close> reads from its file receivers exactly
  the bytes that were sent, under their ids and in order. The PINs and files are at hand here when a
  task asks for them, and every status is taken; the locks of the bridge stand between the user
  and the sending task, which is the subject of \<open>Bridge_Sender\<close>.
\<close>

theorem devices_transfer:
  assumes server: "relays_to cfg g m counts (ci_id b)" "relays_to cfg g m' counts' (ci_id a)"
    and sdp: "sdp_ok X" "valid_utf8 (as_bytes la)" "valid_utf8 (as_bytes lb)"
    and worlds: "set_up da la lb p" "set_up db lb la q"
    and pem: "pem_ok (rx_crypto X)"
    and keys: "generate_key_pair (rx_crypto X) seed_a = Ok key_a" "generate_key_pair (rx_crypto X) seed_b = Ok key_b"
    and session: "session_ok X (generate_key seed_a) (generate_key seed_b)
      (Some (to_verifying_key (rx_crypto X) (generate_key seed_b)))
      (Some (to_verifying_key (rx_crypto X) (generate_key seed_a))) sn rn st rt"
    and files: "transfer_possible files sel w v"
    and pins: "guesses_for rpin rgs" "guesses_for spin sgs" "pins_given rgs w" "pins_given sgs v"
  shows "\<exists>off an send receive sent answers w' p' v' q'.
    reaches cfg g a (send_offer_message session_id (ci_id b) (encode_sdp X la)) m counts (ci_id b) (SOffer off) \<and>
    reaches cfg g b (send_answer_message (ss_session_id off) (ci_id (ss_peer off)) (encode_sdp X lb)) m' counts'
      (ci_id a) (SAnswer an) \<and>
    app_send_offer X sn session_id (ci_id b) (kp_private_key key_a) (told key_b) spin files = Ok send \<and>
    app_accept_offer X rn new_token off (kp_private_key key_b) (told key_a) rpin = Ok receive \<and>
    exchange (\<lambda>ms. w_out (fst (send (w\<lparr>w_in := ms\<rparr>) (p\<lparr>pw_answer := Ok (ss_sdp an)\<rparr>))))
      (\<lambda>ms. w_out (fst (receive (v\<lparr>w_in := ms\<rparr>) q))) (4 + length rgs + length sgs) = (sent, answers) \<and>
    send (w\<lparr>w_in := answers\<rparr>) (p\<lparr>pw_answer := Ok (ss_sdp an)\<rparr>) = (w', Ok (), p') \<and>
    receive (v\<lparr>w_in := sent\<rparr>) q = (v', Ok (), q') \<and>
    pw_calls p' = offer_calls X session_id (ci_id b) da la lb @ [StatusSent Finished, CloseChannel, CloseConnection] \<and>
    pw_calls q' = answer_calls X off la db lb @ [StatusSent Finished, CloseConnection] \<and>
    map (\<lambda>(i, ps). (i, concat (buffer_receiver ps))) (rw_received v') =
      map (\<lambda>f. (rf_file_id f, concat (rf_binary f))) (sw_files w)"
proof -
  define off where "off = \<lparr>ss_peer = a, ss_session_id = session_id, ss_sdp = encode_sdp X la\<rparr>"
  define an where "an = \<lparr>ss_peer = b, ss_session_id = session_id, ss_sdp = encode_sdp X lb\<rparr>"
  note off = relayed(1) [OF server(1), of a session_id "encode_sdp X la", folded off_def]
  have an: "reaches cfg g b (send_answer_message (ss_session_id off) (ci_id (ss_peer off)) (encode_sdp X lb)) m' counts'
      (ci_id a) (SAnswer an)"
    using relayed(2) [OF server(2), of b session_id "encode_sdp X lb"] by (simp add: off_def an_def)
  have p: "offer_world X da la lb (p\<lparr>pw_answer := Ok (ss_sdp an)\<rparr>)"
    using worlds(1) decode_encode_sdp [OF sdp(1,3)] by (simp add: offer_world_def set_up_def smooth_def an_def)
  have q: "accept_world X off db lb la q"
    using worlds(2) decode_encode_sdp [OF sdp(1,2)] by (simp add: accept_world_def off_def)
  show ?thesis
    using applications_transfer [OF pem keys session files pins p q, of session_id "ci_id b" new_token] off an by blast
qed

theorem devices_transfer_witness:
  "\<exists>send receive sent answers w' p' v' q' off (an :: ws_server_sdp_message) key_a key_b.
    app_send_offer sample_rtc (replicate 32 7) ''s'' 1 (kp_private_key key_a) (told key_b) None [sample_file] = Ok send \<and>
    app_accept_offer sample_rtc (replicate 32 7) (\<lambda>i. ''t'') off (kp_private_key key_b) (told key_a) None = Ok receive \<and>
    send ((sender_sample [] [])\<lparr>w_in := answers\<rparr>)
      ((sample_peer_world ''A'' '''' (TaskEnded Wait))\<lparr>pw_answer := Ok (ss_sdp an)\<rparr>) = (w', Ok (), p') \<and>
    receive ((receiver_sample [])\<lparr>w_pins := [], w_in := sent\<rparr>) (sample_peer_world ''B'' '''' (TaskEnded Wait)) =
      (v', Ok (), q') \<and>
    map (\<lambda>(i, ps). (i, concat (buffer_receiver ps))) (rw_received v') = [(''a'', [1, 2, 3])]"
proof -
  obtain key_a key_b where keys: "generate_key_pair (rx_crypto sample_rtc) [1] = Ok key_a"
    "generate_key_pair (rx_crypto sample_rtc) [2] = Ok key_b"
    unfolding sample_rtc_ok(2) using sample_pair by blast
  have sdp: "sdp_ok sample_rtc" by (simp add: sdp_ok_def sample_rtc_def wire_ext_def sample_crypto_ok)
  have pem: "pem_ok (rx_crypto sample_rtc)" by (simp add: sample_pem_ok)
  have session: "session_ok sample_rtc (generate_key [1]) (generate_key [2])
      (Some (to_verifying_key (rx_crypto sample_rtc) (generate_key [2])))
      (Some (to_verifying_key (rx_crypto sample_rtc) (generate_key [1]))) (replicate 32 7) (replicate 32 7)
      (sample_session_token [1]) (sample_session_token [2])"
    using sample_session by (simp add: session_ok_def expects_def generate_key_def)
  have worlds: "set_up ''A'' ''A'' ''B'' (sample_peer_world ''A'' '''' (TaskEnded Wait))"
    "set_up ''B'' ''B'' ''A'' (sample_peer_world ''B'' '''' (TaskEnded Wait))"
    by (simp_all add: set_up_def smooth_def sample_peer_world_def)
  have pins: "guesses_for None []" "pins_given [] (sender_sample [] [])"
    "pins_given [] ((receiver_sample [])\<lparr>w_pins := []\<rparr>)"
    by (simp_all add: guesses_for_def pins_given_def)
  have ids: "ci_id (sample_peer 0) = 0" "ci_id (sample_peer 1) = 1" by (simp_all add: sample_peer_def)
  have server: "relays_to sample_config ''g'' sample_tx_map [] (ci_id (sample_peer 1))"
    "relays_to sample_config ''g'' sample_tx_map [] (ci_id (sample_peer 0))"
    unfolding ids by (simp_all add: relays_to_def local_map_def sample_tx_map_def sample_config_def)
  have sent: "map (\<lambda>f. (rf_file_id f, concat (rf_binary f))) (sw_files (sender_sample [] [])) = [(''a'', [1, 2, 3])]"
    by (simp add: sender_sample_def)
  show ?thesis
    using devices_transfer [OF server sdp valid_utf8_samples worlds pem keys session sample_possible pins(1,1,2,3),
        of "''s''" "\<lambda>i. ''t''"]
    unfolding ids sent
    apply (elim exE conjE)
    subgoal for off an send receive sent answers w' p' v' q'
      by (rule exI [of _ send], rule exI [of _ receive], rule exI [of _ sent], rule exI [of _ answers],
          rule exI [of _ w'], rule exI [of _ p'], rule exI [of _ v'], rule exI [of _ q'], rule exI [of _ off],
          rule exI [of _ an], rule exI [of _ key_a], rule exI [of _ key_b], intro conjI)
    done
qed

end
