(* ===== verification/Demo.thy ===== *)
theory Demo
  imports App_Transfer Http_Listener
begin

text \<open>
  The demonstration binary \<open>core/src/main.rs\<close>. What it prints is the state of its tasks, files are
  the results of reading and writing them, and the tasks around \<open>send_offer\<close> and \<open>accept_offer\<close> are
  the worlds these run in: the PINs they enter, the selection, the pieces of the file. The worlds of
  the connection are those of \<open>Rtc_Offer\<close>.
  Shown: its two peers transfer a file of any content, although the size they announce is fixed;
  its client gets as far as the registration.
\<close>

section \<open>Printing\<close>

datatype demo_print =
    PrintPem string | PrintPublicKeyPem string | PrintFingerprint string | PrintVerification "unit res"
  | PrintNonce string | PrintPublicKey "string option" | PrintBody register_response_dto
  | PrintPrepareUpload prepare_upload_response_dto

definition print_t :: "demo_print \<Rightarrow> (demo_print list, unit) task" where
  "print_t p w = (Ok (), w @ [p])"

lemma print_t_eq [task_simps]: "print_t p w = (Ok (), w @ [p])"
  by (simp add: print_t_def)

section \<open>Keys and tokens\<close>

definition DEMO_PUBLIC_KEY :: string where
  "DEMO_PUBLIC_KEY = ''-----BEGIN PUBLIC KEY-----'' @ [CHR 0x0A] @
     ''MCowBQYDK2VwAyEAZmdXP230oqK92o65ra3XaF2F8r3+fK5DEBK4c40qVts='' @ [CHR 0x0A] @
     ''-----END PUBLIC KEY-----''"

definition DEMO_TOKEN :: string where
  "DEMO_TOKEN = ''sha256.RikOdJlAUTdMVFZjEk7Bft5G9cxnNBBLfgttPpyS2FY.hJCuZwAAAAA.ed25519.'' @
     ''iNgHrRzX2Iel-Ozj47yn5o5v0cGY_BswK6JYqwY65j7Krpr43KanAaCrjUng7gHtc2pCcylUrKswR_rxyswhDA''"

text \<open>\<open>key\<close> is what \<open>generate_key\<close> draws.\<close>

definition crypto_test :: "crypto_ext \<Rightarrow> int \<Rightarrow> signing_token_key \<Rightarrow> (demo_print list, unit) task" where
  "crypto_test X clock key =
     bind_t (lift_t (export_private_key X key)) (\<lambda>pem.
     bind_t (print_t (PrintPem pem)) (\<lambda>_.
     bind_t (lift_t (export_public_key X key)) (\<lambda>public_key.
     bind_t (print_t (PrintPublicKeyPem public_key)) (\<lambda>_.
     bind_t (lift_t (generate_token_timestamp X clock key)) (\<lambda>fingerprint.
     bind_t (print_t (PrintFingerprint fingerprint)) (\<lambda>_.
     bind_t (lift_t (parse_public_key X DEMO_PUBLIC_KEY ''ed25519'')) (\<lambda>parsed_key.
     (case verify_token_with_result X parsed_key DEMO_TOKEN (\<lambda>_. Ok ()) of
        Panic s \<Rightarrow> lift_t (Panic s)
      | Wait \<Rightarrow> wait_t
      | signature \<Rightarrow> print_t (PrintVerification signature)))))))))"

section \<open>Server and client\<close>

definition demo_server_info :: http_client_info where
  "demo_server_info = \<lparr>hi_alias = ''Server-Test'', hi_version = ''1.2.3'', hi_device_model = None,
     hi_device_type = None, hi_token = ''456''\<rparr>"

text \<open>
  The server is never stopped: the function sleeps after the start, and \<open>stop_tx\<close> lives as long.
  Its certificate and key are the constants \<open>CERT\<close> and \<open>PRIVATE_KEY\<close>, here arguments.
\<close>

definition server_test ::
  "tls_ext \<Rightarrow> string \<Rightarrow> string \<Rightarrow> err + unit \<Rightarrow> err + unit \<Rightarrow> (err + ip_addr \<times> 's) list \<Rightarrow>
   (err + ip_addr \<times> 's) list \<Rightarrow> unit res \<times> servers" where
  "server_test T CERT PRIVATE_KEY bind_v4 bind_v6 accepts_v4 accepts_v6 =
     (let (started, s) = start_with_port T bind_v4 bind_v6
            (Some \<lparr>tc_cert = CERT, tc_private_key = PRIVATE_KEY\<rparr>) accepts_v4 accepts_v6 False
      in (rbind started (\<lambda>_. Wait), s))"

definition demo_register :: register_dto where
  "demo_register = \<lparr>rd_alias = ''test 2'', rd_version = ''2.3'', rd_device_model = Some ''test'',
     rd_device_type = Some Headless, rd_token = ''test'', rd_port = 53317, rd_protocol = Https,
     rd_has_web_interface = False\<rparr>"

definition demo_file :: "u64 \<Rightarrow> file_dto" where
  "demo_file announced = \<lparr>fd_id = ''test-123-id'', fd_file_name = ''test.mp4'', fd_size = announced,
     fd_file_type = ''video/mp4'', fd_sha256 = None, fd_preview = None, fd_metadata = None\<rparr>"

definition demo_prepare_upload :: prepare_upload_request_dto where
  "demo_prepare_upload = \<lparr>pq_info = demo_register, pq_files = [(''test-123-id'', demo_file 1000)]\<rparr>"

text \<open>\<open>client\<close> is the result of \<open>LsHttpClient::try_new\<close>, \<open>generated_nonce\<close> what its \<open>nonce\<close> draws.\<close>

definition client_test ::
  "'c http_ext \<Rightarrow> network \<Rightarrow> byte list \<Rightarrow> 'c http_client res \<Rightarrow> (demo_print list, unit) task" where
  "client_test X send generated_nonce client =
     bind_t (lift_t client) (\<lambda>client.
     bind_t (lift_t (fst (client_nonce X send generated_nonce Https ''localhost'' 53317 client))) (\<lambda>nonce.
     bind_t (print_t (PrintNonce nonce)) (\<lambda>_.
     bind_t (lift_t (client_register X send Https ''localhost'' 53317 demo_register)) (\<lambda>(public_key, body).
     bind_t (print_t (PrintPublicKey public_key)) (\<lambda>_.
     bind_t (print_t (PrintBody body)) (\<lambda>_.
     bind_t (lift_t (client_prepare_upload X send Https ''localhost'' 53317 public_key demo_prepare_upload))
       (\<lambda>prepare_upload_response. print_t (PrintPrepareUpload prepare_upload_response))))))))"

text \<open>\<open>main\<close> drops both results and ends with the first task that ends.\<close>

definition main :: "unit res \<Rightarrow> unit res \<Rightarrow> unit res" where
  "main a b = (if a = Wait \<and> b = Wait then Wait else Ok ())"

lemma server_test_waits: "fst (server_test T CERT PRIVATE_KEY bind_v4 bind_v6 accepts_v4 accepts_v6) = Wait"
  by (simp add: server_test_def start_with_port_def Let_def)

lemma verify_cert_from_res_again:
  assumes "verify_cert_from_res X r None = Ok k" and "rp_tls_info r' = rp_tls_info r"
  shows "verify_cert_from_res X r' (Some k) = Ok k"
proof -
  from assms obtain cert where cert: "rp_tls_info r' = Some (Some cert)" "public_key_from_cert_der X cert = Ok k"
    and "rbind (verify_cert_from_der X cert (Some k)) (\<lambda>_. Ok k) = Ok k"
    by (auto simp: verify_cert_from_res_def res_of_option_def rbind_eq_Ok split: option.splits)
  then show ?thesis by (simp add: verify_cert_from_res_def)
qed

text \<open>A server that answers every path at this address, each in a state of its own.\<close>

definition demo_base :: string where "demo_base = ''https://localhost:53317''"

definition demo_network ::
  "'c http_ext \<Rightarrow> byte list \<Rightarrow> request_client_info \<Rightarrow> byte list option option \<Rightarrow> (string \<Rightarrow> 'c http_state) \<Rightarrow> network" where
  "demo_network X new_nonce client tls_info s url body =
     (let path = drop (length demo_base) url
      in if take (length demo_base) url = demo_base
         then Ok (answers X True new_nonce client tls_info None (s path) path body)
         else Err (Lib ''error sending request''))"

lemma demo_urls:
  "nonce_url Https ''localhost'' 53317 = demo_base @ nonce_path"
  "call_url Https ''localhost'' 53317 path = demo_base @ ''/api/localsend/v3'' @ path"
proof -
  have port: "show_nat (unat (53317 :: u16)) = ''53317''" by (simp add: show_nat.simps digit_char_def char_of_def bit_Suc_0_iff)
  show "nonce_url Https ''localhost'' 53317 = demo_base @ nonce_path"
    unfolding nonce_url_def url_to_string_def nonce_path_def bracketed_def demo_base_def target_url.simps port
    by simp
  show "call_url Https ''localhost'' 53317 path = demo_base @ ''/api/localsend/v3'' @ path"
    unfolding call_url_def BASE_PATH_def demo_base_def port by simp
qed

lemma demo_network_answers:
  "demo_network X new_nonce client tls_info s (demo_base @ path) body =
    Ok (answers X True new_nonce client tls_info None (s path) path body)"
  by (simp add: demo_network_def)

text \<open>
  C39: against a server that runs as in \<open>server_test\<close> the client exchanges nonces, registers, and
  then ends with status 404, whatever the state of the server at each request: the printed lines
  end with the answer to the registration, and \<open>main\<close> ends with the client, the server never does.
\<close>

theorem client_test_stops_at_upload:
  assumes "http_ok X" and "16 \<le> length generated" and "length generated \<le> 128"
    and "server_identifier (hx_x509 X) tls_info None Https = Ok server_key"
  shows "client_test X (demo_network X new_nonce client tls_info s) generated (Ok c) [] =
      (Err (StatusCodeError 404 None),
       [PrintNonce (base64_encode (hx_crypto X) new_nonce), PrintPublicKey (Some server_key),
        PrintBody (register_body (s ''/api/localsend/v3/register''))]) \<and>
    main (fst (server_test T CERT PRIVATE_KEY bind_v4 bind_v6 accepts_v4 accepts_v6))
      (fst (client_test X (demo_network X new_nonce client tls_info s) generated (Ok c) [])) = Ok ()"
proof -
  let ?net = "demo_network X new_nonce client tls_info s"
  have nonce: "fst (client_nonce X ?net generated Https ''localhost'' 53317 c) =
      Ok (base64_encode (hx_crypto X) new_nonce)"
    by (simp add: client_nonce_def demo_urls demo_network_answers Let_def
        nonce_reply_answers [OF assms(1-4) refl])
  have register: "client_register X ?net Https ''localhost'' 53317 demo_register =
      Ok (Some server_key, register_body (s ''/api/localsend/v3/register''))"
    using register_returns_info [OF assms(1), of ?net Https "''localhost''" 53317 True new_nonce client tls_info None
        "s ''/api/localsend/v3/register''" demo_register] assms(4)
    by (simp add: demo_urls demo_network_answers)
  have upload: "client_prepare_upload X ?net Https ''localhost'' 53317 (Some server_key) demo_prepare_upload =
      Err (StatusCodeError 404 None)"
  proof -
    have "verify_cert_from_res (hx_x509 X) (answers X True new_nonce client tls_info None
        (s ''/api/localsend/v3/prepare-upload'') ''/api/localsend/v3/prepare-upload'' body) (Some server_key) = Ok server_key"
      for body
      using assms(4) by (intro verify_cert_from_res_again [where r = "\<lparr>rp_status = 200, rp_tls_info = tls_info,
          rp_remote_addr = None, rp_body = None\<rparr>"])
        (simp_all add: upload_answers [OF assms(1)] server_identifier_def to_identifier_def)
    then show ?thesis
      by (simp add: client_prepare_upload_def demo_urls upload_answers [OF assms(1)]
          demo_network_answers)
  qed
  have run: "client_test X ?net generated (Ok c) [] = (Err (StatusCodeError 404 None),
       [PrintNonce (base64_encode (hx_crypto X) new_nonce), PrintPublicKey (Some server_key),
        PrintBody (register_body (s ''/api/localsend/v3/register''))])"
    by (simp add: client_test_def bind_t_def nonce register upload print_t_def)
  then show ?thesis by (simp add: main_def server_test_waits)
qed

theorem client_test_stops_at_upload_witness:
  "fst (client_test sample_http (demo_network sample_http [5] (client_at 1) (Some (Some [1, 2, 3])) (\<lambda>_. sample_server))
     sample_nonce (Ok (http_client_new sample_http)) []) = Err (StatusCodeError 404 None)"
  using client_test_stops_at_upload [OF sample_http_ok(1), of sample_nonce "Some (Some [1, 2, 3])" "of_bytes [1, 2, 3]"
      "[5]" "client_at 1" "\<lambda>_. sample_server" "http_client_new sample_http", THEN conjunct1] sample_server_key
  by (simp add: sample_http_ok sample_nonce_def)

section \<open>Files\<close>

text \<open>
  \<open>opened\<close> is the error of \<open>File::open\<close>, if any; \<open>reads\<close> the results of \<open>read\<close> with a buffer of 1024
  bytes; the channel takes \<open>room\<close> pieces until its receiver is dropped (\<open>None\<close>: it takes all). The
  pieces sent and the result.
\<close>

fun read_loop :: "(err + byte list) list \<Rightarrow> nat option \<Rightarrow> byte list list \<times> unit res" where
  "read_loop [] room = ([], Wait)"
| "read_loop (Inl e # reads) room = ([], Err e)"
| "read_loop (Inr chunk # reads) room =
     (if chunk = [] then ([], Ok ())
      else if room = Some 0 then ([], Ok ())
      else (let (chunks, r) = read_loop reads (map_option (\<lambda>n. n - 1) room) in (chunk # chunks, r)))"

definition read_file_to_sender ::
  "err option \<Rightarrow> (err + byte list) list \<Rightarrow> nat option \<Rightarrow> byte list list \<times> unit res" where
  "read_file_to_sender opened reads room =
     (case opened of Some e \<Rightarrow> ([], Err e) | None \<Rightarrow> read_loop reads room)"

text \<open>
  What \<open>read\<close> documents: a file of this content comes in pieces of one to 1024 bytes, and at its end
  in a read of no bytes.
\<close>

definition reads_file :: "byte list \<Rightarrow> (err + byte list) list \<Rightarrow> bool" where
  "reads_file content reads \<longleftrightarrow>
     (\<exists>chunks. reads = map Inr chunks @ [Inr []] \<and> concat chunks = content \<and>
        (\<forall>c \<in> set chunks. c \<noteq> [] \<and> length c \<le> 1024))"

text \<open>
  A file being written: the next \<open>write_all\<close> succeeds (also past the end of \<open>writes\<close>) or fails after
  so many bytes. The result and the content of the file.
\<close>

fun write_chunks ::
  "byte list list \<Rightarrow> bool \<Rightarrow> (err \<times> nat) option list \<Rightarrow> byte list \<Rightarrow> unit res \<times> byte list" where
  "write_chunks [] closed writes content = (if closed then Ok () else Wait, content)"
| "write_chunks (chunk # chunks) closed writes content =
     (case writes of
        Some (e, n) # writes \<Rightarrow> (Err e, content @ take n chunk)
      | None # writes \<Rightarrow> write_chunks chunks closed writes (content @ chunk)
      | [] \<Rightarrow> write_chunks chunks closed [] (content @ chunk))"

definition write_file_from_receiver ::
  "err option \<times> (err \<times> nat) option list \<Rightarrow> byte list list \<Rightarrow> bool \<Rightarrow> unit res \<times> byte list" where
  "write_file_from_receiver disk chunks closed =
     (case disk of (Some e, _) \<Rightarrow> (Err e, []) | (None, writes) \<Rightarrow> write_chunks chunks closed writes [])"

lemma read_loop_file:
  assumes "\<forall>c \<in> set chunks. c \<noteq> []"
  shows "read_loop (map Inr chunks @ [Inr []]) None = (chunks, Ok ())"
  using assms by (induction chunks) simp_all

lemma write_chunks_all: "write_chunks chunks True [] content = (Ok (), content @ concat chunks)"
  by (induction chunks arbitrary: content) simp_all

lemma read_file_complete:
  assumes "reads_file content reads"
  obtains chunks where "read_file_to_sender None reads None = (chunks, Ok ())" "concat chunks = content"
  using assms that by (auto simp: reads_file_def read_file_to_sender_def read_loop_file)

section \<open>The two peers\<close>

text \<open>
  The task that enters PINs: three tries, then its \<open>expect\<close> panics and the request is dropped.
\<close>

definition demo_pins :: "string list \<Rightarrow> pin_reply list" where
  "demo_pins pin_tries = map PinGiven pin_tries @ [PinDropped]"

definition demo_send_files :: "file_dto list" where
  "demo_send_files = [demo_file 100]"

text \<open>
  The world \<open>send_handler\<close> puts its \<open>send_offer\<close> into: pairing is declined, the first file is read
  and sent, and the channel of files ends with the task that reads it. \<open>full\<close>: whether the printing of
  the statuses lags behind.
\<close>

definition send_handler_world :: "bool \<Rightarrow> err option \<Rightarrow> (err + byte list) list \<Rightarrow> sender_world" where
  "send_handler_world full opened reads =
     (let (chunks, r) = read_file_to_sender opened reads None
      in \<lparr>w_in = [], w_in_closed = False, w_sends = [], w_out = [], w_buffered = [], w_status = [],
          w_status_left = None, w_status_full = full, w_pins = demo_pins [''1'', ''2'', ''123''],
          w_errors = [], sw_selected_open = True, sw_selected = None, sw_pair_open = True,
          sw_pair_answer = Some (Some False),
          sw_files = [\<lparr>rf_file_id = fd_id (hd demo_send_files), rf_binary = chunks, rf_closed = (r \<noteq> Wait)\<rparr>],
          sw_files_closed = (r \<noteq> Wait)\<rparr>)"

definition expect :: "string \<Rightarrow> 'a res \<Rightarrow> 'a res" where
  "expect msg r = (case r of Err e \<Rightarrow> Panic (msg @ '': '' @ err_text e) | _ \<Rightarrow> r)"

definition send_handler ::
  "rtc_ext \<Rightarrow> byte list \<Rightarrow> signing_token_key \<Rightarrow> string \<Rightarrow> client_info \<Rightarrow> sender_world \<Rightarrow> peer_world \<Rightarrow>
   sender_world \<times> unit res \<times> peer_world" where
  "send_handler X local_nonce signing_key session_id peer w p =
     (let (r, w) = send_task X local_nonce signing_key None (Some \<lparr>pc_pin = ''456'', pc_max_tries = 3\<rparr>)
            demo_send_files w;
          (r, p) = send_offer X session_id (ci_id peer) (with_task r p)
      in (w, expect ''Failed to send offer'' r, p))"

text \<open>
  The files are written one after the other, each to the path its sender named, below a fixed
  directory: the paths with their contents, the answers given, and how the task ended (\<open>Panic\<close> where
  it unwraps). \<open>disk\<close> says how the writing of a path goes.
\<close>

fun store_files ::
  "(string \<Rightarrow> err option \<times> (err \<times> nat) option list) \<Rightarrow> file_dto list \<Rightarrow> (string \<times> byte list list) list \<Rightarrow>
   (string \<times> byte list) list \<times> rtc_send_file_response list \<times> unit res" where
  "store_files disk files [] = ([], [], Ok ())"
| "store_files disk files ((file_id, chunks) # received) =
     (case find (\<lambda>f. fd_id f = file_id) files of
        None \<Rightarrow> ([], [], Panic ''called Option::unwrap() on a None value'')
      | Some file_dto \<Rightarrow>
          (let file_path = ''/Users/user/Downloads/test/'' @ fd_file_name file_dto
           in case write_file_from_receiver (disk file_path) chunks True of
                (Ok _, content) \<Rightarrow>
                  (let (stored, responses, r) = store_files disk files received
                   in ((file_path, content) # stored,
                       \<lparr>fr_id = file_id, fr_success = True, fr_error = None\<rparr> # responses, r))
              | (_, content) \<Rightarrow> ([(file_path, content)], [], Panic ''Failed to write file'')))"

text \<open>
  The world \<open>receive_handler\<close> puts its \<open>accept_offer\<close> into, for the list \<open>files\<close> it is shown and the
  answers of the task that stores the files: everything is selected.
\<close>

definition receive_handler_world :: "bool \<Rightarrow> file_dto list \<Rightarrow> rtc_send_file_response list \<Rightarrow> receiver_world" where
  "receive_handler_world full files responses =
     \<lparr>w_in = [], w_in_closed = False, w_sends = [], w_out = [], w_buffered = [], w_status = [],
      w_status_left = None, w_status_full = full, w_pins = demo_pins [''1'', ''2'', ''456''], w_errors = [],
      rw_files_open = True, rw_files = None, rw_selection = SelectionFiles (remdups (map fd_id files)),
      rw_receiving_open = True, rw_received = [], rw_writes = [], rw_results = responses,
      rw_results_closed = True\<rparr>"

definition receive_handler ::
  "rtc_ext \<Rightarrow> byte list \<Rightarrow> (nat \<Rightarrow> string) \<Rightarrow> signing_token_key \<Rightarrow> ws_server_sdp_message \<Rightarrow> receiver_world \<Rightarrow>
   peer_world \<Rightarrow> receiver_world \<times> unit res \<times> peer_world" where
  "receive_handler X local_nonce new_token signing_key offer w p =
     (let (r, w) = receive_task X local_nonce new_token signing_key None (Some \<lparr>pc_pin = ''123'', pc_max_tries = 3\<rparr>) w;
          (r, p) = accept_offer X offer (with_task r p)
      in (w, expect ''Failed to accept offer'' r, p))"

text \<open>
  The loop of \<open>webrtc_test\<close>: it sends to the first peer that joins and returns, and until then takes
  what is offered, one transfer at a time. \<open>ends\<close>: whether the handler for a message comes to an end.
\<close>

datatype demo_action = DemoSends client_info | DemoReceives ws_server_sdp_message

fun webrtc_loop ::
  "(demo_action \<Rightarrow> bool) \<Rightarrow> bool \<Rightarrow> ws_server_message list \<Rightarrow> demo_action list \<times> unit res" where
  "webrtc_loop ends closed [] = ([], if closed then Ok () else Wait)"
| "webrtc_loop ends closed (message # messages) =
     (case message of
        SJoin peer \<Rightarrow> ([DemoSends peer], if ends (DemoSends peer) then Ok () else Wait)
      | SOffer offer \<Rightarrow>
          if ends (DemoReceives offer)
          then (let (actions, r) = webrtc_loop ends closed messages in (DemoReceives offer # actions, r))
          else ([DemoReceives offer], Wait)
      | _ \<Rightarrow> webrtc_loop ends closed messages)"

definition demo_info :: client_info_without_id where
  "demo_info = \<lparr>ciw_alias = ''test'', ciw_version = ''2.3'', ciw_device_model = Some ''test'',
     ciw_device_type = Some Desktop, ciw_token = ''test''\<rparr>"

text \<open>\<open>connecting\<close> is \<open>SignalingConnection::connect\<close>, \<open>messages\<close> what its listener passes on.\<close>

definition webrtc_test ::
  "(client_info_without_id \<Rightarrow> client_info res) \<Rightarrow> (demo_action \<Rightarrow> bool) \<Rightarrow> bool \<Rightarrow> ws_server_message list \<Rightarrow>
   demo_action list \<times> unit res" where
  "webrtc_test connecting ends closed messages =
     (case connecting demo_info of
        Ok _ \<Rightarrow> webrtc_loop ends closed messages
      | Err e \<Rightarrow> ([], Err e)
      | Panic s \<Rightarrow> ([], Panic s)
      | Wait \<Rightarrow> ([], Wait))"

lemma demo_possible:
  assumes "read_file_to_sender None reads None = (chunks, Ok ())" and "responses \<noteq> []"
  shows "transfer_possible demo_send_files [''test-123-id''] (send_handler_world full None reads)
    (receive_handler_world full' demo_send_files responses)"
  using assms
  by (simp add: transfer_possible_def sender_ready_def receiver_ready_def healthy_def send_handler_world_def
      receive_handler_world_def demo_send_files_def demo_file_def) (cases responses; simp)

lemma demo_guesses:
  "guesses_for (Some \<lparr>pc_pin = ''123'', pc_max_tries = 3\<rparr>) [''1'', ''2'', ''123'']"
  "guesses_for (Some \<lparr>pc_pin = ''456'', pc_max_tries = 3\<rparr>) [''1'', ''2'', ''456'']"
  "pins_given [''1'', ''2'', ''123''] (send_handler_world full opened reads)"
  "pins_given [''1'', ''2'', ''456''] (receive_handler_world full' files responses)"
  by (simp_all add: guesses_for_def right_guesses_def pins_given_def send_handler_world_def
      receive_handler_world_def demo_pins_def split: prod.split)

lemma handlers_run:
  "fst (send_handler X sn sk session_id peer w p) = snd (send_task X sn sk None
     (Some \<lparr>pc_pin = ''456'', pc_max_tries = 3\<rparr>) demo_send_files w)"
  "fst (receive_handler X rn new_token rk offer v q) = snd (receive_task X rn new_token rk None
     (Some \<lparr>pc_pin = ''123'', pc_max_tries = 3\<rparr>) v)"
  by (simp_all add: send_handler_def receive_handler_def case_prod_unfold Let_def)

lemma handlers_end:
  "send_task X sn sk None (Some \<lparr>pc_pin = ''456'', pc_max_tries = 3\<rparr>) demo_send_files w = (Ok (), w') \<Longrightarrow>
     offer_world X d l s p \<Longrightarrow> \<exists>p'. send_handler X sn sk session_id peer w p = (w', Ok (), p')"
  "receive_task X rn new_token rk None (Some \<lparr>pc_pin = ''123'', pc_max_tries = 3\<rparr>) v = (Ok (), v') \<Longrightarrow>
     accept_world X offer d l s q \<Longrightarrow> \<exists>q'. receive_handler X rn new_token rk offer v q = (v', Ok (), q')"
  by (simp_all add: send_handler_def receive_handler_def expect_def world_ends)

text \<open>
  C31: the two peers of the demonstration against each other over a connection that is set up,
  whatever the content of the file, its length included (the announced size is always 100 bytes and is
  not compared with anything): after ten rounds, with the right PIN at the third attempt of three on
  both sides, both handlers have ended well, and the receiver has written the content under the name
  the sender gave.
\<close>

theorem demo_transfers:
  assumes "session_ok X sk rk None None sn rn st rt" and "reads_file content reads"
    and "disk ''/Users/user/Downloads/test/test.mp4'' = (None, [])"
    and "responses = [\<lparr>fr_id = ''test-123-id'', fr_success = True, fr_error = None\<rparr>]"
    and "offer_world X d l s p" and "accept_world X offer d' l' s' q"
  shows "\<exists>sent answers w' p' v' q'.
    exchange
      (\<lambda>ms. w_out (fst (send_handler X sn sk session_id peer ((send_handler_world full None reads)\<lparr>w_in := ms\<rparr>) p)))
      (\<lambda>ms. w_out (fst (receive_handler X rn new_token rk offer
         ((receive_handler_world full' demo_send_files responses)\<lparr>w_in := ms\<rparr>) q))) 10 = (sent, answers) \<and>
    send_handler X sn sk session_id peer ((send_handler_world full None reads)\<lparr>w_in := answers\<rparr>) p = (w', Ok (), p') \<and>
    receive_handler X rn new_token rk offer
      ((receive_handler_world full' demo_send_files responses)\<lparr>w_in := sent\<rparr>) q = (v', Ok (), q') \<and>
    rw_files v' = Some demo_send_files \<and>
    store_files disk demo_send_files (rw_received v') =
      ([(''/Users/user/Downloads/test/test.mp4'', content)], responses, Ok ())"
proof -
  let ?w = "send_handler_world full None reads" and ?v = "receive_handler_world full' demo_send_files responses"
  obtain chunks where chunks: "read_file_to_sender None reads None = (chunks, Ok ())" "concat chunks = content"
    using assms(2) by (rule read_file_complete)
  have "responses \<noteq> []" by (simp add: assms(4))
  from session_exchange [OF assms(1) demo_possible [OF chunks(1) this] demo_guesses, of full new_token full']
  obtain sent answers w' v' where
    run: "exchange (\<lambda>ms. w_out (fst (send_handler X sn sk session_id peer (?w\<lparr>w_in := ms\<rparr>) p)))
        (\<lambda>ms. w_out (fst (receive_handler X rn new_token rk offer (?v\<lparr>w_in := ms\<rparr>) q))) 10 = (sent, answers)"
      "send_task X sn sk None (Some \<lparr>pc_pin = ''456'', pc_max_tries = 3\<rparr>) demo_send_files (?w\<lparr>w_in := answers\<rparr>) = (Ok (), w')"
      "receive_task X rn new_token rk None (Some \<lparr>pc_pin = ''123'', pc_max_tries = 3\<rparr>) (?v\<lparr>w_in := sent\<rparr>) = (Ok (), v')"
      "rw_files v' = Some demo_send_files"
    and "map (\<lambda>(i, ps). (i, concat ps)) (rw_received v') = [(''test-123-id'', content)]"
    by (elim exE conjE) (simp add: handlers_run given_def send_handler_world_def chunks demo_send_files_def demo_file_def)
  then obtain pieces where "rw_received v' = [(''test-123-id'', pieces)]" "concat pieces = content"
    by (auto simp: map_eq_Cons_conv)
  then have "store_files disk demo_send_files (rw_received v') =
      ([(''/Users/user/Downloads/test/test.mp4'', content)], responses, Ok ())"
    using assms(3,4) by (simp add: demo_send_files_def demo_file_def write_file_from_receiver_def write_chunks_all)
  with run handlers_end(1) [OF run(2) assms(5)] handlers_end(2) [OF run(3) assms(6)] show ?thesis by blast
qed

theorem demo_transfers_witness:
  "\<exists>sent v' q'. receive_handler sample_rtc (replicate 32 7) (\<lambda>i. ''t'') \<lparr>sk_inner = [2]\<rparr>
      \<lparr>ss_peer = sample_peer 0, ss_session_id = ''s'', ss_sdp = encode_sdp sample_rtc ''A''\<rparr>
      ((receive_handler_world False demo_send_files [\<lparr>fr_id = ''test-123-id'', fr_success = True, fr_error = None\<rparr>])
        \<lparr>w_in := sent\<rparr>) (sample_peer_world ''B'' '''' (TaskEnded Wait)) = (v', Ok (), q') \<and>
    fst (store_files (\<lambda>_. (None, [])) demo_send_files (rw_received v')) =
      [(''/Users/user/Downloads/test/test.mp4'', [1, 2, 3])]"
proof -
  have session: "session_ok sample_rtc \<lparr>sk_inner = [1]\<rparr> \<lparr>sk_inner = [2]\<rparr> None None (replicate 32 7) (replicate 32 7)
      (sample_session_token [1]) (sample_session_token [2])"
    using sample_session by (simp add: session_ok_def expects_def)
  have reads: "reads_file [1, 2, 3] [Inr [1, 2], Inr [3], Inr []]"
    by (auto simp: reads_file_def intro!: exI [of _ "[[1, 2], [3]]"])
  have sdp: "sdp_ok sample_rtc" by (simp add: sdp_ok_def sample_rtc_def wire_ext_def sample_crypto_ok)
  have worlds: "offer_world sample_rtc ''A'' ''A'' ''B'' (sample_peer_world ''A'' (encode_sdp sample_rtc ''B'') (TaskEnded Wait))"
    "accept_world sample_rtc \<lparr>ss_peer = sample_peer 0, ss_session_id = ''s'', ss_sdp = encode_sdp sample_rtc ''A''\<rparr>
       ''B'' ''B'' ''A'' (sample_peer_world ''B'' '''' (TaskEnded Wait))"
    using decode_encode_sdp [OF sdp valid_utf8_samples(1)] decode_encode_sdp [OF sdp valid_utf8_samples(2)]
    by (simp_all add: offer_world_def accept_world_def set_up_def smooth_def sample_peer_world_def)
  from demo_transfers [OF session reads refl refl worlds, where peer = "sample_peer 1"
      and session_id = "''s''" and full = False and new_token = "\<lambda>i. ''t''" and full' = False]
  show ?thesis by (elim exE conjE) (intro exI conjI, assumption, simp)
qed

text \<open>The loop sends at most once, as the last thing it does.\<close>

lemma webrtc_loop_sends_last:
  assumes "webrtc_loop ends closed messages = (actions, r)" and "DemoSends peer \<in> set actions"
  shows "last actions = DemoSends peer \<and> (\<forall>other. DemoSends other \<notin> set (butlast actions))"
  using assms
proof (induction messages arbitrary: actions)
  case (Cons m ms)
  show ?case
  proof (cases m)
    case (SOffer offer)
    obtain rest r' where rest: "webrtc_loop ends closed ms = (rest, r')" by fastforce
    show ?thesis
    proof (cases "ends (DemoReceives offer)")
      case True
      with Cons.prems SOffer rest have "actions = DemoReceives offer # rest" "r' = r" by auto
      with Cons.IH [of rest] Cons.prems(2) rest show ?thesis by auto
    qed (use Cons.prems SOffer in auto)
  qed (use Cons in auto)
qed auto

end
