(* ===== verification/Sse_Codec.thy ===== *)
theory Sse_Codec
  imports App_Bridge Token_Props
begin

text \<open>
  The serialization of the bridge (\<open>app/rust/src/frb_generated.rs\<close>, the \<open>SseDecode\<close> and \<open>SseEncode\<close>
  instances). An encoder gives the bytes it appends to the serializer, a decoder takes the bytes
  that are still unread and gives the value with the bytes it leaves; where the code unwraps or
  reaches an arm it calls unreachable, the outcome is a panic. The locale \<open>sse_codec\<close> is the
  contract of a type's pair of functions; it is interpreted for every type that crosses the bridge.
\<close>

section \<open>What the code takes from its libraries\<close>

text \<open>
  \<open>native_endian\<close>: the byte order of the machine, \<open>uuid_as_bytes\<close> and \<open>uuid_from_slice\<close> those of the
  crate \<open>uuid\<close>, \<open>de_end\<close> what \<open>SseDeserializer::end\<close> does with the bytes nobody has read.
\<close>

datatype endian = LittleEndian | BigEndian

record sse_ext =
  native_endian :: endian
  uuid_as_bytes :: "uuid \<Rightarrow> byte list"
  uuid_from_slice :: "byte list \<Rightarrow> uuid option"
  de_end :: "byte list \<Rightarrow> unit res"

text \<open>A \<open>Uuid\<close> is read back from its own sixteen bytes, and a message read to its end is accepted.\<close>

definition sse_ok :: "sse_ext \<Rightarrow> bool" where
  "sse_ok X \<longleftrightarrow>
     (\<forall>i. uuid_from_slice X (uuid_as_bytes X i) = Some i \<and> length (uuid_as_bytes X i) = 16) \<and> de_end X [] = Ok ()"

type_synonym i32 = "32 word"
type_synonym 'a sse_decoder = "byte list \<Rightarrow> ('a \<times> byte list) res"

section \<open>Readers\<close>

text \<open>
  What every decoder keeps to: it panics or gives a value, and bytes behind the ones it has read
  do not change what it reads.
\<close>

definition sse_reader :: "'a sse_decoder \<Rightarrow> bool" where
  "sse_reader dec \<longleftrightarrow>
     (\<forall>d. (\<exists>s. dec d = Panic s) \<or> (\<exists>x r. dec d = Ok (x, r) \<and> (\<forall>e. dec (d @ e) = Ok (x, r @ e))))"

named_theorems reader_intros "decoders built from readers are readers"

lemma sse_readerE:
  assumes "sse_reader dec"
  obtains s where "dec d = Panic s" | x r where "dec d = Ok (x, r)" "\<And>e. dec (d @ e) = Ok (x, r @ e)"
  using assms unfolding sse_reader_def by blast

lemma reader_return [reader_intros]: "sse_reader (\<lambda>d. Ok (x, d))"
  by (simp add: sse_reader_def)

lemma reader_panic [reader_intros]: "sse_reader (\<lambda>d. Panic s)"
  by (simp add: sse_reader_def)

lemma reader_bind [reader_intros]:
  assumes "sse_reader dec" and "\<And>x. sse_reader (f x)"
  shows "sse_reader (\<lambda>d. rbind (dec d) (\<lambda>(x, d). f x d))"
  unfolding sse_reader_def
proof
  fix d
  let ?g = "\<lambda>d. rbind (dec d) (\<lambda>(x, d). f x d)"
  show "(\<exists>s. ?g d = Panic s) \<or> (\<exists>x r. ?g d = Ok (x, r) \<and> (\<forall>e. ?g (d @ e) = Ok (x, r @ e)))"
  proof (rule sse_readerE [OF assms(1), of d])
    fix s
    assume "dec d = Panic s"
    then show ?thesis by simp
  next
    fix x r
    assume first: "dec d = Ok (x, r)" "\<And>e. dec (d @ e) = Ok (x, r @ e)"
    show ?thesis
      by (rule sse_readerE [OF assms(2) [of x], of r]) (auto simp: first)
  qed
qed

lemma reader_if [reader_intros]:
  "sse_reader f \<Longrightarrow> sse_reader g \<Longrightarrow> sse_reader (\<lambda>d. if b then f d else g d)"
  by (cases b) simp_all

lemma reader_case_option [reader_intros]:
  "sse_reader f \<Longrightarrow> (\<And>x. sse_reader (g x)) \<Longrightarrow> sse_reader (\<lambda>d. case y of None \<Rightarrow> f d | Some x \<Rightarrow> g x d)"
  by (cases y) auto

text \<open>A message cut short is refused, never read as another value.\<close>

lemma reader_truncated:
  assumes "sse_reader dec" and all: "dec m = Ok (x, [])" and "k < length m"
  shows "\<exists>s. dec (take k m) = Panic s"
proof (rule sse_readerE [OF assms(1), of "take k m"])
  fix s
  assume "dec (take k m) = Panic s"
  then show ?thesis ..
next
  fix y r
  assume "\<And>e. dec (take k m @ e) = Ok (y, r @ e)"
  then have "dec m = Ok (y, r @ drop k m)" by (metis append_take_drop_id)
  then have "[] = r @ drop k m" using all by (metis res.inject(1) prod.inject)
  then have "drop k m = []" by (metis Nil_is_append_conv)
  then show ?thesis using assms(3) by simp
qed

section \<open>The contract of a codec\<close>

text \<open>
  A link is an encoder on one side of the bridge with the decoder on the other; \<open>view\<close> is what the
  reader makes of the value written. A codec is a link whose reader gets the value itself.
\<close>

locale sse_link =
  fixes enc :: "'a \<Rightarrow> byte list" and dec :: "'b sse_decoder" and view :: "'a \<Rightarrow> 'b" and ok :: "'a \<Rightarrow> bool"
  assumes reader: "sse_reader dec"
    and round: "ok x \<Longrightarrow> dec (enc x @ d) = Ok (view x, d)"
begin

lemma round_all: "ok x \<Longrightarrow> dec (enc x) = Ok (view x, [])"
  using round [of x "[]"] by simp

lemma truncated: "ok x \<Longrightarrow> k < length (enc x) \<Longrightarrow> \<exists>s. dec (take k (enc x)) = Panic s"
  by (rule reader_truncated [OF reader round_all])

end

locale sse_codec = sse_link enc dec "\<lambda>x. x" ok
  for enc :: "'a \<Rightarrow> byte list" and dec :: "'a sse_decoder" and ok :: "'a \<Rightarrow> bool"
begin

lemma prefix_free:
  assumes "ok x" and "ok y" and "enc x @ d = enc y @ e"
  shows "x = y \<and> d = e"
proof -
  have "Ok (x, d) = dec (enc y @ e)" using round [OF assms(1), of d] assms(3) by (metis (no_types))
  also have "\<dots> = Ok (y, e)" by (rule round [OF assms(2)])
  finally show ?thesis by simp
qed

end

section \<open>Integers, booleans and unit\<close>

text \<open>\<open>write_u16::<NativeEndian>\<close> and its like: the low \<open>n\<close> bytes in the machine's order.\<close>

definition write_int :: "sse_ext \<Rightarrow> nat \<Rightarrow> u64 \<Rightarrow> byte list" where
  "write_int X n x =
     (case native_endian X of LittleEndian \<Rightarrow> to_le_bytes n x | BigEndian \<Rightarrow> rev (to_le_bytes n x))"

definition read_int :: "sse_ext \<Rightarrow> nat \<Rightarrow> u64 sse_decoder" where
  "read_int X n d =
     (if length d < n then Panic ''called Result::unwrap() on an Err value: UnexpectedEof''
      else Ok (case native_endian X of
                 LittleEndian \<Rightarrow> from_le_bytes (take n d)
               | BigEndian \<Rightarrow> from_le_bytes (rev (take n d)), drop n d))"

definition sse_encode_u8 :: "sse_ext \<Rightarrow> u8 \<Rightarrow> byte list" where
  "sse_encode_u8 X v = [v]"

definition sse_decode_u8 :: "sse_ext \<Rightarrow> u8 sse_decoder" where
  "sse_decode_u8 X d = rbind (read_int X 1 d) (\<lambda>(v, d). Ok (ucast v, d))"

definition sse_encode_u16 :: "sse_ext \<Rightarrow> u16 \<Rightarrow> byte list" where
  "sse_encode_u16 X v = write_int X 2 (ucast v)"

definition sse_decode_u16 :: "sse_ext \<Rightarrow> u16 sse_decoder" where
  "sse_decode_u16 X d = rbind (read_int X 2 d) (\<lambda>(v, d). Ok (ucast v, d))"

definition sse_encode_i32 :: "sse_ext \<Rightarrow> i32 \<Rightarrow> byte list" where
  "sse_encode_i32 X v = write_int X 4 (ucast v)"

definition sse_decode_i32 :: "sse_ext \<Rightarrow> i32 sse_decoder" where
  "sse_decode_i32 X d = rbind (read_int X 4 d) (\<lambda>(v, d). Ok (ucast v, d))"

definition sse_encode_u64 :: "sse_ext \<Rightarrow> u64 \<Rightarrow> byte list" where
  "sse_encode_u64 X v = write_int X 8 v"

definition sse_decode_u64 :: "sse_ext \<Rightarrow> u64 sse_decoder" where
  "sse_decode_u64 X d = read_int X 8 d"

text \<open>\<open>usize\<close> and \<open>isize\<close> travel as 64 bits; a \<open>usize\<close> of the model is 64 bits wide.\<close>

definition sse_encode_usize :: "sse_ext \<Rightarrow> u64 \<Rightarrow> byte list" where
  "sse_encode_usize X v = write_int X 8 v"

definition sse_decode_usize :: "sse_ext \<Rightarrow> u64 sse_decoder" where
  "sse_decode_usize X d = read_int X 8 d"

definition sse_encode_isize :: "sse_ext \<Rightarrow> u64 \<Rightarrow> byte list" where
  "sse_encode_isize X v = write_int X 8 v"

definition sse_decode_isize :: "sse_ext \<Rightarrow> u64 sse_decoder" where
  "sse_decode_isize X d = read_int X 8 d"

definition sse_encode_bool :: "sse_ext \<Rightarrow> bool \<Rightarrow> byte list" where
  "sse_encode_bool X b = [if b then 1 else 0]"

definition sse_decode_bool :: "sse_ext \<Rightarrow> bool sse_decoder" where
  "sse_decode_bool X d = rbind (sse_decode_u8 X d) (\<lambda>(v, d). Ok (v \<noteq> 0, d))"

definition sse_encode_unit :: "sse_ext \<Rightarrow> unit \<Rightarrow> byte list" where
  "sse_encode_unit X u = []"

definition sse_decode_unit :: "sse_ext \<Rightarrow> unit sse_decoder" where
  "sse_decode_unit X d = Ok ((), d)"

lemma length_write_int [simp]: "length (write_int X n x) = n"
  by (simp add: write_int_def split: endian.splits)

lemma read_write_int: "take_bit (8 * n) x = x \<Longrightarrow> read_int X n (write_int X n x @ d) = Ok (x, d)"
  by (auto simp: read_int_def write_int_def from_le_to_le_bytes split: endian.splits)

lemma reader_read_int [reader_intros]: "sse_reader (read_int X n)"
  by (auto simp: sse_reader_def read_int_def split: endian.splits)

lemma take_bit_ucast_16 [simp]: "take_bit 16 (ucast (v :: u16) :: u64) = ucast v"
  by (rule bit_word_eqI) (auto simp: bit_simps dest: bit_imp_le_length)

lemma take_bit_ucast_32 [simp]: "take_bit 32 (ucast (v :: i32) :: u64) = ucast v"
  by (rule bit_word_eqI) (auto simp: bit_simps dest: bit_imp_le_length)

lemma take_bit_64 [simp]: "take_bit 64 (v :: u64) = v"
  by (rule bit_word_eqI) (auto simp: bit_simps)

lemma ucast_ucast_same [simp]:
  "ucast (ucast (v :: u16) :: u64) = v" "ucast (ucast (w :: i32) :: u64) = w" "ucast (ucast (b :: u8) :: u64) = b"
  by (rule bit_word_eqI, simp add: bit_simps)+

lemma read_byte [simp]: "sse_decode_u8 X (b # d) = Ok (b, d)"
  by (cases "native_endian X") (simp_all add: sse_decode_u8_def read_int_def)

lemma reader_ints [reader_intros]:
  "sse_reader (sse_decode_u8 X)" "sse_reader (sse_decode_u16 X)" "sse_reader (sse_decode_i32 X)"
  "sse_reader (sse_decode_u64 X)" "sse_reader (sse_decode_usize X)" "sse_reader (sse_decode_isize X)"
  unfolding sse_decode_u8_def [abs_def] sse_decode_u16_def [abs_def] sse_decode_i32_def [abs_def]
    sse_decode_u64_def [abs_def] sse_decode_usize_def [abs_def] sse_decode_isize_def [abs_def]
  by (intro reader_intros)+

lemma reader_bool [reader_intros]: "sse_reader (sse_decode_bool X)" "sse_reader (sse_decode_unit X)"
  unfolding sse_decode_bool_def [abs_def] sse_decode_unit_def [abs_def]
  by (intro reader_intros)+

lemma round_ints [simp]:
  "sse_decode_u8 X (sse_encode_u8 X a @ d) = Ok (a, d)"
  "sse_decode_u16 X (sse_encode_u16 X b @ d) = Ok (b, d)"
  "sse_decode_i32 X (sse_encode_i32 X c @ d) = Ok (c, d)"
  "sse_decode_u64 X (sse_encode_u64 X e @ d) = Ok (e, d)"
  "sse_decode_usize X (sse_encode_usize X e @ d) = Ok (e, d)"
  "sse_decode_isize X (sse_encode_isize X e @ d) = Ok (e, d)"
  by (simp_all add: sse_encode_u8_def sse_encode_u16_def sse_decode_u16_def sse_encode_i32_def
    sse_decode_i32_def sse_encode_u64_def sse_decode_u64_def sse_encode_usize_def sse_decode_usize_def
    sse_encode_isize_def sse_decode_isize_def read_write_int)

lemma round_bool [simp]:
  "sse_decode_bool X (sse_encode_bool X b @ d) = Ok (b, d)"
  "sse_decode_unit X (sse_encode_unit X u @ d) = Ok (u, d)"
  by (simp_all add: sse_encode_bool_def sse_decode_bool_def sse_encode_unit_def sse_decode_unit_def)

interpretation sse_u8: sse_codec "sse_encode_u8 X" "sse_decode_u8 X" "\<lambda>_. True" for X
  by unfold_locales (simp_all add: reader_intros)

interpretation sse_u16: sse_codec "sse_encode_u16 X" "sse_decode_u16 X" "\<lambda>_. True" for X
  by unfold_locales (simp_all add: reader_intros)

interpretation sse_i32: sse_codec "sse_encode_i32 X" "sse_decode_i32 X" "\<lambda>_. True" for X
  by unfold_locales (simp_all add: reader_intros)

interpretation sse_u64: sse_codec "sse_encode_u64 X" "sse_decode_u64 X" "\<lambda>_. True" for X
  by unfold_locales (simp_all add: reader_intros)

interpretation sse_usize: sse_codec "sse_encode_usize X" "sse_decode_usize X" "\<lambda>_. True" for X
  by unfold_locales (simp_all add: reader_intros)

interpretation sse_isize: sse_codec "sse_encode_isize X" "sse_decode_isize X" "\<lambda>_. True" for X
  by unfold_locales (simp_all add: reader_intros)

interpretation sse_bool: sse_codec "sse_encode_bool X" "sse_decode_bool X" "\<lambda>_. True" for X
  by unfold_locales (simp_all add: reader_intros)

section \<open>Sequences and options\<close>

text \<open>
  The loop of a \<open>Vec\<close>: \<open>0..len_\<close> runs over nothing when the length read is negative; the length
  written is \<open>self.len() as i32\<close>, which wraps. The instances of \<open>Vec\<close> and \<open>Option\<close> share these two
  pairs; each is a definition of its own below.
\<close>

fun sse_decode_times :: "'a sse_decoder \<Rightarrow> nat \<Rightarrow> 'a list sse_decoder" where
  "sse_decode_times dec 0 d = Ok ([], d)"
| "sse_decode_times dec (Suc n) d =
     rbind (dec d) (\<lambda>(x, d). rbind (sse_decode_times dec n d) (\<lambda>(xs, d). Ok (x # xs, d)))"

definition sse_encode_vec :: "sse_ext \<Rightarrow> ('a \<Rightarrow> byte list) \<Rightarrow> 'a list \<Rightarrow> byte list" where
  "sse_encode_vec X enc xs = sse_encode_i32 X (word_of_nat (length xs)) @ concat (map enc xs)"

definition sse_decode_vec :: "sse_ext \<Rightarrow> 'a sse_decoder \<Rightarrow> 'a list sse_decoder" where
  "sse_decode_vec X dec d = rbind (sse_decode_i32 X d) (\<lambda>(len, d). sse_decode_times dec (nat (sint len)) d)"

definition sse_encode_option :: "sse_ext \<Rightarrow> ('a \<Rightarrow> byte list) \<Rightarrow> 'a option \<Rightarrow> byte list" where
  "sse_encode_option X enc v =
     sse_encode_bool X (v \<noteq> None) @ (case v of Some value \<Rightarrow> enc value | None \<Rightarrow> [])"

definition sse_decode_option :: "sse_ext \<Rightarrow> 'a sse_decoder \<Rightarrow> 'a option sse_decoder" where
  "sse_decode_option X dec d =
     rbind (sse_decode_bool X d) (\<lambda>(some, d).
       if some then rbind (dec d) (\<lambda>(value, d). Ok (Some value, d)) else Ok (None, d))"

lemma reader_times: "sse_reader dec \<Longrightarrow> sse_reader (sse_decode_times dec n)"
proof (induction n)
  case 0
  have "sse_decode_times dec 0 = (\<lambda>d. Ok ([], d))" by (rule ext) simp
  then show ?case by (simp add: reader_return)
next
  case (Suc n)
  have "sse_decode_times dec (Suc n) =
      (\<lambda>d. rbind (dec d) (\<lambda>(x, d). rbind (sse_decode_times dec n d) (\<lambda>(xs, d). Ok (x # xs, d))))"
    by (rule ext) simp
  with Suc show ?case by (auto intro!: reader_intros)
qed

lemma reader_vec [reader_intros]: "sse_reader dec \<Longrightarrow> sse_reader (sse_decode_vec X dec)"
  unfolding sse_decode_vec_def [abs_def] by (intro reader_intros reader_times)

lemma reader_option [reader_intros]: "sse_reader dec \<Longrightarrow> sse_reader (sse_decode_option X dec)"
  unfolding sse_decode_option_def [abs_def] by (intro reader_intros)

text \<open>A length a 32-bit integer holds comes back as it was.\<close>

definition vec_fits :: "'a list \<Rightarrow> bool" where
  "vec_fits xs \<longleftrightarrow> length xs < 2 ^ 31"

lemma sint_vec_length: "vec_fits xs \<Longrightarrow> sint (word_of_nat (length xs) :: i32) = int (length xs)"
proof -
  assume "vec_fits xs"
  then have "signed_take_bit 31 (int (length xs)) = int (length xs)"
    by (intro signed_take_bit_int_eq_self) (auto simp: vec_fits_def)
  then show ?thesis by (simp add: signed_of_nat)
qed

lemma sint_length: "vec_fits xs \<Longrightarrow> nat (sint (word_of_nat (length xs) :: i32)) = length xs"
  by (simp add: sint_vec_length)

text \<open>One element more than a 32-bit integer counts is read as a negative length: an empty sequence.\<close>

lemma sint_length_wraps: "length xs = 2 ^ 31 \<Longrightarrow> nat (sint (word_of_nat (length xs) :: i32)) = 0"
proof -
  assume "length xs = 2 ^ 31"
  then have "(word_of_nat (length xs) :: i32) = 0x80000000" by simp
  then show ?thesis by simp
qed

context sse_link
begin

lemma round_times:
  "\<forall>x \<in> set xs. ok x \<Longrightarrow> sse_decode_times dec (length xs) (concat (map enc xs) @ d) = Ok (map view xs, d)"
  by (induction xs) (simp_all add: round)

lemma round_vec:
  "vec_fits xs \<Longrightarrow> \<forall>x \<in> set xs. ok x \<Longrightarrow> sse_decode_vec X dec (sse_encode_vec X enc xs @ d) = Ok (map view xs, d)"
  by (simp add: sse_decode_vec_def sse_encode_vec_def sint_length round_times)

lemma round_option:
  "(\<And>x. v = Some x \<Longrightarrow> ok x) \<Longrightarrow>
     sse_decode_option X dec (sse_encode_option X enc v @ d) = Ok (map_option view v, d)"
  by (cases v) (simp_all add: sse_decode_option_def sse_encode_option_def round)

text \<open>A sequence one longer than an \<open>i32\<close> counts is read as the empty one, its elements left over.\<close>

lemma vec_wraps:
  "length xs = 2 ^ 31 \<Longrightarrow>
     sse_decode_vec X dec (sse_encode_vec X enc xs) = Ok ([], concat (map enc xs))"
  by (simp add: sse_decode_vec_def sse_encode_vec_def sint_length_wraps)

end

context sse_codec
begin

lemma round_opt: "pred_option ok v \<Longrightarrow> sse_decode_option X dec (sse_encode_option X enc v @ d) = Ok (v, d)"
  using round_option [of v X d] by (auto simp: option.map_ident option.pred_set)

end

section \<open>Strings, identifiers, sets and streams\<close>

definition sse_encode_list_prim_u8 :: "sse_ext \<Rightarrow> byte list \<Rightarrow> byte list" where
  "sse_encode_list_prim_u8 X = sse_encode_vec X (sse_encode_u8 X)"

definition sse_decode_list_prim_u8 :: "sse_ext \<Rightarrow> byte list sse_decoder" where
  "sse_decode_list_prim_u8 X = sse_decode_vec X (sse_decode_u8 X)"

definition sse_encode_string :: "sse_ext \<Rightarrow> string \<Rightarrow> byte list" where
  "sse_encode_string X s = sse_encode_list_prim_u8 X (as_bytes s)"

definition sse_decode_string :: "sse_ext \<Rightarrow> string sse_decoder" where
  "sse_decode_string X d =
     rbind (sse_decode_list_prim_u8 X d) (\<lambda>(inner, d).
       case from_utf8 inner of
         None \<Rightarrow> Panic ''called Result::unwrap() on an Err value: FromUtf8Error''
       | Some s \<Rightarrow> Ok (s, d))"

definition sse_encode_uuid :: "sse_ext \<Rightarrow> uuid \<Rightarrow> byte list" where
  "sse_encode_uuid X i = sse_encode_list_prim_u8 X (uuid_as_bytes X i)"

definition sse_decode_uuid :: "sse_ext \<Rightarrow> uuid sse_decoder" where
  "sse_decode_uuid X d =
     rbind (sse_decode_list_prim_u8 X d) (\<lambda>(inner, d).
       case uuid_from_slice X inner of None \<Rightarrow> Panic ''fail to decode uuid'' | Some i \<Rightarrow> Ok (i, d))"

definition sse_encode_list_string :: "sse_ext \<Rightarrow> string list \<Rightarrow> byte list" where
  "sse_encode_list_string X = sse_encode_vec X (sse_encode_string X)"

definition sse_decode_list_string :: "sse_ext \<Rightarrow> string list sse_decoder" where
  "sse_decode_list_string X = sse_decode_vec X (sse_decode_string X)"

definition sse_encode_opt_string :: "sse_ext \<Rightarrow> string option \<Rightarrow> byte list" where
  "sse_encode_opt_string X = sse_encode_option X (sse_encode_string X)"

definition sse_decode_opt_string :: "sse_ext \<Rightarrow> string option sse_decoder" where
  "sse_decode_opt_string X = sse_decode_option X (sse_decode_string X)"

text \<open>A \<open>HashSet<String>\<close> is the list of its elements, each once.\<close>

definition sse_encode_set_string :: "sse_ext \<Rightarrow> string list \<Rightarrow> byte list" where
  "sse_encode_set_string X s = sse_encode_list_string X s"

definition sse_decode_set_string :: "sse_ext \<Rightarrow> string list sse_decoder" where
  "sse_decode_set_string X d = rbind (sse_decode_list_string X d) (\<lambda>(inner, d). Ok (remdups inner, d))"

text \<open>
  A \<open>StreamSink\<close> is the text Dart serialized it to, from which \<open>StreamSink::deserialize\<close> makes the
  sink; it is never sent back. An error becomes its debug text.
\<close>

definition sse_decode_stream_sink :: "sse_ext \<Rightarrow> string sse_decoder" where
  "sse_decode_stream_sink X = sse_decode_string X"

definition sse_encode_stream_sink :: "sse_ext \<Rightarrow> string \<Rightarrow> byte list res" where
  "sse_encode_stream_sink X sink = Panic ''not implemented: ''"

definition sse_encode_anyhow :: "sse_ext \<Rightarrow> (err \<Rightarrow> string) \<Rightarrow> err \<Rightarrow> byte list" where
  "sse_encode_anyhow X debug e = sse_encode_string X (debug e)"

definition sse_decode_anyhow :: "sse_ext \<Rightarrow> err sse_decoder" where
  "sse_decode_anyhow X d = rbind (sse_decode_string X d) (\<lambda>(inner, d). Ok (Msg inner, d))"

text \<open>
  An object Rust keeps and Dart refers to (\<open>RustOpaque\<close>) is its address: Rust sends it with a size
  for Dart's garbage collector, Dart sends the address alone. \<open>DartOpaque\<close> is the reverse.
\<close>

type_synonym rust_opaque = u64
type_synonym dart_opaque = u64

definition sse_encode_rust_opaque :: "sse_ext \<Rightarrow> rust_opaque \<times> i32 \<Rightarrow> byte list" where
  "sse_encode_rust_opaque X raw = (case raw of (ptr, sz) \<Rightarrow> sse_encode_usize X ptr @ sse_encode_i32 X sz)"

definition sse_decode_rust_opaque :: "sse_ext \<Rightarrow> rust_opaque sse_decoder" where
  "sse_decode_rust_opaque X = sse_decode_usize X"

definition sse_decode_dart_opaque :: "sse_ext \<Rightarrow> dart_opaque sse_decoder" where
  "sse_decode_dart_opaque X = sse_decode_usize X"

definition sse_encode_dart_opaque :: "sse_ext \<Rightarrow> dart_opaque \<Rightarrow> byte list" where
  "sse_encode_dart_opaque X = sse_encode_usize X"

text \<open>What comes back as it was: text that is UTF-8, of a length an \<open>i32\<close> holds.\<close>

definition text_fits :: "string \<Rightarrow> bool" where
  "text_fits s \<longleftrightarrow> valid_utf8 (as_bytes s) \<and> vec_fits s"

definition texts_fit :: "string list \<Rightarrow> bool" where
  "texts_fit ss \<longleftrightarrow> vec_fits ss \<and> list_all text_fits ss"

definition opt_text_fits :: "string option \<Rightarrow> bool" where
  "opt_text_fits v \<longleftrightarrow> pred_option text_fits v"

lemma vec_fits_as_bytes [simp]: "vec_fits (as_bytes s) \<longleftrightarrow> vec_fits s"
  by (simp add: vec_fits_def)

lemma round_bytes [simp]:
  "vec_fits b \<Longrightarrow> sse_decode_list_prim_u8 X (sse_encode_list_prim_u8 X b @ d) = Ok (b, d)"
  by (simp add: sse_decode_list_prim_u8_def sse_encode_list_prim_u8_def sse_u8.round_vec)

lemma round_string [simp]: "text_fits s \<Longrightarrow> sse_decode_string X (sse_encode_string X s @ d) = Ok (s, d)"
  by (simp add: sse_decode_string_def sse_encode_string_def text_fits_def from_utf8_def)

lemma round_uuid [simp]: "sse_ok X \<Longrightarrow> sse_decode_uuid X (sse_encode_uuid X i @ d) = Ok (i, d)"
  by (simp add: sse_decode_uuid_def sse_encode_uuid_def sse_ok_def vec_fits_def)

lemma reader_string [reader_intros]:
  "sse_reader (sse_decode_list_prim_u8 X)" "sse_reader (sse_decode_string X)" "sse_reader (sse_decode_uuid X)"
  unfolding sse_decode_list_prim_u8_def sse_decode_string_def [abs_def] sse_decode_uuid_def [abs_def]
  by (intro reader_intros)+

interpretation sse_bytes: sse_codec "sse_encode_list_prim_u8 X" "sse_decode_list_prim_u8 X" vec_fits for X
  by unfold_locales (simp_all add: reader_intros)

interpretation sse_string: sse_codec "sse_encode_string X" "sse_decode_string X" text_fits for X
  by unfold_locales (simp_all add: reader_intros)

interpretation sse_uuid: sse_codec "sse_encode_uuid X" "sse_decode_uuid X" "\<lambda>_. sse_ok X" for X
  by unfold_locales (simp_all add: reader_intros)

lemma reader_texts [reader_intros]:
  "sse_reader (sse_decode_list_string X)" "sse_reader (sse_decode_opt_string X)" "sse_reader (sse_decode_set_string X)"
  "sse_reader (sse_decode_stream_sink X)" "sse_reader (sse_decode_rust_opaque X)" "sse_reader (sse_decode_dart_opaque X)"
  "sse_reader (sse_decode_anyhow X)"
  unfolding sse_decode_list_string_def sse_decode_opt_string_def sse_decode_set_string_def [abs_def]
    sse_decode_stream_sink_def sse_decode_rust_opaque_def sse_decode_dart_opaque_def sse_decode_anyhow_def [abs_def]
  by (intro reader_intros)+

lemma round_texts [simp]:
  "texts_fit ss \<Longrightarrow> sse_decode_list_string X (sse_encode_list_string X ss @ d) = Ok (ss, d)"
  "opt_text_fits v \<Longrightarrow> sse_decode_opt_string X (sse_encode_opt_string X v @ d) = Ok (v, d)"
  "texts_fit ss \<Longrightarrow> distinct ss \<Longrightarrow> sse_decode_set_string X (sse_encode_set_string X ss @ d) = Ok (ss, d)"
  by (auto simp: sse_decode_list_string_def sse_encode_list_string_def sse_decode_opt_string_def
    sse_encode_opt_string_def sse_decode_set_string_def sse_encode_set_string_def texts_fit_def opt_text_fits_def
    list_all_iff sse_string.round_vec distinct_remdups_id sse_string.round_opt)

lemma round_handles [simp]:
  "sse_decode_rust_opaque X (sse_encode_usize X h @ d) = Ok (h, d)"
  "sse_decode_dart_opaque X (sse_encode_dart_opaque X h @ d) = Ok (h, d)"
  "text_fits s \<Longrightarrow> sse_decode_stream_sink X (sse_encode_string X s @ d) = Ok (s, d)"
  by (simp_all add: sse_decode_rust_opaque_def sse_decode_dart_opaque_def sse_encode_dart_opaque_def sse_decode_stream_sink_def)

interpretation sse_list_string: sse_codec "sse_encode_list_string X" "sse_decode_list_string X" texts_fit for X
  by unfold_locales (simp_all add: reader_intros)

interpretation sse_opt_string: sse_codec "sse_encode_opt_string X" "sse_decode_opt_string X" opt_text_fits for X
  by unfold_locales (simp_all add: reader_intros)

end
