(* ===== verification/Sse_Records.thy ===== *)
theory Sse_Records
  imports Sse_Codec
begin

text \<open>
  The records and enumerations that cross the bridge: each \<open>sse_encode\<close> writes the fields in the
  order of the code, each \<open>sse_decode\<close> reads them, and the contract of \<open>Sse_Codec\<close> holds for the
  pair. The predicates \<open>..._fits\<close> say of a value that its texts are UTF-8 and its sequences of a
  length an \<open>i32\<close> holds.
\<close>

section \<open>Devices and clients\<close>

definition sse_encode_device_type :: "sse_ext \<Rightarrow> device_type \<Rightarrow> byte list" where
  "sse_encode_device_type X v =
     sse_encode_i32 X (case v of Mobile \<Rightarrow> 0 | Desktop \<Rightarrow> 1 | Web \<Rightarrow> 2 | Headless \<Rightarrow> 3 | Server \<Rightarrow> 4)"

definition sse_decode_device_type :: "sse_ext \<Rightarrow> device_type sse_decoder" where
  "sse_decode_device_type X d =
     rbind (sse_decode_i32 X d) (\<lambda>(inner, d).
       if inner = 0 then Ok (Mobile, d)
       else if inner = 1 then Ok (Desktop, d)
       else if inner = 2 then Ok (Web, d)
       else if inner = 3 then Ok (Headless, d)
       else if inner = 4 then Ok (Server, d)
       else Panic ''Invalid variant for DeviceType'')"

definition sse_encode_opt_device_type :: "sse_ext \<Rightarrow> device_type option \<Rightarrow> byte list" where
  "sse_encode_opt_device_type X = sse_encode_option X (sse_encode_device_type X)"

definition sse_decode_opt_device_type :: "sse_ext \<Rightarrow> device_type option sse_decoder" where
  "sse_decode_opt_device_type X = sse_decode_option X (sse_decode_device_type X)"

definition sse_encode_client_info :: "sse_ext \<Rightarrow> client_info \<Rightarrow> byte list" where
  "sse_encode_client_info X v =
     sse_encode_uuid X (ci_id v) @ sse_encode_string X (ci_alias v) @ sse_encode_string X (ci_version v) @
     sse_encode_opt_string X (ci_device_model v) @ sse_encode_opt_device_type X (ci_device_type v) @
     sse_encode_string X (ci_token v)"

definition sse_decode_client_info :: "sse_ext \<Rightarrow> client_info sse_decoder" where
  "sse_decode_client_info X d =
     rbind (sse_decode_uuid X d) (\<lambda>(i, d).
     rbind (sse_decode_string X d) (\<lambda>(als, d).
     rbind (sse_decode_string X d) (\<lambda>(version, d).
     rbind (sse_decode_opt_string X d) (\<lambda>(deviceModel, d).
     rbind (sse_decode_opt_device_type X d) (\<lambda>(deviceType, d).
     rbind (sse_decode_string X d) (\<lambda>(token, d).
     Ok (\<lparr>ci_id = i, ci_alias = als, ci_version = version, ci_device_model = deviceModel,
          ci_device_type = deviceType, ci_token = token\<rparr>, d)))))))"

definition sse_encode_client_info_without_id :: "sse_ext \<Rightarrow> client_info_without_id \<Rightarrow> byte list" where
  "sse_encode_client_info_without_id X v =
     sse_encode_string X (ciw_alias v) @ sse_encode_string X (ciw_version v) @
     sse_encode_opt_string X (ciw_device_model v) @ sse_encode_opt_device_type X (ciw_device_type v) @
     sse_encode_string X (ciw_token v)"

definition sse_decode_client_info_without_id :: "sse_ext \<Rightarrow> client_info_without_id sse_decoder" where
  "sse_decode_client_info_without_id X d =
     rbind (sse_decode_string X d) (\<lambda>(als, d).
     rbind (sse_decode_string X d) (\<lambda>(version, d).
     rbind (sse_decode_opt_string X d) (\<lambda>(deviceModel, d).
     rbind (sse_decode_opt_device_type X d) (\<lambda>(deviceType, d).
     rbind (sse_decode_string X d) (\<lambda>(token, d).
     Ok (\<lparr>ciw_alias = als, ciw_version = version, ciw_device_model = deviceModel,
          ciw_device_type = deviceType, ciw_token = token\<rparr>, d))))))"

definition sse_encode_proposing_client_info :: "sse_ext \<Rightarrow> proposing_client_info \<Rightarrow> byte list" where
  "sse_encode_proposing_client_info X v =
     sse_encode_string X (pi_alias v) @ sse_encode_string X (pi_version v) @
     sse_encode_opt_string X (pi_device_model v) @ sse_encode_opt_device_type X (pi_device_type v)"

definition sse_decode_proposing_client_info :: "sse_ext \<Rightarrow> proposing_client_info sse_decoder" where
  "sse_decode_proposing_client_info X d =
     rbind (sse_decode_string X d) (\<lambda>(als, d).
     rbind (sse_decode_string X d) (\<lambda>(version, d).
     rbind (sse_decode_opt_string X d) (\<lambda>(deviceModel, d).
     rbind (sse_decode_opt_device_type X d) (\<lambda>(deviceType, d).
     Ok (\<lparr>pi_alias = als, pi_version = version, pi_device_model = deviceModel, pi_device_type = deviceType\<rparr>, d)))))"

definition sse_encode_list_client_info :: "sse_ext \<Rightarrow> client_info list \<Rightarrow> byte list" where
  "sse_encode_list_client_info X = sse_encode_vec X (sse_encode_client_info X)"

definition sse_decode_list_client_info :: "sse_ext \<Rightarrow> client_info list sse_decoder" where
  "sse_decode_list_client_info X = sse_decode_vec X (sse_decode_client_info X)"

section \<open>Keys and PIN configuration\<close>

definition sse_encode_key_pair :: "sse_ext \<Rightarrow> key_pair \<Rightarrow> byte list" where
  "sse_encode_key_pair X v = sse_encode_string X (kp_private_key v) @ sse_encode_string X (kp_public_key v)"

definition sse_decode_key_pair :: "sse_ext \<Rightarrow> key_pair sse_decoder" where
  "sse_decode_key_pair X d =
     rbind (sse_decode_string X d) (\<lambda>(privateKey, d).
     rbind (sse_decode_string X d) (\<lambda>(publicKey, d).
     Ok (\<lparr>kp_private_key = privateKey, kp_public_key = publicKey\<rparr>, d)))"

definition sse_encode_expecting_public_key :: "sse_ext \<Rightarrow> expecting_public_key \<Rightarrow> byte list" where
  "sse_encode_expecting_public_key X v = sse_encode_string X (ek_public_key v) @ sse_encode_string X (ek_kind v)"

definition sse_decode_expecting_public_key :: "sse_ext \<Rightarrow> expecting_public_key sse_decoder" where
  "sse_decode_expecting_public_key X d =
     rbind (sse_decode_string X d) (\<lambda>(publicKey, d).
     rbind (sse_decode_string X d) (\<lambda>(kind, d).
     Ok (\<lparr>ek_public_key = publicKey, ek_kind = kind\<rparr>, d)))"

definition sse_encode_opt_expecting_public_key :: "sse_ext \<Rightarrow> expecting_public_key option \<Rightarrow> byte list" where
  "sse_encode_opt_expecting_public_key X = sse_encode_option X (sse_encode_expecting_public_key X)"

definition sse_decode_opt_expecting_public_key :: "sse_ext \<Rightarrow> expecting_public_key option sse_decoder" where
  "sse_decode_opt_expecting_public_key X = sse_decode_option X (sse_decode_expecting_public_key X)"

definition sse_encode_pin_config :: "sse_ext \<Rightarrow> pin_config \<Rightarrow> byte list" where
  "sse_encode_pin_config X v = sse_encode_string X (pc_pin v) @ sse_encode_u8 X (pc_max_tries v)"

definition sse_decode_pin_config :: "sse_ext \<Rightarrow> pin_config sse_decoder" where
  "sse_decode_pin_config X d =
     rbind (sse_decode_string X d) (\<lambda>(pin, d).
     rbind (sse_decode_u8 X d) (\<lambda>(maxTries, d).
     Ok (\<lparr>pc_pin = pin, pc_max_tries = maxTries\<rparr>, d)))"

definition sse_encode_opt_pin_config :: "sse_ext \<Rightarrow> pin_config option \<Rightarrow> byte list" where
  "sse_encode_opt_pin_config X = sse_encode_option X (sse_encode_pin_config X)"

definition sse_decode_opt_pin_config :: "sse_ext \<Rightarrow> pin_config option sse_decoder" where
  "sse_decode_opt_pin_config X = sse_decode_option X (sse_decode_pin_config X)"

section \<open>Files\<close>

definition sse_encode_file_metadata :: "sse_ext \<Rightarrow> file_metadata \<Rightarrow> byte list" where
  "sse_encode_file_metadata X v = sse_encode_opt_string X (fm_modified v) @ sse_encode_opt_string X (fm_accessed v)"

definition sse_decode_file_metadata :: "sse_ext \<Rightarrow> file_metadata sse_decoder" where
  "sse_decode_file_metadata X d =
     rbind (sse_decode_opt_string X d) (\<lambda>(modified, d).
     rbind (sse_decode_opt_string X d) (\<lambda>(accessed, d).
     Ok (\<lparr>fm_modified = modified, fm_accessed = accessed\<rparr>, d)))"

definition sse_encode_opt_file_metadata :: "sse_ext \<Rightarrow> file_metadata option \<Rightarrow> byte list" where
  "sse_encode_opt_file_metadata X = sse_encode_option X (sse_encode_file_metadata X)"

definition sse_decode_opt_file_metadata :: "sse_ext \<Rightarrow> file_metadata option sse_decoder" where
  "sse_decode_opt_file_metadata X = sse_decode_option X (sse_decode_file_metadata X)"

definition sse_encode_file_dto :: "sse_ext \<Rightarrow> file_dto \<Rightarrow> byte list" where
  "sse_encode_file_dto X v =
     sse_encode_string X (fd_id v) @ sse_encode_string X (fd_file_name v) @ sse_encode_u64 X (fd_size v) @
     sse_encode_string X (fd_file_type v) @ sse_encode_opt_string X (fd_sha256 v) @
     sse_encode_opt_string X (fd_preview v) @ sse_encode_opt_file_metadata X (fd_metadata v)"

definition sse_decode_file_dto :: "sse_ext \<Rightarrow> file_dto sse_decoder" where
  "sse_decode_file_dto X d =
     rbind (sse_decode_string X d) (\<lambda>(i, d).
     rbind (sse_decode_string X d) (\<lambda>(fileName, d).
     rbind (sse_decode_u64 X d) (\<lambda>(sz, d).
     rbind (sse_decode_string X d) (\<lambda>(fileType, d).
     rbind (sse_decode_opt_string X d) (\<lambda>(sha256, d).
     rbind (sse_decode_opt_string X d) (\<lambda>(preview, d).
     rbind (sse_decode_opt_file_metadata X d) (\<lambda>(metadata, d).
     Ok (\<lparr>fd_id = i, fd_file_name = fileName, fd_size = sz, fd_file_type = fileType, fd_sha256 = sha256,
          fd_preview = preview, fd_metadata = metadata\<rparr>, d))))))))"

definition sse_encode_list_file_dto :: "sse_ext \<Rightarrow> file_dto list \<Rightarrow> byte list" where
  "sse_encode_list_file_dto X = sse_encode_vec X (sse_encode_file_dto X)"

definition sse_decode_list_file_dto :: "sse_ext \<Rightarrow> file_dto list sse_decoder" where
  "sse_decode_list_file_dto X = sse_decode_vec X (sse_decode_file_dto X)"

definition sse_encode_rtc_file_error :: "sse_ext \<Rightarrow> rtc_file_error \<Rightarrow> byte list" where
  "sse_encode_rtc_file_error X v = sse_encode_string X (fe_file_id v) @ sse_encode_string X (fe_error v)"

definition sse_decode_rtc_file_error :: "sse_ext \<Rightarrow> rtc_file_error sse_decoder" where
  "sse_decode_rtc_file_error X d =
     rbind (sse_decode_string X d) (\<lambda>(fileId, d).
     rbind (sse_decode_string X d) (\<lambda>(error, d).
     Ok (\<lparr>fe_file_id = fileId, fe_error = error\<rparr>, d)))"

definition sse_encode_rtc_send_file_response :: "sse_ext \<Rightarrow> rtc_send_file_response \<Rightarrow> byte list" where
  "sse_encode_rtc_send_file_response X v =
     sse_encode_string X (fr_id v) @ sse_encode_bool X (fr_success v) @ sse_encode_opt_string X (fr_error v)"

definition sse_decode_rtc_send_file_response :: "sse_ext \<Rightarrow> rtc_send_file_response sse_decoder" where
  "sse_decode_rtc_send_file_response X d =
     rbind (sse_decode_string X d) (\<lambda>(i, d).
     rbind (sse_decode_bool X d) (\<lambda>(success, d).
     rbind (sse_decode_opt_string X d) (\<lambda>(error, d).
     Ok (\<lparr>fr_id = i, fr_success = success, fr_error = error\<rparr>, d))))"

section \<open>Statuses and signaling messages\<close>

fun sse_encode_rtc_status :: "sse_ext \<Rightarrow> rtc_status \<Rightarrow> byte list" where
  "sse_encode_rtc_status X SdpExchanged = sse_encode_i32 X 0"
| "sse_encode_rtc_status X Connected = sse_encode_i32 X 1"
| "sse_encode_rtc_status X PinRequired = sse_encode_i32 X 2"
| "sse_encode_rtc_status X TooManyAttempts = sse_encode_i32 X 3"
| "sse_encode_rtc_status X Declined = sse_encode_i32 X 4"
| "sse_encode_rtc_status X Sending = sse_encode_i32 X 5"
| "sse_encode_rtc_status X Finished = sse_encode_i32 X 6"
| "sse_encode_rtc_status X (StatusError field0) = sse_encode_i32 X 7 @ sse_encode_string X field0"

definition sse_decode_rtc_status :: "sse_ext \<Rightarrow> rtc_status sse_decoder" where
  "sse_decode_rtc_status X d =
     rbind (sse_decode_i32 X d) (\<lambda>(tag, d).
       if tag = 0 then Ok (SdpExchanged, d)
       else if tag = 1 then Ok (Connected, d)
       else if tag = 2 then Ok (PinRequired, d)
       else if tag = 3 then Ok (TooManyAttempts, d)
       else if tag = 4 then Ok (Declined, d)
       else if tag = 5 then Ok (Sending, d)
       else if tag = 6 then Ok (Finished, d)
       else if tag = 7 then rbind (sse_decode_string X d) (\<lambda>(field0, d). Ok (StatusError field0, d))
       else Panic ''not implemented: '')"

definition sse_encode_ws_server_sdp_message :: "sse_ext \<Rightarrow> ws_server_sdp_message \<Rightarrow> byte list" where
  "sse_encode_ws_server_sdp_message X v =
     sse_encode_client_info X (ss_peer v) @ sse_encode_string X (ss_session_id v) @ sse_encode_string X (ss_sdp v)"

definition sse_decode_ws_server_sdp_message :: "sse_ext \<Rightarrow> ws_server_sdp_message sse_decoder" where
  "sse_decode_ws_server_sdp_message X d =
     rbind (sse_decode_client_info X d) (\<lambda>(peer, d).
     rbind (sse_decode_string X d) (\<lambda>(sessionId, d).
     rbind (sse_decode_string X d) (\<lambda>(sdp, d).
     Ok (\<lparr>ss_peer = peer, ss_session_id = sessionId, ss_sdp = sdp\<rparr>, d))))"

fun sse_encode_ws_server_message :: "sse_ext \<Rightarrow> ws_server_message \<Rightarrow> byte list" where
  "sse_encode_ws_server_message X (SHello client peers) =
     sse_encode_i32 X 0 @ sse_encode_client_info X client @ sse_encode_list_client_info X peers"
| "sse_encode_ws_server_message X (SJoin peer) = sse_encode_i32 X 1 @ sse_encode_client_info X peer"
| "sse_encode_ws_server_message X (SUpdate peer) = sse_encode_i32 X 2 @ sse_encode_client_info X peer"
| "sse_encode_ws_server_message X (SLeft peer_id) = sse_encode_i32 X 3 @ sse_encode_uuid X peer_id"
| "sse_encode_ws_server_message X (SOffer field0) = sse_encode_i32 X 4 @ sse_encode_ws_server_sdp_message X field0"
| "sse_encode_ws_server_message X (SAnswer field0) = sse_encode_i32 X 5 @ sse_encode_ws_server_sdp_message X field0"
| "sse_encode_ws_server_message X (SError code) = sse_encode_i32 X 6 @ sse_encode_u16 X code"

definition sse_decode_ws_server_message :: "sse_ext \<Rightarrow> ws_server_message sse_decoder" where
  "sse_decode_ws_server_message X d =
     rbind (sse_decode_i32 X d) (\<lambda>(tag, d).
       if tag = 0 then
         rbind (sse_decode_client_info X d) (\<lambda>(client, d).
         rbind (sse_decode_list_client_info X d) (\<lambda>(peers, d). Ok (SHello client peers, d)))
       else if tag = 1 then rbind (sse_decode_client_info X d) (\<lambda>(peer, d). Ok (SJoin peer, d))
       else if tag = 2 then rbind (sse_decode_client_info X d) (\<lambda>(peer, d). Ok (SUpdate peer, d))
       else if tag = 3 then rbind (sse_decode_uuid X d) (\<lambda>(peerId, d). Ok (SLeft peerId, d))
       else if tag = 4 then rbind (sse_decode_ws_server_sdp_message X d) (\<lambda>(field0, d). Ok (SOffer field0, d))
       else if tag = 5 then rbind (sse_decode_ws_server_sdp_message X d) (\<lambda>(field0, d). Ok (SAnswer field0, d))
       else if tag = 6 then rbind (sse_decode_u16 X d) (\<lambda>(code, d). Ok (SError code, d))
       else Panic ''not implemented: '')"

section \<open>Values that fit\<close>

definition client_info_fits :: "client_info \<Rightarrow> bool" where
  "client_info_fits v \<longleftrightarrow>
     text_fits (ci_alias v) \<and> text_fits (ci_version v) \<and> opt_text_fits (ci_device_model v) \<and> text_fits (ci_token v)"

definition client_info_without_id_fits :: "client_info_without_id \<Rightarrow> bool" where
  "client_info_without_id_fits v \<longleftrightarrow>
     text_fits (ciw_alias v) \<and> text_fits (ciw_version v) \<and> opt_text_fits (ciw_device_model v) \<and> text_fits (ciw_token v)"

definition proposing_client_info_fits :: "proposing_client_info \<Rightarrow> bool" where
  "proposing_client_info_fits v \<longleftrightarrow> text_fits (pi_alias v) \<and> text_fits (pi_version v) \<and> opt_text_fits (pi_device_model v)"

definition client_infos_fit :: "client_info list \<Rightarrow> bool" where
  "client_infos_fit vs \<longleftrightarrow> vec_fits vs \<and> list_all client_info_fits vs"

definition key_pair_fits :: "key_pair \<Rightarrow> bool" where
  "key_pair_fits v \<longleftrightarrow> text_fits (kp_private_key v) \<and> text_fits (kp_public_key v)"

definition expecting_public_key_fits :: "expecting_public_key \<Rightarrow> bool" where
  "expecting_public_key_fits v \<longleftrightarrow> text_fits (ek_public_key v) \<and> text_fits (ek_kind v)"

definition pin_config_fits :: "pin_config \<Rightarrow> bool" where
  "pin_config_fits v \<longleftrightarrow> text_fits (pc_pin v)"

definition file_metadata_fits :: "file_metadata \<Rightarrow> bool" where
  "file_metadata_fits v \<longleftrightarrow> opt_text_fits (fm_modified v) \<and> opt_text_fits (fm_accessed v)"

definition file_dto_fits :: "file_dto \<Rightarrow> bool" where
  "file_dto_fits v \<longleftrightarrow>
     text_fits (fd_id v) \<and> text_fits (fd_file_name v) \<and> text_fits (fd_file_type v) \<and> opt_text_fits (fd_sha256 v) \<and>
     opt_text_fits (fd_preview v) \<and> pred_option file_metadata_fits (fd_metadata v)"

definition file_dtos_fit :: "file_dto list \<Rightarrow> bool" where
  "file_dtos_fit vs \<longleftrightarrow> vec_fits vs \<and> list_all file_dto_fits vs"

definition rtc_file_error_fits :: "rtc_file_error \<Rightarrow> bool" where
  "rtc_file_error_fits v \<longleftrightarrow> text_fits (fe_file_id v) \<and> text_fits (fe_error v)"

definition rtc_send_file_response_fits :: "rtc_send_file_response \<Rightarrow> bool" where
  "rtc_send_file_response_fits v \<longleftrightarrow> text_fits (fr_id v) \<and> opt_text_fits (fr_error v)"

definition ws_server_sdp_message_fits :: "ws_server_sdp_message \<Rightarrow> bool" where
  "ws_server_sdp_message_fits v \<longleftrightarrow>
     client_info_fits (ss_peer v) \<and> text_fits (ss_session_id v) \<and> text_fits (ss_sdp v)"

fun rtc_status_fits :: "rtc_status \<Rightarrow> bool" where
  "rtc_status_fits (StatusError e) = text_fits e"
| "rtc_status_fits _ = True"

fun ws_server_message_fits :: "ws_server_message \<Rightarrow> bool" where
  "ws_server_message_fits (SHello client peers) = (client_info_fits client \<and> client_infos_fit peers)"
| "ws_server_message_fits (SJoin peer) = client_info_fits peer"
| "ws_server_message_fits (SUpdate peer) = client_info_fits peer"
| "ws_server_message_fits (SOffer m) = ws_server_sdp_message_fits m"
| "ws_server_message_fits (SAnswer m) = ws_server_sdp_message_fits m"
| "ws_server_message_fits _ = True"

section \<open>The contract, type by type\<close>

text \<open>Every decoder of a record is built from readers, and reads back the fields in the order written.\<close>

lemma reader_device_type [reader_intros]:
  "sse_reader (sse_decode_device_type X)" "sse_reader (sse_decode_opt_device_type X)"
proof -
  show first: "sse_reader (sse_decode_device_type X)"
    unfolding sse_decode_device_type_def [abs_def] by (intro reader_intros)
  show "sse_reader (sse_decode_opt_device_type X)"
    unfolding sse_decode_opt_device_type_def by (intro reader_intros first)
qed

lemma round_device_type [simp]: "sse_decode_device_type X (sse_encode_device_type X v @ d) = Ok (v, d)"
  by (cases v) (simp_all add: sse_decode_device_type_def sse_encode_device_type_def)

interpretation sse_device_type: sse_codec "sse_encode_device_type X" "sse_decode_device_type X" "\<lambda>_. True" for X
  by unfold_locales (simp_all add: reader_intros)

lemma round_opt_device_type [simp]: "sse_decode_opt_device_type X (sse_encode_opt_device_type X v @ d) = Ok (v, d)"
  by (simp add: sse_decode_opt_device_type_def sse_encode_opt_device_type_def sse_device_type.round_opt option.pred_True)

lemma reader_client_info [reader_intros]:
  "sse_reader (sse_decode_client_info X)" "sse_reader (sse_decode_client_info_without_id X)"
  "sse_reader (sse_decode_proposing_client_info X)"
  unfolding sse_decode_client_info_def [abs_def] sse_decode_client_info_without_id_def [abs_def]
    sse_decode_proposing_client_info_def [abs_def]
  by (intro reader_intros)+

lemma round_client_info [simp]:
  "sse_ok X \<Longrightarrow> client_info_fits c \<Longrightarrow> sse_decode_client_info X (sse_encode_client_info X c @ d) = Ok (c, d)"
  "client_info_without_id_fits w \<Longrightarrow>
     sse_decode_client_info_without_id X (sse_encode_client_info_without_id X w @ d) = Ok (w, d)"
  "proposing_client_info_fits p \<Longrightarrow>
     sse_decode_proposing_client_info X (sse_encode_proposing_client_info X p @ d) = Ok (p, d)"
  by (simp_all add: sse_decode_client_info_def sse_encode_client_info_def client_info_fits_def
    sse_decode_client_info_without_id_def sse_encode_client_info_without_id_def client_info_without_id_fits_def
    sse_decode_proposing_client_info_def sse_encode_proposing_client_info_def proposing_client_info_fits_def)

interpretation sse_client_info:
  sse_codec "sse_encode_client_info X" "sse_decode_client_info X" "\<lambda>c. sse_ok X \<and> client_info_fits c" for X
  by unfold_locales (simp_all add: reader_intros)

lemma reader_list_client_info [reader_intros]: "sse_reader (sse_decode_list_client_info X)"
  unfolding sse_decode_list_client_info_def by (intro reader_intros)

lemma round_list_client_info [simp]:
  "sse_ok X \<Longrightarrow> client_infos_fit cs \<Longrightarrow>
     sse_decode_list_client_info X (sse_encode_list_client_info X cs @ d) = Ok (cs, d)"
  by (simp add: sse_decode_list_client_info_def sse_encode_list_client_info_def client_infos_fit_def
    list_all_iff sse_client_info.round_vec)

lemma reader_keys [reader_intros]:
  "sse_reader (sse_decode_key_pair X)" "sse_reader (sse_decode_expecting_public_key X)" "sse_reader (sse_decode_pin_config X)"
  unfolding sse_decode_key_pair_def [abs_def] sse_decode_expecting_public_key_def [abs_def] sse_decode_pin_config_def [abs_def]
  by (intro reader_intros)+

lemma round_keys [simp]:
  "key_pair_fits k \<Longrightarrow> sse_decode_key_pair X (sse_encode_key_pair X k @ d) = Ok (k, d)"
  "expecting_public_key_fits e \<Longrightarrow>
     sse_decode_expecting_public_key X (sse_encode_expecting_public_key X e @ d) = Ok (e, d)"
  "pin_config_fits p \<Longrightarrow> sse_decode_pin_config X (sse_encode_pin_config X p @ d) = Ok (p, d)"
  by (simp_all add: sse_decode_key_pair_def sse_encode_key_pair_def key_pair_fits_def
    sse_decode_expecting_public_key_def sse_encode_expecting_public_key_def expecting_public_key_fits_def
    sse_decode_pin_config_def sse_encode_pin_config_def pin_config_fits_def)

interpretation sse_key_pair: sse_codec "sse_encode_key_pair X" "sse_decode_key_pair X" key_pair_fits for X
  by unfold_locales (simp_all add: reader_intros)

interpretation sse_expecting_public_key:
  sse_codec "sse_encode_expecting_public_key X" "sse_decode_expecting_public_key X" expecting_public_key_fits for X
  by unfold_locales (simp_all add: reader_intros)

interpretation sse_pin_config: sse_codec "sse_encode_pin_config X" "sse_decode_pin_config X" pin_config_fits for X
  by unfold_locales (simp_all add: reader_intros)

lemma reader_opt_keys [reader_intros]:
  "sse_reader (sse_decode_opt_expecting_public_key X)" "sse_reader (sse_decode_opt_pin_config X)"
  unfolding sse_decode_opt_expecting_public_key_def sse_decode_opt_pin_config_def by (intro reader_intros)+

lemma round_opt_keys [simp]:
  "pred_option expecting_public_key_fits e \<Longrightarrow>
     sse_decode_opt_expecting_public_key X (sse_encode_opt_expecting_public_key X e @ d) = Ok (e, d)"
  "pred_option pin_config_fits p \<Longrightarrow>
     sse_decode_opt_pin_config X (sse_encode_opt_pin_config X p @ d) = Ok (p, d)"
  by (simp_all add: sse_decode_opt_expecting_public_key_def sse_encode_opt_expecting_public_key_def
    sse_decode_opt_pin_config_def sse_encode_opt_pin_config_def
    sse_expecting_public_key.round_opt sse_pin_config.round_opt)

lemma reader_file_metadata [reader_intros]:
  "sse_reader (sse_decode_file_metadata X)" "sse_reader (sse_decode_opt_file_metadata X)"
proof -
  show first: "sse_reader (sse_decode_file_metadata X)"
    unfolding sse_decode_file_metadata_def [abs_def] by (intro reader_intros)
  show "sse_reader (sse_decode_opt_file_metadata X)"
    unfolding sse_decode_opt_file_metadata_def by (intro reader_intros first)
qed

lemma round_file_metadata [simp]:
  "file_metadata_fits m \<Longrightarrow> sse_decode_file_metadata X (sse_encode_file_metadata X m @ d) = Ok (m, d)"
  by (simp add: sse_decode_file_metadata_def sse_encode_file_metadata_def file_metadata_fits_def)

interpretation sse_file_metadata:
  sse_codec "sse_encode_file_metadata X" "sse_decode_file_metadata X" file_metadata_fits for X
  by unfold_locales (simp_all add: reader_intros)

lemma round_opt_file_metadata [simp]:
  "pred_option file_metadata_fits v \<Longrightarrow>
     sse_decode_opt_file_metadata X (sse_encode_opt_file_metadata X v @ d) = Ok (v, d)"
  by (simp add: sse_decode_opt_file_metadata_def sse_encode_opt_file_metadata_def sse_file_metadata.round_opt)

lemma reader_file_dto [reader_intros]:
  "sse_reader (sse_decode_file_dto X)" "sse_reader (sse_decode_list_file_dto X)"
proof -
  show first: "sse_reader (sse_decode_file_dto X)"
    unfolding sse_decode_file_dto_def [abs_def] by (intro reader_intros)
  show "sse_reader (sse_decode_list_file_dto X)"
    unfolding sse_decode_list_file_dto_def by (intro reader_intros first)
qed

lemma round_file_dto [simp]:
  "file_dto_fits f \<Longrightarrow> sse_decode_file_dto X (sse_encode_file_dto X f @ d) = Ok (f, d)"
  by (simp add: sse_decode_file_dto_def sse_encode_file_dto_def file_dto_fits_def)

interpretation sse_file_dto: sse_codec "sse_encode_file_dto X" "sse_decode_file_dto X" file_dto_fits for X
  by unfold_locales (simp_all add: reader_intros)

lemma round_list_file_dto [simp]:
  "file_dtos_fit fs \<Longrightarrow> sse_decode_list_file_dto X (sse_encode_list_file_dto X fs @ d) = Ok (fs, d)"
  by (simp add: sse_decode_list_file_dto_def sse_encode_list_file_dto_def file_dtos_fit_def list_all_iff
    sse_file_dto.round_vec)

lemma reader_responses [reader_intros]:
  "sse_reader (sse_decode_rtc_file_error X)" "sse_reader (sse_decode_rtc_send_file_response X)"
  "sse_reader (sse_decode_rtc_status X)" "sse_reader (sse_decode_ws_server_sdp_message X)"
  unfolding sse_decode_rtc_file_error_def [abs_def] sse_decode_rtc_send_file_response_def [abs_def]
    sse_decode_rtc_status_def [abs_def] sse_decode_ws_server_sdp_message_def [abs_def]
  by (intro reader_intros)+

lemma round_responses [simp]:
  "rtc_file_error_fits e \<Longrightarrow> sse_decode_rtc_file_error X (sse_encode_rtc_file_error X e @ d) = Ok (e, d)"
  "rtc_send_file_response_fits r \<Longrightarrow>
     sse_decode_rtc_send_file_response X (sse_encode_rtc_send_file_response X r @ d) = Ok (r, d)"
  "sse_ok X \<Longrightarrow> ws_server_sdp_message_fits m \<Longrightarrow>
     sse_decode_ws_server_sdp_message X (sse_encode_ws_server_sdp_message X m @ d) = Ok (m, d)"
  by (simp_all add: sse_decode_rtc_file_error_def sse_encode_rtc_file_error_def rtc_file_error_fits_def
    sse_decode_rtc_send_file_response_def sse_encode_rtc_send_file_response_def rtc_send_file_response_fits_def
    sse_decode_ws_server_sdp_message_def sse_encode_ws_server_sdp_message_def ws_server_sdp_message_fits_def)

lemma round_rtc_status [simp]:
  "rtc_status_fits s \<Longrightarrow> sse_decode_rtc_status X (sse_encode_rtc_status X s @ d) = Ok (s, d)"
  by (cases s) (simp_all add: sse_decode_rtc_status_def)

lemma reader_ws_server_message [reader_intros]: "sse_reader (sse_decode_ws_server_message X)"
  unfolding sse_decode_ws_server_message_def [abs_def] by (intro reader_intros)

lemma round_ws_server_message [simp]:
  "sse_ok X \<Longrightarrow> ws_server_message_fits m \<Longrightarrow>
     sse_decode_ws_server_message X (sse_encode_ws_server_message X m @ d) = Ok (m, d)"
  by (cases m) (simp_all add: sse_decode_ws_server_message_def)

interpretation sse_rtc_file_error:
  sse_codec "sse_encode_rtc_file_error X" "sse_decode_rtc_file_error X" rtc_file_error_fits for X
  by unfold_locales (simp_all add: reader_intros)

interpretation sse_rtc_status: sse_codec "sse_encode_rtc_status X" "sse_decode_rtc_status X" rtc_status_fits for X
  by unfold_locales (simp_all add: reader_intros)

interpretation sse_ws_server_message:
  sse_codec "sse_encode_ws_server_message X" "sse_decode_ws_server_message X"
    "\<lambda>m. sse_ok X \<and> ws_server_message_fits m" for X
  by unfold_locales (simp_all add: reader_intros)

end
