(* ===== verification/Dart_Codec.thy ===== *)
theory Dart_Codec
  imports Sse_Records
begin

text \<open>
  The other end of the serialization: the encoders and decoders of the application
  (\<open>app/lib/rust/frb_generated.dart\<close>). A Dart \<open>String\<close> is its UTF-8 bytes, as \<open>utf8.encoder\<close> gives
  them; a Dart exception is a panic of the model. Dart's encoders write the bytes of Rust's, so
  Rust's decoders read them; Dart's decoders read what Rust's encoders write, but for a byte order
  mark in front of a text, which \<open>utf8.decoder\<close> discards.
\<close>

section \<open>Dart encoders\<close>

definition dart_encode_i32 :: "sse_ext \<Rightarrow> int \<Rightarrow> byte list" where
  "dart_encode_i32 X v = write_int X 4 (ucast (word_of_int v :: i32))"

text \<open>\<open>putUint8\<close> keeps the low eight bits of its argument.\<close>

definition dart_encode_u8 :: "sse_ext \<Rightarrow> int \<Rightarrow> byte list" where
  "dart_encode_u8 X v = [word_of_int v]"

definition dart_encode_u64 :: "sse_ext \<Rightarrow> u64 \<Rightarrow> byte list" where
  "dart_encode_u64 X v = write_int X 8 v"

definition dart_encode_usize :: "sse_ext \<Rightarrow> u64 \<Rightarrow> byte list" where
  "dart_encode_usize X v = write_int X 8 v"

definition dart_encode_isize :: "sse_ext \<Rightarrow> u64 \<Rightarrow> byte list" where
  "dart_encode_isize X v = write_int X 8 v"

definition dart_encode_bool :: "sse_ext \<Rightarrow> bool \<Rightarrow> byte list" where
  "dart_encode_bool X b = [if b then 1 else 0]"

definition dart_encode_list :: "sse_ext \<Rightarrow> ('a \<Rightarrow> byte list) \<Rightarrow> 'a list \<Rightarrow> byte list" where
  "dart_encode_list X enc xs = dart_encode_i32 X (int (length xs)) @ concat (map enc xs)"

definition dart_encode_opt :: "sse_ext \<Rightarrow> ('a \<Rightarrow> byte list) \<Rightarrow> 'a option \<Rightarrow> byte list" where
  "dart_encode_opt X enc v = dart_encode_bool X (v \<noteq> None) @ (case v of Some x \<Rightarrow> enc x | None \<Rightarrow> [])"

definition dart_encode_list_prim_u8 :: "sse_ext \<Rightarrow> byte list \<Rightarrow> byte list" where
  "dart_encode_list_prim_u8 X b = dart_encode_i32 X (int (length b)) @ b"

definition dart_encode_string :: "sse_ext \<Rightarrow> string \<Rightarrow> byte list" where
  "dart_encode_string X s = dart_encode_list_prim_u8 X (as_bytes s)"

definition dart_encode_uuid :: "sse_ext \<Rightarrow> uuid \<Rightarrow> byte list" where
  "dart_encode_uuid X i = dart_encode_list_prim_u8 X (uuid_as_bytes X i)"

definition dart_encode_list_string :: "sse_ext \<Rightarrow> string list \<Rightarrow> byte list" where
  "dart_encode_list_string X = dart_encode_list X (dart_encode_string X)"

definition dart_encode_set_string :: "sse_ext \<Rightarrow> string list \<Rightarrow> byte list" where
  "dart_encode_set_string X s = dart_encode_list_string X s"

definition dart_encode_opt_string :: "sse_ext \<Rightarrow> string option \<Rightarrow> byte list" where
  "dart_encode_opt_string X = dart_encode_opt X (dart_encode_string X)"

text \<open>The index of an enumeration's value is its place in the declaration.\<close>

definition dart_device_types :: "device_type list" where
  "dart_device_types = [Mobile, Desktop, Web, Headless, Server]"

definition dart_encode_device_type :: "sse_ext \<Rightarrow> device_type \<Rightarrow> byte list" where
  "dart_encode_device_type X v = dart_encode_i32 X (int (length (takeWhile (\<lambda>t. t \<noteq> v) dart_device_types)))"

text \<open>In Dart the number of tries is an \<open>int\<close>.\<close>

record dart_pin_config =
  dp_pin :: string
  dp_max_tries :: int

definition dart_encode_pin_config :: "sse_ext \<Rightarrow> dart_pin_config \<Rightarrow> byte list" where
  "dart_encode_pin_config X v = dart_encode_string X (dp_pin v) @ dart_encode_u8 X (dp_max_tries v)"

definition dart_encode_opt_pin_config :: "sse_ext \<Rightarrow> dart_pin_config option \<Rightarrow> byte list" where
  "dart_encode_opt_pin_config X = dart_encode_opt X (dart_encode_pin_config X)"

definition dart_encode_opt_device_type :: "sse_ext \<Rightarrow> device_type option \<Rightarrow> byte list" where
  "dart_encode_opt_device_type X = dart_encode_opt X (dart_encode_device_type X)"

definition dart_encode_client_info :: "sse_ext \<Rightarrow> client_info \<Rightarrow> byte list" where
  "dart_encode_client_info X v =
     dart_encode_uuid X (ci_id v) @ dart_encode_string X (ci_alias v) @ dart_encode_string X (ci_version v) @
     dart_encode_opt_string X (ci_device_model v) @ dart_encode_opt_device_type X (ci_device_type v) @
     dart_encode_string X (ci_token v)"

definition dart_encode_client_info_without_id :: "sse_ext \<Rightarrow> client_info_without_id \<Rightarrow> byte list" where
  "dart_encode_client_info_without_id X v =
     dart_encode_string X (ciw_alias v) @ dart_encode_string X (ciw_version v) @
     dart_encode_opt_string X (ciw_device_model v) @ dart_encode_opt_device_type X (ciw_device_type v) @
     dart_encode_string X (ciw_token v)"

definition dart_encode_proposing_client_info :: "sse_ext \<Rightarrow> proposing_client_info \<Rightarrow> byte list" where
  "dart_encode_proposing_client_info X v =
     dart_encode_string X (pi_alias v) @ dart_encode_string X (pi_version v) @
     dart_encode_opt_string X (pi_device_model v) @ dart_encode_opt_device_type X (pi_device_type v)"

definition dart_encode_expecting_public_key :: "sse_ext \<Rightarrow> expecting_public_key \<Rightarrow> byte list" where
  "dart_encode_expecting_public_key X v = dart_encode_string X (ek_public_key v) @ dart_encode_string X (ek_kind v)"

definition dart_encode_opt_expecting_public_key :: "sse_ext \<Rightarrow> expecting_public_key option \<Rightarrow> byte list" where
  "dart_encode_opt_expecting_public_key X = dart_encode_opt X (dart_encode_expecting_public_key X)"

definition dart_encode_file_metadata :: "sse_ext \<Rightarrow> file_metadata \<Rightarrow> byte list" where
  "dart_encode_file_metadata X v = dart_encode_opt_string X (fm_modified v) @ dart_encode_opt_string X (fm_accessed v)"

definition dart_encode_opt_file_metadata :: "sse_ext \<Rightarrow> file_metadata option \<Rightarrow> byte list" where
  "dart_encode_opt_file_metadata X = dart_encode_opt X (dart_encode_file_metadata X)"

definition dart_encode_file_dto :: "sse_ext \<Rightarrow> file_dto \<Rightarrow> byte list" where
  "dart_encode_file_dto X v =
     dart_encode_string X (fd_id v) @ dart_encode_string X (fd_file_name v) @ dart_encode_u64 X (fd_size v) @
     dart_encode_string X (fd_file_type v) @ dart_encode_opt_string X (fd_sha256 v) @
     dart_encode_opt_string X (fd_preview v) @ dart_encode_opt_file_metadata X (fd_metadata v)"

definition dart_encode_list_file_dto :: "sse_ext \<Rightarrow> file_dto list \<Rightarrow> byte list" where
  "dart_encode_list_file_dto X = dart_encode_list X (dart_encode_file_dto X)"

definition dart_encode_rtc_send_file_response :: "sse_ext \<Rightarrow> rtc_send_file_response \<Rightarrow> byte list" where
  "dart_encode_rtc_send_file_response X v =
     dart_encode_string X (fr_id v) @ dart_encode_bool X (fr_success v) @ dart_encode_opt_string X (fr_error v)"

definition dart_encode_ws_server_sdp_message :: "sse_ext \<Rightarrow> ws_server_sdp_message \<Rightarrow> byte list" where
  "dart_encode_ws_server_sdp_message X v =
     dart_encode_client_info X (ss_peer v) @ dart_encode_string X (ss_session_id v) @ dart_encode_string X (ss_sdp v)"

section \<open>The encoders agree\<close>

named_theorems dart_encodes "a Dart encoder is the Rust encoder of its type"

lemma dart_i32 [dart_encodes]: "dart_encode_i32 X (int n) = sse_encode_i32 X (word_of_nat n)"
  by (simp add: dart_encode_i32_def sse_encode_i32_def)

lemma dart_u8 [dart_encodes]: "dart_encode_u8 X v = sse_encode_u8 X (word_of_int v)"
  by (simp add: dart_encode_u8_def sse_encode_u8_def)

lemma dart_words [dart_encodes]:
  "dart_encode_u64 X = sse_encode_u64 X" "dart_encode_usize X = sse_encode_usize X"
  "dart_encode_isize X = sse_encode_isize X" "dart_encode_bool X = sse_encode_bool X"
  by (rule ext, simp add: dart_encode_u64_def dart_encode_usize_def dart_encode_isize_def dart_encode_bool_def
    sse_encode_u64_def sse_encode_usize_def sse_encode_isize_def sse_encode_bool_def)+

lemma dart_vec [dart_encodes]: "dart_encode_list X enc = sse_encode_vec X enc" "dart_encode_opt X enc = sse_encode_option X enc"
  by (rule ext, simp add: dart_encode_list_def sse_encode_vec_def dart_encode_opt_def sse_encode_option_def dart_encodes)+

lemma concat_u8: "concat (map (sse_encode_u8 X) b) = b"
  by (induction b) (simp_all add: sse_encode_u8_def)

lemma dart_bytes [dart_encodes]: "dart_encode_list_prim_u8 X = sse_encode_list_prim_u8 X"
  by (rule ext) (simp add: dart_encode_list_prim_u8_def sse_encode_list_prim_u8_def sse_encode_vec_def dart_encodes concat_u8)

lemma dart_texts [dart_encodes]:
  "dart_encode_string X = sse_encode_string X" "dart_encode_uuid X = sse_encode_uuid X"
  by (rule ext, simp add: dart_encode_string_def sse_encode_string_def dart_encode_uuid_def sse_encode_uuid_def dart_encodes)+

lemma dart_text_lists [dart_encodes]:
  "dart_encode_list_string X = sse_encode_list_string X" "dart_encode_opt_string X = sse_encode_opt_string X"
  by (simp_all add: dart_encode_list_string_def sse_encode_list_string_def dart_encode_opt_string_def
    sse_encode_opt_string_def dart_encodes)

lemma dart_set [dart_encodes]: "dart_encode_set_string X = sse_encode_set_string X"
  by (rule ext) (simp add: dart_encode_set_string_def sse_encode_set_string_def dart_encodes)

lemma dart_device_type [dart_encodes]: "dart_encode_device_type X = sse_encode_device_type X"
proof
  fix v
  show "dart_encode_device_type X v = sse_encode_device_type X v"
    by (cases v) (simp_all add: dart_encode_device_type_def sse_encode_device_type_def dart_device_types_def dart_encode_i32_def sse_encode_i32_def)
qed

lemma dart_opt_device_type [dart_encodes]: "dart_encode_opt_device_type X = sse_encode_opt_device_type X"
  by (simp add: dart_encode_opt_device_type_def sse_encode_opt_device_type_def dart_encodes)

lemma dart_clients [dart_encodes]:
  "dart_encode_client_info X = sse_encode_client_info X"
  "dart_encode_client_info_without_id X = sse_encode_client_info_without_id X"
  "dart_encode_proposing_client_info X = sse_encode_proposing_client_info X"
  by (rule ext, simp add: dart_encode_client_info_def sse_encode_client_info_def dart_encode_client_info_without_id_def
    sse_encode_client_info_without_id_def dart_encode_proposing_client_info_def sse_encode_proposing_client_info_def
    dart_encodes)+

lemma dart_keys [dart_encodes]: "dart_encode_expecting_public_key X = sse_encode_expecting_public_key X"
  by (rule ext) (simp add: dart_encode_expecting_public_key_def sse_encode_expecting_public_key_def dart_encodes)

lemma dart_opt_keys [dart_encodes]: "dart_encode_opt_expecting_public_key X = sse_encode_opt_expecting_public_key X"
  by (simp add: dart_encode_opt_expecting_public_key_def sse_encode_opt_expecting_public_key_def dart_encodes)

lemma dart_metadata [dart_encodes]: "dart_encode_file_metadata X = sse_encode_file_metadata X"
  by (rule ext) (simp add: dart_encode_file_metadata_def sse_encode_file_metadata_def dart_encodes)

lemma dart_opt_metadata [dart_encodes]: "dart_encode_opt_file_metadata X = sse_encode_opt_file_metadata X"
  by (simp add: dart_encode_opt_file_metadata_def sse_encode_opt_file_metadata_def dart_encodes)

lemma dart_file [dart_encodes]: "dart_encode_file_dto X = sse_encode_file_dto X"
  by (rule ext) (simp add: dart_encode_file_dto_def sse_encode_file_dto_def dart_encodes)

lemma dart_files [dart_encodes]: "dart_encode_list_file_dto X = sse_encode_list_file_dto X"
  by (simp add: dart_encode_list_file_dto_def sse_encode_list_file_dto_def dart_encodes)

lemma dart_messages [dart_encodes]:
  "dart_encode_rtc_send_file_response X = sse_encode_rtc_send_file_response X"
  "dart_encode_ws_server_sdp_message X = sse_encode_ws_server_sdp_message X"
  by (rule ext, simp add: dart_encode_rtc_send_file_response_def sse_encode_rtc_send_file_response_def
    dart_encode_ws_server_sdp_message_def sse_encode_ws_server_sdp_message_def dart_encodes)+

text \<open>Of the number of tries the low eight bits arrive.\<close>

definition pin_of_dart :: "dart_pin_config \<Rightarrow> pin_config" where
  "pin_of_dart p = \<lparr>pc_pin = dp_pin p, pc_max_tries = word_of_int (dp_max_tries p)\<rparr>"

lemma dart_pin [dart_encodes]: "dart_encode_pin_config X p = sse_encode_pin_config X (pin_of_dart p)"
  by (simp add: dart_encode_pin_config_def sse_encode_pin_config_def pin_of_dart_def dart_encodes)

lemma dart_opt_pin [dart_encodes]:
  "dart_encode_opt_pin_config X p = sse_encode_opt_pin_config X (map_option pin_of_dart p)"
  by (cases p) (simp_all add: dart_encode_opt_pin_config_def sse_encode_opt_pin_config_def sse_encode_option_def dart_encodes)

interpretation dart_pin_config:
  sse_link "dart_encode_pin_config X" "sse_decode_pin_config X" pin_of_dart "\<lambda>p. pin_config_fits (pin_of_dart p)" for X
  by unfold_locales (simp_all add: reader_intros dart_encodes)

section \<open>Dart decoders\<close>

text \<open>A read past the end of the buffer throws; so does \<open>getUint8List\<close> of a negative length.\<close>

definition dart_read_int :: "sse_ext \<Rightarrow> nat \<Rightarrow> u64 sse_decoder" where
  "dart_read_int X n d =
     (if length d < n then Panic ''RangeError''
      else Ok (case native_endian X of
                 LittleEndian \<Rightarrow> from_le_bytes (take n d)
               | BigEndian \<Rightarrow> from_le_bytes (rev (take n d)), drop n d))"

definition dart_decode_u8 :: "sse_ext \<Rightarrow> u8 sse_decoder" where
  "dart_decode_u8 X d = rbind (dart_read_int X 1 d) (\<lambda>(v, d). Ok (ucast v, d))"

definition dart_decode_u16 :: "sse_ext \<Rightarrow> u16 sse_decoder" where
  "dart_decode_u16 X d = rbind (dart_read_int X 2 d) (\<lambda>(v, d). Ok (ucast v, d))"

definition dart_decode_i32 :: "sse_ext \<Rightarrow> i32 sse_decoder" where
  "dart_decode_i32 X d = rbind (dart_read_int X 4 d) (\<lambda>(v, d). Ok (ucast v, d))"

definition dart_decode_u64 :: "sse_ext \<Rightarrow> u64 sse_decoder" where
  "dart_decode_u64 X d = dart_read_int X 8 d"

definition dart_decode_usize :: "sse_ext \<Rightarrow> u64 sse_decoder" where
  "dart_decode_usize X d = dart_read_int X 8 d"

definition dart_decode_bool :: "sse_ext \<Rightarrow> bool sse_decoder" where
  "dart_decode_bool X d = rbind (dart_decode_u8 X d) (\<lambda>(v, d). Ok (v \<noteq> 0, d))"

definition dart_decode_unit :: "sse_ext \<Rightarrow> unit sse_decoder" where
  "dart_decode_unit X d = Ok ((), d)"

definition dart_decode_list :: "sse_ext \<Rightarrow> 'a sse_decoder \<Rightarrow> 'a list sse_decoder" where
  "dart_decode_list X dec d = rbind (dart_decode_i32 X d) (\<lambda>(len, d). sse_decode_times dec (nat (sint len)) d)"

definition dart_decode_opt :: "sse_ext \<Rightarrow> 'a sse_decoder \<Rightarrow> 'a option sse_decoder" where
  "dart_decode_opt X dec d =
     rbind (dart_decode_bool X d) (\<lambda>(some, d).
       if some then rbind (dec d) (\<lambda>(value, d). Ok (Some value, d)) else Ok (None, d))"

definition dart_get_bytes :: "int \<Rightarrow> byte list sse_decoder" where
  "dart_get_bytes n d =
     (if n < 0 \<or> length d < nat n then Panic ''RangeError'' else Ok (take (nat n) d, drop (nat n) d))"

definition dart_decode_list_prim_u8 :: "sse_ext \<Rightarrow> byte list sse_decoder" where
  "dart_decode_list_prim_u8 X d = rbind (dart_decode_i32 X d) (\<lambda>(len, d). dart_get_bytes (sint len) d)"

text \<open>\<open>utf8.decoder.convert\<close> throws on what is no UTF-8, and discards a byte order mark in front.\<close>

definition byte_order_mark :: string where
  "byte_order_mark = of_bytes [0xEF, 0xBB, 0xBF]"

definition strip_mark :: "string \<Rightarrow> string" where
  "strip_mark s = (if take 3 s = byte_order_mark then drop 3 s else s)"

definition dart_decode_string :: "sse_ext \<Rightarrow> string sse_decoder" where
  "dart_decode_string X d =
     rbind (dart_decode_list_prim_u8 X d) (\<lambda>(inner, d).
       case from_utf8 inner of None \<Rightarrow> Panic ''FormatException'' | Some s \<Rightarrow> Ok (strip_mark s, d))"

definition dart_decode_uuid :: "sse_ext \<Rightarrow> uuid sse_decoder" where
  "dart_decode_uuid X d =
     rbind (dart_decode_list_prim_u8 X d) (\<lambda>(inner, d).
       case uuid_from_slice X inner of None \<Rightarrow> Panic ''FormatException'' | Some i \<Rightarrow> Ok (i, d))"

definition dart_decode_list_string :: "sse_ext \<Rightarrow> string list sse_decoder" where
  "dart_decode_list_string X = dart_decode_list X (dart_decode_string X)"

definition dart_decode_set_string :: "sse_ext \<Rightarrow> string list sse_decoder" where
  "dart_decode_set_string X d = rbind (dart_decode_list_string X d) (\<lambda>(inner, d). Ok (remdups inner, d))"

definition dart_decode_opt_string :: "sse_ext \<Rightarrow> string option sse_decoder" where
  "dart_decode_opt_string X = dart_decode_opt X (dart_decode_string X)"

definition dart_decode_device_type :: "sse_ext \<Rightarrow> device_type sse_decoder" where
  "dart_decode_device_type X d =
     rbind (dart_decode_i32 X d) (\<lambda>(inner, d).
       if sint inner < 0 \<or> length dart_device_types \<le> nat (sint inner) then Panic ''RangeError''
       else Ok (dart_device_types ! nat (sint inner), d))"

text \<open>An object of Rust arrives as its address and its size, an error as its text.\<close>

definition dart_decode_rust_opaque :: "sse_ext \<Rightarrow> (rust_opaque \<times> i32) sse_decoder" where
  "dart_decode_rust_opaque X d =
     rbind (dart_decode_usize X d) (\<lambda>(ptr, d). rbind (dart_decode_i32 X d) (\<lambda>(sz, d). Ok ((ptr, sz), d)))"

definition dart_decode_anyhow :: "sse_ext \<Rightarrow> string sse_decoder" where
  "dart_decode_anyhow X = dart_decode_string X"

definition dart_decode_opt_device_type :: "sse_ext \<Rightarrow> device_type option sse_decoder" where
  "dart_decode_opt_device_type X = dart_decode_opt X (dart_decode_device_type X)"

definition dart_decode_client_info :: "sse_ext \<Rightarrow> client_info sse_decoder" where
  "dart_decode_client_info X d =
     rbind (dart_decode_uuid X d) (\<lambda>(i, d).
     rbind (dart_decode_string X d) (\<lambda>(als, d).
     rbind (dart_decode_string X d) (\<lambda>(version, d).
     rbind (dart_decode_opt_string X d) (\<lambda>(deviceModel, d).
     rbind (dart_decode_opt_device_type X d) (\<lambda>(deviceType, d).
     rbind (dart_decode_string X d) (\<lambda>(token, d).
     Ok (\<lparr>ci_id = i, ci_alias = als, ci_version = version, ci_device_model = deviceModel,
          ci_device_type = deviceType, ci_token = token\<rparr>, d)))))))"

definition dart_decode_list_client_info :: "sse_ext \<Rightarrow> client_info list sse_decoder" where
  "dart_decode_list_client_info X = dart_decode_list X (dart_decode_client_info X)"

definition dart_decode_key_pair :: "sse_ext \<Rightarrow> key_pair sse_decoder" where
  "dart_decode_key_pair X d =
     rbind (dart_decode_string X d) (\<lambda>(privateKey, d).
     rbind (dart_decode_string X d) (\<lambda>(publicKey, d).
     Ok (\<lparr>kp_private_key = privateKey, kp_public_key = publicKey\<rparr>, d)))"

definition dart_decode_file_metadata :: "sse_ext \<Rightarrow> file_metadata sse_decoder" where
  "dart_decode_file_metadata X d =
     rbind (dart_decode_opt_string X d) (\<lambda>(modified, d).
     rbind (dart_decode_opt_string X d) (\<lambda>(accessed, d).
     Ok (\<lparr>fm_modified = modified, fm_accessed = accessed\<rparr>, d)))"

definition dart_decode_opt_file_metadata :: "sse_ext \<Rightarrow> file_metadata option sse_decoder" where
  "dart_decode_opt_file_metadata X = dart_decode_opt X (dart_decode_file_metadata X)"

definition dart_decode_file_dto :: "sse_ext \<Rightarrow> file_dto sse_decoder" where
  "dart_decode_file_dto X d =
     rbind (dart_decode_string X d) (\<lambda>(i, d).
     rbind (dart_decode_string X d) (\<lambda>(fileName, d).
     rbind (dart_decode_u64 X d) (\<lambda>(sz, d).
     rbind (dart_decode_string X d) (\<lambda>(fileType, d).
     rbind (dart_decode_opt_string X d) (\<lambda>(sha256, d).
     rbind (dart_decode_opt_string X d) (\<lambda>(preview, d).
     rbind (dart_decode_opt_file_metadata X d) (\<lambda>(metadata, d).
     Ok (\<lparr>fd_id = i, fd_file_name = fileName, fd_size = sz, fd_file_type = fileType, fd_sha256 = sha256,
          fd_preview = preview, fd_metadata = metadata\<rparr>, d))))))))"

definition dart_decode_list_file_dto :: "sse_ext \<Rightarrow> file_dto list sse_decoder" where
  "dart_decode_list_file_dto X = dart_decode_list X (dart_decode_file_dto X)"

definition dart_decode_rtc_file_error :: "sse_ext \<Rightarrow> rtc_file_error sse_decoder" where
  "dart_decode_rtc_file_error X d =
     rbind (dart_decode_string X d) (\<lambda>(fileId, d).
     rbind (dart_decode_string X d) (\<lambda>(error, d).
     Ok (\<lparr>fe_file_id = fileId, fe_error = error\<rparr>, d)))"

definition dart_decode_rtc_status :: "sse_ext \<Rightarrow> rtc_status sse_decoder" where
  "dart_decode_rtc_status X d =
     rbind (dart_decode_i32 X d) (\<lambda>(tag, d).
       if tag = 0 then Ok (SdpExchanged, d)
       else if tag = 1 then Ok (Connected, d)
       else if tag = 2 then Ok (PinRequired, d)
       else if tag = 3 then Ok (TooManyAttempts, d)
       else if tag = 4 then Ok (Declined, d)
       else if tag = 5 then Ok (Sending, d)
       else if tag = 6 then Ok (Finished, d)
       else if tag = 7 then rbind (dart_decode_string X d) (\<lambda>(field0, d). Ok (StatusError field0, d))
       else Panic ''UnimplementedError'')"

definition dart_decode_ws_server_sdp_message :: "sse_ext \<Rightarrow> ws_server_sdp_message sse_decoder" where
  "dart_decode_ws_server_sdp_message X d =
     rbind (dart_decode_client_info X d) (\<lambda>(peer, d).
     rbind (dart_decode_string X d) (\<lambda>(sessionId, d).
     rbind (dart_decode_string X d) (\<lambda>(sdp, d).
     Ok (\<lparr>ss_peer = peer, ss_session_id = sessionId, ss_sdp = sdp\<rparr>, d))))"

definition dart_decode_ws_server_message :: "sse_ext \<Rightarrow> ws_server_message sse_decoder" where
  "dart_decode_ws_server_message X d =
     rbind (dart_decode_i32 X d) (\<lambda>(tag, d).
       if tag = 0 then
         rbind (dart_decode_client_info X d) (\<lambda>(client, d).
         rbind (dart_decode_list_client_info X d) (\<lambda>(peers, d). Ok (SHello client peers, d)))
       else if tag = 1 then rbind (dart_decode_client_info X d) (\<lambda>(peer, d). Ok (SJoin peer, d))
       else if tag = 2 then rbind (dart_decode_client_info X d) (\<lambda>(peer, d). Ok (SUpdate peer, d))
       else if tag = 3 then rbind (dart_decode_uuid X d) (\<lambda>(peerId, d). Ok (SLeft peerId, d))
       else if tag = 4 then rbind (dart_decode_ws_server_sdp_message X d) (\<lambda>(field0, d). Ok (SOffer field0, d))
       else if tag = 5 then rbind (dart_decode_ws_server_sdp_message X d) (\<lambda>(field0, d). Ok (SAnswer field0, d))
       else if tag = 6 then rbind (dart_decode_u16 X d) (\<lambda>(code, d). Ok (SError code, d))
       else Panic ''UnimplementedError'')"

section \<open>What Dart reads\<close>

text \<open>The value written, its texts without a byte order mark in front.\<close>

definition strip_client_info :: "client_info \<Rightarrow> client_info" where
  "strip_client_info v = v\<lparr>ci_alias := strip_mark (ci_alias v), ci_version := strip_mark (ci_version v),
     ci_device_model := map_option strip_mark (ci_device_model v), ci_token := strip_mark (ci_token v)\<rparr>"

definition strip_key_pair :: "key_pair \<Rightarrow> key_pair" where
  "strip_key_pair v = \<lparr>kp_private_key = strip_mark (kp_private_key v), kp_public_key = strip_mark (kp_public_key v)\<rparr>"

definition strip_file_metadata :: "file_metadata \<Rightarrow> file_metadata" where
  "strip_file_metadata v =
     \<lparr>fm_modified = map_option strip_mark (fm_modified v), fm_accessed = map_option strip_mark (fm_accessed v)\<rparr>"

definition strip_file_dto :: "file_dto \<Rightarrow> file_dto" where
  "strip_file_dto v = v\<lparr>fd_id := strip_mark (fd_id v), fd_file_name := strip_mark (fd_file_name v),
     fd_file_type := strip_mark (fd_file_type v), fd_sha256 := map_option strip_mark (fd_sha256 v),
     fd_preview := map_option strip_mark (fd_preview v), fd_metadata := map_option strip_file_metadata (fd_metadata v)\<rparr>"

definition strip_rtc_file_error :: "rtc_file_error \<Rightarrow> rtc_file_error" where
  "strip_rtc_file_error v = \<lparr>fe_file_id = strip_mark (fe_file_id v), fe_error = strip_mark (fe_error v)\<rparr>"

fun strip_rtc_status :: "rtc_status \<Rightarrow> rtc_status" where
  "strip_rtc_status (StatusError e) = StatusError (strip_mark e)"
| "strip_rtc_status s = s"

definition strip_sdp_message :: "ws_server_sdp_message \<Rightarrow> ws_server_sdp_message" where
  "strip_sdp_message v =
     \<lparr>ss_peer = strip_client_info (ss_peer v), ss_session_id = strip_mark (ss_session_id v), ss_sdp = strip_mark (ss_sdp v)\<rparr>"

fun strip_ws_server_message :: "ws_server_message \<Rightarrow> ws_server_message" where
  "strip_ws_server_message (SHello client peers) = SHello (strip_client_info client) (map strip_client_info peers)"
| "strip_ws_server_message (SJoin peer) = SJoin (strip_client_info peer)"
| "strip_ws_server_message (SUpdate peer) = SUpdate (strip_client_info peer)"
| "strip_ws_server_message (SOffer m) = SOffer (strip_sdp_message m)"
| "strip_ws_server_message (SAnswer m) = SAnswer (strip_sdp_message m)"
| "strip_ws_server_message m = m"

lemma dart_read_write_int: "take_bit (8 * n) x = x \<Longrightarrow> dart_read_int X n (write_int X n x @ d) = Ok (x, d)"
  by (auto simp: dart_read_int_def write_int_def from_le_to_le_bytes split: endian.splits)

lemma reader_dart_read [reader_intros]: "sse_reader (dart_read_int X n)" "sse_reader (dart_get_bytes i)"
  by (auto simp: sse_reader_def dart_read_int_def dart_get_bytes_def split: endian.splits)

lemma reader_dart_ints [reader_intros]:
  "sse_reader (dart_decode_u8 X)" "sse_reader (dart_decode_u16 X)" "sse_reader (dart_decode_i32 X)"
  "sse_reader (dart_decode_u64 X)" "sse_reader (dart_decode_usize X)"
  unfolding dart_decode_u8_def [abs_def] dart_decode_u16_def [abs_def] dart_decode_i32_def [abs_def]
    dart_decode_u64_def [abs_def] dart_decode_usize_def [abs_def]
  by (intro reader_intros)+

lemma round_dart_ints [simp]:
  "dart_decode_u16 X (sse_encode_u16 X b @ d) = Ok (b, d)"
  "dart_decode_i32 X (sse_encode_i32 X c @ d) = Ok (c, d)"
  "dart_decode_u64 X (sse_encode_u64 X e @ d) = Ok (e, d)"
  "dart_decode_usize X (sse_encode_usize X e @ d) = Ok (e, d)"
  by (simp_all add: sse_encode_u16_def dart_decode_u16_def sse_encode_i32_def
    dart_decode_i32_def sse_encode_u64_def dart_decode_u64_def sse_encode_usize_def dart_decode_usize_def
    dart_read_write_int)

lemma round_dart_u8 [simp]: "dart_decode_u8 X (b # d) = Ok (b, d)"
  by (cases "native_endian X") (simp_all add: dart_decode_u8_def dart_read_int_def)

lemma reader_dart_bool [reader_intros]: "sse_reader (dart_decode_bool X)" "sse_reader (dart_decode_unit X)"
  unfolding dart_decode_bool_def [abs_def] dart_decode_unit_def [abs_def]
  by (intro reader_intros)+

lemma round_dart_bool [simp]:
  "dart_decode_bool X (sse_encode_bool X b @ d) = Ok (b, d)"
  "dart_decode_unit X (sse_encode_unit X u @ d) = Ok (u, d)"
  by (simp_all add: sse_encode_bool_def dart_decode_bool_def sse_encode_unit_def dart_decode_unit_def)

lemma reader_dart_list [reader_intros]:
  "sse_reader dec \<Longrightarrow> sse_reader (dart_decode_list X dec)" "sse_reader dec \<Longrightarrow> sse_reader (dart_decode_opt X dec)"
  unfolding dart_decode_list_def [abs_def] dart_decode_opt_def [abs_def] by (intro reader_intros reader_times | assumption)+

context sse_link
begin

lemma round_dart_list:
  "vec_fits xs \<Longrightarrow> \<forall>x \<in> set xs. ok x \<Longrightarrow>
     dart_decode_list X dec (sse_encode_vec X enc xs @ d) = Ok (map view xs, d)"
  by (simp add: dart_decode_list_def sse_encode_vec_def sint_length round_times)

lemma round_dart_opt:
  "pred_option ok v \<Longrightarrow> dart_decode_opt X dec (sse_encode_option X enc v @ d) = Ok (map_option view v, d)"
  by (cases v) (simp_all add: dart_decode_opt_def sse_encode_option_def round)

end

lemma reader_dart_texts [reader_intros]:
  "sse_reader (dart_decode_list_prim_u8 X)" "sse_reader (dart_decode_string X)" "sse_reader (dart_decode_uuid X)"
proof -
  show bytes: "sse_reader (dart_decode_list_prim_u8 X)"
    unfolding dart_decode_list_prim_u8_def [abs_def] by (intro reader_intros)
  show "sse_reader (dart_decode_string X)" "sse_reader (dart_decode_uuid X)"
    unfolding dart_decode_string_def [abs_def] dart_decode_uuid_def [abs_def] by (intro reader_intros bytes)+
qed

lemma round_dart_texts [simp]:
  "vec_fits b \<Longrightarrow> dart_decode_list_prim_u8 X (sse_encode_list_prim_u8 X b @ d) = Ok (b, d)"
  "text_fits s \<Longrightarrow> dart_decode_string X (sse_encode_string X s @ d) = Ok (strip_mark s, d)"
  "sse_ok X \<Longrightarrow> dart_decode_uuid X (sse_encode_uuid X i @ d) = Ok (i, d)"
proof -
  show bytes: "vec_fits b \<Longrightarrow> dart_decode_list_prim_u8 X (sse_encode_list_prim_u8 X b @ d) = Ok (b, d)" for b
    by (simp add: dart_decode_list_prim_u8_def sse_encode_list_prim_u8_def sse_encode_vec_def concat_u8
      sint_vec_length dart_get_bytes_def)
  show "text_fits s \<Longrightarrow> dart_decode_string X (sse_encode_string X s @ d) = Ok (strip_mark s, d)"
    by (simp add: dart_decode_string_def sse_encode_string_def text_fits_def from_utf8_def bytes)
  show "sse_ok X \<Longrightarrow> dart_decode_uuid X (sse_encode_uuid X i @ d) = Ok (i, d)"
    by (simp add: dart_decode_uuid_def sse_encode_uuid_def sse_ok_def vec_fits_def bytes)
qed

interpretation to_dart_string: sse_link "sse_encode_string X" "dart_decode_string X" strip_mark text_fits for X
  by unfold_locales (simp_all add: reader_intros)

lemma reader_dart_text_lists [reader_intros]:
  "sse_reader (dart_decode_list_string X)" "sse_reader (dart_decode_set_string X)" "sse_reader (dart_decode_opt_string X)"
  "sse_reader (dart_decode_rust_opaque X)" "sse_reader (dart_decode_anyhow X)"
  unfolding dart_decode_list_string_def dart_decode_set_string_def [abs_def] dart_decode_opt_string_def
    dart_decode_rust_opaque_def [abs_def] dart_decode_anyhow_def
  by (intro reader_intros)+

lemma round_dart_text_lists [simp]:
  "texts_fit ss \<Longrightarrow> dart_decode_list_string X (sse_encode_list_string X ss @ d) = Ok (map strip_mark ss, d)"
  "texts_fit ss \<Longrightarrow> dart_decode_set_string X (sse_encode_set_string X ss @ d) = Ok (remdups (map strip_mark ss), d)"
  "opt_text_fits v \<Longrightarrow> dart_decode_opt_string X (sse_encode_opt_string X v @ d) = Ok (map_option strip_mark v, d)"
  "dart_decode_rust_opaque X (sse_encode_rust_opaque X raw @ d) = Ok (raw, d)"
  "text_fits (debug e) \<Longrightarrow> dart_decode_anyhow X (sse_encode_anyhow X debug e @ d) = Ok (strip_mark (debug e), d)"
  by (auto simp: dart_decode_list_string_def sse_encode_list_string_def texts_fit_def list_all_iff
    to_dart_string.round_dart_list dart_decode_set_string_def sse_encode_set_string_def dart_decode_opt_string_def
    sse_encode_opt_string_def opt_text_fits_def to_dart_string.round_dart_opt dart_decode_rust_opaque_def
    sse_encode_rust_opaque_def dart_decode_anyhow_def sse_encode_anyhow_def split: prod.splits)

lemma reader_dart_device [reader_intros]: "sse_reader (dart_decode_device_type X)" "sse_reader (dart_decode_opt_device_type X)"
proof -
  show first: "sse_reader (dart_decode_device_type X)"
    unfolding dart_decode_device_type_def [abs_def] by (intro reader_intros)
  show "sse_reader (dart_decode_opt_device_type X)"
    unfolding dart_decode_opt_device_type_def by (intro reader_intros first)
qed

lemma round_dart_device [simp]: "dart_decode_device_type X (sse_encode_device_type X v @ d) = Ok (v, d)"
  by (cases v) (simp_all add: dart_decode_device_type_def sse_encode_device_type_def dart_device_types_def)

interpretation to_dart_device_type:
  sse_codec "sse_encode_device_type X" "dart_decode_device_type X" "\<lambda>_. True" for X
  by unfold_locales (simp_all add: reader_intros)

lemma round_dart_opt_device [simp]: "dart_decode_opt_device_type X (sse_encode_opt_device_type X v @ d) = Ok (v, d)"
  by (simp add: dart_decode_opt_device_type_def sse_encode_opt_device_type_def to_dart_device_type.round_dart_opt
    option.pred_True option.map_ident)

lemma reader_dart_client [reader_intros]:
  "sse_reader (dart_decode_client_info X)" "sse_reader (dart_decode_list_client_info X)"
proof -
  show first: "sse_reader (dart_decode_client_info X)"
    unfolding dart_decode_client_info_def [abs_def] by (intro reader_intros)
  show "sse_reader (dart_decode_list_client_info X)"
    unfolding dart_decode_list_client_info_def by (intro reader_intros first)
qed

lemma round_dart_client [simp]:
  "sse_ok X \<Longrightarrow> client_info_fits c \<Longrightarrow>
     dart_decode_client_info X (sse_encode_client_info X c @ d) = Ok (strip_client_info c, d)"
  by (simp add: dart_decode_client_info_def sse_encode_client_info_def client_info_fits_def strip_client_info_def)

interpretation to_dart_client_info:
  sse_link "sse_encode_client_info X" "dart_decode_client_info X" strip_client_info "\<lambda>c. sse_ok X \<and> client_info_fits c" for X
  by unfold_locales (simp_all add: reader_intros)

lemma round_dart_clients [simp]:
  "sse_ok X \<Longrightarrow> client_infos_fit cs \<Longrightarrow>
     dart_decode_list_client_info X (sse_encode_list_client_info X cs @ d) = Ok (map strip_client_info cs, d)"
  by (simp add: dart_decode_list_client_info_def sse_encode_list_client_info_def client_infos_fit_def list_all_iff
    to_dart_client_info.round_dart_list)

lemma reader_dart_metadata [reader_intros]:
  "sse_reader (dart_decode_file_metadata X)" "sse_reader (dart_decode_opt_file_metadata X)"
proof -
  show first: "sse_reader (dart_decode_file_metadata X)"
    unfolding dart_decode_file_metadata_def [abs_def] by (intro reader_intros)
  show "sse_reader (dart_decode_opt_file_metadata X)"
    unfolding dart_decode_opt_file_metadata_def by (intro reader_intros first)
qed

lemma round_dart_metadata [simp]:
  "file_metadata_fits m \<Longrightarrow>
     dart_decode_file_metadata X (sse_encode_file_metadata X m @ d) = Ok (strip_file_metadata m, d)"
  by (simp add: dart_decode_file_metadata_def sse_encode_file_metadata_def file_metadata_fits_def strip_file_metadata_def)

interpretation to_dart_file_metadata:
  sse_link "sse_encode_file_metadata X" "dart_decode_file_metadata X" strip_file_metadata file_metadata_fits for X
  by unfold_locales (simp_all add: reader_intros)

lemma round_dart_opt_metadata [simp]:
  "pred_option file_metadata_fits m \<Longrightarrow>
     dart_decode_opt_file_metadata X (sse_encode_opt_file_metadata X m @ d) = Ok (map_option strip_file_metadata m, d)"
  by (simp add: dart_decode_opt_file_metadata_def sse_encode_opt_file_metadata_def to_dart_file_metadata.round_dart_opt)

lemma reader_dart_file [reader_intros]: "sse_reader (dart_decode_file_dto X)" "sse_reader (dart_decode_list_file_dto X)"
proof -
  show first: "sse_reader (dart_decode_file_dto X)"
    unfolding dart_decode_file_dto_def [abs_def] by (intro reader_intros)
  show "sse_reader (dart_decode_list_file_dto X)"
    unfolding dart_decode_list_file_dto_def by (intro reader_intros first)
qed

lemma round_dart_file [simp]:
  "file_dto_fits f \<Longrightarrow> dart_decode_file_dto X (sse_encode_file_dto X f @ d) = Ok (strip_file_dto f, d)"
  by (simp add: dart_decode_file_dto_def sse_encode_file_dto_def file_dto_fits_def strip_file_dto_def)

interpretation to_dart_file_dto: sse_link "sse_encode_file_dto X" "dart_decode_file_dto X" strip_file_dto file_dto_fits for X
  by unfold_locales (simp_all add: reader_intros)

lemma round_dart_files [simp]:
  "file_dtos_fit fs \<Longrightarrow>
     dart_decode_list_file_dto X (sse_encode_list_file_dto X fs @ d) = Ok (map strip_file_dto fs, d)"
  by (simp add: dart_decode_list_file_dto_def sse_encode_list_file_dto_def file_dtos_fit_def list_all_iff
    to_dart_file_dto.round_dart_list)

lemma reader_dart_messages [reader_intros]:
  "sse_reader (dart_decode_key_pair X)" "sse_reader (dart_decode_rtc_file_error X)"
  "sse_reader (dart_decode_rtc_status X)" "sse_reader (dart_decode_ws_server_sdp_message X)"
  unfolding dart_decode_key_pair_def [abs_def] dart_decode_rtc_file_error_def [abs_def]
    dart_decode_rtc_status_def [abs_def] dart_decode_ws_server_sdp_message_def [abs_def]
  by (intro reader_intros)+

lemma reader_dart_ws_server_message [reader_intros]: "sse_reader (dart_decode_ws_server_message X)"
  unfolding dart_decode_ws_server_message_def [abs_def] by (intro reader_intros)

lemma round_dart_messages [simp]:
  "key_pair_fits k \<Longrightarrow> dart_decode_key_pair X (sse_encode_key_pair X k @ d) = Ok (strip_key_pair k, d)"
  "rtc_file_error_fits e \<Longrightarrow> dart_decode_rtc_file_error X (sse_encode_rtc_file_error X e @ d) = Ok (strip_rtc_file_error e, d)"
  "sse_ok X \<Longrightarrow> ws_server_sdp_message_fits m \<Longrightarrow>
     dart_decode_ws_server_sdp_message X (sse_encode_ws_server_sdp_message X m @ d) = Ok (strip_sdp_message m, d)"
  by (simp_all add: dart_decode_key_pair_def sse_encode_key_pair_def key_pair_fits_def strip_key_pair_def
    dart_decode_rtc_file_error_def sse_encode_rtc_file_error_def rtc_file_error_fits_def strip_rtc_file_error_def
    dart_decode_ws_server_sdp_message_def sse_encode_ws_server_sdp_message_def ws_server_sdp_message_fits_def
    strip_sdp_message_def)

lemma round_dart_status [simp]:
  "rtc_status_fits s \<Longrightarrow> dart_decode_rtc_status X (sse_encode_rtc_status X s @ d) = Ok (strip_rtc_status s, d)"
  by (cases s) (simp_all add: dart_decode_rtc_status_def)

lemma round_dart_ws_server_message [simp]:
  "sse_ok X \<Longrightarrow> ws_server_message_fits m \<Longrightarrow>
     dart_decode_ws_server_message X (sse_encode_ws_server_message X m @ d) = Ok (strip_ws_server_message m, d)"
  by (cases m) (simp_all add: dart_decode_ws_server_message_def)

interpretation to_dart_rtc_status:
  sse_link "sse_encode_rtc_status X" "dart_decode_rtc_status X" strip_rtc_status rtc_status_fits for X
  by unfold_locales (simp_all add: reader_intros)

interpretation to_dart_ws_server_message:
  sse_link "sse_encode_ws_server_message X" "dart_decode_ws_server_message X" strip_ws_server_message
    "\<lambda>m. sse_ok X \<and> ws_server_message_fits m" for X
  by unfold_locales (simp_all add: reader_intros)

end
