(* ===== verification/Bridge_Wire.thy ===== *)
theory Bridge_Wire
  imports Dart_Codec
begin

text \<open>
  The calls of the application: \<open>app/lib/rust/frb_generated.dart\<close> serializes the arguments of a call
  and passes them with the number of the function; \<open>pde_ffi_dispatcher_primary_impl\<close> of
  \<open>app/rust/src/frb_generated.rs\<close> picks the wire function, which reads the arguments, requires that
  nothing is left, locks the object of the call and runs the function of \<open>api\<close>. A wire function of
  the model gives the task it starts: the locks it takes and the call it makes.
\<close>

section \<open>Calls\<close>

text \<open>
  A call with its arguments; \<open>'p\<close> is the type of a PIN configuration, which differs between the two
  languages. A sink is the text it is serialized to, an object its address.
\<close>

datatype 'p bridge_call =
    CallAcceptOffer rust_opaque "string list" ws_server_sdp_message string "expecting_public_key option" "'p option"
  | CallSendOffer rust_opaque "string list" uuid string "expecting_public_key option" "'p option" "file_dto list"
  | CallUpdateInfo rust_opaque client_info_without_id
  | CallGetFileId rust_opaque
  | CallReceive rust_opaque string
  | CallFileSend rust_opaque "byte list"
  | CallDecline rust_opaque
  | CallReceiveListenError rust_opaque string
  | CallListenFiles rust_opaque
  | CallListenReceiving rust_opaque string
  | CallReceiveListenStatus rust_opaque string
  | CallSendFileStatus rust_opaque rtc_send_file_response
  | CallReceiveSendPin rust_opaque string
  | CallSendSelection rust_opaque "string list"
  | CallSendListenError rust_opaque string
  | CallListenSelectedFiles rust_opaque
  | CallSendListenStatus rust_opaque string
  | CallSendFile rust_opaque string
  | CallSendSendPin rust_opaque string
  | CallConnect string string proposing_client_info string dart_opaque
  | CallEnableDebugLogging
  | CallGenerateKeyPair
  | CallVerifyCert string string

text \<open>
  \<open>wt_async\<close>: run by \<open>wrap_async\<close> (on the executor) or by \<open>wrap_normal\<close> (on a thread of the pool);
  \<open>wt_locks\<close>: the objects locked for the call, with whether the lock is exclusive
  (\<open>lockable_decode_async_ref_mut\<close>) or shared (\<open>lockable_decode_async_ref\<close>, \<open>lockable_decode_sync_ref\<close>).
\<close>

record wire_task =
  wt_debug_name :: string
  wt_async :: bool
  wt_locks :: "(rust_opaque \<times> bool) list"
  wt_call :: "pin_config bridge_call"

text \<open>What the wire functions share: the arguments are read, then \<open>deserializer.end()\<close>.\<close>

definition wrap ::
  "sse_ext \<Rightarrow> string \<Rightarrow> bool \<Rightarrow> ((rust_opaque \<times> bool) list \<times> pin_config bridge_call) sse_decoder \<Rightarrow> byte list \<Rightarrow>
   wire_task res" where
  "wrap X debug_name async dec message =
     rbind (dec message) (\<lambda>((locks, call), d).
     rbind (de_end X d) (\<lambda>_.
     Ok \<lparr>wt_debug_name = debug_name, wt_async = async, wt_locks = locks, wt_call = call\<rparr>))"

section \<open>Wire functions\<close>

definition wire_accept_offer :: "sse_ext \<Rightarrow> byte list \<Rightarrow> wire_task res" where
  "wire_accept_offer X = wrap X ''LsSignalingConnection_accept_offer'' True (\<lambda>d.
       rbind (sse_decode_rust_opaque X d) (\<lambda>(that, d).
       rbind (sse_decode_list_string X d) (\<lambda>(stun_servers, d).
       rbind (sse_decode_ws_server_sdp_message X d) (\<lambda>(offer, d).
       rbind (sse_decode_string X d) (\<lambda>(private_key, d).
       rbind (sse_decode_opt_expecting_public_key X d) (\<lambda>(expecting_public_key, d).
       rbind (sse_decode_opt_pin_config X d) (\<lambda>(pin, d).
       Ok (([(that, False)], CallAcceptOffer that stun_servers offer private_key expecting_public_key pin), d))))))))"

definition wire_send_offer :: "sse_ext \<Rightarrow> byte list \<Rightarrow> wire_task res" where
  "wire_send_offer X = wrap X ''LsSignalingConnection_send_offer'' True (\<lambda>d.
       rbind (sse_decode_rust_opaque X d) (\<lambda>(that, d).
       rbind (sse_decode_list_string X d) (\<lambda>(stun_servers, d).
       rbind (sse_decode_uuid X d) (\<lambda>(target, d).
       rbind (sse_decode_string X d) (\<lambda>(private_key, d).
       rbind (sse_decode_opt_expecting_public_key X d) (\<lambda>(expecting_public_key, d).
       rbind (sse_decode_opt_pin_config X d) (\<lambda>(pin, d).
       rbind (sse_decode_list_file_dto X d) (\<lambda>(files, d).
       Ok (([(that, False)], CallSendOffer that stun_servers target private_key expecting_public_key pin files), d)))))))))"

definition wire_update_info :: "sse_ext \<Rightarrow> byte list \<Rightarrow> wire_task res" where
  "wire_update_info X = wrap X ''LsSignalingConnection_update_info'' True (\<lambda>d.
       rbind (sse_decode_rust_opaque X d) (\<lambda>(that, d).
       rbind (sse_decode_client_info_without_id X d) (\<lambda>(info, d).
       Ok (([(that, False)], CallUpdateInfo that info), d))))"

definition wire_get_file_id :: "sse_ext \<Rightarrow> byte list \<Rightarrow> wire_task res" where
  "wire_get_file_id X = wrap X ''RtcFileReceiver_get_file_id'' False (\<lambda>d.
       rbind (sse_decode_rust_opaque X d) (\<lambda>(that, d).
       Ok (([(that, False)], CallGetFileId that), d)))"

definition wire_receive :: "sse_ext \<Rightarrow> byte list \<Rightarrow> wire_task res" where
  "wire_receive X = wrap X ''RtcFileReceiver_receive'' True (\<lambda>d.
       rbind (sse_decode_rust_opaque X d) (\<lambda>(that, d).
       rbind (sse_decode_stream_sink X d) (\<lambda>(sink, d).
       Ok (([(that, False)], CallReceive that sink), d))))"

definition wire_file_sender_send :: "sse_ext \<Rightarrow> byte list \<Rightarrow> wire_task res" where
  "wire_file_sender_send X = wrap X ''RtcFileSender_send'' True (\<lambda>d.
       rbind (sse_decode_rust_opaque X d) (\<lambda>(that, d).
       rbind (sse_decode_list_prim_u8 X d) (\<lambda>(data, d).
       Ok (([(that, False)], CallFileSend that data), d))))"

definition wire_decline :: "sse_ext \<Rightarrow> byte list \<Rightarrow> wire_task res" where
  "wire_decline X = wrap X ''RtcReceiveController_decline'' True (\<lambda>d.
       rbind (sse_decode_rust_opaque X d) (\<lambda>(that, d).
       Ok (([(that, False)], CallDecline that), d)))"

definition wire_receive_listen_error :: "sse_ext \<Rightarrow> byte list \<Rightarrow> wire_task res" where
  "wire_receive_listen_error X = wrap X ''RtcReceiveController_listen_error'' True (\<lambda>d.
       rbind (sse_decode_rust_opaque X d) (\<lambda>(that, d).
       rbind (sse_decode_stream_sink X d) (\<lambda>(sink, d).
       Ok (([(that, False)], CallReceiveListenError that sink), d))))"

definition wire_listen_files :: "sse_ext \<Rightarrow> byte list \<Rightarrow> wire_task res" where
  "wire_listen_files X = wrap X ''RtcReceiveController_listen_files'' True (\<lambda>d.
       rbind (sse_decode_rust_opaque X d) (\<lambda>(that, d).
       Ok (([(that, False)], CallListenFiles that), d)))"

definition wire_listen_receiving :: "sse_ext \<Rightarrow> byte list \<Rightarrow> wire_task res" where
  "wire_listen_receiving X = wrap X ''RtcReceiveController_listen_receiving'' True (\<lambda>d.
       rbind (sse_decode_rust_opaque X d) (\<lambda>(that, d).
       rbind (sse_decode_stream_sink X d) (\<lambda>(sink, d).
       Ok (([(that, False)], CallListenReceiving that sink), d))))"

definition wire_receive_listen_status :: "sse_ext \<Rightarrow> byte list \<Rightarrow> wire_task res" where
  "wire_receive_listen_status X = wrap X ''RtcReceiveController_listen_status'' True (\<lambda>d.
       rbind (sse_decode_rust_opaque X d) (\<lambda>(that, d).
       rbind (sse_decode_stream_sink X d) (\<lambda>(sink, d).
       Ok (([(that, False)], CallReceiveListenStatus that sink), d))))"

definition wire_send_file_status :: "sse_ext \<Rightarrow> byte list \<Rightarrow> wire_task res" where
  "wire_send_file_status X = wrap X ''RtcReceiveController_send_file_status'' True (\<lambda>d.
       rbind (sse_decode_rust_opaque X d) (\<lambda>(that, d).
       rbind (sse_decode_rtc_send_file_response X d) (\<lambda>(status, d).
       Ok (([(that, False)], CallSendFileStatus that status), d))))"

definition wire_receive_send_pin :: "sse_ext \<Rightarrow> byte list \<Rightarrow> wire_task res" where
  "wire_receive_send_pin X = wrap X ''RtcReceiveController_send_pin'' True (\<lambda>d.
       rbind (sse_decode_rust_opaque X d) (\<lambda>(that, d).
       rbind (sse_decode_string X d) (\<lambda>(pin, d).
       Ok (([(that, False)], CallReceiveSendPin that pin), d))))"

definition wire_send_selection :: "sse_ext \<Rightarrow> byte list \<Rightarrow> wire_task res" where
  "wire_send_selection X = wrap X ''RtcReceiveController_send_selection'' True (\<lambda>d.
       rbind (sse_decode_rust_opaque X d) (\<lambda>(that, d).
       rbind (sse_decode_set_string X d) (\<lambda>(selection, d).
       Ok (([(that, False)], CallSendSelection that selection), d))))"

definition wire_send_listen_error :: "sse_ext \<Rightarrow> byte list \<Rightarrow> wire_task res" where
  "wire_send_listen_error X = wrap X ''RtcSendController_listen_error'' True (\<lambda>d.
       rbind (sse_decode_rust_opaque X d) (\<lambda>(that, d).
       rbind (sse_decode_stream_sink X d) (\<lambda>(sink, d).
       Ok (([(that, True)], CallSendListenError that sink), d))))"

definition wire_listen_selected_files :: "sse_ext \<Rightarrow> byte list \<Rightarrow> wire_task res" where
  "wire_listen_selected_files X = wrap X ''RtcSendController_listen_selected_files'' True (\<lambda>d.
       rbind (sse_decode_rust_opaque X d) (\<lambda>(that, d).
       Ok (([(that, False)], CallListenSelectedFiles that), d)))"

definition wire_send_listen_status :: "sse_ext \<Rightarrow> byte list \<Rightarrow> wire_task res" where
  "wire_send_listen_status X = wrap X ''RtcSendController_listen_status'' True (\<lambda>d.
       rbind (sse_decode_rust_opaque X d) (\<lambda>(that, d).
       rbind (sse_decode_stream_sink X d) (\<lambda>(sink, d).
       Ok (([(that, True)], CallSendListenStatus that sink), d))))"

definition wire_send_file :: "sse_ext \<Rightarrow> byte list \<Rightarrow> wire_task res" where
  "wire_send_file X = wrap X ''RtcSendController_send_file'' True (\<lambda>d.
       rbind (sse_decode_rust_opaque X d) (\<lambda>(that, d).
       rbind (sse_decode_string X d) (\<lambda>(file_id, d).
       Ok (([(that, False)], CallSendFile that file_id), d))))"

definition wire_send_send_pin :: "sse_ext \<Rightarrow> byte list \<Rightarrow> wire_task res" where
  "wire_send_send_pin X = wrap X ''RtcSendController_send_pin'' True (\<lambda>d.
       rbind (sse_decode_rust_opaque X d) (\<lambda>(that, d).
       rbind (sse_decode_string X d) (\<lambda>(pin, d).
       Ok (([(that, False)], CallSendSendPin that pin), d))))"

definition wire_connect :: "sse_ext \<Rightarrow> byte list \<Rightarrow> wire_task res" where
  "wire_connect X = wrap X ''connect'' True (\<lambda>d.
       rbind (sse_decode_stream_sink X d) (\<lambda>(sink, d).
       rbind (sse_decode_string X d) (\<lambda>(uri, d).
       rbind (sse_decode_proposing_client_info X d) (\<lambda>(info, d).
       rbind (sse_decode_string X d) (\<lambda>(private_key, d).
       rbind (sse_decode_dart_opaque X d) (\<lambda>(on_connection, d).
       Ok (([], CallConnect sink uri info private_key on_connection), d)))))))"

definition wire_enable_debug_logging :: "sse_ext \<Rightarrow> byte list \<Rightarrow> wire_task res" where
  "wire_enable_debug_logging X = wrap X ''enable_debug_logging'' False (\<lambda>d.
       Ok (([], CallEnableDebugLogging), d))"

definition wire_generate_key_pair :: "sse_ext \<Rightarrow> byte list \<Rightarrow> wire_task res" where
  "wire_generate_key_pair X = wrap X ''generate_key_pair'' False (\<lambda>d.
       Ok (([], CallGenerateKeyPair), d))"

definition wire_verify_cert :: "sse_ext \<Rightarrow> byte list \<Rightarrow> wire_task res" where
  "wire_verify_cert X = wrap X ''verify_cert'' False (\<lambda>d.
       rbind (sse_decode_string X d) (\<lambda>(cert, d).
       rbind (sse_decode_string X d) (\<lambda>(public_key, d).
       Ok (([], CallVerifyCert cert public_key), d))))"

section \<open>Dispatch\<close>

definition pde_ffi_dispatcher_primary :: "sse_ext \<Rightarrow> int \<Rightarrow> byte list \<Rightarrow> wire_task res" where
  "pde_ffi_dispatcher_primary X func_id message =
    (if func_id = 1 then wire_accept_offer X message
     else if func_id = 2 then wire_send_offer X message
     else if func_id = 3 then wire_update_info X message
     else if func_id = 4 then wire_get_file_id X message
     else if func_id = 5 then wire_receive X message
     else if func_id = 6 then wire_file_sender_send X message
     else if func_id = 7 then wire_decline X message
     else if func_id = 8 then wire_receive_listen_error X message
     else if func_id = 9 then wire_listen_files X message
     else if func_id = 10 then wire_listen_receiving X message
     else if func_id = 11 then wire_receive_listen_status X message
     else if func_id = 12 then wire_send_file_status X message
     else if func_id = 13 then wire_receive_send_pin X message
     else if func_id = 14 then wire_send_selection X message
     else if func_id = 15 then wire_send_listen_error X message
     else if func_id = 16 then wire_listen_selected_files X message
     else if func_id = 17 then wire_send_listen_status X message
     else if func_id = 18 then wire_send_file X message
     else if func_id = 19 then wire_send_send_pin X message
     else if func_id = 20 then wire_connect X message
     else if func_id = 21 then wire_enable_debug_logging X message
     else if func_id = 22 then wire_generate_key_pair X message
     else if func_id = 23 then wire_verify_cert X message
     else Panic ''internal error: entered unreachable code'')"

fun dart_call :: "sse_ext \<Rightarrow> dart_pin_config bridge_call \<Rightarrow> int \<times> byte list" where
  "dart_call X (CallAcceptOffer that stun_servers offer private_key expecting_public_key pin) =
     (1, dart_encode_usize X that @ dart_encode_list_string X stun_servers @
        dart_encode_ws_server_sdp_message X offer @ dart_encode_string X private_key @
        dart_encode_opt_expecting_public_key X expecting_public_key @ dart_encode_opt_pin_config X pin)"
| "dart_call X (CallSendOffer that stun_servers target private_key expecting_public_key pin files) =
     (2, dart_encode_usize X that @ dart_encode_list_string X stun_servers @ dart_encode_uuid X target @
        dart_encode_string X private_key @ dart_encode_opt_expecting_public_key X expecting_public_key @
        dart_encode_opt_pin_config X pin @ dart_encode_list_file_dto X files)"
| "dart_call X (CallUpdateInfo that info) =
     (3, dart_encode_usize X that @ dart_encode_client_info_without_id X info)"
| "dart_call X (CallGetFileId that) =
     (4, dart_encode_usize X that)"
| "dart_call X (CallReceive that sink) =
     (5, dart_encode_usize X that @ dart_encode_string X sink)"
| "dart_call X (CallFileSend that data) =
     (6, dart_encode_usize X that @ dart_encode_list_prim_u8 X data)"
| "dart_call X (CallDecline that) =
     (7, dart_encode_usize X that)"
| "dart_call X (CallReceiveListenError that sink) =
     (8, dart_encode_usize X that @ dart_encode_string X sink)"
| "dart_call X (CallListenFiles that) =
     (9, dart_encode_usize X that)"
| "dart_call X (CallListenReceiving that sink) =
     (10, dart_encode_usize X that @ dart_encode_string X sink)"
| "dart_call X (CallReceiveListenStatus that sink) =
     (11, dart_encode_usize X that @ dart_encode_string X sink)"
| "dart_call X (CallSendFileStatus that status) =
     (12, dart_encode_usize X that @ dart_encode_rtc_send_file_response X status)"
| "dart_call X (CallReceiveSendPin that pin) =
     (13, dart_encode_usize X that @ dart_encode_string X pin)"
| "dart_call X (CallSendSelection that selection) =
     (14, dart_encode_usize X that @ dart_encode_set_string X selection)"
| "dart_call X (CallSendListenError that sink) =
     (15, dart_encode_usize X that @ dart_encode_string X sink)"
| "dart_call X (CallListenSelectedFiles that) =
     (16, dart_encode_usize X that)"
| "dart_call X (CallSendListenStatus that sink) =
     (17, dart_encode_usize X that @ dart_encode_string X sink)"
| "dart_call X (CallSendFile that file_id) =
     (18, dart_encode_usize X that @ dart_encode_string X file_id)"
| "dart_call X (CallSendSendPin that pin) =
     (19, dart_encode_usize X that @ dart_encode_string X pin)"
| "dart_call X (CallConnect sink uri info private_key on_connection) =
     (20, dart_encode_string X sink @ dart_encode_string X uri @ dart_encode_proposing_client_info X info @
        dart_encode_string X private_key @ dart_encode_isize X on_connection)"
| "dart_call X CallEnableDebugLogging =
     (21, [])"
| "dart_call X CallGenerateKeyPair =
     (22, [])"
| "dart_call X (CallVerifyCert cert public_key) =
     (23, dart_encode_string X cert @ dart_encode_string X public_key)"

fun call_fits :: "dart_pin_config bridge_call \<Rightarrow> bool" where
  "call_fits (CallAcceptOffer _ stun_servers offer private_key expecting_public_key pin) =
     (texts_fit stun_servers \<and> ws_server_sdp_message_fits offer \<and> text_fits private_key \<and>
        pred_option expecting_public_key_fits expecting_public_key \<and>
        pred_option (\<lambda>p. text_fits (dp_pin p)) pin)"
| "call_fits (CallSendOffer _ stun_servers _ private_key expecting_public_key pin files) =
     (texts_fit stun_servers \<and> text_fits private_key \<and>
        pred_option expecting_public_key_fits expecting_public_key \<and>
        pred_option (\<lambda>p. text_fits (dp_pin p)) pin \<and> file_dtos_fit files)"
| "call_fits (CallUpdateInfo _ info) =
     (client_info_without_id_fits info)"
| "call_fits (CallReceive _ sink) =
     (text_fits sink)"
| "call_fits (CallFileSend _ data) =
     (vec_fits data)"
| "call_fits (CallReceiveListenError _ sink) =
     (text_fits sink)"
| "call_fits (CallListenReceiving _ sink) =
     (text_fits sink)"
| "call_fits (CallReceiveListenStatus _ sink) =
     (text_fits sink)"
| "call_fits (CallSendFileStatus _ status) =
     (rtc_send_file_response_fits status)"
| "call_fits (CallReceiveSendPin _ pin) =
     (text_fits pin)"
| "call_fits (CallSendSelection _ selection) =
     (texts_fit selection \<and> distinct selection)"
| "call_fits (CallSendListenError _ sink) =
     (text_fits sink)"
| "call_fits (CallSendListenStatus _ sink) =
     (text_fits sink)"
| "call_fits (CallSendFile _ file_id) =
     (text_fits file_id)"
| "call_fits (CallSendSendPin _ pin) =
     (text_fits pin)"
| "call_fits (CallConnect sink uri info private_key _) =
     (text_fits sink \<and> text_fits uri \<and> proposing_client_info_fits info \<and> text_fits private_key)"
| "call_fits (CallVerifyCert cert public_key) =
     (text_fits cert \<and> text_fits public_key)"
| "call_fits _ = True"

text \<open>No function is synchronous.\<close>

definition pde_ffi_dispatcher_sync :: "sse_ext \<Rightarrow> int \<Rightarrow> byte list \<Rightarrow> byte list res" where
  "pde_ffi_dispatcher_sync X func_id message = Panic ''internal error: entered unreachable code''"

section \<open>Calls arrive\<close>

lemmas wire_defs =
  wire_accept_offer_def wire_send_offer_def wire_update_info_def wire_get_file_id_def wire_receive_def
  wire_file_sender_send_def wire_decline_def wire_receive_listen_error_def wire_listen_files_def
  wire_listen_receiving_def wire_receive_listen_status_def wire_send_file_status_def wire_receive_send_pin_def
  wire_send_selection_def wire_send_listen_error_def wire_listen_selected_files_def wire_send_listen_status_def
  wire_send_file_def wire_send_send_pin_def wire_connect_def wire_enable_debug_logging_def
  wire_generate_key_pair_def wire_verify_cert_def

lemma pin_of_dart_fits [simp]: "pin_config_fits (pin_of_dart p) \<longleftrightarrow> text_fits (dp_pin p)"
  by (simp add: pin_config_fits_def pin_of_dart_def)

lemma round_dart_fn [simp]: "sse_decode_dart_opaque X (sse_encode_isize X h @ d) = Ok (h, d)"
  by (simp add: sse_decode_dart_opaque_def sse_decode_usize_def sse_encode_isize_def read_write_int)

lemma de_end_Nil [simp]: "sse_ok X \<Longrightarrow> de_end X [] = Ok ()"
  by (simp add: sse_ok_def)

text \<open>The object a call locks, and how: the two listeners of the sending side lock it for themselves.\<close>

fun call_locks :: "'p bridge_call \<Rightarrow> (rust_opaque \<times> bool) list" where
  "call_locks (CallSendListenError that _) = [(that, True)]"
| "call_locks (CallSendListenStatus that _) = [(that, True)]"
| "call_locks (CallAcceptOffer that _ _ _ _ _) = [(that, False)]"
| "call_locks (CallSendOffer that _ _ _ _ _ _) = [(that, False)]"
| "call_locks (CallUpdateInfo that _) = [(that, False)]"
| "call_locks (CallGetFileId that) = [(that, False)]"
| "call_locks (CallReceive that _) = [(that, False)]"
| "call_locks (CallFileSend that _) = [(that, False)]"
| "call_locks (CallDecline that) = [(that, False)]"
| "call_locks (CallReceiveListenError that _) = [(that, False)]"
| "call_locks (CallListenFiles that) = [(that, False)]"
| "call_locks (CallListenReceiving that _) = [(that, False)]"
| "call_locks (CallReceiveListenStatus that _) = [(that, False)]"
| "call_locks (CallSendFileStatus that _) = [(that, False)]"
| "call_locks (CallReceiveSendPin that _) = [(that, False)]"
| "call_locks (CallSendSelection that _) = [(that, False)]"
| "call_locks (CallListenSelectedFiles that) = [(that, False)]"
| "call_locks (CallSendFile that _) = [(that, False)]"
| "call_locks (CallSendSendPin that _) = [(that, False)]"
| "call_locks _ = []"

text \<open>What a message is read as: the arguments of one wire function, to the end.\<close>

definition wire_reads ::
  "sse_ext \<Rightarrow> (byte list \<Rightarrow> wire_task res) \<Rightarrow> byte list \<Rightarrow> (rust_opaque \<times> bool) list \<Rightarrow> pin_config bridge_call \<Rightarrow> bool" where
  "wire_reads X f m locks call \<longleftrightarrow>
     (\<exists>name async dec. f = wrap X name async dec \<and> sse_reader dec \<and> dec m = Ok ((locks, call), []))"

lemma wire_readsI:
  "sse_reader dec \<Longrightarrow> dec (m @ []) = Ok ((locks, call), []) \<Longrightarrow> wire_reads X (wrap X name async dec) m locks call"
  unfolding wire_reads_def by auto

lemma dispatch_reads:
  assumes ok: "sse_ok X" and fits: "call_fits c" and sent: "dart_call X c = (n, m)"
  shows "wire_reads X (pde_ffi_dispatcher_primary X n) m (call_locks c) (map_bridge_call pin_of_dart c)"
proof -
  have fst: "fst (dart_call X c) = n" and snd: "snd (dart_call X c) = m" using sent by simp_all
  show ?thesis
    unfolding snd [symmetric] fst [symmetric] using fits
    apply (cases c)
    apply (simp_all add: pde_ffi_dispatcher_primary_def [abs_def] wire_defs dart_encodes)
    apply (rule wire_readsI, (intro reader_intros)[1], simp add: ok option.pred_map comp_def del: append_Nil2)+
    done
qed

lemma wire_reads_whole:
  assumes "sse_ok X" and "wire_reads X f m locks call"
  obtains t where "f m = Ok t" "wt_call t = call" "wt_locks t = locks"
  using assms unfolding wire_reads_def wrap_def by (fastforce simp: sse_ok_def)

lemma wire_reads_truncated:
  assumes "wire_reads X f m locks call" and "k < length m"
  shows "\<exists>s. f (take k m) = Panic s"
proof -
  obtain name async dec where f: "f = wrap X name async dec" and dec: "sse_reader dec" "dec m = Ok ((locks, call), [])"
    using assms(1) unfolding wire_reads_def by blast
  obtain s where "dec (take k m) = Panic s" using reader_truncated [OF dec assms(2)] by blast
  then show ?thesis by (simp add: f wrap_def)
qed

text \<open>The locks of a task are those of its call, whatever message it came from.\<close>

lemma wrap_locks:
  assumes "wrap X name async dec m = Ok t"
  obtains locks call d where "dec m = Ok ((locks, call), d)"
    "t = \<lparr>wt_debug_name = name, wt_async = async, wt_locks = locks, wt_call = call\<rparr>"
  using assms unfolding wrap_def by (auto simp: rbind_eq_Ok)

lemma dispatched_locks:
  assumes "pde_ffi_dispatcher_primary X n m = Ok t"
  shows "wt_locks t = call_locks (wt_call t)"
  using assms unfolding pde_ffi_dispatcher_primary_def
  by (auto simp: wire_defs rbind_eq_Ok split: if_splits elim!: wrap_locks)

end
