(* ===== verification/Bridge_Sender.thy ===== *)
theory Bridge_Sender
  imports Bridge_Wire
begin

text \<open>
  The sending side as the application drives it: the task that \<open>LsSignalingConnection::send_offer\<close>
  spawns (\<open>app/rust/src/api/webrtc.rs\<close>) with the send task of \<open>core/src/webrtc/webrtc.rs\<close>, the calls
  of the \<open>RTCSendController\<close> that wait for its lock or hold it, and the channels between them. The
  status channel holds one item, and \<open>listen_status\<close>, which empties it, takes the controller for
  itself (\<open>&mut self\<close>) until every sender of the channel is gone.
\<close>

section \<open>Locks\<close>

text \<open>
  An object of the bridge is behind a reader-writer lock. Who is granted it, and when, is the
  library's: \<open>acq waiting holding t\<close> says that \<open>t\<close> may get its locks now. The contract relied on is
  that an exclusive lock excludes every other one of the same object.
\<close>

definition compatible :: "wire_task \<Rightarrow> wire_task \<Rightarrow> bool" where
  "compatible t u \<longleftrightarrow>
     (\<forall>(a, x) \<in> set (wt_locks t). \<forall>(b, y) \<in> set (wt_locks u). a = b \<longrightarrow> \<not> x \<and> \<not> y)"

type_synonym lock_policy = "wire_task list \<Rightarrow> wire_task list \<Rightarrow> wire_task \<Rightarrow> bool"

definition rwlock_excludes :: "lock_policy \<Rightarrow> bool" where
  "rwlock_excludes acq \<longleftrightarrow> (\<forall>waiting holding t. acq waiting holding t \<longrightarrow> list_all (compatible t) holding)"

section \<open>State\<close>

text \<open>
  The send task: waiting for the channel to open (\<open>Negotiating\<close> until the SDP exchange is reported),
  exchanging nonces, tokens and verifying the peer's PIN (\<open>Opening\<close>), waiting in \<open>handle_pin\<close> for the
  PIN of the user (\<open>AskingPin\<close>), connected and waiting for the peer's choice (\<open>Ready\<close>), taking files
  from the application (\<open>Serving\<close>), or done. The main task: in \<open>send_offer\<close>, after its \<open>select!\<close>
  (\<open>MainClosing\<close>), or done; each of the two has a sender of the status channel.
\<close>

datatype send_phase = Negotiating | Opening | AskingPin | Ready | Serving | TaskEnded
datatype main_phase = MainRunning | MainClosing | MainDone

record bridge_sender =
  bs_phase :: send_phase
  bs_main :: main_phase
  bs_status :: "rtc_status list"
  bs_listened :: "rtc_status list"
  bs_bridge :: bridge
  bs_selected :: "string list oneshot"
  bs_selected_cell :: bool
  bs_selecting :: "wire_task list"
  bs_returned :: "string list list"
  bs_files :: "string list"
  bs_served :: "string list"
  bs_controller :: bool
  bs_waiting :: "wire_task list"
  bs_holding :: "wire_task list"

definition sender_start :: bridge_sender where
  "sender_start = \<lparr>bs_phase = Negotiating, bs_main = MainRunning, bs_status = [], bs_listened = [],
     bs_bridge = bridge_new, bs_selected = OneshotOpen, bs_selected_cell = True, bs_selecting = [], bs_returned = [],
     bs_files = [], bs_served = [], bs_controller = True, bs_waiting = [], bs_holding = []\<rparr>"

text \<open>\<open>mpsc::channel::<RTCStatus>(1)\<close>, \<open>mpsc::channel::<RTCFile>(1)\<close>: a send waits for room.\<close>

definition status_capacity :: nat where
  "status_capacity = 1"

definition file_capacity :: nat where
  "file_capacity = 1"

definition status_room :: "bridge_sender \<Rightarrow> bool" where
  "status_room s \<longleftrightarrow> bs_controller s \<and> length (bs_status s) < status_capacity"

definition report :: "rtc_status \<Rightarrow> bridge_sender \<Rightarrow> bridge_sender" where
  "report st s = s\<lparr>bs_status := bs_status s @ [st]\<rparr>"

text \<open>Both holders of a \<open>status_tx\<close> are gone.\<close>

definition status_closed :: "bridge_sender \<Rightarrow> bool" where
  "status_closed s \<longleftrightarrow> bs_main s = MainDone \<and> bs_phase s = TaskEnded"

text \<open>The calls of the controller at the address \<open>that\<close>.\<close>

fun send_controller_call :: "rust_opaque \<Rightarrow> 'p bridge_call \<Rightarrow> bool" where
  "send_controller_call that (CallSendListenError a _) = (a = that)"
| "send_controller_call that (CallListenSelectedFiles a) = (a = that)"
| "send_controller_call that (CallSendListenStatus a _) = (a = that)"
| "send_controller_call that (CallSendFile a _) = (a = that)"
| "send_controller_call that (CallSendSendPin a _) = (a = that)"
| "send_controller_call that _ = False"

fun is_status_listener :: "'p bridge_call \<Rightarrow> bool" where
  "is_status_listener (CallSendListenStatus _ _) = True"
| "is_status_listener _ = False"

definition finish_call :: "wire_task \<Rightarrow> bridge_sender \<Rightarrow> bridge_sender" where
  "finish_call t s = s\<lparr>bs_holding := remove1 t (bs_holding s)\<rparr>"

section \<open>The two tasks\<close>

text \<open>
  What the peer answers decides between the steps that are possible in a phase: another PIN round,
  the list of files, a refusal or a failure. In \<open>AskingPin\<close> and \<open>Serving\<close> the task waits for the
  application only.
\<close>

inductive send_task_step :: "bridge_sender \<Rightarrow> bridge_sender \<Rightarrow> bool" where
  sdp_exchanged:
    "bs_phase s = Negotiating \<Longrightarrow> bs_main s = MainRunning \<Longrightarrow> status_room s \<Longrightarrow>
       send_task_step s (report SdpExchanged s\<lparr>bs_phase := Opening\<rparr>)"
| pin_challenge:
    "bs_phase s = Opening \<Longrightarrow> status_room s \<Longrightarrow> request_pin (bs_bridge s) = (Ok (), b) \<Longrightarrow>
       send_task_step s (report PinRequired s\<lparr>bs_phase := AskingPin, bs_bridge := b\<rparr>)"
| pin_answered:
    "bs_phase s = AskingPin \<Longrightarrow> oneshot_await e (last (br_pins (bs_bridge s))) = Ok pin \<Longrightarrow>
       send_task_step s (s\<lparr>bs_phase := Opening\<rparr>)"
| pin_not_provided:
    "bs_phase s = AskingPin \<Longrightarrow> oneshot_await e (last (br_pins (bs_bridge s))) = Err err \<Longrightarrow>
       send_task_step s (s\<lparr>bs_phase := TaskEnded, bs_bridge := snd (end_task (bs_bridge s)),
         bs_selected := oneshot_drop_sender (bs_selected s)\<rparr>)"
| pin_verified:
    "bs_phase s = Opening \<Longrightarrow> status_room s \<Longrightarrow> send_task_step s (report PinRequired s)"
| connected:
    "bs_phase s = Opening \<Longrightarrow> status_room s \<Longrightarrow> send_task_step s (report Connected s\<lparr>bs_phase := Ready\<rparr>)"
| selection_published:
    "bs_phase s = Ready \<Longrightarrow> oneshot_send e ids (bs_selected s) = (Ok (), ch) \<Longrightarrow>
       send_task_step s (s\<lparr>bs_phase := Serving, bs_selected := ch\<rparr>)"
| file_taken:
    "bs_phase s = Serving \<Longrightarrow> bs_files s = f # fs \<Longrightarrow>
       send_task_step s (s\<lparr>bs_files := fs, bs_served := bs_served s @ [f]\<rparr>)"
| files_done:
    "bs_phase s = Serving \<Longrightarrow> bs_files s = [] \<Longrightarrow> \<not> bs_controller s \<Longrightarrow>
       send_task_step s (s\<lparr>bs_phase := TaskEnded, bs_bridge := snd (end_task (bs_bridge s))\<rparr>)"
| task_reports:
    "bs_phase s \<in> {Opening, Ready} \<Longrightarrow> status_room s \<Longrightarrow> st \<in> {TooManyAttempts, Declined} \<union> range StatusError \<Longrightarrow>
       send_task_step s (report st s)"
| task_ends:
    "bs_phase s \<in> {Negotiating, Opening, Ready} \<Longrightarrow>
       send_task_step s (s\<lparr>bs_phase := TaskEnded, bs_bridge := snd (end_task (bs_bridge s)),
         bs_selected := oneshot_drop_sender (bs_selected s)\<rparr>)"

text \<open>
  The main task leaves its \<open>select!\<close> when the send task is done or the connection is lost; the send
  task is not stopped by that.
\<close>

inductive main_task_step :: "bridge_sender \<Rightarrow> bridge_sender \<Rightarrow> bool" where
  main_leaves: "bs_main s = MainRunning \<Longrightarrow> main_task_step s (s\<lparr>bs_main := MainClosing\<rparr>)"
| main_reports:
    "bs_main s = MainClosing \<Longrightarrow> status_room s \<Longrightarrow> st \<in> {Finished} \<union> range StatusError \<Longrightarrow>
       main_task_step s (report st s)"
| main_ends: "bs_main s = MainClosing \<Longrightarrow> main_task_step s (s\<lparr>bs_main := MainDone\<rparr>)"
| pin_stored: "store_pin (bs_bridge s) = (Ok (), b) \<Longrightarrow> main_task_step s (s\<lparr>bs_bridge := b\<rparr>)"

section \<open>The calls of the controller\<close>

text \<open>
  A call arrives when the dispatcher has started its task, waits for the lock, and holds it until the
  method returns. \<open>X\<close> and \<open>acq\<close> are the libraries, \<open>that\<close> the address of the controller.
\<close>

inductive call_step :: "sse_ext \<Rightarrow> lock_policy \<Rightarrow> rust_opaque \<Rightarrow> bridge_sender \<Rightarrow> bridge_sender \<Rightarrow> bool" for X acq that where
  arrives:
    "bs_controller s \<Longrightarrow> pde_ffi_dispatcher_primary X n m = Ok t \<Longrightarrow> send_controller_call that (wt_call t) \<Longrightarrow>
       call_step X acq that s (s\<lparr>bs_waiting := bs_waiting s @ [t]\<rparr>)"
| acquires:
    "t \<in> set (bs_waiting s) \<Longrightarrow> acq (remove1 t (bs_waiting s)) (bs_holding s) t \<Longrightarrow>
       call_step X acq that s (s\<lparr>bs_waiting := remove1 t (bs_waiting s), bs_holding := bs_holding s @ [t]\<rparr>)"
| listens:
    "t \<in> set (bs_holding s) \<Longrightarrow> wt_call t = CallSendListenStatus that sink \<Longrightarrow> bs_status s = st # q \<Longrightarrow>
       call_step X acq that s (s\<lparr>bs_status := q, bs_listened := bs_listened s @ [st]\<rparr>)"
| listened_out:
    "t \<in> set (bs_holding s) \<Longrightarrow> wt_call t = CallSendListenStatus that sink \<Longrightarrow> bs_status s = [] \<Longrightarrow> status_closed s \<Longrightarrow>
       call_step X acq that s (finish_call t s)"
| errors_out:
    "t \<in> set (bs_holding s) \<Longrightarrow> wt_call t = CallSendListenError that sink \<Longrightarrow> bs_phase s = TaskEnded \<Longrightarrow>
       call_step X acq that s (finish_call t s)"
| pin_sent:
    "t \<in> set (bs_holding s) \<Longrightarrow> wt_call t = CallSendSendPin that pin \<Longrightarrow>
       call_step X acq that s (finish_call t s\<lparr>bs_bridge := snd (send_pin pin (bs_bridge s))\<rparr>)"
| selection_taken:
    "t \<in> set (bs_holding s) \<Longrightarrow> wt_call t = CallListenSelectedFiles that \<Longrightarrow> bs_selected_cell s \<Longrightarrow>
       call_step X acq that s (s\<lparr>bs_selected_cell := False, bs_selecting := [t]\<rparr>)"
| selection_gone:
    "t \<in> set (bs_holding s) \<Longrightarrow> wt_call t = CallListenSelectedFiles that \<Longrightarrow> \<not> bs_selected_cell s \<Longrightarrow>
       bs_selecting s \<noteq> [t] \<Longrightarrow> call_step X acq that s (finish_call t s)"
| selection_returned:
    "t \<in> set (bs_holding s) \<Longrightarrow> wt_call t = CallListenSelectedFiles that \<Longrightarrow> bs_selecting s = [t] \<Longrightarrow>
       oneshot_await e (bs_selected s) = Ok ids \<Longrightarrow>
       call_step X acq that s (finish_call t s\<lparr>bs_selecting := [], bs_returned := bs_returned s @ [ids]\<rparr>)"
| selection_failed:
    "t \<in> set (bs_holding s) \<Longrightarrow> wt_call t = CallListenSelectedFiles that \<Longrightarrow> bs_selecting s = [t] \<Longrightarrow>
       oneshot_await e (bs_selected s) = Err err \<Longrightarrow>
       call_step X acq that s (finish_call t s\<lparr>bs_selecting := []\<rparr>)"
| file_sent:
    "t \<in> set (bs_holding s) \<Longrightarrow> wt_call t = CallSendFile that file_id \<Longrightarrow> bs_phase s \<noteq> TaskEnded \<Longrightarrow>
       length (bs_files s) < file_capacity \<Longrightarrow>
       call_step X acq that s (finish_call t s\<lparr>bs_files := bs_files s @ [file_id]\<rparr>)"
| file_refused:
    "t \<in> set (bs_holding s) \<Longrightarrow> wt_call t = CallSendFile that file_id \<Longrightarrow> bs_phase s = TaskEnded \<Longrightarrow>
       call_step X acq that s (finish_call t s)"
| disposed:
    "bs_waiting s = [] \<Longrightarrow> bs_holding s = [] \<Longrightarrow> call_step X acq that s (s\<lparr>bs_controller := False\<rparr>)"

definition sender_step :: "sse_ext \<Rightarrow> lock_policy \<Rightarrow> rust_opaque \<Rightarrow> bridge_sender \<Rightarrow> bridge_sender \<Rightarrow> bool" where
  "sender_step X acq that s s' \<longleftrightarrow> send_task_step s s' \<or> main_task_step s s' \<or> call_step X acq that s s'"

section \<open>What every reachable state keeps\<close>

text \<open>
  The locks: every task concerns the controller, and the holder of an exclusive lock holds it alone;
  the controller lives as long as a call of it does.
\<close>

definition locks_inv :: "rust_opaque \<Rightarrow> bridge_sender \<Rightarrow> bool" where
  "locks_inv that s \<longleftrightarrow>
     (\<forall>t \<in> set (bs_waiting s) \<union> set (bs_holding s).
        send_controller_call that (wt_call t) \<and> wt_locks t = call_locks (wt_call t)) \<and>
     (\<forall>t \<in> set (bs_holding s). (that, True) \<in> set (wt_locks t) \<longrightarrow> bs_holding s = [t]) \<and>
     (bs_controller s \<or> bs_waiting s = [] \<and> bs_holding s = [])"

text \<open>A status listener has the controller.\<close>

definition status_listening :: "bridge_sender \<Rightarrow> bool" where
  "status_listening s \<longleftrightarrow> (\<exists>t. bs_holding s = [t] \<and> is_status_listener (wt_call t))"

text \<open>The first status fills the channel: nothing happens before a listener has taken it.\<close>

definition status_inv :: "bridge_sender \<Rightarrow> bool" where
  "status_inv s \<longleftrightarrow>
     (bs_listened s = [] \<longrightarrow>
        bs_phase s \<in> {Negotiating, Opening, TaskEnded} \<and> (bs_phase s = Opening \<longrightarrow> bs_status s \<noteq> [])) \<and>
     (bs_listened s \<noteq> [] \<longrightarrow> status_listening s \<and> bs_controller s \<or> status_closed s \<and> bs_status s = []) \<and>
     (bs_phase s = Serving \<longrightarrow> bs_controller s)"

text \<open>No PIN has been delivered: the one request there can be is unanswered.\<close>

definition pin_inv :: "bridge_sender \<Rightarrow> bool" where
  "pin_inv s \<longleftrightarrow>
     (let b = bs_bridge s in
      if bs_phase s = AskingPin then
        br_pins b = [OneshotOpen] \<and>
        (br_pin_queue b = [0] \<and> br_pin_cell b = None \<or> br_pin_queue b = [] \<and> br_pin_cell b = Some 0)
      else br_pins b = [] \<and> br_pin_queue b = [] \<and> br_pin_cell b = None)"

definition selection_inv :: "bridge_sender \<Rightarrow> bool" where
  "selection_inv s \<longleftrightarrow>
     bs_returned s = [] \<and>
     (case bs_selected s of
        OneshotOpen \<Rightarrow> bs_phase s \<noteq> Serving
      | OneshotSent ids \<Rightarrow> bs_phase s = Serving
      | OneshotSenderGone \<Rightarrow> bs_phase s = TaskEnded
      | OneshotReceiverGone \<Rightarrow> False)"

definition sender_inv :: "rust_opaque \<Rightarrow> bridge_sender \<Rightarrow> bool" where
  "sender_inv that s \<longleftrightarrow> locks_inv that s \<and> status_inv s \<and> pin_inv s \<and> selection_inv s"

lemmas inv_defs = locks_inv_def status_inv_def pin_inv_def selection_inv_def

lemma sender_start_inv: "sender_inv that sender_start"
  by (simp add: sender_inv_def inv_defs sender_start_def bridge_new_def)

lemma report_fields [simp]:
  "bs_phase (report st s) = bs_phase s" "bs_main (report st s) = bs_main s"
  "bs_status (report st s) = bs_status s @ [st]" "bs_listened (report st s) = bs_listened s"
  "bs_bridge (report st s) = bs_bridge s" "bs_selected (report st s) = bs_selected s"
  "bs_returned (report st s) = bs_returned s" "bs_controller (report st s) = bs_controller s"
  "bs_waiting (report st s) = bs_waiting s" "bs_holding (report st s) = bs_holding s"
  by (simp_all add: report_def)

lemma status_room_iff: "status_room s \<longleftrightarrow> bs_controller s \<and> bs_status s = []"
  by (auto simp: status_room_def status_capacity_def)

lemma send_task_locks: "send_task_step s s' \<Longrightarrow> bs_waiting s' = bs_waiting s \<and> bs_holding s' = bs_holding s"
  by (induction rule: send_task_step.induct) simp_all

lemma main_task_locks: "main_task_step s s' \<Longrightarrow> bs_waiting s' = bs_waiting s \<and> bs_holding s' = bs_holding s"
  by (induction rule: main_task_step.induct) simp_all

lemma status_listening_frame: "bs_holding s' = bs_holding s \<Longrightarrow> status_listening s' = status_listening s"
  by (simp add: status_listening_def)

lemma status_listening_fields [simp]:
  "status_listening (report st s) = status_listening s" "status_listening (s\<lparr>bs_phase := p\<rparr>) = status_listening s"
  "status_listening (s\<lparr>bs_bridge := b\<rparr>) = status_listening s" "status_listening (s\<lparr>bs_selected := x\<rparr>) = status_listening s"
  "status_listening (s\<lparr>bs_main := m\<rparr>) = status_listening s"
  by (simp_all add: status_listening_def)

lemma send_task_inv:
  assumes "send_task_step s s'" and "sender_inv that s"
  shows "status_inv s' \<and> pin_inv s' \<and> selection_inv s'"
  using assms
  by (induction rule: send_task_step.induct)
    (auto simp: sender_inv_def inv_defs status_room_iff status_closed_def request_pin_def oneshot_await_def
      oneshot_send_def oneshot_drop_sender_def end_task_def status_listening_def Let_def split: oneshot.splits if_splits)

lemma main_task_inv:
  assumes "main_task_step s s'" and "sender_inv that s"
  shows "status_inv s' \<and> pin_inv s' \<and> selection_inv s'"
  using assms
  by (induction rule: main_task_step.induct)
    (auto simp: sender_inv_def inv_defs status_room_iff status_closed_def store_pin_def
      status_listening_def Let_def split: oneshot.splits if_splits list.splits)

lemma send_controller_locks:
  "send_controller_call that c \<Longrightarrow> call_locks c = [(that, True)] \<or> call_locks c = [(that, False)]"
  by (cases c) auto

lemma listener_exclusive: "send_controller_call that c \<Longrightarrow> is_status_listener c \<Longrightarrow> call_locks c = [(that, True)]"
  by (cases c) auto

lemma remove1_holding: "t \<in> set (bs_holding s) \<Longrightarrow> status_listening s \<Longrightarrow> is_status_listener (wt_call t)"
  by (auto simp: status_listening_def)

lemma locks_invI:
  assumes "\<And>u. u \<in> set (bs_waiting s) \<union> set (bs_holding s) \<Longrightarrow>
      send_controller_call that (wt_call u) \<and> wt_locks u = call_locks (wt_call u)"
    and "\<And>u. u \<in> set (bs_holding s) \<Longrightarrow> (that, True) \<in> set (wt_locks u) \<Longrightarrow> bs_holding s = [u]"
    and "bs_controller s \<or> bs_waiting s = [] \<and> bs_holding s = []"
  shows "locks_inv that s"
  using assms unfolding locks_inv_def by blast

lemma locks_invD:
  assumes "locks_inv that s"
  shows "u \<in> set (bs_waiting s) \<union> set (bs_holding s) \<Longrightarrow>
      send_controller_call that (wt_call u) \<and> wt_locks u = call_locks (wt_call u)"
    and "u \<in> set (bs_holding s) \<Longrightarrow> (that, True) \<in> set (wt_locks u) \<Longrightarrow> bs_holding s = [u]"
    and "bs_waiting s \<noteq> [] \<or> bs_holding s \<noteq> [] \<Longrightarrow> bs_controller s"
  using assms unfolding locks_inv_def by blast+

lemma acquires_locks:
  assumes excl: "rwlock_excludes acq" and inv: "locks_inv that s"
    and t: "t \<in> set (bs_waiting s)" and acq: "acq (remove1 t (bs_waiting s)) (bs_holding s) t"
  shows "locks_inv that (s\<lparr>bs_waiting := remove1 t (bs_waiting s), bs_holding := bs_holding s @ [t]\<rparr>)"
    and "bs_holding s \<noteq> [] \<Longrightarrow> \<not> status_listening s"
proof -
  have locks: "wt_locks u = [(that, True)] \<or> wt_locks u = [(that, False)]"
    if "u \<in> set (bs_waiting s) \<union> set (bs_holding s)" for u
    using locks_invD(1) [OF inv that] send_controller_locks [of that "wt_call u"] by auto
  have comp: "compatible t u" if "u \<in> set (bs_holding s)" for u
    using excl acq that by (auto simp: rwlock_excludes_def list_all_iff)
  have shared: "wt_locks t = [(that, False)] \<and> wt_locks u = [(that, False)]" if "u \<in> set (bs_holding s)" for u
    using locks [of t] locks [of u] comp [OF that] t that by (auto simp: compatible_def)
  show "locks_inv that (s\<lparr>bs_waiting := remove1 t (bs_waiting s), bs_holding := bs_holding s @ [t]\<rparr>)"
  proof (rule locks_invI)
    fix u
    assume "u \<in> set (bs_waiting (s\<lparr>bs_waiting := remove1 t (bs_waiting s), bs_holding := bs_holding s @ [t]\<rparr>)) \<union>
      set (bs_holding (s\<lparr>bs_waiting := remove1 t (bs_waiting s), bs_holding := bs_holding s @ [t]\<rparr>))"
    then have "u \<in> set (bs_waiting s) \<union> set (bs_holding s)"
      using t set_remove1_subset [of t "bs_waiting s"] by auto
    then show "send_controller_call that (wt_call u) \<and> wt_locks u = call_locks (wt_call u)"
      by (rule locks_invD(1) [OF inv])
  next
    fix u
    assume u: "u \<in> set (bs_holding (s\<lparr>bs_waiting := remove1 t (bs_waiting s), bs_holding := bs_holding s @ [t]\<rparr>))"
      "(that, True) \<in> set (wt_locks u)"
    then have "bs_holding s = [] \<and> u = t" using shared [of u] shared [of "hd (bs_holding s)"] by (cases "bs_holding s") auto
    then show "bs_holding (s\<lparr>bs_waiting := remove1 t (bs_waiting s), bs_holding := bs_holding s @ [t]\<rparr>) = [u]" by simp
  next
    have "bs_waiting s \<noteq> []" using t by auto
    then show "bs_controller (s\<lparr>bs_waiting := remove1 t (bs_waiting s), bs_holding := bs_holding s @ [t]\<rparr>) \<or>
      bs_waiting (s\<lparr>bs_waiting := remove1 t (bs_waiting s), bs_holding := bs_holding s @ [t]\<rparr>) = [] \<and>
      bs_holding (s\<lparr>bs_waiting := remove1 t (bs_waiting s), bs_holding := bs_holding s @ [t]\<rparr>) = []"
      using locks_invD(3) [OF inv] by simp
  qed
  show "\<not> status_listening s" if "bs_holding s \<noteq> []"
  proof
    assume "status_listening s"
    then obtain u where u: "bs_holding s = [u]" "is_status_listener (wt_call u)" by (auto simp: status_listening_def)
    then have "wt_locks u = [(that, True)]"
      using locks_invD(1) [OF inv, of u] listener_exclusive [of that "wt_call u"] by auto
    with shared [of u] u show False by simp
  qed
qed

lemma finish_locks: "locks_inv that s \<Longrightarrow> locks_inv that (finish_call t s)"
proof (rule locks_invI)
  fix u
  assume inv: "locks_inv that s" and "u \<in> set (bs_waiting (finish_call t s)) \<union> set (bs_holding (finish_call t s))"
  then have "u \<in> set (bs_waiting s) \<union> set (bs_holding s)"
    using set_remove1_subset [of t "bs_holding s"] by (auto simp: finish_call_def)
  then show "send_controller_call that (wt_call u) \<and> wt_locks u = call_locks (wt_call u)"
    by (rule locks_invD(1) [OF inv])
next
  fix u
  assume inv: "locks_inv that s" and u: "u \<in> set (bs_holding (finish_call t s))" "(that, True) \<in> set (wt_locks u)"
  then have "bs_holding s = [u]"
    using locks_invD(2) [OF inv, of u] set_remove1_subset [of t "bs_holding s"] by (auto simp: finish_call_def)
  with u show "bs_holding (finish_call t s) = [u]" by (auto simp: finish_call_def split: if_splits)
next
  assume "locks_inv that s"
  then show "bs_controller (finish_call t s) \<or> bs_waiting (finish_call t s) = [] \<and> bs_holding (finish_call t s) = []"
    by (auto simp: locks_inv_def finish_call_def)
qed

text \<open>Only the listener itself runs while it listens.\<close>

lemma listener_alone:
  "status_listening s \<Longrightarrow> t \<in> set (bs_holding s) \<Longrightarrow> is_status_listener (wt_call t) \<and> bs_holding s = [t]"
  by (auto simp: status_listening_def)

text \<open>While another call runs there is no listener, and the send task has not got past the first status.\<close>

lemma other_call_runs:
  assumes inv: "sender_inv that s" and t: "t \<in> set (bs_holding s)" "\<not> is_status_listener (wt_call t)"
  shows "\<not> status_listening s" and "bs_phase s \<in> {Negotiating, Opening, TaskEnded}"
    and "bs_listened s \<noteq> [] \<Longrightarrow> status_closed s \<and> bs_status s = []"
proof -
  show no: "\<not> status_listening s" using listener_alone [of s t] t by auto
  then show "bs_listened s \<noteq> [] \<Longrightarrow> status_closed s \<and> bs_status s = []"
    using inv by (auto simp: sender_inv_def status_inv_def)
  then show "bs_phase s \<in> {Negotiating, Opening, TaskEnded}"
    using inv by (cases "bs_listened s = []") (auto simp: sender_inv_def status_inv_def status_closed_def)
qed

lemma finish_fields [simp]:
  "bs_phase (finish_call t s) = bs_phase s" "bs_main (finish_call t s) = bs_main s"
  "bs_status (finish_call t s) = bs_status s" "bs_listened (finish_call t s) = bs_listened s"
  "bs_bridge (finish_call t s) = bs_bridge s" "bs_selected (finish_call t s) = bs_selected s"
  "bs_returned (finish_call t s) = bs_returned s" "bs_controller (finish_call t s) = bs_controller s"
  by (simp_all add: finish_call_def)

lemma finish_inv:
  assumes inv: "sender_inv that s" and t: "t \<in> set (bs_holding s)"
    and out: "is_status_listener (wt_call t) \<Longrightarrow> status_closed s \<and> bs_status s = []"
  shows "sender_inv that (finish_call t s)"
proof -
  have "bs_listened s \<noteq> [] \<Longrightarrow> status_closed s \<and> bs_status s = []"
    using out other_call_runs(3) [OF inv t] by blast
  then have "status_inv (finish_call t s)"
    using inv by (auto simp: sender_inv_def status_inv_def status_closed_def)
  moreover have "locks_inv that (finish_call t s)"
    using inv by (simp add: sender_inv_def finish_locks)
  moreover have "pin_inv (finish_call t s)" "selection_inv (finish_call t s)"
    using inv by (simp_all add: sender_inv_def pin_inv_def selection_inv_def split: oneshot.splits)
  ultimately show ?thesis by (simp add: sender_inv_def)
qed

lemma call_inv:
  assumes excl: "rwlock_excludes acq" and "call_step X acq that s s'" and inv: "sender_inv that s"
  shows "sender_inv that s'"
  using assms(2) inv
proof (induction rule: call_step.induct)
  case (arrives s n m t)
  have locks: "wt_locks t = call_locks (wt_call t)" by (rule dispatched_locks [OF arrives(2)])
  have "locks_inv that (s\<lparr>bs_waiting := bs_waiting s @ [t]\<rparr>)"
    using arrives locks by (auto simp: sender_inv_def locks_inv_def)
  then show ?case
    using arrives(4) by (auto simp: sender_inv_def status_inv_def pin_inv_def selection_inv_def status_listening_def
      status_closed_def split: oneshot.splits)
next
  case (acquires t s)
  have locks: "locks_inv that s" using acquires(3) by (simp add: sender_inv_def)
  note acq = acquires_locks [OF excl locks acquires(1,2)]
  have "\<not> status_listening s" using acq(2) by (auto simp: status_listening_def)
  then show ?case
    using acq(1) acquires(3) by (auto simp: sender_inv_def status_inv_def pin_inv_def selection_inv_def
      status_closed_def split: oneshot.splits)
next
  case (listens t s sink st q)
  have locks: "locks_inv that s" using listens(4) by (simp add: sender_inv_def)
  have holding: "bs_holding s = [t]"
    using locks_invD(1,2) [OF locks, of t] listener_exclusive [of that "wt_call t"] listens(1,2) by auto
  have "bs_controller s" using locks_invD(3) [OF locks] holding by simp
  with holding show ?case
    using listens by (auto simp: sender_inv_def locks_inv_def status_inv_def pin_inv_def selection_inv_def
      status_listening_def status_closed_def split: oneshot.splits)
next
  case (pin_sent t s pin)
  have phase: "bs_phase s \<noteq> AskingPin"
    using other_call_runs(2) [OF pin_sent(3) pin_sent(1)] pin_sent(2) by auto
  then have "send_pin pin (bs_bridge s) = (Err (Msg ''Pin already sent''), bs_bridge s)"
    using pin_sent(3) by (simp add: sender_inv_def pin_inv_def send_pin_def Let_def)
  then have "finish_call t s\<lparr>bs_bridge := snd (send_pin pin (bs_bridge s))\<rparr> = finish_call t s"
    by (simp add: finish_call_def)
  with finish_inv [OF pin_sent(3,1)] pin_sent(2) show ?case by simp
next
  case (selection_returned t s e ids)
  have "bs_phase s \<noteq> Serving"
    using other_call_runs(2) [OF selection_returned(5,1)] selection_returned(2) by auto
  then show ?case
    using selection_returned(4,5) by (auto simp: sender_inv_def selection_inv_def oneshot_await_def split: oneshot.splits)
next
  case (selection_failed t s e err)
  have "sender_inv that (finish_call t s)"
    by (rule finish_inv [OF selection_failed(5,1)]) (use selection_failed(2) in simp)
  then show ?case
    by (simp add: sender_inv_def inv_defs status_listening_def status_closed_def split: oneshot.splits)
next
  case (selection_taken t s)
  then show ?case by (simp add: sender_inv_def inv_defs status_listening_def status_closed_def split: oneshot.splits)
next
  case (file_sent t s file_id)
  have "sender_inv that (finish_call t s)"
    by (rule finish_inv [OF file_sent(5,1)]) (use file_sent(2) in simp)
  then show ?case
    by (simp add: sender_inv_def inv_defs status_listening_def status_closed_def split: oneshot.splits)
next
  case (disposed s)
  have "\<not> status_listening s" using disposed(2) by (simp add: status_listening_def)
  then show ?case
    using disposed by (auto simp: sender_inv_def inv_defs status_listening_def status_closed_def split: oneshot.splits)
qed (rule finish_inv; simp)+

lemma sender_step_inv:
  assumes "rwlock_excludes acq" and "sender_step X acq that s s'" and inv: "sender_inv that s"
  shows "sender_inv that s'"
  using assms(2) unfolding sender_step_def
proof (elim disjE)
  assume step: "send_task_step s s'"
  have "bs_controller s = bs_controller s'" using step by (induction rule: send_task_step.induct) simp_all
  then show ?thesis
    using send_task_inv [OF step inv] send_task_locks [OF step] inv by (simp add: sender_inv_def locks_inv_def)
next
  assume step: "main_task_step s s'"
  have "bs_controller s = bs_controller s'" using step by (induction rule: main_task_step.induct) simp_all
  then show ?thesis
    using main_task_inv [OF step inv] main_task_locks [OF step] inv by (simp add: sender_inv_def locks_inv_def)
next
  assume "call_step X acq that s s'"
  then show ?thesis by (rule call_inv [OF assms(1) _ inv])
qed

lemma sender_steps_inv:
  assumes "rwlock_excludes acq" and "(sender_step X acq that)\<^sup>*\<^sup>* s s'" and "sender_inv that s"
  shows "sender_inv that s'"
  using assms(2,3) by (induction rule: rtranclp_induct) (auto intro: sender_step_inv [OF assms(1)])

text \<open>A send task that waits for the user's PIN waits for ever, with the listener as the only call that runs.\<close>

lemma asking_stays:
  assumes "sender_step X acq that s s'" and "sender_inv that s" and "bs_phase s = AskingPin"
  shows "bs_phase s' = AskingPin"
proof -
  have pins: "br_pins (bs_bridge s) = [OneshotOpen]"
    using assms(2,3) by (simp add: sender_inv_def pin_inv_def Let_def)
  have "bs_phase s' = AskingPin" if "send_task_step s s'"
    using that assms(3) pins by (induction rule: send_task_step.induct) (simp_all add: oneshot_await_def)
  moreover have "bs_phase s' = AskingPin" if "main_task_step s s'"
    using that assms(3) by (induction rule: main_task_step.induct) simp_all
  moreover have "bs_phase s' = AskingPin" if "call_step X acq that s s'"
    using that assms(3) by (induction rule: call_step.induct) simp_all
  ultimately show ?thesis using assms(1) unfolding sender_step_def by blast
qed

lemma asking_listens: "sender_inv that s \<Longrightarrow> bs_phase s = AskingPin \<Longrightarrow> status_listening s"
  by (auto simp: sender_inv_def status_inv_def status_closed_def)

lemma asking_stuck:
  assumes excl: "rwlock_excludes acq" and "(sender_step X acq that)\<^sup>*\<^sup>* s s'" and inv: "sender_inv that s"
    and "bs_phase s = AskingPin"
  shows "bs_phase s' = AskingPin \<and> status_listening s'"
proof -
  have "bs_phase s' = AskingPin"
    using assms(2)
  proof (induction rule: rtranclp_induct)
    case (step y z)
    then show ?case using asking_stays sender_steps_inv [OF excl step(1) inv] by blast
  qed (rule assms(4))
  moreover have "sender_inv that s'" by (rule sender_steps_inv [OF excl assms(2) inv])
  ultimately show ?thesis using asking_listens by blast
qed

lemma listening_call:
  assumes "sender_inv that s" and "status_listening s"
  shows "\<exists>t sink. bs_holding s = [t] \<and> wt_call t = CallSendListenStatus that sink"
proof -
  obtain t where t: "bs_holding s = [t]" "is_status_listener (wt_call t)"
    using assms(2) by (auto simp: status_listening_def)
  moreover have "send_controller_call that (wt_call t)" using assms(1) t by (simp add: sender_inv_def locks_inv_def)
  ultimately show ?thesis by (cases "wt_call t") auto
qed

end
