(* ===== verification/Bridge_Replies.thy ===== *)
theory Bridge_Replies
  imports Bridge_Wire
begin

text \<open>
  The way back: the result of a call is written by the wire function (\<open>transform_result_sse\<close>) and
  read by the decoder the Dart function names (\<open>decodeSuccessData\<close>, \<open>decodeErrorData\<close>), the items of
  a stream by the decoder of the sink; and the callback of \<open>connect\<close>, which Rust calls in Dart.
\<close>

section \<open>Results\<close>

datatype bridge_reply =
    ReplyObject "rust_opaque \<times> i32"
  | ReplyText string
  | ReplyUnit
  | ReplyFiles "file_dto list"
  | ReplyTexts "string list"
  | ReplyKeys key_pair

text \<open>The types the functions of \<open>api\<close> return when they succeed.\<close>

datatype reply_type = TObject | TString | TUnit | TFiles | TSet | TKeys

fun call_result :: "'p bridge_call \<Rightarrow> reply_type" where
  "call_result (CallAcceptOffer _ _ _ _ _ _) = TObject"
| "call_result (CallSendOffer _ _ _ _ _ _ _) = TObject"
| "call_result (CallSendFile _ _) = TObject"
| "call_result (CallGetFileId _) = TString"
| "call_result (CallListenFiles _) = TFiles"
| "call_result (CallListenSelectedFiles _) = TSet"
| "call_result CallGenerateKeyPair = TKeys"
| "call_result _ = TUnit"

fun type_of_reply :: "bridge_reply \<Rightarrow> reply_type" where
  "type_of_reply (ReplyObject _) = TObject"
| "type_of_reply (ReplyText _) = TString"
| "type_of_reply ReplyUnit = TUnit"
| "type_of_reply (ReplyFiles _) = TFiles"
| "type_of_reply (ReplyTexts _) = TSet"
| "type_of_reply (ReplyKeys _) = TKeys"

text \<open>The encoder is the one of the result's type.\<close>

fun sse_encode_reply :: "sse_ext \<Rightarrow> bridge_reply \<Rightarrow> byte list" where
  "sse_encode_reply X (ReplyObject raw) = sse_encode_rust_opaque X raw"
| "sse_encode_reply X (ReplyText s) = sse_encode_string X s"
| "sse_encode_reply X ReplyUnit = sse_encode_unit X ()"
| "sse_encode_reply X (ReplyFiles files) = sse_encode_list_file_dto X files"
| "sse_encode_reply X (ReplyTexts ids) = sse_encode_set_string X ids"
| "sse_encode_reply X (ReplyKeys k) = sse_encode_key_pair X k"

definition map_reader :: "('a \<Rightarrow> 'b) \<Rightarrow> 'a sse_decoder \<Rightarrow> 'b sse_decoder" where
  "map_reader f dec d = rbind (dec d) (\<lambda>(x, d). Ok (f x, d))"

text \<open>The decoder is the \<open>decodeSuccessData\<close> of the Dart function.\<close>

fun dart_decode_reply :: "sse_ext \<Rightarrow> 'p bridge_call \<Rightarrow> bridge_reply sse_decoder" where
  "dart_decode_reply X (CallAcceptOffer _ _ _ _ _ _) = map_reader ReplyObject (dart_decode_rust_opaque X)"
| "dart_decode_reply X (CallSendOffer _ _ _ _ _ _ _) = map_reader ReplyObject (dart_decode_rust_opaque X)"
| "dart_decode_reply X (CallSendFile _ _) = map_reader ReplyObject (dart_decode_rust_opaque X)"
| "dart_decode_reply X (CallGetFileId _) = map_reader ReplyText (dart_decode_string X)"
| "dart_decode_reply X (CallListenFiles _) = map_reader ReplyFiles (dart_decode_list_file_dto X)"
| "dart_decode_reply X (CallListenSelectedFiles _) = map_reader ReplyTexts (dart_decode_set_string X)"
| "dart_decode_reply X CallGenerateKeyPair = map_reader ReplyKeys (dart_decode_key_pair X)"
| "dart_decode_reply X _ = map_reader (\<lambda>_. ReplyUnit) (dart_decode_unit X)"

text \<open>
  Whether the wire function can fail (\<open>transform_result_sse\<close> at \<open>anyhow::Error\<close> or at the unit type),
  and the \<open>decodeErrorData\<close> of the Dart function, which may be \<open>null\<close>.
\<close>

fun call_can_fail :: "'p bridge_call \<Rightarrow> bool" where
  "call_can_fail (CallGetFileId _) = False"
| "call_can_fail (CallReceiveListenError _ _) = False"
| "call_can_fail (CallListenReceiving _ _) = False"
| "call_can_fail (CallReceiveListenStatus _ _) = False"
| "call_can_fail (CallSendListenError _ _) = False"
| "call_can_fail (CallSendListenStatus _ _) = False"
| "call_can_fail (CallConnect _ _ _ _ _) = False"
| "call_can_fail _ = True"

fun dart_decode_error :: "sse_ext \<Rightarrow> 'p bridge_call \<Rightarrow> string sse_decoder option" where
  "dart_decode_error X (CallAcceptOffer _ _ _ _ _ _) = Some (dart_decode_anyhow X)"
| "dart_decode_error X (CallSendOffer _ _ _ _ _ _ _) = Some (dart_decode_anyhow X)"
| "dart_decode_error X (CallUpdateInfo _ _) = Some (dart_decode_anyhow X)"
| "dart_decode_error X (CallReceive _ _) = Some (dart_decode_anyhow X)"
| "dart_decode_error X (CallFileSend _ _) = Some (dart_decode_anyhow X)"
| "dart_decode_error X (CallDecline _) = Some (dart_decode_anyhow X)"
| "dart_decode_error X (CallListenFiles _) = Some (dart_decode_anyhow X)"
| "dart_decode_error X (CallSendFileStatus _ _) = Some (dart_decode_anyhow X)"
| "dart_decode_error X (CallReceiveSendPin _ _) = Some (dart_decode_anyhow X)"
| "dart_decode_error X (CallSendSelection _ _) = Some (dart_decode_anyhow X)"
| "dart_decode_error X (CallListenSelectedFiles _) = Some (dart_decode_anyhow X)"
| "dart_decode_error X (CallSendFile _ _) = Some (dart_decode_anyhow X)"
| "dart_decode_error X (CallSendSendPin _ _) = Some (dart_decode_anyhow X)"
| "dart_decode_error X CallEnableDebugLogging = Some (dart_decode_anyhow X)"
| "dart_decode_error X CallGenerateKeyPair = Some (dart_decode_anyhow X)"
| "dart_decode_error X (CallVerifyCert _ _) = Some (dart_decode_anyhow X)"
| "dart_decode_error X _ = None"

section \<open>Streams\<close>

datatype stream_item =
    ItemBytes "byte list"
  | ItemObject "rust_opaque \<times> i32"
  | ItemFileError rtc_file_error
  | ItemStatus rtc_status
  | ItemMessage ws_server_message

text \<open>The type of the sink a call passes, if it passes one.\<close>

datatype item_type = TBytes | TReceiver | TFileError | TStatus | TServerMessage

fun call_sink :: "'p bridge_call \<Rightarrow> item_type option" where
  "call_sink (CallReceive _ _) = Some TBytes"
| "call_sink (CallListenReceiving _ _) = Some TReceiver"
| "call_sink (CallReceiveListenError _ _) = Some TFileError"
| "call_sink (CallSendListenError _ _) = Some TFileError"
| "call_sink (CallReceiveListenStatus _ _) = Some TStatus"
| "call_sink (CallSendListenStatus _ _) = Some TStatus"
| "call_sink (CallConnect _ _ _ _ _) = Some TServerMessage"
| "call_sink _ = None"

fun type_of_item :: "stream_item \<Rightarrow> item_type" where
  "type_of_item (ItemBytes _) = TBytes"
| "type_of_item (ItemObject _) = TReceiver"
| "type_of_item (ItemFileError _) = TFileError"
| "type_of_item (ItemStatus _) = TStatus"
| "type_of_item (ItemMessage _) = TServerMessage"

fun sse_encode_item :: "sse_ext \<Rightarrow> stream_item \<Rightarrow> byte list" where
  "sse_encode_item X (ItemBytes b) = sse_encode_list_prim_u8 X b"
| "sse_encode_item X (ItemObject raw) = sse_encode_rust_opaque X raw"
| "sse_encode_item X (ItemFileError e) = sse_encode_rtc_file_error X e"
| "sse_encode_item X (ItemStatus s) = sse_encode_rtc_status X s"
| "sse_encode_item X (ItemMessage m) = sse_encode_ws_server_message X m"

text \<open>The codec the Dart function's sink is set up with.\<close>

fun dart_decode_item :: "sse_ext \<Rightarrow> 'p bridge_call \<Rightarrow> stream_item sse_decoder" where
  "dart_decode_item X (CallReceive _ _) = map_reader ItemBytes (dart_decode_list_prim_u8 X)"
| "dart_decode_item X (CallListenReceiving _ _) = map_reader ItemObject (dart_decode_rust_opaque X)"
| "dart_decode_item X (CallReceiveListenError _ _) = map_reader ItemFileError (dart_decode_rtc_file_error X)"
| "dart_decode_item X (CallSendListenError _ _) = map_reader ItemFileError (dart_decode_rtc_file_error X)"
| "dart_decode_item X (CallReceiveListenStatus _ _) = map_reader ItemStatus (dart_decode_rtc_status X)"
| "dart_decode_item X (CallSendListenStatus _ _) = map_reader ItemStatus (dart_decode_rtc_status X)"
| "dart_decode_item X (CallConnect _ _ _ _ _) = map_reader ItemMessage (dart_decode_ws_server_message X)"
| "dart_decode_item X _ = (\<lambda>d. Panic ''no stream'')"

section \<open>The callback of connect\<close>

text \<open>
  Dart answers a call of the callback with 0, or with 1 and the text of the exception; Rust takes an
  exception for impossible.
\<close>

definition dart_fn_deliver :: "sse_ext \<Rightarrow> string option \<Rightarrow> byte list" where
  "dart_fn_deliver X thrown =
     (case thrown of None \<Rightarrow> [0] @ sse_encode_unit X () | Some e \<Rightarrow> [1] @ dart_encode_string X e)"

definition dart_fn_answer :: "sse_ext \<Rightarrow> byte list \<Rightarrow> unit res" where
  "dart_fn_answer X message =
     rbind (sse_decode_u8 X message) (\<lambda>(action, d).
     rbind (if action = 0 then rbind (sse_decode_unit X d) (\<lambda>(_, d). Ok (None, d))
            else if action = 1 then rbind (sse_decode_anyhow X d) (\<lambda>(e, d). Ok (Some e, d))
            else Panic ''internal error: entered unreachable code'') (\<lambda>(thrown, d).
     rbind (de_end X d) (\<lambda>_.
       case thrown of
         None \<Rightarrow> Ok ()
       | Some e \<Rightarrow> Panic ''Dart throws exception but Rust side assume it is not failable'')))"

section \<open>Results arrive\<close>

fun reply_fits :: "bridge_reply \<Rightarrow> bool" where
  "reply_fits (ReplyText s) = text_fits s"
| "reply_fits (ReplyFiles files) = file_dtos_fit files"
| "reply_fits (ReplyTexts ids) = texts_fit ids"
| "reply_fits (ReplyKeys k) = key_pair_fits k"
| "reply_fits _ = True"

fun strip_reply :: "bridge_reply \<Rightarrow> bridge_reply" where
  "strip_reply (ReplyText s) = ReplyText (strip_mark s)"
| "strip_reply (ReplyFiles files) = ReplyFiles (map strip_file_dto files)"
| "strip_reply (ReplyTexts ids) = ReplyTexts (remdups (map strip_mark ids))"
| "strip_reply (ReplyKeys k) = ReplyKeys (strip_key_pair k)"
| "strip_reply r = r"

fun item_fits :: "stream_item \<Rightarrow> bool" where
  "item_fits (ItemBytes b) = vec_fits b"
| "item_fits (ItemFileError e) = rtc_file_error_fits e"
| "item_fits (ItemStatus s) = rtc_status_fits s"
| "item_fits (ItemMessage m) = ws_server_message_fits m"
| "item_fits _ = True"

fun strip_item :: "stream_item \<Rightarrow> stream_item" where
  "strip_item (ItemFileError e) = ItemFileError (strip_rtc_file_error e)"
| "strip_item (ItemStatus s) = ItemStatus (strip_rtc_status s)"
| "strip_item (ItemMessage m) = ItemMessage (strip_ws_server_message m)"
| "strip_item i = i"

lemma reply_arrives:
  "call_result c = type_of_reply r \<Longrightarrow> reply_fits r \<Longrightarrow>
     dart_decode_reply X c (sse_encode_reply X r @ []) = Ok (strip_reply r, [])"
  by (cases c; cases r) (simp_all add: map_reader_def del: append_Nil2)

lemma error_arrives:
  "text_fits (debug failure) \<Longrightarrow>
     (case dart_decode_error X c of
        None \<Rightarrow> \<not> call_can_fail c
      | Some dec \<Rightarrow> call_can_fail c \<and> dec (sse_encode_anyhow X debug failure @ []) = Ok (strip_mark (debug failure), []))"
  by (cases c) (simp_all del: append_Nil2)

lemma item_arrives:
  "sse_ok X \<Longrightarrow> call_sink c = Some (type_of_item i) \<Longrightarrow> item_fits i \<Longrightarrow>
     dart_decode_item X c (sse_encode_item X i @ []) = Ok (strip_item i, [])"
  by (cases c; cases i) (simp_all add: map_reader_def del: append_Nil2)

lemma callback_answered: "sse_ok X \<Longrightarrow> dart_fn_answer X (dart_fn_deliver X None @ []) = Ok ()"
  by (simp add: dart_fn_answer_def dart_fn_deliver_def del: append_Nil2)

lemma callback_throws:
  "sse_ok X \<Longrightarrow> text_fits e \<Longrightarrow>
     dart_fn_answer X (dart_fn_deliver X (Some e) @ []) =
       Panic ''Dart throws exception but Rust side assume it is not failable''"
  by (simp add: dart_fn_answer_def dart_fn_deliver_def dart_encodes sse_decode_anyhow_def del: append_Nil2)

end
