(* ===== verification/Bridge_Props.thy ===== *)
theory Bridge_Props
  imports Bridge_Sender Bridge_Replies
begin

text \<open>
  What the bridge promises the application: calls and results arrive, or not at all; and what the
  lock of the sending controller makes of a transfer.
\<close>

section \<open>A machine and its libraries\<close>

text \<open>Little endian, a \<open>Uuid\<close> in network order, a message that must be read to its end.\<close>

definition sample_sse :: sse_ext where
  "sample_sse =
     \<lparr>native_endian = LittleEndian,
      uuid_as_bytes = (\<lambda>i. rev (to_le_bytes 8 (ucast i) @ to_le_bytes 8 (ucast (drop_bit 64 i)))),
      uuid_from_slice = (\<lambda>b. if length b = 16
        then Some (or (ucast (from_le_bytes (take 8 (rev b)))) (push_bit 64 (ucast (from_le_bytes (drop 8 (rev b))))))
        else None),
      de_end = (\<lambda>d. if d = [] then Ok () else Panic ''assertion failed'')\<rparr>"

lemma uuid_halves: "or (ucast (ucast (i :: uuid) :: u64)) (push_bit 64 (ucast (ucast (drop_bit 64 i) :: u64))) = i"
  by (rule bit_word_eqI) (auto simp: bit_simps)

lemma sample_sse_ok: "sse_ok sample_sse"
  by (simp add: sse_ok_def sample_sse_def uuid_halves)

section \<open>Calls and results\<close>

text \<open>
  C10: What the application calls is what Rust runs: the message of a call, sent to the number
  Dart gives it, is read by the wire function as that call with those arguments (of the number of
  PIN tries the low eight bits), and locks the object of the call, the two listeners of the sending
  controller for themselves. A message cut short anywhere makes the wire function panic.
\<close>

theorem bridge_calls_arrive:
  assumes "sse_ok X" and "call_fits c" and "dart_call X c = (n, m)"
  shows "(\<exists>t. pde_ffi_dispatcher_primary X n m = Ok t \<and> wt_call t = map_bridge_call pin_of_dart c \<and>
      wt_locks t = call_locks c) \<and>
    (\<forall>k < length m. \<exists>s. pde_ffi_dispatcher_primary X n (take k m) = Panic s)"
proof
  note reads = dispatch_reads [OF assms]
  show "\<exists>t. pde_ffi_dispatcher_primary X n m = Ok t \<and> wt_call t = map_bridge_call pin_of_dart c \<and> wt_locks t = call_locks c"
    using wire_reads_whole [OF assms(1) reads] by metis
  show "\<forall>k < length m. \<exists>s. pde_ffi_dispatcher_primary X n (take k m) = Panic s"
    using wire_reads_truncated [OF reads] by blast
qed

definition sample_call :: "dart_pin_config bridge_call" where
  "sample_call = CallAcceptOffer 7 [''stun:a'']
     \<lparr>ss_peer = \<lparr>ci_id = 1, ci_alias = ''A'', ci_version = ''2'', ci_device_model = None,
        ci_device_type = Some Web, ci_token = ''t''\<rparr>, ss_session_id = ''s'', ss_sdp = ''v=0''\<rparr>
     ''key'' None (Some \<lparr>dp_pin = ''123'', dp_max_tries = 256\<rparr>)"

lemma sample_call_fits: "call_fits sample_call"
  by (simp add: sample_call_def texts_fit_def text_fits_def vec_fits_def ws_server_sdp_message_fits_def
    client_info_fits_def opt_text_fits_def as_bytes_def byte_of_char_def)

text \<open>With 256 tries Rust is given a configuration with none.\<close>

theorem bridge_calls_arrive_witness:
  "\<exists>n m t. dart_call sample_sse sample_call = (n, m) \<and> pde_ffi_dispatcher_primary sample_sse n m = Ok t \<and>
     (\<exists>offer. wt_call t = CallAcceptOffer 7 [''stun:a''] offer ''key'' None
        (Some \<lparr>pc_pin = ''123'', pc_max_tries = 0\<rparr>)) \<and> wt_locks t = [(7, False)]"
proof -
  obtain n m where sent: "dart_call sample_sse sample_call = (n, m)" by (cases "dart_call sample_sse sample_call")
  show ?thesis
    using bridge_calls_arrive [OF sample_sse_ok sample_call_fits sent] sent
    by (auto simp: sample_call_def pin_of_dart_def)
qed

text \<open>
  C12: What Rust returns is what the application gets: the result of a call is read by the decoder
  the Dart function names, an item of a stream by the decoder of its sink, each with a byte order
  mark in front of a text removed. A call whose wire function can fail has a decoder for errors, which
  gets the text Rust makes of the error; one that cannot has none. The callback of connect is
  answered, but an exception in it is a panic on the side of Rust.
\<close>

theorem bridge_results_arrive:
  assumes "sse_ok X" and "text_fits e"
  shows "(call_result c = type_of_reply r \<and> reply_fits r \<longrightarrow>
      dart_decode_reply X c (sse_encode_reply X r) = Ok (strip_reply r, [])) \<and>
    (call_sink c = Some (type_of_item i) \<and> item_fits i \<longrightarrow>
      dart_decode_item X c (sse_encode_item X i) = Ok (strip_item i, [])) \<and>
    (text_fits (debug failure) \<longrightarrow>
      (case dart_decode_error X c of
         None \<Rightarrow> \<not> call_can_fail c
       | Some dec \<Rightarrow> call_can_fail c \<and> dec (sse_encode_anyhow X debug failure) = Ok (strip_mark (debug failure), []))) \<and>
    dart_fn_answer X (dart_fn_deliver X None) = Ok () \<and>
    dart_fn_answer X (dart_fn_deliver X (Some e)) =
      Panic ''Dart throws exception but Rust side assume it is not failable''"
  using reply_arrives [of c r X] item_arrives [of X c i] error_arrives [of debug failure c X, simplified append_Nil2]
    callback_answered callback_throws assms by (simp del: dart_decode_error.simps)

definition marked_file :: file_dto where
  "marked_file = \<lparr>fd_id = byte_order_mark @ ''a'', fd_file_name = ''a'', fd_size = 1, fd_file_type = ''t'',
     fd_sha256 = None, fd_preview = None, fd_metadata = None\<rparr>"

text \<open>A file offered under an identifier with a mark in front is shown to the application under another one.\<close>

theorem bridge_results_arrive_witness:
  "\<exists>f. dart_decode_reply sample_sse (CallListenFiles 7 :: pin_config bridge_call)
       (sse_encode_reply sample_sse (ReplyFiles [marked_file])) = Ok (ReplyFiles [f], []) \<and>
     fd_id f = ''a'' \<and> fd_id marked_file \<noteq> ''a''"
proof -
  have e: "text_fits ''e''" by (simp add: text_fits_def vec_fits_def as_bytes_def byte_of_char_def)
  have fits: "reply_fits (ReplyFiles [marked_file])"
    by (simp add: marked_file_def file_dtos_fit_def file_dto_fits_def text_fits_def vec_fits_def opt_text_fits_def
      byte_order_mark_def as_bytes_def of_bytes_def byte_of_char_def char_of_byte_def continuation_def)
  have strip: "strip_mark (byte_order_mark @ ''a'') = ''a''" "byte_order_mark @ ''a'' \<noteq> ''a''"
    by (simp_all add: strip_mark_def byte_order_mark_def of_bytes_def)
  have "dart_decode_reply sample_sse (CallListenFiles 7 :: pin_config bridge_call)
      (sse_encode_reply sample_sse (ReplyFiles [marked_file])) = Ok (ReplyFiles [strip_file_dto marked_file], [])"
    using bridge_results_arrive [OF sample_sse_ok e, of "CallListenFiles 7 :: pin_config bridge_call" "ReplyFiles [marked_file]"]
      fits by simp
  with strip show ?thesis by (simp add: marked_file_def strip_file_dto_def)
qed

section \<open>The sending controller\<close>

text \<open>
  C6: Through the bridge a sending peer cannot be answered: whatever lock policy the library has and
  however calls, tasks and the peer interleave, no PIN of the user ever reaches the send task and no
  selection of the peer is ever returned to the application. Once the send task asks for a PIN it
  waits for ever, and listen_status, which holds the controller exclusively, is the only call that
  runs from then on.
\<close>

theorem sending_controller_starves:
  assumes "rwlock_excludes acq" and "(sender_step X acq that)\<^sup>*\<^sup>* sender_start s"
  shows "list_all (\<lambda>ch. \<nexists>pin. ch = OneshotSent pin) (br_pins (bs_bridge s)) \<and> bs_returned s = [] \<and>
    (bs_phase s = AskingPin \<longrightarrow>
      (\<forall>s'. (sender_step X acq that)\<^sup>*\<^sup>* s s' \<longrightarrow>
        bs_phase s' = AskingPin \<and> (\<exists>t sink. bs_holding s' = [t] \<and> wt_call t = CallSendListenStatus that sink)))"
proof (intro conjI impI allI)
  have inv: "sender_inv that s"
    by (rule sender_steps_inv [OF assms sender_start_inv])
  then show "list_all (\<lambda>ch. \<nexists>pin. ch = OneshotSent pin) (br_pins (bs_bridge s))" "bs_returned s = []"
    by (auto simp: sender_inv_def pin_inv_def selection_inv_def Let_def split: if_splits)
  fix s'
  assume asking: "bs_phase s = AskingPin" and run: "(sender_step X acq that)\<^sup>*\<^sup>* s s'"
  note stuck = asking_stuck [OF assms(1) run inv asking]
  then show "bs_phase s' = AskingPin" ..
  from stuck have "status_listening s'" ..
  then show "\<exists>t sink. bs_holding s' = [t] \<and> wt_call t = CallSendListenStatus that sink"
    by (rule listening_call [OF sender_steps_inv [OF assms(1) run inv]])
qed

text \<open>A policy that grants a lock as soon as it is compatible with the holders.\<close>

definition eager :: lock_policy where
  "eager waiting holding t = list_all (compatible t) holding"

lemma eager_excludes: "rwlock_excludes eager"
  by (simp add: rwlock_excludes_def eager_def)

lemma task_dispatched:
  assumes "call_fits c" and "map_bridge_call pin_of_dart c = d"
  shows "\<exists>n m t. pde_ffi_dispatcher_primary sample_sse n m = Ok t \<and> wt_call t = d \<and> wt_locks t = call_locks c"
proof -
  obtain n m where sent: "dart_call sample_sse c = (n, m)" by (cases "dart_call sample_sse c")
  show ?thesis
    using wire_reads_whole [OF sample_sse_ok dispatch_reads [OF sample_sse_ok assms(1) sent]] assms(2) by metis
qed

text \<open>
  A run into the trap: the application listens to the status, the peer asks for a PIN, the request is
  stored for the user's answer, and the answer waits for the lock.
\<close>

lemma asking_run:
  obtains s t where "(sender_step sample_sse eager 7)\<^sup>*\<^sup>* sender_start s" "bs_phase s = AskingPin"
    "bs_listened s = [SdpExchanged]" "bs_waiting s = [t]" "wt_call t = CallSendSendPin 7 ''1''"
    "br_pin_cell (bs_bridge s) = Some 0"
proof -
  have fits: "call_fits (CallSendListenStatus 7 ''s'')" "call_fits (CallSendSendPin 7 ''1'')"
    by (simp_all add: text_fits_def vec_fits_def as_bytes_def byte_of_char_def)
  obtain n m l where l: "pde_ffi_dispatcher_primary sample_sse n m = Ok l"
      "wt_call l = CallSendListenStatus 7 ''s''" "wt_locks l = [(7, True)]"
    using task_dispatched [OF fits(1) refl] by auto
  obtain n' m' p where p: "pde_ffi_dispatcher_primary sample_sse n' m' = Ok p" "wt_call p = CallSendSendPin 7 ''1''"
    using task_dispatched [OF fits(2) refl] by auto
  let ?step = "sender_step sample_sse eager 7"
  let ?a = "sender_start\<lparr>bs_waiting := [l]\<rparr>"
  let ?b = "sender_start\<lparr>bs_waiting := [], bs_holding := [l]\<rparr>"
  let ?c = "report SdpExchanged ?b\<lparr>bs_phase := Opening\<rparr>"
  let ?d = "?c\<lparr>bs_status := [], bs_listened := [SdpExchanged]\<rparr>"
  let ?e = "report PinRequired ?d\<lparr>bs_phase := AskingPin, bs_bridge := snd (request_pin bridge_new)\<rparr>"
  let ?f = "?e\<lparr>bs_bridge := snd (store_pin (bs_bridge ?e))\<rparr>"
  let ?g = "?f\<lparr>bs_waiting := [p]\<rparr>"
  have start: "bs_waiting sender_start = []" "bs_holding sender_start = []" "bs_status sender_start = []"
    "bs_listened sender_start = []" "bs_controller sender_start" "bs_phase sender_start = Negotiating"
    "bs_main sender_start = MainRunning" "bs_bridge sender_start = bridge_new"
    by (simp_all add: sender_start_def)
  have pin: "request_pin bridge_new = (Ok (), snd (request_pin bridge_new))"
    by (simp add: request_pin_def bridge_new_def)
  have store: "store_pin (snd (request_pin bridge_new)) = (Ok (), snd (store_pin (snd (request_pin bridge_new))))"
    by (simp add: request_pin_def store_pin_def bridge_new_def)
  have 1: "?step sender_start ?a"
    using call_step.arrives [of sender_start sample_sse n m l 7 eager] l by (simp add: sender_step_def start)
  have 2: "?step ?a ?b"
    using call_step.acquires [of l ?a eager sample_sse 7] by (simp add: sender_step_def start eager_def)
  have 3: "?step ?b ?c"
    using send_task_step.sdp_exchanged [of ?b] by (simp add: sender_step_def start status_room_iff)
  have 4: "?step ?c ?d"
    using call_step.listens [of l ?c 7 "''s''" SdpExchanged "[]" sample_sse eager] l
    by (simp add: sender_step_def start report_def)
  have 5: "?step ?d ?e"
    using send_task_step.pin_challenge [of ?d "snd (request_pin bridge_new)"] pin
    by (simp add: sender_step_def start status_room_iff)
  have 6: "?step ?e ?f"
    using main_task_step.pin_stored [of ?e] store by (simp add: sender_step_def)
  have 7: "?step ?f ?g"
    using call_step.arrives [of ?f sample_sse n' m' p 7 eager] p by (simp add: sender_step_def start report_def)
  note chain = rtranclp.rtrancl_into_rtrancl [where r = ?step]
  note run = chain [OF chain [OF chain [OF chain [OF chain [OF chain [OF r_into_rtranclp [where r = ?step, OF 1] 2] 3] 4] 5] 6] 7]
  have "br_pin_cell (bs_bridge ?g) = Some 0"
    by (simp add: request_pin_def store_pin_def bridge_new_def)
  then show thesis
    by (intro that [where s = ?g and t = p] run) (simp_all add: p(2) start)
qed

theorem sending_controller_starves_witness:
  "\<exists>s t. (sender_step sample_sse eager 7)\<^sup>*\<^sup>* sender_start s \<and> bs_waiting s = [t] \<and>
     wt_call t = CallSendSendPin 7 ''1'' \<and> br_pin_cell (bs_bridge s) = Some 0 \<and>
     (\<forall>s'. (sender_step sample_sse eager 7)\<^sup>*\<^sup>* s s' \<longrightarrow> bs_phase s' = AskingPin)"
proof -
  obtain s t where run: "(sender_step sample_sse eager 7)\<^sup>*\<^sup>* sender_start s" "bs_phase s = AskingPin"
      "bs_waiting s = [t]" "wt_call t = CallSendSendPin 7 ''1''" "br_pin_cell (bs_bridge s) = Some 0"
    using asking_run by metis
  then show ?thesis using sending_controller_starves [OF eager_excludes run(1)] by blast
qed

end
