(* ===== verification/Spec2Isabelle.thy ===== *)
theory Spec2Isabelle
  imports Token_Props Base64_Url Rtc_Typing Rtc_Deliveries Rtc_Channel Ip_Groups Server_Start Signaling_Client Http_Listener
    App_Transfer Demo Bridge_Props
begin

text \<open>
  LinkDrop moves files between devices. This development models the Rust code of the
  repository: the library \<open>core\<close>, the signaling server \<open>server\<close> and the bridge \<open>app/rust\<close> between the
  library and the Flutter application, with the codecs and the dispatcher generated for the bridge.

  \<^bold>\<open>The parts and how they interact.\<close> Devices find each other through a signaling server: each opens a
  websocket, is registered in the group of its IP address, learns of the other members, and sends
  session descriptions to one of them. With these two devices open a WebRTC data channel, over which
  the two tasks spawned by \<open>send_offer\<close> and \<open>accept_offer\<close> exchange nonces, tokens signed with their
  keys, PINs in both directions, the list of files, the selection, and the files. The application
  drives the tasks through controllers, each call of which crosses the generated bridge as bytes and
  locks the objects it is about. Independently a device runs an HTTP server that others
  exchange nonces and register with.

  \<^bold>\<open>Conventions.\<close> \<open>LS_Prelude\<close>: Rust's \<open>String\<close> is a list of characters, one per byte; \<open>u8\<close> to \<open>u64\<close> are
  words; a fallible operation returns a \<open>res\<close>, whose cases are a value, an error (\<open>Err\<close>, the
  \<open>anyhow\<close> errors being \<open>Msg\<close> and \<open>Lib\<close>), a panic, and \<open>Wait\<close> for an \<open>await\<close> that does not complete.
  Third-party code is an argument of the definitions: a record of functions per group of crates
  (\<open>crypto_ext\<close>, \<open>x509_ext\<close>, \<open>rtc_ext\<close>, \<open>http_ext\<close>, \<open>tls_ext\<close>, \<open>sse_ext\<close>, \<open>lru_ops\<close>). What the theorems need of it are named
  predicates (\<open>base64_ok\<close>, \<open>ed25519_ok\<close>, \<open>pem_ok\<close>, \<open>serde_ok\<close>, \<open>sdp_ok\<close>, \<open>http_ok\<close>,
  \<open>rustls_ok\<close>, \<open>sse_ok\<close>, \<open>drops_unhandled\<close>) and locales
  (\<open>text_codec\<close>, \<open>wire_codec\<close>, \<open>lru_cache\<close>, \<open>sse_link\<close>, \<open>sse_codec\<close>), each met by definitions of the development. Random bytes,
  fresh identifiers and the clock are arguments.

  \<^bold>\<open>Theories.\<close>

  \<^item> \<open>Token_Crypto\<close>, \<open>Token_Props\<close>, \<open>Base64_Url\<close>: \<open>core/src/crypto\<close> and \<open>core/src/util\<close>. Keys, nonces, tokens,
    certificates. Shown: exactly which tokens a verifier accepts, that generated tokens verify for
    exactly their salt, the hour of timestamp tokens, on exactly which tokens the verifier panics, what a certificate
    check establishes. The code of base64 is a correct codec.
  \<^item> \<open>Model_Types\<close>, \<open>Json_Text\<close>, \<open>Dto\<close>, \<open>Wire_Messages\<close>: the structs of \<open>core/src/model\<close>,
    \<open>core/src/http/dto.rs\<close>, \<open>signaling.rs\<close> and \<open>webrtc.rs\<close> and the JSON that the serde attributes make
    of them. Shown: a round trip per type. The printer and parser of \<open>Json_Text\<close> do not model
    \<open>serde_json\<close>; they are an instance which shows that \<open>serde_ok\<close> can hold.
  \<^item> \<open>Rtc_World\<close>, \<open>Rtc_Chunks\<close>, \<open>Rtc_Pin\<close>, \<open>Rtc_Sender\<close>, \<open>Rtc_Receiver\<close>: the two tasks of
    \<open>core/src/webrtc/webrtc.rs\<close>, phase by phase, as functions from a world (what will arrive on each
    channel, what was written) to an outcome and a world. \<open>Rtc_Offer\<close>: what \<open>send_offer\<close> and
    \<open>accept_offer\<close> do around the tasks, over a world of the calls to the connection.
  \<^item> \<open>Rtc_Pin_Props\<close>, \<open>Rtc_Pin_Dialogue\<close>: chunks arrive as sent; the PIN challenge decides right, within its
    tries, and what else can come of it. \<open>Rtc_Gates\<close>, \<open>Rtc_Deliveries\<close>: safety of each side against an
    arbitrary peer (nothing but nonce and token and no status before the expected key is proved, no
    connection unless one of the peer's first guesses was the PIN, no file that was not in the list
    the user was shown and selected). What a phase leaves alone is stated in the locales
    \<open>sender_field\<close> and \<open>sender_input\<close>. \<open>Rtc_Run\<close>, \<open>Rtc_Transfer\<close>,
    \<open>Rtc_Dialogue\<close>, \<open>Rtc_Session\<close>: a task that keeps to its part of a dialogue, dialogues put together
    phase by phase, and from that the two tasks together, which deliver every file with its bytes,
    each side asking for a PIN or not. \<open>Rtc_Typing\<close>: the messages each task writes in
    any world are of the types of its role. \<open>Rtc_Offer_Props\<close>: how a connection ends, and
    the way of offer and answer through the signaling server. \<open>Rtc_Channel\<close>: the callbacks of the
    connection. The bounded stream of messages refines the list the tasks are modelled with; two
    ways in which both sides wait for ever. What the crate \<open>webrtc\<close> does with a message for which no
    handler is registered is an argument (\<open>unhandled\<close>); that it drops them is the hypothesis
    \<open>drops_unhandled\<close> of one property.
  \<^item> \<open>Signaling_Server\<close>, \<open>Ip_Text\<close>, \<open>Signaling_Server_Props\<close>, \<open>Ip_Groups\<close>, \<open>Server_Start\<close>: \<open>server/src\<close>. The operations of
    \<open>ws_controller.rs\<close> on the two shared maps and the step relation \<open>server_step\<close> that interleaves the
    connections. Shown: the invariant of all reachable states, isolation of groups, where offers
    and answers go and what they carry, and the two defects of greeting and refusal.
  \<^item> \<open>Signaling_Client\<close>: \<open>core/src/webrtc/signaling.rs\<close>; when \<open>connect\<close> returns, that the query it sends is
    what the server reads, and which answers reach a callback.
  \<^item> \<open>Nonce_Cache\<close>, \<open>Http_Server\<close>, \<open>Http_Client\<close>: \<open>core/src/http\<close>. \<open>Http_Props\<close>, \<open>Http_Exchange\<close>: the status
    of every request, the two caches of nonces over every run, the agreement of client and server
    after an exchange, where the certificate of the server is looked at, which calls have no route.
    \<open>Http_Listener\<close>: the listeners, their TLS configuration and the interleaved connections. Over TLS
    only clients with a certified key are answered; how long the servers run.
  \<^item> \<open>App_Bridge\<close>, \<open>App_Props\<close>, \<open>App_Transfer\<close>: \<open>app/rust/src/api\<close>. Keys, the start of a transfer, and the
    one-shot channels in the cells of the controllers as the step function \<open>bridge_step\<close>. Shown: PINs
    are answered in order and each once, the first decision on the selection wins, and two
    applications with generated keys transfer their files. In this last property the PINs are at
    hand when the tasks ask for them and nobody waits for a status to be listened to; what the locks of
    the bridge make of that on the sending side is shown in \<open>Bridge_Props\<close>.
  \<^item> \<open>Sse_Codec\<close>, \<open>Sse_Records\<close>: the implementations of \<open>SseEncode\<close> and \<open>SseDecode\<close> in
    \<open>app/rust/src/frb_generated.rs\<close>, each an interpretation of the locale of a self-delimiting codec.
    \<open>Dart_Codec\<close>: the same of \<open>app/lib/rust/frb_generated.dart\<close>, and where the two sides differ.
    \<open>Bridge_Wire\<close>: the functions of the dispatcher, from the bytes of a call to the guards it takes and the
    function of \<open>api\<close> it runs. \<open>Bridge_Replies\<close>: results, stream items and the callback of
    \<open>connect\<close>. \<open>Bridge_Sender\<close>: the locks of a sending controller, its status channel of one and the
    sending task as a step relation. \<open>Bridge_Props\<close>: every call arrives with the arguments it was
    made with and every result or error with its value (but for the cases listed there), and a
    sending application gets to neither enter a PIN nor learn the selection.
  \<^item> \<open>Demo\<close>: \<open>core/src/main.rs\<close>, the demonstration. Its two peers transfer a file of any content; its HTTP
    client gets as far as the registration.

  \<^bold>\<open>Bounds and fuel.\<close> No definition is cut off by a fuel that matters: the loops of the tasks recurse over
  the messages that arrive, \<open>verify_pin\<close> over its tries, chunking over its input (by the length of
  what is left). The parser of \<open>Json_Text\<close> takes twice the length of its text, which is shown to be
  enough; \<open>exchange\<close> runs sender and receiver in rounds, and four rounds and one for every guess of
  a PIN are shown to complete a transfer. Runs of the servers, of the bridge and of the stream are over
  lists of events of any length.

  \<^bold>\<open>Not modelled.\<close> The capacities of the channels inside a task, other than that of the incoming messages,
  so the back pressure of one task on another; the five seconds after which sending a rejection is
  given up; the detached task that goes on after the connection was closed under \<open>select\<close>. What the
  crates do inside: \<open>webrtc\<close>, sockets, rustls and hyper are arguments. Loggers are left out.
  In \<open>app/rust/src/frb_generated.rs\<close>: the conversions to Dart's native objects (\<open>into_dart\<close>), which the
  codec in use does not go through, the reference counts of the opaque objects, the static checks of
  the mirror types of \<open>api/model.rs\<close>, and the library \<open>flutter_rust_bridge\<close> itself. The order of bytes
  and the bytes of a UUID are arguments (\<open>sse_ext\<close>). A Dart \<open>String\<close> is
  identified with its UTF-8 bytes, so the replacement of malformed text is not covered. The Flutter
  application is in another language; of it only the generated codecs and calls are modelled.
\<close>

end
